(* ===== verification/Prelude.thy ===== *)
theory Prelude
  imports Main "HOL-Library.Sublist" "HOL-Library.Multiset"
begin

section \<open>Prelude: results, byte strings and the lists lemmas the components share\<close>

text \<open>
  A Go string is a sequence of bytes, so it is a HOL \<open>string\<close> (a list of 8-bit characters), and
  \<open>len\<close> is \<open>length\<close>. A Go function that returns \<open>(value, error)\<close> returns a sum, \<open>Inl\<close> the error
  and \<open>Inr\<close> the value; one that returns only an error returns an option, \<open>None\<close> for \<open>nil\<close>.
  The collections \<open>byte_string\<close> and \<open>result_rules\<close> gather the facts the component theories hand
  to the simplifier.
\<close>

named_theorems byte_string \<open>laws of the byte-string operations\<close>
named_theorems result_rules \<open>how a chain of fallible steps can end\<close>

type_synonym ('e, 'a) result = "'e + 'a"

definition is_ok :: "('e, 'a) result \<Rightarrow> bool" where
  "is_ok r = (case r of Inl _ \<Rightarrow> False | Inr _ \<Rightarrow> True)"

definition and_then :: "('e, 'a) result \<Rightarrow> ('a \<Rightarrow> ('e, 'b) result) \<Rightarrow> ('e, 'b) result" where
  "and_then r f = (case r of Inl e \<Rightarrow> Inl e | Inr a \<Rightarrow> f a)"

lemma is_ok_simps [simp]: "\<not> is_ok (Inl e)" "is_ok (Inr a)"
  by (simp_all add: is_ok_def)

lemma and_then_simps [simp]: "and_then (Inl e) f = Inl e" "and_then (Inr a) f = f a"
  by (simp_all add: and_then_def)

lemma and_then_InrD [result_rules]:
  "and_then r f = Inr b \<Longrightarrow> \<exists>a. r = Inr a \<and> f a = Inr b"
  by (cases r) auto

text \<open>A sequence of checks that return \<open>nil\<close> or an error: the first error is the answer.\<close>

fun first_error :: "'e option list \<Rightarrow> 'e option" where
  "first_error [] = None"
| "first_error (None # es) = first_error es"
| "first_error (Some e # es) = Some e"

lemma first_error_None [result_rules]: "first_error es = None \<longleftrightarrow> (\<forall>e \<in> set es. e = None)"
  by (induction es rule: first_error.induct) auto

lemma first_error_mem: "first_error es = Some e \<Longrightarrow> Some e \<in> set es"
  by (induction es rule: first_error.induct) auto

subsection \<open>Interfaces\<close>

text \<open>
  An encoder and the decoder that undoes it on the values in \<open>ok\<close>.
\<close>

locale codec =
  fixes enc :: "'a \<Rightarrow> string" and dec :: "string \<Rightarrow> 'a option" and ok :: "'a \<Rightarrow> bool"
  assumes dec_enc: "ok x \<Longrightarrow> dec (enc x) = Some x"
begin

lemma enc_inj: "ok x \<Longrightarrow> ok y \<Longrightarrow> enc x = enc y \<Longrightarrow> x = y"
  by (metis dec_enc option.inject)

lemma dec_all: "list_all ok xs \<Longrightarrow> those (map (\<lambda>x. dec (enc x)) xs) = Some xs"
  by (induction xs) (auto simp: dec_enc)

end

text \<open>
  A check that returns an error or nothing, the contract it decides and the errors it can give. A
  caller returns the first error and goes on with the value otherwise.
\<close>

locale checked =
  fixes check :: "'a \<Rightarrow> 'e option" and contract :: "'a \<Rightarrow> bool" and errors :: "'e \<Rightarrow> bool"
  assumes check_None_iff: "check x = None \<longleftrightarrow> contract x"
    and check_errors: "check x = Some e \<Longrightarrow> errors e"
begin

definition guard :: "'a \<Rightarrow> ('e, 'a) result" where
  "guard x = (case check x of Some e \<Rightarrow> Inl e | None \<Rightarrow> Inr x)"

lemma guard_Inr: "guard x = Inr y \<longleftrightarrow> x = y \<and> contract x"
  by (auto simp: guard_def check_None_iff [symmetric] split: option.splits)

lemma guard_Inl: "guard x = Inl e \<Longrightarrow> errors e \<and> \<not> contract x"
  by (auto simp: guard_def check_None_iff [symmetric] check_errors split: option.splits)

end

subsection \<open>Bytes\<close>

abbreviation byte_of :: "char \<Rightarrow> nat" where
  "byte_of c \<equiv> of_char c"

lemma byte_of_char_of [simp]: "n < 256 \<Longrightarrow> byte_of (char_of (n :: nat)) = n"
  by simp

subsection \<open>Decimal text\<close>

fun show_nat :: "nat \<Rightarrow> string" where
  "show_nat n = (if n < 10 then [char_of (48 + n)] else show_nat (n div 10) @ [char_of (48 + n mod 10)])"

declare show_nat.simps [simp del]

definition show_int :: "int \<Rightarrow> string" where
  "show_int i = (if i < 0 then CHR ''-'' # show_nat (nat (- i)) else show_nat (nat i))"

subsection \<open>Prefixes, suffixes and cuts\<close>

lemma prefix_take_length: "prefix w s \<longleftrightarrow> take (length w) s = w"
  by (auto simp: prefix_def) (metis append_take_drop_id)

lemma prefix_iff_drop: "prefix w s \<longleftrightarrow> s = w @ drop (length w) s"
  by (auto simp: prefix_def)

lemma suffix_iff_rev_prefix: "suffix w s \<longleftrightarrow> prefix (rev w) (rev s)"
  by (simp add: suffix_to_prefix)

lemma find_Some_mem: "List.find P xs = Some x \<Longrightarrow> x \<in> set xs \<and> P x"
  by (auto simp: find_Some_iff)

lemma find_None_all: "List.find P xs = None \<longleftrightarrow> (\<forall>x \<in> set xs. \<not> P x)"
  by (auto simp: find_None_iff)

end
