(* ===== verification/Go_Strings.thy ===== *)
theory Go_Strings
  imports Prelude
begin

section \<open>The functions of Go's package strings that the program calls\<close>

text \<open>
  Byte-level models of \<open>strings.TrimSpace\<close>, \<open>TrimRight\<close>, \<open>Trim\<close>, \<open>HasPrefix\<close>, \<open>HasSuffix\<close>,
  \<open>Contains\<close>, \<open>ContainsAny\<close>, \<open>Cut\<close>, \<open>Split\<close>, \<open>Join\<close>, \<open>Fields\<close> and \<open>ReplaceAll\<close>. White space is
  Unicode white space in its UTF-8 encoding, as in \<open>unicode.IsSpace\<close>; a malformed byte is no
  white space, and neither is any byte of another rune.
\<close>

subsection \<open>TrimSpace\<close>

text \<open>The UTF-8 encodings of the 25 code points with the property White\_Space.\<close>

definition space_seqs :: "string list" where
  "space_seqs =
    [[CHR 0x09], [CHR 0x0A], [CHR 0x0B], [CHR 0x0C], [CHR 0x0D], [CHR 0x20],
     [CHR 0xC2, CHR 0x85], [CHR 0xC2, CHR 0xA0], [CHR 0xE1, CHR 0x9A, CHR 0x80],
     [CHR 0xE2, CHR 0x80, CHR 0x80], [CHR 0xE2, CHR 0x80, CHR 0x81],
     [CHR 0xE2, CHR 0x80, CHR 0x82], [CHR 0xE2, CHR 0x80, CHR 0x83],
     [CHR 0xE2, CHR 0x80, CHR 0x84], [CHR 0xE2, CHR 0x80, CHR 0x85],
     [CHR 0xE2, CHR 0x80, CHR 0x86], [CHR 0xE2, CHR 0x80, CHR 0x87],
     [CHR 0xE2, CHR 0x80, CHR 0x88], [CHR 0xE2, CHR 0x80, CHR 0x89],
     [CHR 0xE2, CHR 0x80, CHR 0x8A], [CHR 0xE2, CHR 0x80, CHR 0xA8],
     [CHR 0xE2, CHR 0x80, CHR 0xA9], [CHR 0xE2, CHR 0x80, CHR 0xAF],
     [CHR 0xE2, CHR 0x81, CHR 0x9F], [CHR 0xE3, CHR 0x80, CHR 0x80]]"

text \<open>Strip words of a list off the front of a string, as often as one of them fits.\<close>

function strip_front :: "string list \<Rightarrow> string \<Rightarrow> string" where
  "strip_front ws s =
     (case List.find (\<lambda>w. w \<noteq> [] \<and> prefix w s) ws of
        None \<Rightarrow> s
      | Some w \<Rightarrow> strip_front ws (drop (length w) s))"
  by pat_completeness auto
termination
proof (relation "measure (\<lambda>(ws, s). length s)")
  fix ws :: "string list" and s w
  assume "List.find (\<lambda>w. w \<noteq> [] \<and> prefix w s) ws = Some w"
  then have "w \<noteq> []" and "prefix w s" by (auto dest: find_Some_mem)
  then have "0 < length w" and "length w \<le> length s" by (auto dest: prefix_length_le)
  then have "length s - length w < length s" by linarith
  then show "((ws, drop (length w) s), ws, s) \<in> measure (\<lambda>(ws, s). length s)" by simp
qed simp

declare strip_front.simps [simp del]

definition strip_back :: "string list \<Rightarrow> string \<Rightarrow> string" where
  "strip_back ws s = rev (strip_front (map rev ws) (rev s))"

definition trim_space :: "string \<Rightarrow> string" where
  "trim_space s = strip_back space_seqs (strip_front space_seqs s)"

definition free_front :: "string list \<Rightarrow> string \<Rightarrow> bool" where
  "free_front ws s \<longleftrightarrow> (\<forall>w \<in> set ws. w \<noteq> [] \<longrightarrow> \<not> prefix w s)"

lemma strip_front_free: "free_front ws s \<Longrightarrow> strip_front ws s = s"
  by (subst strip_front.simps)
    (auto simp: free_front_def find_None_iff split: option.splits dest: find_Some_mem)

lemma free_front_strip_front: "free_front ws (strip_front ws s)"
proof (induction ws s rule: strip_front.induct)
  case (1 ws s)
  show ?case
  proof (cases "List.find (\<lambda>w. w \<noteq> [] \<and> prefix w s) ws")
    case None
    then have "free_front ws s" by (auto simp: free_front_def find_None_iff)
    then show ?thesis by (simp add: strip_front_free)
  next
    case (Some w)
    with "1.IH" show ?thesis by (simp add: strip_front.simps [of ws s])
  qed
qed

lemma suffix_strip_front: "suffix (strip_front ws s) s"
proof (induction ws s rule: strip_front.induct)
  case (1 ws s)
  show ?case
  proof (cases "List.find (\<lambda>w. w \<noteq> [] \<and> prefix w s) ws")
    case None
    then show ?thesis by (simp add: strip_front.simps [of ws s])
  next
    case (Some w)
    then have "suffix (strip_front ws (drop (length w) s)) (drop (length w) s)" by (rule "1.IH")
    then have "suffix (strip_front ws (drop (length w) s)) s"
      using suffix_drop suffix_order.trans by blast
    with Some show ?thesis by (simp add: strip_front.simps [of ws s])
  qed
qed

lemma prefix_strip_back: "prefix (strip_back ws s) s"
  using suffix_strip_front [of "map rev ws" "rev s"]
  by (simp add: strip_back_def suffix_to_prefix)

lemma free_front_prefix: "free_front ws s \<Longrightarrow> prefix t s \<Longrightarrow> free_front ws t"
  unfolding free_front_def using prefix_order.trans by blast

lemma strip_back_idem [byte_string]: "strip_back ws (strip_back ws s) = strip_back ws s"
  by (simp add: strip_back_def strip_front_free free_front_strip_front)

lemma trim_space_idem [simp, byte_string]: "trim_space (trim_space s) = trim_space s"
proof -
  have "free_front space_seqs (strip_front space_seqs s)" by (rule free_front_strip_front)
  then have "free_front space_seqs (trim_space s)"
    unfolding trim_space_def using prefix_strip_back by (rule free_front_prefix)
  then have "strip_front space_seqs (trim_space s) = trim_space s" by (rule strip_front_free)
  then show ?thesis
    unfolding trim_space_def [of "trim_space s"] by (simp add: trim_space_def strip_back_idem)
qed

lemma trim_space_sublist: "sublist (trim_space s) s"
  unfolding trim_space_def
  using prefix_strip_back suffix_strip_front
  by (metis prefix_imp_sublist suffix_imp_sublist sublist_order.order.trans)

lemma length_trim_space_le [byte_string]: "length (trim_space s) \<le> length s"
  using trim_space_sublist sublist_length_le by blast

lemma set_trim_space: "set (trim_space s) \<subseteq> set s"
  using trim_space_sublist set_mono_sublist by blast

lemma trim_space_Nil [simp]: "trim_space [] = []"
  using length_trim_space_le [of "[]"] by simp

text \<open>A string that starts and ends with bytes no white-space encoding uses is not changed.\<close>

definition plain_ends :: "string \<Rightarrow> bool" where
  "plain_ends s \<longleftrightarrow> s = [] \<or>
     (hd s \<notin> hd ` set space_seqs \<and> last s \<notin> last ` set space_seqs)"

lemma trim_space_plain: "plain_ends s \<Longrightarrow> trim_space s = s"
proof (cases "s = []")
  case False
  assume "plain_ends s"
  with False have h: "hd s \<notin> hd ` set space_seqs" and l: "last s \<notin> last ` set space_seqs"
    by (auto simp: plain_ends_def)
  have start: "\<not> prefix w s" if "w \<in> set space_seqs" "w \<noteq> []" for w
    using that h False by (auto simp: prefix_def hd_append image_iff split: if_splits)
  have ends: "\<not> prefix (rev w) (rev s)" if "w \<in> set space_seqs" "w \<noteq> []" for w
  proof
    assume "prefix (rev w) (rev s)"
    then have "suffix w s" by (simp add: suffix_to_prefix)
    then have "last s = last w" using \<open>w \<noteq> []\<close> by (auto simp: suffix_def)
    with l that(1) show False by auto
  qed
  have "strip_front space_seqs s = s"
    by (rule strip_front_free) (simp add: free_front_def start)
  moreover have "strip_front (map rev space_seqs) (rev s) = rev s"
    by (rule strip_front_free) (auto simp: free_front_def ends)
  ultimately show ?thesis by (simp add: trim_space_def strip_back_def)
qed simp

subsection \<open>Searching\<close>

definition has_prefix :: "string \<Rightarrow> string \<Rightarrow> bool" where
  "has_prefix s p = prefix p s"

definition has_suffix :: "string \<Rightarrow> string \<Rightarrow> bool" where
  "has_suffix s p = suffix p s"

fun contains :: "string \<Rightarrow> string \<Rightarrow> bool" where
  "contains [] sub \<longleftrightarrow> sub = []"
| "contains (c # cs) sub \<longleftrightarrow> prefix sub (c # cs) \<or> contains cs sub"

definition contains_any :: "string \<Rightarrow> string \<Rightarrow> bool" where
  "contains_any s chars = list_ex (\<lambda>c. c \<in> set chars) s"

lemma contains_iff_sublist: "contains s sub \<longleftrightarrow> sublist sub s"
proof (induction s)
  case Nil
  show ?case by simp
next
  case (Cons c cs)
  then show ?case by (simp add: sublist_Cons_right)
qed

lemma contains_append_left [byte_string]: "contains t sub \<Longrightarrow> contains (s @ t) sub"
  by (auto simp: contains_iff_sublist sublist_append)

lemma contains_append_right [byte_string]: "contains s sub \<Longrightarrow> contains (s @ t) sub"
  by (auto simp: contains_iff_sublist sublist_append)

lemma contains_self [simp, byte_string]: "contains s s"
  by (simp add: contains_iff_sublist)

lemma contains_infix [byte_string]: "contains (s @ p @ t) p"
  by (simp add: contains_append_left contains_append_right)

text \<open>Trimming keeps every word that neither starts nor ends with a byte of white space.\<close>

definition space_bytes :: "char set" where
  "space_bytes = \<Union> (set ` set space_seqs)"

definition solid :: "string \<Rightarrow> bool" where
  "solid p \<longleftrightarrow> p \<noteq> [] \<and> hd p \<notin> space_bytes \<and> last p \<notin> space_bytes"

lemma strip_front_split: "\<exists>u. s = u @ strip_front ws s \<and> set u \<subseteq> \<Union> (set ` set ws)"
proof (induction ws s rule: strip_front.induct)
  case (1 ws s)
  show ?case
  proof (cases "List.find (\<lambda>w. w \<noteq> [] \<and> prefix w s) ws")
    case None
    then show ?thesis by (simp add: strip_front.simps [of ws s])
  next
    case (Some w)
    then have w: "w \<in> set ws" "s = w @ drop (length w) s"
      by (auto dest!: find_Some_mem simp: prefix_iff_drop)
    from 1 [OF Some] obtain u where
      "drop (length w) s = u @ strip_front ws (drop (length w) s)" "set u \<subseteq> \<Union> (set ` set ws)" by blast
    with Some w show ?thesis
      by (intro exI [of _ "w @ u"]) (auto simp: strip_front.simps [of ws s])
  qed
qed

lemma contains_strip_front:
  assumes "contains s p" and "p \<noteq> []" and "hd p \<notin> \<Union> (set ` set ws)"
  shows "contains (strip_front ws s) p"
proof -
  obtain u where u: "s = u @ strip_front ws s" "set u \<subseteq> \<Union> (set ` set ws)"
    using strip_front_split by blast
  obtain a b where "s = a @ p @ b" using assms(1) by (auto simp: contains_iff_sublist sublist_def)
  with u(1) have "u @ strip_front ws s = a @ p @ b" by simp
  then obtain us where "a @ us = u \<and> us @ strip_front ws s = p @ b \<or> a = u @ us \<and> strip_front ws s = us @ p @ b"
    by (auto simp: append_eq_append_conv2)
  then show ?thesis
  proof
    assume "a @ us = u \<and> us @ strip_front ws s = p @ b"
    moreover have "us = []"
    proof (rule ccontr)
      assume "us \<noteq> []"
      with calculation assms(2) have "hd p \<in> set u" by (metis Un_iff hd_append2 hd_in_set set_append)
      with u(2) assms(3) show False by blast
    qed
    ultimately show ?thesis by (simp add: contains_append_right)
  next
    assume "a = u @ us \<and> strip_front ws s = us @ p @ b"
    then show ?thesis by (simp add: contains_infix)
  qed
qed

lemma contains_rev: "contains (rev s) (rev p) = contains s p"
  by (simp add: contains_iff_sublist)

lemma contains_trim_space [byte_string]:
  assumes "contains s p" and "solid p"
  shows "contains (trim_space s) p"
proof -
  have "contains (strip_front space_seqs s) p"
    using assms by (intro contains_strip_front) (auto simp: solid_def space_bytes_def)
  then have "contains (rev (strip_front space_seqs s)) (rev p)" by (simp add: contains_rev)
  moreover have "\<Union> (set ` set (map rev space_seqs)) = space_bytes" by (simp add: space_bytes_def)
  ultimately have "contains (strip_front (map rev space_seqs) (rev (strip_front space_seqs s))) (rev p)"
    using assms(2) by (intro contains_strip_front) (auto simp: solid_def hd_rev)
  then show ?thesis
    unfolding trim_space_def strip_back_def by (subst contains_rev [symmetric]) simp
qed

lemma has_prefix_contains: "has_prefix s p \<Longrightarrow> contains s p"
  by (simp add: has_prefix_def contains_iff_sublist)

subsection \<open>Cutting and joining\<close>

text \<open>The cut sets the program passes to \<open>TrimRight\<close> and \<open>Trim\<close> are single ASCII bytes.\<close>

definition trim_right_byte :: "char \<Rightarrow> string \<Rightarrow> string" where
  "trim_right_byte c s = rev (dropWhile (\<lambda>x. x = c) (rev s))"

definition trim_byte :: "char \<Rightarrow> string \<Rightarrow> string" where
  "trim_byte c s = trim_right_byte c (dropWhile (\<lambda>x. x = c) s)"

text \<open>\<open>strings.Cut\<close> at a single byte: what comes before it, what comes after, and whether it occurs.\<close>

definition cut_byte :: "char \<Rightarrow> string \<Rightarrow> string \<times> string \<times> bool" where
  "cut_byte c s =
     (if c \<in> set s
      then (takeWhile (\<lambda>x. x \<noteq> c) s, tl (dropWhile (\<lambda>x. x \<noteq> c) s), True)
      else (s, [], False))"

fun split_byte :: "char \<Rightarrow> string \<Rightarrow> string list" where
  "split_byte c [] = [[]]"
| "split_byte c (x # xs) =
     (if x = c then [] # split_byte c xs
      else (case split_byte c xs of [] \<Rightarrow> [[x]] | y # ys \<Rightarrow> (x # y) # ys))"

fun join :: "string \<Rightarrow> string list \<Rightarrow> string" where
  "join sep [] = []"
| "join sep [x] = x"
| "join sep (x # y # ys) = x @ sep @ join sep (y # ys)"

text \<open>\<open>strings.Fields\<close>: \<open>cur\<close> is the field being read, reversed.\<close>

function fields_from :: "string \<Rightarrow> string \<Rightarrow> string list" where
  "fields_from cur s =
     (case s of
        [] \<Rightarrow> (if cur = [] then [] else [rev cur])
      | c # cs \<Rightarrow>
          (case List.find (\<lambda>w. w \<noteq> [] \<and> prefix w s) space_seqs of
             Some w \<Rightarrow> (if cur = [] then [] else [rev cur]) @ fields_from [] (drop (length w) s)
           | None \<Rightarrow> fields_from (c # cur) cs))"
  by pat_completeness auto
termination
proof (relation "measure (\<lambda>(cur, s). length s)")
  fix cur s :: string and c cs w
  assume "s = c # cs" and "List.find (\<lambda>w. w \<noteq> [] \<and> prefix w s) space_seqs = Some w"
  then have "w \<noteq> []" by (auto dest: find_Some_mem)
  then have "length s - length w < length s" using \<open>s = c # cs\<close> by simp
  then show "(([], drop (length w) s), cur, s) \<in> measure (\<lambda>(cur, s). length s)" by simp
qed simp_all

declare fields_from.simps [simp del]

definition fields :: "string \<Rightarrow> string list" where
  "fields s = fields_from [] s"

text \<open>\<open>strings.ReplaceAll\<close> for a non-empty old string, the only case the program reaches.\<close>

function replace_all :: "string \<Rightarrow> string \<Rightarrow> string \<Rightarrow> string" where
  "replace_all [] old new = []"
| "replace_all (c # cs) old new =
     (if old \<noteq> [] \<and> prefix old (c # cs)
      then new @ replace_all (drop (length old) (c # cs)) old new
      else c # replace_all cs old new)"
  by pat_completeness auto
termination
  by (relation "measure (\<lambda>(s, old, new). length s)") auto

lemma trim_right_byte_idem [simp, byte_string]:
  "trim_right_byte c (trim_right_byte c s) = trim_right_byte c s"
  by (simp add: trim_right_byte_def)

lemma trim_right_byte_last: "trim_right_byte c s \<noteq> [] \<Longrightarrow> last (trim_right_byte c s) \<noteq> c"
  unfolding trim_right_byte_def
  by (metis (mono_tags, lifting) hd_dropWhile last_rev rev_is_Nil_conv)

lemma replace_all_absent: "\<not> contains s old \<Longrightarrow> replace_all s old new = s"
  by (induction s) auto

lemma split_byte_not_Nil [simp]: "split_byte c s \<noteq> []"
  by (induction s) (auto split: list.splits)

lemma join_split_byte: "join [c] (split_byte c s) = s"
proof (induction s)
  case (Cons x xs)
  obtain y ys where y: "split_byte c xs = y # ys"
    by (cases "split_byte c xs") auto
  with Cons show ?case by (cases ys) auto
qed simp

lemma split_byte_append_sep: "split_byte c (a @ c # b) = split_byte c a @ split_byte c b"
  by (induction a) (auto split: list.split)

lemma split_byte_plain: "c \<notin> set p \<Longrightarrow> split_byte c p = [p]"
  by (induction p) auto

lemma split_byte_join:
  "list_all (\<lambda>p. c \<notin> set p) ps \<Longrightarrow> ps \<noteq> [] \<Longrightarrow> split_byte c (join [c] ps) = ps"
  by (induction "[c]" ps rule: join.induct) (simp_all add: split_byte_plain split_byte_append_sep)

lemma split_byte_free: "p \<in> set (split_byte c s) \<Longrightarrow> c \<notin> set p"
proof (induction s arbitrary: p)
  case (Cons x xs)
  then show ?case by (auto split: if_splits list.splits)
qed simp

text \<open>Nothing is left of a replaced string that shares no byte with the ends of its replacement.\<close>

lemma sublist_avoids: "x \<notin> set p \<Longrightarrow> sublist p (a @ x # b) \<longleftrightarrow> sublist p a \<or> sublist p b"
  by (auto simp: sublist_append sublist_Cons_right prefix_Cons)

lemma prefix_replace_all: "x \<notin> set p \<Longrightarrow> prefix p (replace_all s old (x # new)) \<Longrightarrow> prefix p s"
proof (induction s old "x # new" arbitrary: p rule: replace_all.induct)
  case (2 c cs old)
  then show ?case by (cases p) (auto split: if_splits)
qed simp

lemma replace_all_removes:
  assumes "old \<noteq> []" and "x \<notin> set old" and "y \<notin> set old" and "\<not> sublist old mid"
  shows "\<not> contains (replace_all s old (x # mid @ [y])) old"
  using assms
proof (induction s old "x # mid @ [y]" rule: replace_all.induct)
  case (2 c cs old)
  let ?r = "replace_all cs old (x # mid @ [y])"
  show ?case
  proof (cases "prefix old (c # cs)")
    case True
    with 2 show ?thesis
      by (simp add: contains_iff_sublist sublist_avoids sublist_avoids [of x old "[]", simplified])
  next
    case False
    have "\<not> prefix old (c # ?r)"
    proof
      assume "prefix old (c # ?r)"
      then obtain p where p: "old = c # p" "prefix p ?r" using 2(3) by (cases old) auto
      with 2(4) have "prefix p cs" using prefix_replace_all [of x p cs old "mid @ [y]"] by simp
      with p False show False by simp
    qed
    with False 2 show ?thesis by (simp add: contains_iff_sublist sublist_Cons_right)
  qed
qed (simp add: contains_iff_sublist)

end
