(* ===== verification/Go_Utf8.thy ===== *)
theory Go_Utf8
  imports Go_Strings
begin

section \<open>UTF-8: runes, valid strings, lower case\<close>

text \<open>
  The decoder of \<open>unicode/utf8\<close> (a malformed sequence is one byte wide and reads as U+FFFD), its
  encoder, \<open>utf8.ValidString\<close> and \<open>strings.ToLower\<close>. The lower-case mapping beyond ASCII is the
  simple mapping of the Unicode character database (version 14), as ranges with a stride.
\<close>

subsection \<open>Decoding and encoding\<close>

definition cont_byte :: "char \<Rightarrow> bool" where
  "cont_byte c \<longleftrightarrow> 128 \<le> byte_of c \<and> byte_of c < 192"

definition tail_bits :: "char \<Rightarrow> nat" where
  "tail_bits c = byte_of c - 128"

text \<open>The rune at the front of a string and its width; \<open>None\<close> at the end or on a malformed byte.\<close>

fun rune_at :: "string \<Rightarrow> (nat \<times> nat) option" where
  "rune_at [] = None"
| "rune_at (a # t) =
    (let x = byte_of a in
     if x < 128 then Some (x, 1)
     else if 194 \<le> x \<and> x < 224 then
       (case t of
          b # _ \<Rightarrow> if cont_byte b then Some ((x - 192) * 64 + tail_bits b, 2) else None
        | _ \<Rightarrow> None)
     else if 224 \<le> x \<and> x < 240 then
       (case t of
          b # c # _ \<Rightarrow>
            if cont_byte b \<and> cont_byte c \<and> (x = 224 \<longrightarrow> 160 \<le> byte_of b)
                 \<and> (x = 237 \<longrightarrow> byte_of b < 160)
            then Some (((x - 224) * 64 + tail_bits b) * 64 + tail_bits c, 3) else None
        | _ \<Rightarrow> None)
     else if 240 \<le> x \<and> x < 245 then
       (case t of
          b # c # d # _ \<Rightarrow>
            if cont_byte b \<and> cont_byte c \<and> cont_byte d \<and> (x = 240 \<longrightarrow> 144 \<le> byte_of b)
                 \<and> (x = 244 \<longrightarrow> byte_of b < 144)
            then Some ((((x - 240) * 64 + tail_bits b) * 64 + tail_bits c) * 64 + tail_bits d, 4)
            else None
        | _ \<Rightarrow> None)
     else None)"

definition rune_error :: nat where
  "rune_error = 65533"

definition decode_rune :: "string \<Rightarrow> nat \<times> nat" where
  "decode_rune s = (case rune_at s of Some rw \<Rightarrow> rw | None \<Rightarrow> (rune_error, 1))"

definition encode_rune :: "nat \<Rightarrow> string" where
  "encode_rune r =
    (let r' = (if (55296 \<le> r \<and> r < 57344) \<or> 1114112 \<le> r then rune_error else r) in
     if r' < 128 then [char_of r']
     else if r' < 2048 then [char_of (192 + r' div 64), char_of (128 + r' mod 64)]
     else if r' < 65536 then
       [char_of (224 + r' div 4096), char_of (128 + r' div 64 mod 64), char_of (128 + r' mod 64)]
     else
       [char_of (240 + r' div 262144), char_of (128 + r' div 4096 mod 64),
        char_of (128 + r' div 64 mod 64), char_of (128 + r' mod 64)])"

declare rune_at.simps [simp del]

lemma rune_at_width: "rune_at s = Some (r, w) \<Longrightarrow> 1 \<le> w \<and> w \<le> 4 \<and> w \<le> length s"
  by (cases s) (auto simp: rune_at.simps Let_def split: if_splits list.splits)

lemma rune_at_ascii [simp]: "byte_of c < 128 \<Longrightarrow> rune_at (c # cs) = Some (byte_of c, 1)"
  by (simp add: rune_at.simps)

lemma decode_rune_width_pos: "0 < snd (decode_rune s)"
  using rune_at_width [of s]
  by (force simp: decode_rune_def split: option.splits)

lemma decode_rune_step [simp]: "Suc n - snd (decode_rune s) < Suc n"
  using decode_rune_width_pos [of s] by arith

text \<open>The runes of a string, in the order a Go \<open>range\<close> loop visits them.\<close>

function runes :: "string \<Rightarrow> nat list" where
  "runes [] = []"
| "runes (c # cs) =
     fst (decode_rune (c # cs)) # runes (drop (snd (decode_rune (c # cs))) (c # cs))"
  by pat_completeness auto
termination
  by (relation "measure length") auto

function valid_utf8 :: "string \<Rightarrow> bool" where
  "valid_utf8 [] = True"
| "valid_utf8 (c # cs) =
     (case rune_at (c # cs) of None \<Rightarrow> False | Some (r, w) \<Rightarrow> valid_utf8 (drop w (c # cs)))"
  by pat_completeness auto
termination
proof (relation "measure length")
  fix c :: char and cs rw r w
  assume "rune_at (c # cs) = Some rw" and "(r, w) = rw"
  then have "length (c # cs) - w < length (c # cs)"
    using rune_at_width [of "c # cs" r w] by (intro diff_less) simp_all
  then show "(drop w (c # cs), c # cs) \<in> measure length" by simp
qed simp

subsection \<open>ASCII strings\<close>

definition is_ascii :: "string \<Rightarrow> bool" where
  "is_ascii s = list_all (\<lambda>c. byte_of c < 128) s"

lemma is_ascii_simps [simp]:
  "is_ascii []" "is_ascii (c # cs) \<longleftrightarrow> byte_of c < 128 \<and> is_ascii cs"
  "is_ascii (s @ t) \<longleftrightarrow> is_ascii s \<and> is_ascii t"
  by (auto simp: is_ascii_def)

lemma decode_rune_ascii: "byte_of c < 128 \<Longrightarrow> decode_rune (c # cs) = (byte_of c, 1)"
  by (simp add: decode_rune_def)

lemma runes_ascii_append: "is_ascii s \<Longrightarrow> runes (s @ t) = map byte_of s @ runes t"
  by (induction s) (simp_all add: decode_rune_ascii)

lemma valid_utf8_ascii_append: "is_ascii s \<Longrightarrow> valid_utf8 (s @ t) = valid_utf8 t"
  by (induction s) simp_all

lemma valid_utf8_ascii: "is_ascii s \<Longrightarrow> valid_utf8 s"
  using valid_utf8_ascii_append [of s "[]"] by simp

text \<open>
  A string that does not start with a continuation byte does not change how the bytes before it
  decode.
\<close>

definition rune_boundary :: "string \<Rightarrow> bool" where
  "rune_boundary u \<longleftrightarrow> u = [] \<or> \<not> cont_byte (hd u)"

lemma rune_boundary_ascii: "is_ascii p \<Longrightarrow> p \<noteq> [] \<Longrightarrow> rune_boundary (p @ t)"
  by (cases p) (auto simp: rune_boundary_def cont_byte_def)

lemma rune_at_append:
  assumes "rune_boundary u" and "s \<noteq> []"
  shows "rune_at (s @ u) = rune_at s"
proof -
  consider a where "s = [a]" | a b where "s = [a, b]" | a b c where "s = [a, b, c]"
    | a b c d v where "s = a # b # c # d # v"
    using assms(2) by (metis neq_Nil_conv)
  then show ?thesis
  proof cases
    case 1
    then show ?thesis using assms(1)
      by (cases u) (auto simp: rune_boundary_def rune_at.simps Let_def split: list.splits)
  next
    case 2
    then show ?thesis using assms(1)
      by (cases u) (auto simp: rune_boundary_def rune_at.simps Let_def split: list.splits)
  next
    case 3
    then show ?thesis using assms(1)
      by (cases u) (auto simp: rune_boundary_def rune_at.simps Let_def)
  next
    case 4
    then show ?thesis by (simp add: rune_at.simps Let_def)
  qed
qed

lemma decode_rune_width_le: "s \<noteq> [] \<Longrightarrow> snd (decode_rune s) \<le> length s"
  using rune_at_width [of s] by (cases s) (auto simp: decode_rune_def split: option.splits)

lemma runes_append: "rune_boundary u \<Longrightarrow> runes (s @ u) = runes s @ runes u"
proof (induction s rule: runes.induct)
  case (2 c cs)
  have d: "decode_rune (c # cs @ u) = decode_rune (c # cs)"
    using rune_at_append [OF "2.prems", of "c # cs"] by (simp add: decode_rune_def)
  have "drop (snd (decode_rune (c # cs))) ((c # cs) @ u)
      = drop (snd (decode_rune (c # cs))) (c # cs) @ u"
    using decode_rune_width_le [of "c # cs"] by (simp only: drop_append) simp
  with "2.IH" [OF "2.prems"] d show ?case by simp
qed simp

subsection \<open>Lower case\<close>

definition lower_ranges :: "(nat \<times> nat \<times> nat \<times> int) list" where
  "lower_ranges =
    [(192, 214, 1, 32), (216, 222, 1, 32), (256, 302, 2, 1), (304, 304, 1, - 199),
     (306, 310, 2, 1), (313, 327, 2, 1), (330, 374, 2, 1), (376, 376, 1, - 121),
     (377, 381, 2, 1), (385, 385, 1, 210), (386, 388, 2, 1), (390, 390, 1, 206),
     (391, 391, 1, 1), (393, 394, 1, 205), (395, 395, 1, 1), (398, 398, 1, 79),
     (399, 399, 1, 202), (400, 400, 1, 203), (401, 401, 1, 1), (403, 403, 1, 205),
     (404, 404, 1, 207), (406, 406, 1, 211), (407, 407, 1, 209), (408, 408, 1, 1),
     (412, 412, 1, 211), (413, 413, 1, 213), (415, 415, 1, 214), (416, 420, 2, 1),
     (422, 422, 1, 218), (423, 423, 1, 1), (425, 425, 1, 218), (428, 428, 1, 1),
     (430, 430, 1, 218), (431, 431, 1, 1), (433, 434, 1, 217), (435, 437, 2, 1),
     (439, 439, 1, 219), (440, 440, 1, 1), (444, 444, 1, 1), (452, 452, 1, 2), (453, 453, 1, 1),
     (455, 455, 1, 2), (456, 456, 1, 1), (458, 458, 1, 2), (459, 475, 2, 1), (478, 494, 2, 1),
     (497, 497, 1, 2), (498, 500, 2, 1), (502, 502, 1, - 97), (503, 503, 1, - 56),
     (504, 542, 2, 1), (544, 544, 1, - 130), (546, 562, 2, 1), (570, 570, 1, 10795),
     (571, 571, 1, 1), (573, 573, 1, - 163), (574, 574, 1, 10792), (577, 577, 1, 1),
     (579, 579, 1, - 195), (580, 580, 1, 69), (581, 581, 1, 71), (582, 590, 2, 1),
     (880, 882, 2, 1), (886, 886, 1, 1), (895, 895, 1, 116), (902, 902, 1, 38),
     (904, 906, 1, 37), (908, 908, 1, 64), (910, 911, 1, 63), (913, 929, 1, 32),
     (931, 939, 1, 32), (975, 975, 1, 8), (984, 1006, 2, 1), (1012, 1012, 1, - 60),
     (1015, 1015, 1, 1), (1017, 1017, 1, - 7), (1018, 1018, 1, 1), (1021, 1023, 1, - 130),
     (1024, 1039, 1, 80), (1040, 1071, 1, 32), (1120, 1152, 2, 1), (1162, 1214, 2, 1),
     (1216, 1216, 1, 15), (1217, 1229, 2, 1), (1232, 1326, 2, 1), (1329, 1366, 1, 48),
     (4256, 4293, 1, 7264), (4295, 4295, 1, 7264), (4301, 4301, 1, 7264),
     (5024, 5103, 1, 38864), (5104, 5109, 1, 8), (7312, 7354, 1, - 3008),
     (7357, 7359, 1, - 3008), (7680, 7828, 2, 1), (7838, 7838, 1, - 7615), (7840, 7934, 2, 1),
     (7944, 7951, 1, - 8), (7960, 7965, 1, - 8), (7976, 7983, 1, - 8), (7992, 7999, 1, - 8),
     (8008, 8013, 1, - 8), (8025, 8031, 2, - 8), (8040, 8047, 1, - 8), (8072, 8079, 1, - 8),
     (8088, 8095, 1, - 8), (8104, 8111, 1, - 8), (8120, 8121, 1, - 8), (8122, 8123, 1, - 74),
     (8124, 8124, 1, - 9), (8136, 8139, 1, - 86), (8140, 8140, 1, - 9), (8152, 8153, 1, - 8),
     (8154, 8155, 1, - 100), (8168, 8169, 1, - 8), (8170, 8171, 1, - 112), (8172, 8172, 1, - 7),
     (8184, 8185, 1, - 128), (8186, 8187, 1, - 126), (8188, 8188, 1, - 9),
     (8486, 8486, 1, - 7517), (8490, 8490, 1, - 8383), (8491, 8491, 1, - 8262),
     (8498, 8498, 1, 28), (8544, 8559, 1, 16), (8579, 8579, 1, 1), (9398, 9423, 1, 26),
     (11264, 11311, 1, 48), (11360, 11360, 1, 1), (11362, 11362, 1, - 10743),
     (11363, 11363, 1, - 3814), (11364, 11364, 1, - 10727), (11367, 11371, 2, 1),
     (11373, 11373, 1, - 10780), (11374, 11374, 1, - 10749), (11375, 11375, 1, - 10783),
     (11376, 11376, 1, - 10782), (11378, 11378, 1, 1), (11381, 11381, 1, 1),
     (11390, 11391, 1, - 10815), (11392, 11490, 2, 1), (11499, 11501, 2, 1),
     (11506, 11506, 1, 1), (42560, 42604, 2, 1), (42624, 42650, 2, 1), (42786, 42798, 2, 1),
     (42802, 42862, 2, 1), (42873, 42875, 2, 1), (42877, 42877, 1, - 35332),
     (42878, 42886, 2, 1), (42891, 42891, 1, 1), (42893, 42893, 1, - 42280),
     (42896, 42898, 2, 1), (42902, 42920, 2, 1), (42922, 42922, 1, - 42308),
     (42923, 42923, 1, - 42319), (42924, 42924, 1, - 42315), (42925, 42925, 1, - 42305),
     (42926, 42926, 1, - 42308), (42928, 42928, 1, - 42258), (42929, 42929, 1, - 42282),
     (42930, 42930, 1, - 42261), (42931, 42931, 1, 928), (42932, 42946, 2, 1),
     (42948, 42948, 1, - 48), (42949, 42949, 1, - 42307), (42950, 42950, 1, - 35384),
     (42951, 42953, 2, 1), (42960, 42960, 1, 1), (42966, 42968, 2, 1), (42997, 42997, 1, 1),
     (65313, 65338, 1, 32), (66560, 66599, 1, 40), (66736, 66771, 1, 40), (66928, 66938, 1, 39),
     (66940, 66954, 1, 39), (66956, 66962, 1, 39), (66964, 66965, 1, 39), (68736, 68786, 1, 64),
     (71840, 71871, 1, 32), (93760, 93791, 1, 32), (125184, 125217, 1, 34)]"

definition rune_to_lower :: "nat \<Rightarrow> nat" where
  "rune_to_lower r =
    (if r < 128 then (if 65 \<le> r \<and> r \<le> 90 then r + 32 else r)
     else (case List.find (\<lambda>(lo, hi, st, d). lo \<le> r \<and> r \<le> hi \<and> (r - lo) mod st = 0) lower_ranges of
             Some (lo, hi, st, d) \<Rightarrow> nat (int r + d)
           | None \<Rightarrow> r))"

definition to_lower :: "string \<Rightarrow> string" where
  "to_lower s = concat (map (\<lambda>r. encode_rune (rune_to_lower r)) (runes s))"

definition ascii_lower :: "char \<Rightarrow> char" where
  "ascii_lower c = (if 65 \<le> byte_of c \<and> byte_of c \<le> 90 then char_of (byte_of c + 32) else c)"

lemma encode_lower_ascii:
  "byte_of c < 128 \<Longrightarrow> encode_rune (rune_to_lower (byte_of c)) = [ascii_lower c]"
  by (auto simp: encode_rune_def rune_to_lower_def ascii_lower_def Let_def)

lemma concat_lower_ascii:
  "is_ascii s \<Longrightarrow>
    concat (map (\<lambda>r. encode_rune (rune_to_lower r)) (map byte_of s)) = map ascii_lower s"
  by (induction s) (simp_all add: encode_lower_ascii)

lemma to_lower_ascii_append [byte_string]:
  "is_ascii s \<Longrightarrow> to_lower (s @ t) = map ascii_lower s @ to_lower t"
  unfolding to_lower_def by (simp only: runes_ascii_append map_append concat_append concat_lower_ascii)

lemma to_lower_append: "rune_boundary u \<Longrightarrow> to_lower (s @ u) = to_lower s @ to_lower u"
  by (simp add: to_lower_def runes_append)

lemma to_lower_Nil [simp]: "to_lower [] = []"
  by (simp add: to_lower_def)

lemma to_lower_ascii [byte_string]: "is_ascii s \<Longrightarrow> to_lower s = map ascii_lower s"
  using to_lower_ascii_append [of s "[]"] by simp

text \<open>A lower-case ASCII pattern inside a string is still there after lowering the string.\<close>

definition lower_pattern :: "string \<Rightarrow> bool" where
  "lower_pattern p = list_all (\<lambda>c. byte_of c < 128 \<and> ascii_lower c = c) p"

lemma lower_patternD: "lower_pattern p \<Longrightarrow> is_ascii p \<and> map ascii_lower p = p"
  by (auto simp: lower_pattern_def is_ascii_def list_all_iff intro: map_idI)

lemma contains_lower_infix [byte_string]:
  assumes "lower_pattern p"
  shows "contains (to_lower (s @ p @ t)) p"
proof (cases "p = []")
  case True
  then show ?thesis by (simp add: contains_iff_sublist)
next
  case False
  from assms have p: "is_ascii p" "map ascii_lower p = p" by (auto dest: lower_patternD)
  then have "to_lower (s @ p @ t) = to_lower s @ p @ to_lower t"
    using False by (simp add: to_lower_append rune_boundary_ascii to_lower_ascii_append)
  then show ?thesis by (simp add: contains_infix)
qed

end
