(* ===== verification/Go_Base64.thy ===== *)
theory Go_Base64
  imports Go_Utf8
begin

section \<open>Standard base64\<close>

text \<open>
  \<open>base64.StdEncoding.DecodeString\<close>: carriage returns and line feeds are skipped wherever they
  stand, padding is required and ends the input, and the unused bits of the last quantum are not
  checked (the encoding is not strict). The encoder is the inverse the peers of the protocol use;
  it is here for the round trip.
\<close>

definition b64_value :: "char \<Rightarrow> nat option" where
  "b64_value c =
    (let x = byte_of c in
     if 65 \<le> x \<and> x \<le> 90 then Some (x - 65)
     else if 97 \<le> x \<and> x \<le> 122 then Some (x - 71)
     else if 48 \<le> x \<and> x \<le> 57 then Some (x + 4)
     else if x = 43 then Some 62
     else if x = 47 then Some 63
     else None)"

definition b64_digit :: "nat \<Rightarrow> char" where
  "b64_digit n =
    (if n < 26 then char_of (n + 65)
     else if n < 52 then char_of (n + 71)
     else if n < 62 then char_of (n - 4)
     else if n = 62 then CHR 0x2B
     else CHR 0x2F)"

fun b64_quanta :: "string \<Rightarrow> string option" where
  "b64_quanta [] = Some []"
| "b64_quanta (a # b # c # d # rest) =
    (case (b64_value a, b64_value b) of
       (Some x, Some y) \<Rightarrow>
         (case b64_value c of
            Some z \<Rightarrow>
              (case b64_value d of
                 Some w \<Rightarrow>
                   map_option
                     (\<lambda>out. char_of (x * 4 + y div 16) # char_of (y mod 16 * 16 + z div 4)
                        # char_of (z mod 4 * 64 + w) # out)
                     (b64_quanta rest)
               | None \<Rightarrow>
                   if d = CHR ''='' \<and> rest = []
                   then Some [char_of (x * 4 + y div 16), char_of (y mod 16 * 16 + z div 4)]
                   else None)
          | None \<Rightarrow>
              if c = CHR ''='' \<and> d = CHR ''='' \<and> rest = []
              then Some [char_of (x * 4 + y div 16)]
              else None)
     | _ \<Rightarrow> None)"
| "b64_quanta _ = None"

definition b64_newline :: "char \<Rightarrow> bool" where
  "b64_newline c \<longleftrightarrow> c = CHR 0x0A \<or> c = CHR 0x0D"

definition b64_decode :: "string \<Rightarrow> string option" where
  "b64_decode s = b64_quanta (filter (\<lambda>c. \<not> b64_newline c) s)"

fun b64_encode :: "string \<Rightarrow> string" where
  "b64_encode [] = []"
| "b64_encode [a] =
    [b64_digit (byte_of a div 4), b64_digit (byte_of a mod 4 * 16), CHR ''='', CHR ''='']"
| "b64_encode [a, b] =
    [b64_digit (byte_of a div 4), b64_digit (byte_of a mod 4 * 16 + byte_of b div 16),
     b64_digit (byte_of b mod 16 * 4), CHR ''='']"
| "b64_encode (a # b # c # rest) =
    b64_digit (byte_of a div 4) # b64_digit (byte_of a mod 4 * 16 + byte_of b div 16)
    # b64_digit (byte_of b mod 16 * 4 + byte_of c div 64) # b64_digit (byte_of c mod 64)
    # b64_encode rest"

lemma b64_value_digit [simp]: "n < 64 \<Longrightarrow> b64_value (b64_digit n) = Some n"
  by (auto simp: b64_value_def b64_digit_def Let_def)

lemma b64_digit_not_newline [simp]: "n < 64 \<Longrightarrow> \<not> b64_newline (b64_digit n)"
proof
  assume n: "n < 64" and "b64_newline (b64_digit n)"
  then have "b64_value (b64_digit n) = None"
    by (auto simp: b64_newline_def b64_value_def Let_def)
  with n show False by simp
qed

lemma b64_digit_pad [simp]: "b64_value CHR ''='' = None" "\<not> b64_newline CHR ''=''"
  by (simp_all add: b64_value_def b64_newline_def)

lemma sextet_bounds [simp]:
  "byte_of a div 4 < 64" "byte_of a mod 4 * 16 < 64"
  "byte_of a mod 4 * 16 + byte_of b div 16 < 64" "byte_of b mod 16 * 4 < 64"
  "byte_of b mod 16 * 4 + byte_of c div 64 < 64" "byte_of c mod 64 < 64"
  using nat_of_char_less_256 [of a] nat_of_char_less_256 [of b] nat_of_char_less_256 [of c]
  by linarith+

lemma octet_parts: "byte_of b div 16 < 16" "byte_of b div 64 < 4"
  using nat_of_char_less_256 [of b] by linarith+

lemma octet_halves [simp]:
  "byte_of b div 16 div 16 = 0" "byte_of b div 16 mod 16 = byte_of b div 16"
  "byte_of b div 64 div 4 = 0" "byte_of b div 64 mod 4 = byte_of b div 64"
  using octet_parts [of b] by (simp_all only: div_less mod_less)

lemma b64_quanta_encode: "b64_quanta (b64_encode s) = Some s"
  by (induction s rule: b64_encode.induct) simp_all

lemma b64_encode_no_newline: "filter (\<lambda>c. \<not> b64_newline c) (b64_encode s) = b64_encode s"
  by (induction s rule: b64_encode.induct) simp_all

lemma b64_roundtrip: "b64_decode (b64_encode s) = Some s"
  by (simp add: b64_decode_def b64_encode_no_newline b64_quanta_encode)

interpretation b64: codec b64_encode b64_decode "\<lambda>_. True"
  by unfold_locales (rule b64_roundtrip)

lemma length_b64_encode: "length (b64_encode s) = (length s + 2) div 3 * 4"
proof (induction s rule: b64_encode.induct)
  case (4 a b c rest)
  have "(length rest + 5) div 3 = Suc ((length rest + 2) div 3)" by presburger
  with 4 show ?case by (simp add: add.commute)
qed simp_all

lemma b64_quanta_length: "b64_quanta s = Some out \<Longrightarrow> 4 * length out \<le> 3 * length s"
proof (induction s arbitrary: out rule: b64_quanta.induct)
  case (2 a b c d rest)
  then show ?case by (fastforce split: option.splits if_splits)
qed simp_all

lemma b64_decode_length: "b64_decode s = Some out \<Longrightarrow> 4 * length out \<le> 3 * length s"
proof -
  assume "b64_decode s = Some out"
  then have "4 * length out \<le> 3 * length (filter (\<lambda>c. \<not> b64_newline c) s)"
    unfolding b64_decode_def by (rule b64_quanta_length)
  also have "\<dots> \<le> 3 * length s" by simp
  finally show ?thesis .
qed

lemma b64_encode_eq_Nil [simp]: "b64_encode s = [] \<longleftrightarrow> s = []"
  by (cases s rule: b64_encode.cases) simp_all

end
