(* ===== verification/Go_Json.thy ===== *)
theory Go_Json
  imports Go_Utf8
begin

section \<open>JSON text: the grammar of encoding/json\<close>

text \<open>
  A reader for the grammar that Go's \<open>encoding/json\<close> scanner accepts: one value, nested at most
  10000 deep, control bytes refused inside strings, any other byte let through. The tree keeps the
  source text of every array element and object member, because a \<open>json.RawMessage\<close> field receives
  exactly those bytes, and it keeps number literals as text. \<open>json_valid\<close> is \<open>json.Valid\<close>.
  The reader runs on fuel; \<open>parse_value_fuel\<close> shows that one more than twice the length of the text
  is always enough.
\<close>

datatype json =
    JNull
  | JBool bool
  | JNum string
  | JStr string
  | JArr "(string \<times> json) list"
  | JObj "(string \<times> string \<times> json) list"

subsection \<open>Tokens\<close>

definition json_space :: "char \<Rightarrow> bool" where
  "json_space c \<longleftrightarrow> c = CHR 0x20 \<or> c = CHR 0x09 \<or> c = CHR 0x0D \<or> c = CHR 0x0A"

definition skip_space :: "string \<Rightarrow> string" where
  "skip_space s = dropWhile json_space s"

definition digit :: "char \<Rightarrow> bool" where
  "digit c \<longleftrightarrow> 48 \<le> byte_of c \<and> byte_of c \<le> 57"

definition hex_value :: "char \<Rightarrow> nat option" where
  "hex_value c =
    (let x = byte_of c in
     if 48 \<le> x \<and> x \<le> 57 then Some (x - 48)
     else if 97 \<le> x \<and> x \<le> 102 then Some (x - 87)
     else if 65 \<le> x \<and> x \<le> 70 then Some (x - 55)
     else None)"

abbreviation quote :: char where "quote \<equiv> CHR 0x22"
abbreviation backslash :: char where "backslash \<equiv> CHR 0x5C"

text \<open>The text between the quotes (escapes left as they are) and what follows the closing quote.\<close>

fun string_body :: "string \<Rightarrow> (string \<times> string) option" where
  "string_body [] = None"
| "string_body (c # cs) =
    (if c = quote then Some ([], cs)
     else if c = backslash then
       (case cs of
          [] \<Rightarrow> None
        | e # r \<Rightarrow>
            if e = CHR ''u'' then
              (case r of
                 h1 # h2 # h3 # h4 # r' \<Rightarrow>
                   if list_all (\<lambda>h. hex_value h \<noteq> None) [h1, h2, h3, h4]
                   then map_option (\<lambda>(b, t). (c # e # h1 # h2 # h3 # h4 # b, t)) (string_body r')
                   else None
               | _ \<Rightarrow> None)
            else if e \<in> set (quote # backslash # ''/bfnrt'')
            then map_option (\<lambda>(b, t). (c # e # b, t)) (string_body r)
            else None)
     else if byte_of c < 32 then None
     else map_option (\<lambda>(b, t). (c # b, t)) (string_body cs))"

fun unescape :: "char \<Rightarrow> char" where
  "unescape e =
    (if e = CHR ''b'' then CHR 0x08 else if e = CHR ''f'' then CHR 0x0C
     else if e = CHR ''n'' then CHR 0x0A else if e = CHR ''r'' then CHR 0x0D
     else if e = CHR ''t'' then CHR 0x09 else e)"

definition hex4 :: "char \<Rightarrow> char \<Rightarrow> char \<Rightarrow> char \<Rightarrow> nat" where
  "hex4 a b c d =
    (((the (hex_value a) * 16 + the (hex_value b)) * 16 + the (hex_value c)) * 16)
      + the (hex_value d)"

definition utf16_pair :: "nat \<Rightarrow> nat \<Rightarrow> nat option" where
  "utf16_pair u v =
    (if 55296 \<le> u \<and> u < 56320 \<and> 56320 \<le> v \<and> v < 57344
     then Some ((u - 55296) * 1024 + (v - 56320) + 65536) else None)"

text \<open>
  Resolve the escapes of a scanned string body. A lone surrogate and a malformed UTF-8 byte both
  become U+FFFD.
\<close>

function unquote :: "string \<Rightarrow> string" where
  "unquote s =
    (case s of
       [] \<Rightarrow> []
     | c # cs \<Rightarrow>
         if c = backslash then
           (case cs of
              [] \<Rightarrow> []
            | e # r \<Rightarrow>
                if e = CHR ''u'' then
                  (case r of
                     h1 # h2 # h3 # h4 # r' \<Rightarrow>
                       (case r' of
                          b # e2 # k1 # k2 # k3 # k4 # r'' \<Rightarrow>
                            (case (if b = backslash \<and> e2 = CHR ''u''
                                   then utf16_pair (hex4 h1 h2 h3 h4) (hex4 k1 k2 k3 k4) else None) of
                               Some p \<Rightarrow> encode_rune p @ unquote r''
                             | None \<Rightarrow> encode_rune (hex4 h1 h2 h3 h4) @ unquote r')
                        | _ \<Rightarrow> encode_rune (hex4 h1 h2 h3 h4) @ unquote r')
                   | _ \<Rightarrow> [])
                else unescape e # unquote r)
         else if byte_of c < 128 then c # unquote cs
         else encode_rune (fst (decode_rune s)) @ unquote (drop (snd (decode_rune s)) s))"
  by pat_completeness auto
termination
  by (relation "measure length") auto

declare unquote.simps [simp del]

subsection \<open>Numbers\<close>

definition scan_exponent :: "string \<Rightarrow> string \<Rightarrow> (string \<times> string) option" where
  "scan_exponent acc s =
    (case s of
       e # t \<Rightarrow>
         if e = CHR ''e'' \<or> e = CHR ''E'' then
           (let sg = (case t of x # _ \<Rightarrow> if x = CHR ''+'' \<or> x = CHR ''-'' then [x] else [] | [] \<Rightarrow> []);
                u = drop (length sg) t
            in if takeWhile digit u = [] then None
               else Some (acc @ e # sg @ takeWhile digit u, dropWhile digit u))
         else Some (acc, s)
     | [] \<Rightarrow> Some (acc, s))"

definition scan_fraction :: "string \<Rightarrow> string \<Rightarrow> (string \<times> string) option" where
  "scan_fraction acc s =
    (case s of
       p # t \<Rightarrow>
         if p = CHR ''.'' then
           (if takeWhile digit t = [] then None
            else scan_exponent (acc @ p # takeWhile digit t) (dropWhile digit t))
         else scan_exponent acc s
     | [] \<Rightarrow> scan_exponent acc s)"

definition scan_number :: "string \<Rightarrow> (string \<times> string) option" where
  "scan_number s =
    (let sg = (case s of x # _ \<Rightarrow> if x = CHR ''-'' then [x] else [] | [] \<Rightarrow> []);
         t = drop (length sg) s
     in case t of
          [] \<Rightarrow> None
        | c # u \<Rightarrow>
            if c = CHR ''0'' then scan_fraction (sg @ [c]) u
            else if digit c then scan_fraction (sg @ c # takeWhile digit u) (dropWhile digit u)
            else None)"

subsection \<open>Values\<close>

text \<open>
  \<open>n\<close> is fuel, \<open>d\<close> how many more arrays and objects may be opened. Every function starts on a byte
  that is no white space.
\<close>

definition max_nesting :: int where
  "max_nesting = 10000"

definition token :: "string \<Rightarrow> (char \<times> string) option" where
  "token s = (case skip_space s of [] \<Rightarrow> None | x # r \<Rightarrow> Some (x, r))"

text \<open>A member's key, its colon and the white space after it.\<close>

definition read_key :: "string \<Rightarrow> (string \<times> string) option" where
  "read_key s =
    (case s of
       [] \<Rightarrow> None
     | q # cs \<Rightarrow>
         if q \<noteq> quote then None
         else (case string_body cs of
                 None \<Rightarrow> None
               | Some (k, r) \<Rightarrow>
                   (case token r of
                      None \<Rightarrow> None
                    | Some (x, r') \<Rightarrow>
                        if x = CHR '':'' then Some (unquote k, skip_space r') else None)))"

definition parse_scalar :: "string \<Rightarrow> (json \<times> string) option" where
  "parse_scalar s =
    (if prefix [quote] s then
       map_option (\<lambda>(b, t). (JStr (unquote b), t)) (string_body (tl s))
     else if prefix ''true'' s then Some (JBool True, drop 4 s)
     else if prefix ''false'' s then Some (JBool False, drop 5 s)
     else if prefix ''null'' s then Some (JNull, drop 4 s)
     else map_option (\<lambda>(l, t). (JNum l, t)) (scan_number s))"

fun parse_value :: "nat \<Rightarrow> int \<Rightarrow> string \<Rightarrow> (json \<times> string) option"
  and parse_elems :: "nat \<Rightarrow> int \<Rightarrow> string \<Rightarrow> ((string \<times> json) list \<times> string) option"
  and parse_members :: "nat \<Rightarrow> int \<Rightarrow> string \<Rightarrow> ((string \<times> string \<times> json) list \<times> string) option"
where
  "parse_value 0 d s = None"
| "parse_value (Suc n) d s =
    (if prefix ''{'' s then
       (if d = 0 then None
        else (case token (tl s) of
                None \<Rightarrow> None
              | Some (x, r) \<Rightarrow>
                  if x = CHR ''}'' then Some (JObj [], r)
                  else map_option (\<lambda>(ms, t). (JObj ms, t)) (parse_members n (d - 1) (x # r))))
     else if prefix ''['' s then
       (if d = 0 then None
        else (case token (tl s) of
                None \<Rightarrow> None
              | Some (x, r) \<Rightarrow>
                  if x = CHR '']'' then Some (JArr [], r)
                  else map_option (\<lambda>(es, t). (JArr es, t)) (parse_elems n (d - 1) (x # r))))
     else parse_scalar s)"
| "parse_elems 0 d s = None"
| "parse_elems (Suc n) d s =
    (case parse_value n d s of
       None \<Rightarrow> None
     | Some (v, r) \<Rightarrow>
         (case token r of
            None \<Rightarrow> None
          | Some (x, r') \<Rightarrow>
              if x = CHR '']'' then Some ([(take (length s - length r) s, v)], r')
              else if x = CHR '','' then
                map_option (\<lambda>(es, t). ((take (length s - length r) s, v) # es, t))
                  (parse_elems n d (skip_space r'))
              else None))"
| "parse_members 0 d s = None"
| "parse_members (Suc n) d s =
    (case read_key s of
       None \<Rightarrow> None
     | Some (k, s') \<Rightarrow>
         (case parse_value n d s' of
            None \<Rightarrow> None
          | Some (v, r) \<Rightarrow>
              (case token r of
                 None \<Rightarrow> None
               | Some (x, r') \<Rightarrow>
                   if x = CHR ''}'' then Some ([(k, take (length s' - length r) s', v)], r')
                   else if x = CHR '','' then
                     map_option (\<lambda>(ms, t). ((k, take (length s' - length r) s', v) # ms, t))
                       (parse_members n d (skip_space r'))
                   else None)))"

definition parse_json :: "string \<Rightarrow> (json \<times> string) option" where
  "parse_json s = parse_value (Suc (2 * length s)) max_nesting (skip_space s)"

text \<open>One value and nothing but white space after it: what \<open>json.Unmarshal\<close> and \<open>json.Valid\<close> ask.\<close>

definition parse_document :: "string \<Rightarrow> json option" where
  "parse_document s =
    (case parse_json s of
       None \<Rightarrow> None
     | Some (v, r) \<Rightarrow> if skip_space r = [] then Some v else None)"

definition json_valid :: "string \<Rightarrow> bool" where
  "json_valid s \<longleftrightarrow> parse_document s \<noteq> None"

subsection \<open>The reader consumes its input, and its fuel is enough\<close>

lemma length_skip_space: "length (skip_space s) \<le> length s"
  by (simp add: skip_space_def length_dropWhile_le)

lemma token_shorter: "token s = Some (x, r) \<Longrightarrow> length r < length s"
  using length_skip_space [of s] by (auto simp: token_def split: list.splits)

lemma string_body_shorter: "string_body s = Some (b, r) \<Longrightarrow> length r < length s"
proof (induction s arbitrary: b r rule: string_body.induct)
  case (2 c cs)
  then show ?case by (fastforce split: if_splits list.splits)
qed simp

lemma scan_exponent_rest:
  "scan_exponent acc s = Some (l, r) \<Longrightarrow> r = s \<or> (\<exists>k. r = dropWhile digit (drop k (tl s)))"
  by (cases s) (force simp: scan_exponent_def Let_def split: if_splits)+

lemma scan_exponent_le: "scan_exponent acc s = Some (l, r) \<Longrightarrow> length r \<le> length s"
proof (drule scan_exponent_rest, elim disjE exE)
  fix k assume "r = dropWhile digit (drop k (tl s))"
  then have "length r \<le> length (drop k (tl s))" by (simp only: length_dropWhile_le)
  also have "\<dots> \<le> length s" by simp
  finally show ?thesis .
qed simp

lemma scan_fraction_le: "scan_fraction acc s = Some (l, r) \<Longrightarrow> length r \<le> length s"
  using length_dropWhile_le [of digit "tl s"]
  by (cases s) (auto simp: scan_fraction_def split: if_splits dest!: scan_exponent_le)

lemma scan_number_shorter: "scan_number s = Some (l, r) \<Longrightarrow> length r < length s"
  using length_dropWhile_le [of digit "tl (tl s)"] length_dropWhile_le [of digit "tl s"]
  by (cases s) (auto simp: scan_number_def Let_def split: list.splits if_splits
      dest!: scan_fraction_le)

lemma read_key_shorter: "read_key s = Some (k, r) \<Longrightarrow> length r < length s"
proof -
  assume "read_key s = Some (k, r)"
  then obtain q cs b t x t' where "s = q # cs" "string_body cs = Some (b, t)"
      "token t = Some (x, t')" "r = skip_space t'"
    by (auto simp: read_key_def split: list.splits if_splits option.splits)
  then show ?thesis
    using string_body_shorter [of cs b t] token_shorter [of t x t'] length_skip_space [of t'] by simp
qed

lemma parse_scalar_shorter: "parse_scalar s = Some (v, r) \<Longrightarrow> length r < length s"
  by (auto simp: parse_scalar_def prefix_def split: if_splits
      dest!: string_body_shorter scan_number_shorter)

lemma parse_consumes:
  shows "parse_value n d s = Some (v, r) \<Longrightarrow> length r < length s"
    and "parse_elems n d s = Some (es, r) \<Longrightarrow> length r < length s"
    and "parse_members n d s = Some (ms, r) \<Longrightarrow> length r < length s"
proof (induction n d s and n d s and n d s arbitrary: v r and es r and ms r
    rule: parse_value_parse_elems_parse_members.induct)
  case (2 n d s)
  from "2.prems" consider (scalar) "parse_scalar s = Some (v, r)"
    | (empty) x where "token (tl s) = Some (x, r)"
    | (obj) x t ms where "prefix ''{'' s" "d \<noteq> 0" "token (tl s) = Some (x, t)" "x \<noteq> CHR ''}''"
        "parse_members n (d - 1) (x # t) = Some (ms, r)"
    | (arr) x t es where "\<not> prefix ''{'' s" "prefix ''['' s" "d \<noteq> 0" "token (tl s) = Some (x, t)"
        "x \<noteq> CHR '']''" "parse_elems n (d - 1) (x # t) = Some (es, r)"
    by (auto split: if_splits option.splits)
  then show ?case
  proof cases
    case scalar
    then show ?thesis by (rule parse_scalar_shorter)
  next
    case empty
    then show ?thesis using token_shorter [OF empty] by simp
  next
    case obj
    then have "length r < length (x # t)" by (intro "2.IH"(1)) simp_all
    with token_shorter [OF obj(3)] show ?thesis by simp
  next
    case arr
    then have "length r < length (x # t)" by (intro "2.IH"(2)) simp_all
    with token_shorter [OF arr(4)] show ?thesis by simp
  qed
next
  case (4 n d s)
  from "4.prems" obtain v r1 x r2 where 1: "parse_value n d s = Some (v, r1)"
    "token r1 = Some (x, r2)" and
    2: "r = r2 \<or> (\<exists>es'. x \<noteq> CHR '']'' \<and> x = CHR '','' \<and> parse_elems n d (skip_space r2) = Some (es', r))"
    by (auto split: option.splits if_splits)
  have "length r \<le> length r2"
    using 2 "4.IH"(2) [OF 1(1) refl 1(2) refl] length_skip_space [of r2] by fastforce
  with "4.IH"(1) [OF 1(1)] token_shorter [OF 1(2)] show ?case by simp
next
  case (6 n d s)
  from "6.prems" obtain k s' v r1 x r2 where 0: "read_key s = Some (k, s')"
    and 1: "parse_value n d s' = Some (v, r1)" "token r1 = Some (x, r2)" and
    2: "r = r2 \<or> (\<exists>ms'. x \<noteq> CHR ''}'' \<and> x = CHR '','' \<and> parse_members n d (skip_space r2) = Some (ms', r))"
    by (auto split: option.splits if_splits)
  have "length r \<le> length r2"
    using 2 "6.IH"(2) [OF 0 refl 1(1) refl 1(2) refl] length_skip_space [of r2] by fastforce
  with "6.IH"(1) [OF 0 refl 1(1)] token_shorter [OF 1(2)] read_key_shorter [OF 0] show ?case by simp
qed simp_all

lemma token_le: "token s = Some (x, r) \<Longrightarrow> length (x # r) \<le> length s"
  using length_skip_space [of s] by (auto simp: token_def split: list.splits)

lemma parse_fuel_stable:
  "(2 * length s < n \<longrightarrow> 2 * length s < m \<longrightarrow> parse_value n d s = parse_value m d s) \<and>
   (2 * length s + 1 < n \<longrightarrow> 2 * length s + 1 < m \<longrightarrow> parse_elems n d s = parse_elems m d s) \<and>
   (2 * length s + 1 < n \<longrightarrow> 2 * length s + 1 < m \<longrightarrow> parse_members n d s = parse_members m d s)"
proof (induction n arbitrary: d s m)
  case (Suc n)
  show ?case
  proof (cases m)
    case (Suc k)
    have V: "parse_value n d' t = parse_value k d' t"
      if "2 * length t < n" "2 * length t < k" for d' t
      using Suc.IH that by blast
    have E: "parse_elems n d' t = parse_elems k d' t"
      if "2 * length t + 1 < n" "2 * length t + 1 < k" for d' t
      using Suc.IH that by blast
    have M: "parse_members n d' t = parse_members k d' t"
      if "2 * length t + 1 < n" "2 * length t + 1 < k" for d' t
      using Suc.IH that by blast
    have "parse_value (Suc n) d s = parse_value (Suc k) d s"
      if l: "2 * length s \<le> n" "2 * length s \<le> k"
    proof -
      have "parse_members n d' (x # r) = parse_members k d' (x # r) \<and>
          parse_elems n d' (x # r) = parse_elems k d' (x # r)"
        if t: "token (tl s) = Some (x, r)" for d' x r
      proof -
        have "2 * length (x # r) + 1 < n" "2 * length (x # r) + 1 < k"
          using token_le [OF t] l by (cases s; simp)+
        then show ?thesis using M E by blast
      qed
      then show ?thesis by (auto split: option.splits)
    qed
    moreover have "parse_elems (Suc n) d s = parse_elems (Suc k) d s"
      if l: "2 * length s < n" "2 * length s < k"
    proof -
      have "parse_elems n d (skip_space r') = parse_elems k d (skip_space r')"
        if v: "parse_value k d s = Some (v, r)" and t: "token r = Some (x, r')" for v r x r'
      proof -
        have "2 * length (skip_space r') + 1 < 2 * length s"
          using parse_consumes(1) [OF v] token_shorter [OF t] length_skip_space [of r'] by linarith
        with l show ?thesis by (intro E) linarith+
      qed
      with V [OF l] show ?thesis by (auto split: option.splits)
    qed
    moreover have "parse_members (Suc n) d s = parse_members (Suc k) d s"
      if l: "2 * length s < n" "2 * length s < k"
    proof -
      have v: "parse_value n d s' = parse_value k d s'" if "read_key s = Some (key, s')" for key s'
        using read_key_shorter [OF that] l by (intro V) linarith+
      have "parse_members n d (skip_space r') = parse_members k d (skip_space r')"
        if "read_key s = Some (key, s')" "parse_value k d s' = Some (v, r)" "token r = Some (x, r')"
        for key s' v r x r'
      proof -
        have "2 * length (skip_space r') + 1 < 2 * length s"
          using read_key_shorter [OF that(1)] parse_consumes(1) [OF that(2)]
            token_shorter [OF that(3)] length_skip_space [of r'] by linarith
        with l show ?thesis by (intro M) linarith+
      qed
      with v show ?thesis by (auto split: option.splits)
    qed
    ultimately show ?thesis using Suc by simp
  qed simp
qed simp
text \<open>Any fuel above twice the length of the text gives the answer of \<open>parse_json\<close>.\<close>

lemma parse_value_fuel:
  assumes "2 * length s < n"
  shows "parse_value n max_nesting (skip_space s) = parse_json s"
proof -
  have l: "2 * length (skip_space s) < n" "2 * length (skip_space s) < Suc (2 * length s)"
    using assms length_skip_space [of s] by linarith+
  from parse_fuel_stable [of "skip_space s" n "Suc (2 * length s)"] l show ?thesis
    unfolding parse_json_def by blast
qed

lemma parse_json_consumes: "parse_json s = Some (v, r) \<Longrightarrow> length r < length s"
proof -
  assume "parse_json s = Some (v, r)"
  then have "length r < length (skip_space s)"
    unfolding parse_json_def by (rule parse_consumes(1))
  then show ?thesis using length_skip_space [of s] by linarith
qed

end
