(* ===== verification/Go_Json_Decode.thy ===== *)
theory Go_Json_Decode
  imports Go_Json "HOL-Library.AList"
begin

section \<open>json.Unmarshal and json.Decoder\<close>

text \<open>
  The decoder of \<open>encoding/json\<close>, driven by a description of the Go type (\<open>gty\<close>) the way the
  library is driven by reflection. A struct is described by its JSON field names in order. Field
  names match exactly or, failing that, up to case folding; unknown members are skipped unless the
  decoder is strict; a member given twice is decoded twice into the same field; a type mismatch
  leaves its field alone, is remembered as the call's error, and decoding goes on; \<open>null\<close> clears
  pointers, maps, slices and interfaces and leaves everything else alone.
\<close>

subsection \<open>Dynamic values\<close>

text \<open>The values of Go's type \<open>any\<close> that the program inspects; a number keeps its literal.\<close>

datatype any =
    ANil
  | AString string
  | ABool bool
  | ANumber string
  | ASlice "any list"
  | AStrings "string list"
  | AMap "(string \<times> any) list"
  | AMeta "(string \<times> any) list"

datatype gty =
    TString
  | TInt
  | TUint nat
  | TBool
  | TRaw
  | TAny
  | TPtr gty
  | TStruct "(string \<times> gty) list"
  | TMap gty
  | TSlice gty

datatype gval =
    GString string
  | GInt int
  | GBool bool
  | GRaw string
  | GAny any
  | GNil
  | GPtr gval
  | GStruct "(string \<times> gval) list"
  | GMap "(string \<times> gval) list"
  | GSlice "gval list"

fun zero_value :: "gty \<Rightarrow> gval" where
  "zero_value TString = GString []"
| "zero_value TInt = GInt 0"
| "zero_value (TUint w) = GInt 0"
| "zero_value TBool = GBool False"
| "zero_value TRaw = GRaw []"
| "zero_value TAny = GAny ANil"
| "zero_value (TPtr t) = GNil"
| "zero_value (TStruct fs) = GStruct (map (\<lambda>(n, t). (n, zero_value t)) fs)"
| "zero_value (TMap t) = GNil"
| "zero_value (TSlice t) = GNil"

subsection \<open>Number literals\<close>

definition digits_value :: "string \<Rightarrow> nat" where
  "digits_value s = foldl (\<lambda>n c. 10 * n + (byte_of c - 48)) 0 s"

text \<open>\<open>strconv.ParseInt(s, 10, 64)\<close> and \<open>strconv.ParseUint(s, 10, 64)\<close> on a JSON number literal.\<close>

definition parse_int64 :: "string \<Rightarrow> int option" where
  "parse_int64 s =
    (let neg = prefix ''-'' s; ds = (if neg then tl s else s);
         v = (if neg then - int (digits_value ds) else int (digits_value ds))
     in if ds \<noteq> [] \<and> list_all digit ds \<and> - (2 ^ 63) \<le> v \<and> v < 2 ^ 63 then Some v else None)"

definition parse_uint :: "nat \<Rightarrow> string \<Rightarrow> int option" where
  "parse_uint w s =
    (if s \<noteq> [] \<and> list_all digit s \<and> digits_value s < 2 ^ w then Some (int (digits_value s)) else None)"

text \<open>
  Whether \<open>strconv.ParseFloat(s, 64)\<close> reports a value out of range: the literal is at least
  \<open>2\<^sup>1\<^sup>0\<^sup>2\<^sup>4 - 2\<^sup>9\<^sup>7\<^sup>0\<close> in absolute value, where rounding leaves the finite range.
\<close>

definition float_overflow :: "string \<Rightarrow> bool" where
  "float_overflow lit =
    (let s = (if prefix ''-'' lit then tl lit else lit);
         m = takeWhile (\<lambda>c. c \<noteq> CHR ''e'' \<and> c \<noteq> CHR ''E'') s;
         ex = tl (dropWhile (\<lambda>c. c \<noteq> CHR ''e'' \<and> c \<noteq> CHR ''E'') s);
         ip = takeWhile digit m; fp = filter digit (dropWhile digit m);
         e = (if prefix ''-'' ex then - int (digits_value (tl ex))
              else int (digits_value (if prefix ''+'' ex then tl ex else ex)))
             - int (length fp);
         v = digits_value (ip @ fp); limit = (2 :: nat) ^ 1024 - 2 ^ 970
     in if 0 \<le> e then limit \<le> v * 10 ^ nat e else limit * 10 ^ nat (- e) \<le> v)"

subsection \<open>Field names\<close>

definition fold_rune :: "nat \<Rightarrow> nat" where
  "fold_rune r =
    (if 97 \<le> r \<and> r \<le> 122 then r - 32 else if r = 8490 then 75 else if r = 383 then 83 else r)"

definition fold_name :: "string \<Rightarrow> nat list" where
  "fold_name s = map fold_rune (runes s)"

definition find_field :: "(string \<times> gty) list \<Rightarrow> string \<Rightarrow> (string \<times> gty) option" where
  "find_field fs key =
    (case List.find (\<lambda>(n, t). n = key) fs of
       Some f \<Rightarrow> Some f
     | None \<Rightarrow> List.find (\<lambda>(n, t). fold_name n = fold_name key) fs)"

subsection \<open>Decoding\<close>

fun to_any :: "json \<Rightarrow> any \<times> bool"
  and elems_to_any :: "(string \<times> json) list \<Rightarrow> any list \<times> bool"
  and members_to_any :: "(string \<times> any) list \<Rightarrow> (string \<times> string \<times> json) list \<Rightarrow> (string \<times> any) list \<times> bool"
where
  "to_any JNull = (ANil, True)"
| "to_any (JBool b) = (ABool b, True)"
| "to_any (JNum l) = (if float_overflow l then (ANil, False) else (ANumber l, True))"
| "to_any (JStr s) = (AString s, True)"
| "to_any (JArr es) = (case elems_to_any es of (vs, ok) \<Rightarrow> (ASlice vs, ok))"
| "to_any (JObj ms) = (case members_to_any [] ms of (vs, ok) \<Rightarrow> (AMap vs, ok))"
| "elems_to_any [] = ([], True)"
| "elems_to_any ((raw, j) # es) =
    (case to_any j of (v, ok) \<Rightarrow> (case elems_to_any es of (vs, ok') \<Rightarrow> (v # vs, ok \<and> ok')))"
| "members_to_any acc [] = (acc, True)"
| "members_to_any acc ((k, raw, j) # ms) =
    (case to_any j of (v, ok) \<Rightarrow>
       (case members_to_any (AList.update k v acc) ms of (vs, ok') \<Rightarrow> (vs, ok \<and> ok')))"

definition pointee :: "gty \<Rightarrow> gval \<Rightarrow> gval" where
  "pointee t old = (case old of GPtr v \<Rightarrow> v | _ \<Rightarrow> zero_value t)"

definition struct_fields :: "gval \<Rightarrow> (string \<times> gval) list" where
  "struct_fields v = (case v of GStruct fs \<Rightarrow> fs | _ \<Rightarrow> [])"

definition map_entries :: "gval \<Rightarrow> (string \<times> gval) list" where
  "map_entries v = (case v of GMap es \<Rightarrow> es | _ \<Rightarrow> [])"

definition slice_elems :: "gval \<Rightarrow> gval list" where
  "slice_elems v = (case v of GSlice vs \<Rightarrow> vs | _ \<Rightarrow> [])"

definition field_or :: "(string \<times> gval) list \<Rightarrow> string \<Rightarrow> gty \<Rightarrow> gval" where
  "field_or vs n t = (case map_of vs n of Some v \<Rightarrow> v | None \<Rightarrow> zero_value t)"

function (sequential) decode :: "bool \<Rightarrow> gty \<Rightarrow> gval \<Rightarrow> string \<Rightarrow> json \<Rightarrow> gval \<times> bool"
  and decode_fields :: "bool \<Rightarrow> (string \<times> gty) list \<Rightarrow> (string \<times> gval) list
        \<Rightarrow> (string \<times> string \<times> json) list \<Rightarrow> (string \<times> gval) list \<times> bool"
  and decode_entries :: "bool \<Rightarrow> gty \<Rightarrow> (string \<times> gval) list
        \<Rightarrow> (string \<times> string \<times> json) list \<Rightarrow> (string \<times> gval) list \<times> bool"
  and decode_elems :: "bool \<Rightarrow> gty \<Rightarrow> gval list \<Rightarrow> (string \<times> json) list \<Rightarrow> gval list \<times> bool"
where
  "decode strict TRaw old raw j = (GRaw raw, True)"
| "decode strict TAny old raw j =
    (case to_any j of (a, ok) \<Rightarrow>
       (case j of JNum l \<Rightarrow> if ok then (GAny a, True) else (old, False) | _ \<Rightarrow> (GAny a, ok)))"
| "decode strict (TPtr t) old raw JNull = (GNil, True)"
| "decode strict (TPtr t) old raw j =
    (case decode strict t (pointee t old) raw j of (v, ok) \<Rightarrow> (GPtr v, ok))"
| "decode strict (TMap t) old raw JNull = (GNil, True)"
| "decode strict (TMap t) old raw (JObj ms) =
    (case decode_entries strict t (map_entries old) ms of (es, ok) \<Rightarrow> (GMap es, ok))"
| "decode strict (TSlice t) old raw JNull = (GNil, True)"
| "decode strict (TSlice t) old raw (JArr es) =
    (case decode_elems strict t (slice_elems old) es of (vs, ok) \<Rightarrow> (GSlice vs, ok))"
| "decode strict t old raw JNull = (old, True)"
| "decode strict TString old raw (JStr s) = (GString s, True)"
| "decode strict TBool old raw (JBool b) = (GBool b, True)"
| "decode strict TInt old raw (JNum l) =
    (case parse_int64 l of Some n \<Rightarrow> (GInt n, True) | None \<Rightarrow> (old, False))"
| "decode strict (TUint w) old raw (JNum l) =
    (case parse_uint w l of Some n \<Rightarrow> (GInt n, True) | None \<Rightarrow> (old, False))"
| "decode strict (TStruct fs) old raw (JObj ms) =
    (case decode_fields strict fs (struct_fields old) ms of (vs, ok) \<Rightarrow> (GStruct vs, ok))"
| "decode strict t old raw j = (old, False)"
| "decode_fields strict fs vs [] = (vs, True)"
| "decode_fields strict fs vs ((k, raw, j) # ms) =
    (case find_field fs k of
       None \<Rightarrow> (case decode_fields strict fs vs ms of (vs', ok) \<Rightarrow> (vs', \<not> strict \<and> ok))
     | Some (n, t) \<Rightarrow>
         (case decode strict t (field_or vs n t) raw j of (v, ok) \<Rightarrow>
            (case decode_fields strict fs (AList.update n v vs) ms of (vs', ok') \<Rightarrow> (vs', ok \<and> ok'))))"
| "decode_entries strict t es [] = (es, True)"
| "decode_entries strict t es ((k, raw, j) # ms) =
    (case decode strict t (zero_value t) raw j of (v, ok) \<Rightarrow>
       (case decode_entries strict t (AList.update k v es) ms of (es', ok') \<Rightarrow> (es', ok \<and> ok')))"
| "decode_elems strict t olds [] = ([], True)"
| "decode_elems strict t olds ((raw, j) # es) =
    (case decode strict t (case olds of [] \<Rightarrow> zero_value t | v # _ \<Rightarrow> v) raw j of (v, ok) \<Rightarrow>
       (case decode_elems strict t (tl olds) es of (vs, ok') \<Rightarrow> (v # vs, ok \<and> ok')))"
  by pat_completeness auto
termination
  by (relation "measures
      [\<lambda>x. case x of
            Inl (Inl (strict, t, old, raw, j)) \<Rightarrow> size j
          | Inl (Inr (strict, fs, vs, ms)) \<Rightarrow> size_list (size_prod (\<lambda>x. 0) (size_prod (\<lambda>x. 0) size)) ms
          | Inr (Inl (strict, t, es, ms)) \<Rightarrow> size_list (size_prod (\<lambda>x. 0) (size_prod (\<lambda>x. 0) size)) ms
          | Inr (Inr (strict, t, vs, es)) \<Rightarrow> size_list (size_prod (\<lambda>x. 0) size) es,
       \<lambda>x. case x of Inl (Inl (strict, t, old, raw, j)) \<Rightarrow> size t | _ \<Rightarrow> 0]") auto

text \<open>\<open>json.Unmarshal\<close> into a value of type \<open>t\<close>: the value as it is left, and whether there was no error.\<close>

definition unmarshal_into :: "gty \<Rightarrow> gval \<Rightarrow> string \<Rightarrow> gval \<times> bool" where
  "unmarshal_into t old s =
    (case parse_document s of None \<Rightarrow> (old, False) | Some j \<Rightarrow> decode False t old s j)"

definition unmarshal :: "gty \<Rightarrow> string \<Rightarrow> gval option" where
  "unmarshal t s = (case unmarshal_into t (zero_value t) s of (v, ok) \<Rightarrow> if ok then Some v else None)"

text \<open>
  The first \<open>Decode\<close> of a \<open>json.Decoder\<close>: the value, and the input it has not read. A second
  \<open>Decode\<close> returns \<open>io.EOF\<close> exactly when only white space is left.
\<close>

definition decoder_decode :: "bool \<Rightarrow> gty \<Rightarrow> string \<Rightarrow> (gval \<times> string) option" where
  "decoder_decode strict t s =
    (case parse_json s of
       None \<Rightarrow> None
     | Some (j, r) \<Rightarrow>
         (case decode strict t (zero_value t) s j of
            (v, ok) \<Rightarrow> if ok then Some (v, r) else None))"

definition decoder_at_eof :: "string \<Rightarrow> bool" where
  "decoder_at_eof r \<longleftrightarrow> skip_space r = []"

subsection \<open>Reading a decoded struct back\<close>

definition get_field :: "gval \<Rightarrow> string \<Rightarrow> gval" where
  "get_field v n = (case map_of (struct_fields v) n of Some x \<Rightarrow> x | None \<Rightarrow> GNil)"

definition as_string :: "gval \<Rightarrow> string" where
  "as_string v = (case v of GString s \<Rightarrow> s | _ \<Rightarrow> [])"

definition as_int :: "gval \<Rightarrow> int" where
  "as_int v = (case v of GInt n \<Rightarrow> n | _ \<Rightarrow> 0)"

definition as_bool :: "gval \<Rightarrow> bool" where
  "as_bool v = (case v of GBool b \<Rightarrow> b | _ \<Rightarrow> False)"

definition as_raw :: "gval \<Rightarrow> string" where
  "as_raw v = (case v of GRaw s \<Rightarrow> s | _ \<Rightarrow> [])"

definition as_any :: "gval \<Rightarrow> any" where
  "as_any v = (case v of GAny a \<Rightarrow> a | _ \<Rightarrow> ANil)"

definition as_ptr :: "gval \<Rightarrow> gval option" where
  "as_ptr v = (case v of GPtr x \<Rightarrow> Some x | _ \<Rightarrow> None)"

definition as_slice :: "gval \<Rightarrow> gval list" where
  "as_slice v = (case v of GSlice vs \<Rightarrow> vs | _ \<Rightarrow> [])"

lemmas reader_defs = get_field_def as_string_def as_int_def as_bool_def as_raw_def as_any_def
  as_ptr_def as_slice_def struct_fields_def map_entries_def slice_elems_def

end
