(* ===== verification/Go_Quote.thy ===== *)
theory Go_Quote
  imports Go_Utf8
begin

section \<open>The verb %q\<close>

text \<open>
  \<open>strconv.Quote\<close>, which \<open>fmt.Sprintf("%q", s)\<close> calls. Which runes beyond ASCII are printable is a
  table of the Unicode standard; it is the argument \<open>printable\<close>, and what is proved holds for
  every table.
\<close>

definition hex_digit :: "nat \<Rightarrow> char" where
  "hex_digit n = (if n < 10 then char_of (48 + n) else char_of (87 + n))"

fun hex_digits :: "nat \<Rightarrow> nat \<Rightarrow> string" where
  "hex_digits 0 r = []"
| "hex_digits (Suc n) r = hex_digits n (r div 16) @ [hex_digit (r mod 16)]"

definition escape_rune :: "(nat \<Rightarrow> bool) \<Rightarrow> nat \<Rightarrow> string" where
  "escape_rune printable r =
    (if r = 34 \<or> r = 92 then [CHR 0x5C, char_of r]
     else if (if r < 128 then 32 \<le> r \<and> r < 127 else printable r) then encode_rune r
     else if r = 7 then [CHR 0x5C, CHR ''a'']
     else if r = 8 then [CHR 0x5C, CHR ''b'']
     else if r = 12 then [CHR 0x5C, CHR ''f'']
     else if r = 10 then [CHR 0x5C, CHR ''n'']
     else if r = 13 then [CHR 0x5C, CHR ''r'']
     else if r = 9 then [CHR 0x5C, CHR ''t'']
     else if r = 11 then [CHR 0x5C, CHR ''v'']
     else if r < 32 \<or> r = 127 then [CHR 0x5C, CHR ''x''] @ hex_digits 2 r
     else if r < 65536 then [CHR 0x5C, CHR ''u''] @ hex_digits 4 r
     else [CHR 0x5C, CHR ''U''] @ hex_digits 8 r)"

function quote_body :: "(nat \<Rightarrow> bool) \<Rightarrow> string \<Rightarrow> string" where
  "quote_body printable [] = []"
| "quote_body printable (c # cs) =
    (case rune_at (c # cs) of
       None \<Rightarrow> [CHR 0x5C, CHR ''x''] @ hex_digits 2 (byte_of c) @ quote_body printable cs
     | Some (r, w) \<Rightarrow> escape_rune printable r @ quote_body printable (drop w (c # cs)))"
  by pat_completeness auto
termination
proof (relation "measure (\<lambda>(p, s). length s)", goal_cases)
  case (3 p c cs rw r w)
  then have "1 \<le> w" using rune_at_width [of "c # cs" r w] by simp
  then show ?case by auto
qed auto

definition go_quote :: "(nat \<Rightarrow> bool) \<Rightarrow> string \<Rightarrow> string" where
  "go_quote printable s = [CHR 0x22] @ quote_body printable s @ [CHR 0x22]"

text \<open>A quoted string is one line: no line feed and no other ASCII control byte survives.\<close>

definition one_line :: "string \<Rightarrow> bool" where
  "one_line s = list_all (\<lambda>c. 32 \<le> byte_of c) s"

lemma one_line_append [simp]: "one_line (s @ t) \<longleftrightarrow> one_line s \<and> one_line t"
  by (simp add: one_line_def)

lemma one_line_Cons [simp]: "one_line (c # s) \<longleftrightarrow> 32 \<le> byte_of c \<and> one_line s" "one_line []"
  by (simp_all add: one_line_def)

lemma hex_digit_printable: "n < 16 \<Longrightarrow> 32 \<le> byte_of (hex_digit n)"
  by (simp add: hex_digit_def)

lemma one_line_hex_digits [simp]: "one_line (hex_digits n r)"
  by (induction n arbitrary: r) (simp_all add: hex_digit_printable)

lemma one_line_encode_rune: "32 \<le> r \<Longrightarrow> one_line (encode_rune r)"
proof -
  assume r: "32 \<le> r"
  have "192 + x mod 64 < 256" "128 + x mod 64 < 256" for x :: nat by linarith+
  moreover have "x < 2048 \<Longrightarrow> 192 + x div 64 < 256" "x < 65536 \<Longrightarrow> 224 + x div 4096 < 256"
    "x < 1114112 \<Longrightarrow> 240 + x div 262144 < 256" for x :: nat by linarith+
  ultimately show ?thesis
    using r by (auto simp: encode_rune_def Let_def rune_error_def)
qed

lemma one_line_escape_rune: "one_line (escape_rune printable r)"
  by (auto simp: escape_rune_def one_line_encode_rune)

lemma one_line_quote_body: "one_line (quote_body printable s)"
  by (induction printable s rule: quote_body.induct)
    (auto simp: one_line_escape_rune split: option.splits)

lemma one_line_go_quote [simp]: "one_line (go_quote printable s)"
  by (simp add: go_quote_def one_line_quote_body)

lemma one_line_no_newline: "one_line s \<Longrightarrow> CHR 0x0A \<notin> set s"
  by (auto simp: one_line_def list_all_iff)

end
