(* ===== verification/Go_Json_Encode.thy ===== *)
theory Go_Json_Encode
  imports Go_Json_Decode Go_Quote
begin

section \<open>json.Marshal\<close>

text \<open>
  The text \<open>encoding/json\<close> writes, with the HTML-safe escapes that \<open>Marshal\<close> always uses: strings,
  integers, booleans, arrays, raw messages and structs. A struct is the list of its fields in order, each a name
  and the text of its value; a field with \<open>omitempty\<close> and an empty value is left out of the list.
  That a written string is read back by the reader of \<open>Go_Json\<close> is proved here.
\<close>

subsection \<open>Strings\<close>

definition html_safe :: "char \<Rightarrow> bool" where
  "html_safe c \<longleftrightarrow> 32 \<le> byte_of c \<and> c \<notin> {quote, backslash, CHR ''<'', CHR ''>'', CHR ''&''}"

definition escape_ascii :: "char \<Rightarrow> string" where
  "escape_ascii c =
    (if html_safe c then [c]
     else if c = quote \<or> c = backslash then [backslash, c]
     else if c = CHR 0x08 then [backslash, CHR ''b'']
     else if c = CHR 0x0C then [backslash, CHR ''f'']
     else if c = CHR 0x0A then [backslash, CHR ''n'']
     else if c = CHR 0x0D then [backslash, CHR ''r'']
     else if c = CHR 0x09 then [backslash, CHR ''t'']
     else backslash # ''u00'' @ hex_digits 2 (byte_of c))"

function json_escape :: "string \<Rightarrow> string" where
  "json_escape [] = []"
| "json_escape (c # cs) =
    (if byte_of c < 128 then escape_ascii c @ json_escape cs
     else
       (case rune_at (c # cs) of
          None \<Rightarrow> backslash # ''ufffd'' @ json_escape cs
        | Some (r, w) \<Rightarrow>
            (if r = 0x2028 \<or> r = 0x2029 then backslash # ''u202'' @ [hex_digit (r mod 16)]
             else take w (c # cs)) @ json_escape (drop w (c # cs))))"
  by pat_completeness auto
termination
proof (relation "measure length", goal_cases)
  case (4 c cs rw r w)
  then have "1 \<le> w" using rune_at_width [of "c # cs" r w] by simp
  then show ?case by auto
qed auto

definition json_string :: "string \<Rightarrow> string" where
  "json_string s = quote # json_escape s @ [quote]"

subsection \<open>Other values\<close>

definition json_bool :: "bool \<Rightarrow> string" where
  "json_bool b = (if b then ''true'' else ''false'')"

definition json_array :: "string list \<Rightarrow> string" where
  "json_array vs = ''['' @ join '','' vs @ '']''"

definition json_object :: "(string \<times> string) list \<Rightarrow> string" where
  "json_object fs = ''{'' @ join '','' (map (\<lambda>(n, v). json_string n @ CHR '':'' # v) fs) @ ''}''"

text \<open>The layout of \<open>MarshalIndent\<close>: white space \<open>w\<close> before a member or element, \<open>c\<close> after a colon and \<open>w'\<close>
  before the closing bracket; an empty object or array has none.\<close>

definition object_text :: "string \<Rightarrow> string \<Rightarrow> string \<Rightarrow> (string \<times> string) list \<Rightarrow> string" where
  "object_text w c w' fs = (if fs = [] then ''{}'' else
     CHR ''{'' # w @ join (CHR '','' # w) (map (\<lambda>(n, v). json_string n @ CHR '':'' # c @ v) fs) @ w' @ ''}'')"

definition array_text :: "string \<Rightarrow> string \<Rightarrow> string list \<Rightarrow> string" where
  "array_text w w' vs = (if vs = [] then ''[]'' else CHR ''['' # w @ join (CHR '','' # w) vs @ w' @ '']'')"

lemma json_object_text: "json_object fs = object_text [] [] [] fs"
  by (simp add: json_object_def object_text_def)

text \<open>A field that is always written, and one with \<open>omitempty\<close>.\<close>

definition field :: "string \<Rightarrow> string \<Rightarrow> (string \<times> string) list" where
  "field n v = [(n, v)]"

definition omit_empty :: "bool \<Rightarrow> string \<Rightarrow> string \<Rightarrow> (string \<times> string) list" where
  "omit_empty blank n v = (if blank then [] else [(n, v)])"

definition string_field :: "string \<Rightarrow> string \<Rightarrow> (string \<times> string) list" where
  "string_field n s = omit_empty (s = []) n (json_string s)"

text \<open>
  A \<open>json.RawMessage\<close> is written compacted: white space between tokens is dropped, and inside strings
  the three HTML characters and the two Unicode line separators are escaped. A raw message that is
  not JSON fails the whole \<open>Marshal\<close>; an empty one with \<open>omitempty\<close> is left out. The flag says
  whether the byte stands inside a string.
\<close>

definition line_separator_at :: "string \<Rightarrow> bool" where
  "line_separator_at s \<longleftrightarrow>
    prefix [CHR 0xE2, CHR 0x80, CHR 0xA8] s \<or> prefix [CHR 0xE2, CHR 0x80, CHR 0xA9] s"

fun compact_bytes :: "bool \<Rightarrow> string \<Rightarrow> string" where
  "compact_bytes quoted [] = []"
| "compact_bytes False (c # cs) =
    (if json_space c then compact_bytes False cs else c # compact_bytes (c = quote) cs)"
| "compact_bytes True (c # cs) =
    (if c = quote then c # compact_bytes False cs
     else if c = backslash then (case cs of [] \<Rightarrow> [c] | e # r \<Rightarrow> c # e # compact_bytes True r)
     else if c \<in> {CHR ''<'', CHR ''>'', CHR ''&''} then
       backslash # ''u00'' @ hex_digits 2 (byte_of c) @ compact_bytes True cs
     else if line_separator_at (c # cs) then
       backslash # ''u202'' @ [hex_digit (byte_of (cs ! 1) mod 16)] @ compact_bytes True (drop 2 cs)
     else c # compact_bytes True cs)"

definition json_compact :: "string \<Rightarrow> string option" where
  "json_compact s = (if json_valid s then Some (compact_bytes False s) else None)"

definition raw_field :: "string \<Rightarrow> string \<Rightarrow> (string \<times> string) list option" where
  "raw_field n s = (if s = [] then Some [] else map_option (field n) (json_compact s))"

subsection \<open>A written string is read back\<close>

lemma rune_at_take: "rune_at s = Some (r, w) \<Longrightarrow> rune_at (take w s @ t) = Some (r, w)"
  by (cases s) (auto simp: rune_at.simps Let_def split: if_splits list.splits)

lemma char_of_byte [simp]: "n = byte_of c \<Longrightarrow> char_of n = c" by simp

lemma base64_step: "(b :: nat) < 64 \<Longrightarrow> (a * 64 + b) div 64 = a \<and> (a * 64 + b) mod 64 = b"
  by simp

lemma div_4096: "(n :: nat) div 4096 = n div 64 div 64" and div_262144: "(n :: nat) div 262144 = n div 64 div 64 div 64"
  by (simp_all flip: div_mult2_eq)

lemma encode_rune_at: 
  assumes "rune_at s = Some (r, w)" shows "encode_rune r = take w s"
proof -
  obtain a t where s: "s = a # t" using assms by (cases s) (auto simp: rune_at.simps)
  let ?x = "byte_of a :: nat"
  consider (1) "?x < 128" | (2) "194 \<le> ?x" "?x < 224" | (3) "224 \<le> ?x" "?x < 240" | (4) "240 \<le> ?x" "?x < 245"
    using assms s by (auto simp: rune_at.simps Let_def split: if_splits)
  then show ?thesis
  proof cases
    case 1 then show ?thesis using assms s by (auto simp: rune_at.simps encode_rune_def)
  next
    case 2
    then obtain b u where b: "t = b # u" "cont_byte b" and r: "r = (?x - 192) * 64 + tail_bits b" "w = 2"
      using assms s by (auto simp: rune_at.simps Let_def split: list.splits if_splits)
    have tb: "tail_bits b < 64" "byte_of b = 128 + tail_bits b" using b(2) by (auto simp: cont_byte_def tail_bits_def)
    have "r div 64 = ?x - 192" "r mod 64 = tail_bits b" "128 \<le> r" "r < 2048" using r tb 2 by auto
    then show ?thesis using s b r tb 2 by (simp add: encode_rune_def)
  next
    case 3
    then obtain b c u where b: "t = b # c # u" "cont_byte b" "cont_byte c" "?x = 224 \<longrightarrow> 160 \<le> byte_of b"
        "?x = 237 \<longrightarrow> byte_of b < 160"
      and r: "r = ((?x - 224) * 64 + tail_bits b) * 64 + tail_bits c" "w = 3"
      using assms s by (auto simp: rune_at.simps Let_def split: list.splits if_splits)
    have tb: "tail_bits b < 64" "byte_of b = 128 + tail_bits b" "tail_bits c < 64"
      "byte_of c = 128 + tail_bits c"
      using b(2,3) by (auto simp: cont_byte_def tail_bits_def)
    obtain k where k: "?x = 224 + k" "k < 16" using 3 by (intro that [of "?x - 224"]) auto
    have "2048 \<le> r \<and> r < 65536 \<and> \<not> (55296 \<le> r \<and> r < 57344)"
      using r(1) b(4,5) tb k by (cases "k = 0"; cases "k < 13"; cases "k = 13") auto
    moreover have "r = (k * 64 + tail_bits b) * 64 + tail_bits c" using r(1) k by simp
    then have "r div 4096 = k" "r div 64 mod 64 = tail_bits b" "r mod 64 = tail_bits c"
      using tb by (simp_all only: base64_step div_4096)
    ultimately show ?thesis using s b r(2) tb k by (auto simp: encode_rune_def)
  next
    case 4
    then obtain b c d u where b: "t = b # c # d # u" "cont_byte b" "cont_byte c" "cont_byte d"
        "?x = 240 \<longrightarrow> 144 \<le> byte_of b" "?x = 244 \<longrightarrow> byte_of b < 144"
      and r: "r = (((?x - 240) * 64 + tail_bits b) * 64 + tail_bits c) * 64 + tail_bits d" "w = 4"
      using assms s by (auto simp: rune_at.simps Let_def split: list.splits if_splits)
    have tb: "tail_bits b < 64" "byte_of b = 128 + tail_bits b" "tail_bits c < 64"
      "byte_of c = 128 + tail_bits c" "tail_bits d < 64" "byte_of d = 128 + tail_bits d"
      using b(2,3,4) by (auto simp: cont_byte_def tail_bits_def)
    obtain k where k: "?x = 240 + k" "k < 5" using 4 by (intro that [of "?x - 240"]) auto
    have "65536 \<le> r \<and> r < 1114112"
      using r(1) b(5,6) tb k by (cases "k = 0"; cases "k = 4") auto
    moreover have "r = ((k * 64 + tail_bits b) * 64 + tail_bits c) * 64 + tail_bits d" using r(1) k by simp
    then have "r div 262144 = k" "r div 4096 mod 64 = tail_bits b" "r div 64 mod 64 = tail_bits c"
      "r mod 64 = tail_bits d"
      using tb by (simp_all only: base64_step div_4096 div_262144)
    ultimately show ?thesis using s b r(2) tb k by (simp add: encode_rune_def)
  qed
qed

definition plain_body :: "string \<Rightarrow> bool" where
  "plain_body p = list_all (\<lambda>c. 32 \<le> byte_of c \<and> c \<noteq> quote \<and> c \<noteq> backslash) p"

abbreviation prepend :: "string \<Rightarrow> (string \<times> string) option \<Rightarrow> (string \<times> string) option" where
  "prepend p x \<equiv> map_option (\<lambda>(b, t). (p @ b, t)) x"

lemma prepend_append: "prepend p (prepend q x) = prepend (p @ q) x"
  by (cases x) auto

lemma string_body_plain: "plain_body p \<Longrightarrow> string_body (p @ t) = prepend p (string_body t)"
proof (induction p)
  case Nil
  then show ?case by (cases "string_body t") auto
next
  case (Cons c p)
  then show ?case by (cases "string_body t") (auto simp: plain_body_def)
qed

lemma hex_value_digit [simp]: "n < 16 \<Longrightarrow> hex_value (hex_digit n) = Some n"
  by (simp add: hex_value_def hex_digit_def)

lemma hex_value_0 [simp]: "hex_value (CHR ''0'') = Some 0" "hex_value (CHR ''2'') = Some 2"
  "hex_value (CHR ''f'') = Some 15" "hex_value (CHR ''d'') = Some 13"
  by code_simp+

lemma string_body_u:
  assumes "list_all (\<lambda>h. hex_value h \<noteq> None) [h1, h2, h3, h4]"
  shows "string_body ([backslash, CHR ''u'', h1, h2, h3, h4] @ t) =
    prepend [backslash, CHR ''u'', h1, h2, h3, h4] (string_body t)"
  using assms by (cases "string_body t") auto

lemma hex_digits_2: "hex_digits 2 n = [hex_digit (n div 16 mod 16), hex_digit (n mod 16)]"
  by (simp add: numeral_2_eq_2)

lemma control_byte: "byte_of c < 128 \<Longrightarrow> \<not> html_safe c \<Longrightarrow>
    c \<notin> {quote, backslash, CHR 0x08, CHR 0x0C, CHR 0x0A, CHR 0x0D, CHR 0x09} \<Longrightarrow>
    escape_ascii c = [backslash, CHR ''u'', CHR ''0'', CHR ''0'',
      hex_digit (byte_of c div 16), hex_digit (byte_of c mod 16)]"
  by (simp add: escape_ascii_def hex_digits_2)

lemma string_body_escape_ascii:
  assumes "byte_of c < 128"
  shows "string_body (escape_ascii c @ t) = prepend (escape_ascii c) (string_body t)"
proof -
  consider "html_safe c" | "\<not> html_safe c" "c \<in> {quote, backslash, CHR 0x08, CHR 0x0C, CHR 0x0A, CHR 0x0D, CHR 0x09}"
    | "\<not> html_safe c" "c \<notin> {quote, backslash, CHR 0x08, CHR 0x0C, CHR 0x0A, CHR 0x0D, CHR 0x09}" by blast
  then show ?thesis
  proof cases
    case 1
    then have "plain_body [c]" "escape_ascii c = [c]" by (auto simp: html_safe_def plain_body_def escape_ascii_def)
    then show ?thesis using string_body_plain [of "[c]" t] by simp
  next
    case 2
    then show ?thesis by (cases "string_body t") (auto simp: escape_ascii_def html_safe_def)
  next
    case 3
    then show ?thesis using control_byte [OF assms 3] string_body_u [of "CHR ''0''" "CHR ''0''"] assms by simp
  qed
qed

lemma rune_bytes_high:
  assumes "rune_at (c # cs) = Some (r, w)" and "128 \<le> byte_of c"
  shows "list_all (\<lambda>x. 128 \<le> byte_of x) (take w (c # cs))"
  using assms by (auto simp: rune_at.simps Let_def cont_byte_def split: if_splits list.splits)

lemma plain_rune:
  "rune_at (c # cs) = Some (r, w) \<Longrightarrow> 128 \<le> byte_of c \<Longrightarrow> plain_body (take w (c # cs))"
  by (drule (1) rune_bytes_high) (auto simp: plain_body_def list_all_iff dest!: bspec)

lemma string_body_json_escape:
  "string_body (json_escape s @ quote # t) = Some (json_escape s, t)"
proof (induction s rule: json_escape.induct)
  case (2 c cs)
  show ?case
  proof (cases "byte_of c < 128")
    case True
    with 2(1) show ?thesis by (simp add: string_body_escape_ascii)
  next
    case False
    note high = this
    show ?thesis
    proof (cases "rune_at (c # cs)")
      case None
      have "string_body ([backslash, CHR ''u'', CHR ''f'', CHR ''f'', CHR ''f'', CHR ''d''] @ json_escape cs @ quote # t) =
        prepend [backslash, CHR ''u'', CHR ''f'', CHR ''f'', CHR ''f'', CHR ''d''] (string_body (json_escape cs @ quote # t))"
        by (rule string_body_u) simp
      with high None 2(2) show ?thesis by simp
    next
      case (Some rw)
      obtain r w where rw: "rw = (r, w)" by fastforce
      let ?d = "hex_digit (r mod 16)"
      have "string_body ([backslash, CHR ''u'', CHR ''2'', CHR ''0'', CHR ''2'', ?d] @ json_escape (drop w (c # cs)) @ quote # t) =
        prepend [backslash, CHR ''u'', CHR ''2'', CHR ''0'', CHR ''2'', ?d] (string_body (json_escape (drop w (c # cs)) @ quote # t))"
        by (rule string_body_u) simp
      moreover have "string_body (take w (c # cs) @ json_escape (drop w (c # cs)) @ quote # t) =
        prepend (take w (c # cs)) (string_body (json_escape (drop w (c # cs)) @ quote # t))"
        using string_body_plain plain_rune Some rw high by auto
      ultimately show ?thesis using high Some rw 2(3) [OF high Some rw [symmetric]]
        by simp
    qed
  qed
qed simp

lemma unquote_u:
  assumes "hex4 h1 h2 h3 h4 < 55296"
  shows "unquote ([backslash, CHR ''u'', h1, h2, h3, h4] @ t) = encode_rune (hex4 h1 h2 h3 h4) @ unquote t"
proof -
  have "utf16_pair (hex4 h1 h2 h3 h4) v = None" for v using assms by (simp add: utf16_pair_def)
  then show ?thesis by (subst unquote.simps) (simp split: list.split)
qed

lemma unquote_escape:
  "e \<noteq> CHR ''u'' \<Longrightarrow> unquote (backslash # e # t) = unescape e # unquote t"
  by (subst unquote.simps) simp

lemma unquote_ascii: "byte_of c < 128 \<Longrightarrow> c \<noteq> backslash \<Longrightarrow> unquote (c # t) = c # unquote t"
  by (subst unquote.simps) simp

lemma unquote_escape_ascii:
  assumes "byte_of c < 128"
  shows "unquote (escape_ascii c @ t) = c # unquote t"
proof -
  consider "html_safe c" | "\<not> html_safe c" "c \<in> {quote, backslash, CHR 0x08, CHR 0x0C, CHR 0x0A, CHR 0x0D, CHR 0x09}"
    | "\<not> html_safe c" "c \<notin> {quote, backslash, CHR 0x08, CHR 0x0C, CHR 0x0A, CHR 0x0D, CHR 0x09}" by blast
  then show ?thesis
  proof cases
    case 1
    then show ?thesis using assms by (auto simp: html_safe_def escape_ascii_def unquote_ascii)
  next
    case 2
    then show ?thesis by (auto simp: escape_ascii_def html_safe_def unquote_escape)
  next
    case 3
    have "hex4 (CHR ''0'') (CHR ''0'') (hex_digit (byte_of c div 16)) (hex_digit (byte_of c mod 16)) = byte_of c"
      using assms by (simp add: hex4_def)
    then show ?thesis
      using control_byte [OF assms 3] assms unquote_u [of "CHR ''0''" "CHR ''0''"
          "hex_digit (byte_of c div 16)" "hex_digit (byte_of c mod 16)" t]
      by (simp add: encode_rune_def)
  qed
qed

lemma unquote_rune:
  assumes "rune_at (c # cs) = Some (r, w)" and "128 \<le> byte_of c"
  shows "unquote (take w (c # cs) @ t) = take w (c # cs) @ unquote t"
proof -
  obtain v where v: "take w (c # cs) @ t = c # v" and w: "1 \<le> w" "length (take w (c # cs)) = w"
    using rune_at_width [OF assms(1)] by (cases w) auto
  have "decode_rune (c # v) = (r, w)"
    using rune_at_take [OF assms(1), of t] v by (simp add: decode_rune_def)
  moreover have "drop w (c # v) = t" using w v by (metis append_eq_conv_conj)
  moreover have "c \<noteq> backslash" using assms(2) by auto
  ultimately have "unquote (c # v) = encode_rune r @ unquote t"
    using assms(2) by (subst unquote.simps) simp
  with v encode_rune_at [OF assms(1)] show ?thesis by simp
qed

lemma line_separator:
  assumes "r = 0x2028 \<or> r = 0x2029"
  shows "unquote ([backslash, CHR ''u'', CHR ''2'', CHR ''0'', CHR ''2'', hex_digit (r mod 16)] @ t) =
    encode_rune r @ unquote t"
proof -
  have "hex4 (CHR ''2'') (CHR ''0'') (CHR ''2'') (hex_digit (r mod 16)) = r"
    using assms by (auto simp: hex4_def)
  with assms show ?thesis by (subst unquote_u) auto
qed

lemma unquote_json_escape: "valid_utf8 s \<Longrightarrow> unquote (json_escape s) = s"
proof (induction s rule: json_escape.induct)
  case 1
  then show ?case by (simp add: unquote.simps)
next
  case (2 c cs)
  show ?case
  proof (cases "byte_of c < 128")
    case True
    with 2(1) 2(4) show ?thesis by (simp add: unquote_escape_ascii)
  next
    case False
    with 2(4) obtain r w where rw: "rune_at (c # cs) = Some (r, w)" and v: "valid_utf8 (drop w (c # cs))"
      by (auto split: option.splits)
    have ih: "unquote (json_escape (drop w (c # cs))) = drop w (c # cs)"
      using 2(3) [OF False rw refl v] .
    from False have high: "128 \<le> byte_of c" by simp
    show ?thesis
    proof (cases "r = 0x2028 \<or> r = 0x2029")
      case True
      then show ?thesis
        using False rw ih line_separator [OF True, of "json_escape (drop w (c # cs))"] encode_rune_at [OF rw]
        by simp
    next
      case n: False
      then show ?thesis
        using False rw ih unquote_rune [OF rw high, of "json_escape (drop w (c # cs))"]
        by simp
    qed
  qed
qed

lemma parse_scalar_json_string:
  "valid_utf8 s \<Longrightarrow> parse_scalar (json_string s @ t) = Some (JStr s, t)"
  using string_body_json_escape [of s t] by (simp add: parse_scalar_def json_string_def unquote_json_escape)

lemma parse_value_json_string:
  "valid_utf8 s \<Longrightarrow> parse_value (Suc n) d (json_string s @ t) = Some (JStr s, t)"
  using parse_scalar_json_string [of s t] by (simp add: json_string_def)

definition read_string :: "string \<Rightarrow> string option" where
  "read_string s = (case parse_document s of Some (JStr t) \<Rightarrow> Some t | _ \<Rightarrow> None)"

interpretation json_text: codec json_string read_string valid_utf8
proof
  fix s :: string
  assume "valid_utf8 s"
  moreover have "skip_space (json_string s) = json_string s"
    by (simp add: skip_space_def json_string_def json_space_def)
  ultimately show "read_string (json_string s) = Some s"
    using parse_value_json_string [of s "2 * length (json_string s)" max_nesting "[]"]
    by (simp add: read_string_def parse_document_def parse_json_def skip_space_def)
qed

end
