(* ===== verification/RemoteControl.thy ===== *)
theory RemoteControl
  imports Go_Base64 Go_Json_Encode "HOL-Library.Word"
begin

section \<open>The remote-control wire contract\<close>

text \<open>
  \<open>protocol/remotecontrol/protocol.go\<close>: the limits, the operation allow-list, envelopes and chunks,
  their validation in the order the code checks, \<open>DecodeEnvelope\<close>, \<open>EncodeMessage\<close> and \<open>EncodeEnvelope\<close>. The string types
  \<open>EnvelopeType\<close>, \<open>Operation\<close> and \<open>ErrorCode\<close> are strings here too, because any string can arrive;
  \<open>uint32\<close> and \<open>uint64\<close> fields are words of that width.
\<close>

subsection \<open>Limits and names\<close>

definition current_protocol_version :: int where "current_protocol_version = 1"
definition max_identifier_bytes :: nat where "max_identifier_bytes = 128"
definition max_cursor_bytes :: nat where "max_cursor_bytes = 1024"
definition max_frame_bytes :: nat where "max_frame_bytes = 256 * 1024"
definition max_message_bytes :: nat where "max_message_bytes = 8 * 1024 * 1024"
definition max_chunk_count :: nat where "max_chunk_count = 64"

lemmas limit_defs = current_protocol_version_def max_identifier_bytes_def max_cursor_bytes_def
  max_frame_bytes_def max_message_bytes_def max_chunk_count_def

abbreviation "envelope_type_request \<equiv> ''request''"
abbreviation "envelope_type_response \<equiv> ''response''"
abbreviation "envelope_type_event \<equiv> ''event''"
abbreviation "envelope_type_ack \<equiv> ''ack''"
abbreviation "envelope_type_ping \<equiv> ''ping''"
abbreviation "envelope_type_pong \<equiv> ''pong''"
abbreviation "envelope_type_close \<equiv> ''close''"
abbreviation "envelope_type_chunk \<equiv> ''chunk''"

definition is_known_envelope_type :: "string \<Rightarrow> bool" where
  "is_known_envelope_type t \<longleftrightarrow> t \<in>
    {envelope_type_request, envelope_type_response, envelope_type_event, envelope_type_ack,
     envelope_type_ping, envelope_type_pong, envelope_type_close, envelope_type_chunk}"

definition known_operations :: "string list" where
  "known_operations =
    [''connection.handshake'', ''environment.status'', ''workspace.list'', ''agent.list'',
     ''model.list'', ''thread.list'', ''thread.create'', ''thread.snapshot'', ''thread.submit'',
     ''thread.interrupt'', ''thread.continue'', ''thread.steer'', ''thread.followUp'',
     ''thread.queue.remove'', ''thread.queue.promote'', ''message.reply'', ''message.markRead'',
     ''file.list'', ''file.stat'', ''file.search'', ''file.preview.open'', ''file.preview.chunk'']"

definition is_known_operation :: "string \<Rightarrow> bool" where
  "is_known_operation op \<longleftrightarrow> op \<in> set known_operations"

definition requires_idempotency :: "string \<Rightarrow> bool" where
  "requires_idempotency op \<longleftrightarrow> op \<in>
    {''thread.create'', ''thread.submit'', ''thread.interrupt'', ''thread.continue'',
     ''thread.steer'', ''thread.followUp'', ''thread.queue.remove'', ''thread.queue.promote'',
     ''message.reply'', ''message.markRead'', ''file.preview.open''}"

definition capabilities :: "string list" where
  "capabilities =
    [''environment.read'', ''workspace.list'', ''agent.list'', ''model.list'', ''thread.read'',
     ''thread.execute'', ''message.reply'', ''file.read'']"

definition error_codes :: "string list" where
  "error_codes =
    [''not_authenticated'', ''environment_offline'', ''client_revoked'', ''pairing_expired'',
     ''pairing_already_claimed'', ''protocol_incompatible'', ''capability_unavailable'',
     ''operation_denied'', ''invalid_envelope'', ''workspace_not_found'', ''path_outside_workspace'',
     ''sensitive_path_denied'', ''file_not_found'', ''file_too_large'', ''preview_expired'',
     ''thread_not_found'', ''thread_busy'', ''request_conflict'', ''resync_required'',
     ''rate_limited'', ''internal_error'']"

abbreviation "error_protocol_incompatible \<equiv> ''protocol_incompatible''"
abbreviation "error_operation_denied \<equiv> ''operation_denied''"
abbreviation "error_invalid_envelope \<equiv> ''invalid_envelope''"
abbreviation "error_internal \<equiv> ''internal_error''"

subsection \<open>Data\<close>

record chunk =
  segment_id :: "32 word"
  segment_count :: "32 word"
  message_size_bytes :: "64 word"
  message_chunk_base64 :: string

record remote_error =
  remote_code :: string
  remote_message :: string
  remote_retryable :: bool
  remote_details :: string

record envelope =
  protocol_version :: int
  envelope_type :: string
  client_id :: string
  stream_id :: string
  seq_id :: "64 word"
  request_id :: string
  cursor :: string
  operation :: string
  payload :: string
  envelope_error :: "remote_error option"
  envelope_chunk :: "chunk option"

text \<open>A Go \<open>error\<close> value: the package's own \<open>*ValidationError\<close>, or some other error.\<close>

datatype go_error = ValidationError (validation_code: string) (validation_message: string) | OtherError string

definition error_string :: "go_error \<Rightarrow> string" where
  "error_string e = (case e of ValidationError c m \<Rightarrow> m | OtherError m \<Rightarrow> m)"

definition error_code_of :: "go_error \<Rightarrow> string" where
  "error_code_of e = (case e of ValidationError c m \<Rightarrow> c | OtherError m \<Rightarrow> error_internal)"

definition invalid_envelope :: "string \<Rightarrow> go_error" where
  "invalid_envelope m = ValidationError error_invalid_envelope m"

record transport_limits =
  limit_frame_bytes :: nat
  limit_message_bytes :: nat
  limit_chunk_count :: nat
  limit_in_flight :: nat
  limit_heartbeat_seconds :: nat
  limit_pong_seconds :: nat
  limit_replay_seconds :: nat

record handshake_request =
  client_name :: string
  client_version :: string
  requested_protocol_version :: int
  last_cursor :: string

record handshake_response =
  handshake_protocol_version :: int
  environment_id :: string
  instance_id :: string
  server_version :: string
  handshake_capabilities :: "string list"
  handshake_limits :: transport_limits

record resync_required_details =
  resync_stream_id :: string
  snapshot_operation :: string
  latest_revision :: string

definition default_transport_limits :: transport_limits where
  "default_transport_limits =
    \<lparr>limit_frame_bytes = max_frame_bytes, limit_message_bytes = max_message_bytes,
     limit_chunk_count = max_chunk_count, limit_in_flight = 32, limit_heartbeat_seconds = 25,
     limit_pong_seconds = 60, limit_replay_seconds = 5 * 60\<rparr>"

subsection \<open>Validation\<close>

definition validate_identifier :: "string \<Rightarrow> string \<Rightarrow> go_error option" where
  "validate_identifier name value =
    (if length value > max_identifier_bytes
     then Some (invalid_envelope (''remote-control '' @ name @ '' exceeds the size limit''))
     else None)"

definition validate_chunk :: "chunk \<Rightarrow> go_error option" where
  "validate_chunk c =
    (if segment_count c = 0 then
       Some (invalid_envelope ''chunk segmentCount must be positive'')
     else if unat (segment_count c) > max_chunk_count then
       Some (invalid_envelope ''chunk segmentCount exceeds the limit'')
     else if segment_id c \<ge> segment_count c then
       Some (invalid_envelope ''chunk segmentID must be less than segmentCount'')
     else if message_size_bytes c = 0 \<or> unat (message_size_bytes c) > max_message_bytes
          \<or> message_chunk_base64 c = [] then
       Some (invalid_envelope ''chunk requires messageSizeBytes and messageChunkBase64'')
     else if length (message_chunk_base64 c) > max_frame_bytes then
       Some (invalid_envelope ''encoded chunk exceeds the frame size limit'')
     else (case b64_decode (message_chunk_base64 c) of
             None \<Rightarrow> Some (invalid_envelope ''chunk payload is not valid base64'')
           | Some decoded \<Rightarrow>
               if decoded = [] then Some (invalid_envelope ''chunk payload is not valid base64'')
               else None))"

text \<open>The checks of the \<open>switch\<close> on the envelope's type.\<close>

definition validate_by_type :: "envelope \<Rightarrow> go_error option" where
  "validate_by_type e =
    (if envelope_type e = envelope_type_request then
       (if stream_id e = [] \<or> seq_id e = 0 \<or> request_id e = [] \<or> operation e = [] then
          Some (invalid_envelope ''request envelope requires streamID, seqID, requestID, and operation'')
        else if \<not> is_known_operation (operation e) then
          Some (ValidationError error_operation_denied ''remote operation is not allowed'')
        else None)
     else if envelope_type e = envelope_type_response then
       (if stream_id e = [] \<or> seq_id e = 0 \<or> request_id e = [] then
          Some (invalid_envelope ''response envelope requires streamID, seqID, and requestID'')
        else if payload e \<noteq> [] \<and> envelope_error e \<noteq> None then
          Some (invalid_envelope ''response envelope cannot contain both payload and error'')
        else None)
     else if envelope_type e = envelope_type_event then
       (if stream_id e = [] \<or> seq_id e = 0 \<or> operation e = [] then
          Some (invalid_envelope ''event envelope requires streamID, seqID, and operation'')
        else if \<not> is_known_operation (operation e) then
          Some (ValidationError error_operation_denied ''remote operation is not allowed'')
        else None)
     else if envelope_type e = envelope_type_ack then
       (if stream_id e = [] \<or> seq_id e = 0 then
          Some (invalid_envelope ''ack envelope requires streamID and seqID'')
        else None)
     else if envelope_type e = envelope_type_close then
       (if stream_id e = [] then Some (invalid_envelope ''close envelope requires streamID'') else None)
     else if envelope_type e = envelope_type_chunk then
       (case envelope_chunk e of
          None \<Rightarrow> Some (invalid_envelope ''chunk envelope requires streamID, seqID, and chunk'')
        | Some c \<Rightarrow>
            if stream_id e = [] \<or> seq_id e = 0 then
              Some (invalid_envelope ''chunk envelope requires streamID, seqID, and chunk'')
            else validate_chunk c)
     else None)"

definition validate_identifiers :: "envelope \<Rightarrow> go_error option" where
  "validate_identifiers e =
    first_error
      [validate_identifier ''clientID'' (client_id e),
       (if stream_id e \<noteq> [] then validate_identifier ''streamID'' (stream_id e) else None),
       (if request_id e \<noteq> [] then validate_identifier ''requestID'' (request_id e) else None)]"

text \<open>The checks before the \<open>switch\<close>, which do not look at the operation.\<close>

definition validate_common :: "envelope \<Rightarrow> go_error option" where
  "validate_common e =
    (if protocol_version e \<noteq> current_protocol_version then
       Some (ValidationError error_protocol_incompatible
         (''remote-control protocol version '' @ show_int (protocol_version e) @ '' is unsupported''))
     else if \<not> is_known_envelope_type (envelope_type e) then
       Some (invalid_envelope ''remote-control envelope type is unsupported'')
     else if client_id e = [] then
       Some (invalid_envelope ''remote-control clientID is required'')
     else
       (case validate_identifiers e of
          Some err \<Rightarrow> Some err
        | None \<Rightarrow>
            if length (cursor e) > max_cursor_bytes then
              Some (invalid_envelope ''remote-control cursor exceeds the size limit'')
            else if length (payload e) > max_message_bytes then
              Some (invalid_envelope ''remote-control payload exceeds the message size limit'')
            else if payload e \<noteq> [] \<and> \<not> json_valid (payload e) then
              Some (invalid_envelope ''remote-control payload must be valid JSON'')
            else None))"

definition validate_envelope :: "envelope \<Rightarrow> go_error option" where
  "validate_envelope e =
    (case validate_common e of Some err \<Rightarrow> Some err | None \<Rightarrow> validate_by_type e)"

subsection \<open>Decoding a frame\<close>

definition chunk_type :: gty where
  "chunk_type = TStruct
    [(''segmentID'', TUint 32), (''segmentCount'', TUint 32), (''messageSizeBytes'', TUint 64),
     (''messageChunkBase64'', TString)]"

definition remote_error_type :: gty where
  "remote_error_type = TStruct
    [(''code'', TString), (''message'', TString), (''retryable'', TBool), (''details'', TRaw)]"

definition envelope_gty :: gty where
  "envelope_gty = TStruct
    [(''protocolVersion'', TInt), (''type'', TString), (''clientID'', TString),
     (''streamID'', TString), (''seqID'', TUint 64), (''requestID'', TString),
     (''cursor'', TString), (''operation'', TString), (''payload'', TRaw),
     (''error'', TPtr remote_error_type), (''chunk'', TPtr chunk_type)]"

definition chunk_of :: "gval \<Rightarrow> chunk" where
  "chunk_of v =
    \<lparr>segment_id = of_int (as_int (get_field v ''segmentID'')),
     segment_count = of_int (as_int (get_field v ''segmentCount'')),
     message_size_bytes = of_int (as_int (get_field v ''messageSizeBytes'')),
     message_chunk_base64 = as_string (get_field v ''messageChunkBase64'')\<rparr>"

definition remote_error_of :: "gval \<Rightarrow> remote_error" where
  "remote_error_of v =
    \<lparr>remote_code = as_string (get_field v ''code''), remote_message = as_string (get_field v ''message''),
     remote_retryable = as_bool (get_field v ''retryable''), remote_details = as_raw (get_field v ''details'')\<rparr>"

definition envelope_of :: "gval \<Rightarrow> envelope" where
  "envelope_of v =
    \<lparr>protocol_version = as_int (get_field v ''protocolVersion''),
     envelope_type = as_string (get_field v ''type''),
     client_id = as_string (get_field v ''clientID''),
     stream_id = as_string (get_field v ''streamID''),
     seq_id = of_int (as_int (get_field v ''seqID'')),
     request_id = as_string (get_field v ''requestID''),
     cursor = as_string (get_field v ''cursor''),
     operation = as_string (get_field v ''operation''),
     payload = as_raw (get_field v ''payload''),
     envelope_error = map_option remote_error_of (as_ptr (get_field v ''error'')),
     envelope_chunk = map_option chunk_of (as_ptr (get_field v ''chunk''))\<rparr>"

definition decode_envelope :: "string \<Rightarrow> (go_error, envelope) result" where
  "decode_envelope data =
    (if length data > max_frame_bytes then
       Inl (invalid_envelope ''remote-control frame exceeds the size limit'')
     else (case unmarshal envelope_gty data of
             None \<Rightarrow> Inl (invalid_envelope ''remote-control frame is invalid JSON'')
           | Some v \<Rightarrow>
               (case validate_envelope (envelope_of v) of
                  Some err \<Rightarrow> Inl err
                | None \<Rightarrow> Inr (envelope_of v))))"

subsection \<open>Encoding a message and a frame\<close>

text \<open>
  \<open>json.Marshal\<close> of an envelope, its fields in the order of the struct. It fails when a raw message
  is not JSON; the payload has been validated by then, the error's details have not.
\<close>

definition marshal_chunk :: "chunk \<Rightarrow> string" where
  "marshal_chunk c = json_object
    (field ''segmentID'' (show_nat (unat (segment_id c))) @
     field ''segmentCount'' (show_nat (unat (segment_count c))) @
     field ''messageSizeBytes'' (show_nat (unat (message_size_bytes c))) @
     field ''messageChunkBase64'' (json_string (message_chunk_base64 c)))"

definition marshal_remote_error :: "remote_error \<Rightarrow> string option" where
  "marshal_remote_error r =
    map_option (\<lambda>details. json_object
      (field ''code'' (json_string (remote_code r)) @
       field ''message'' (json_string (remote_message r)) @
       omit_empty (\<not> remote_retryable r) ''retryable'' (json_bool (remote_retryable r)) @
       details))
    (raw_field ''details'' (remote_details r))"

definition error_field :: "remote_error option \<Rightarrow> (string \<times> string) list option" where
  "error_field err =
    (case err of None \<Rightarrow> Some [] | Some r \<Rightarrow> map_option (field ''error'') (marshal_remote_error r))"

definition marshal_envelope :: "envelope \<Rightarrow> string option" where
  "marshal_envelope e =
    (case (raw_field ''payload'' (payload e), error_field (envelope_error e)) of
       (Some p, Some err) \<Rightarrow> Some (json_object
         (field ''protocolVersion'' (show_int (protocol_version e)) @
          field ''type'' (json_string (envelope_type e)) @
          string_field ''clientID'' (client_id e) @
          string_field ''streamID'' (stream_id e) @
          omit_empty (seq_id e = 0) ''seqID'' (show_nat (unat (seq_id e))) @
          string_field ''requestID'' (request_id e) @
          string_field ''cursor'' (cursor e) @
          string_field ''operation'' (operation e) @
          p @ err @
          (case envelope_chunk e of None \<Rightarrow> [] | Some c \<Rightarrow> field ''chunk'' (marshal_chunk c))))
     | _ \<Rightarrow> None)"

definition encode_message :: "envelope \<Rightarrow> (go_error, string) result" where
  "encode_message e =
    (case validate_envelope e of
       Some err \<Rightarrow> Inl err
     | None \<Rightarrow>
         (case marshal_envelope e of
            None \<Rightarrow> Inl (invalid_envelope ''remote-control envelope cannot be encoded'')
          | Some data \<Rightarrow>
              if length data > max_message_bytes then
                Inl (invalid_envelope ''remote-control message exceeds the size limit'')
              else Inr data))"

definition encode_envelope :: "envelope \<Rightarrow> (go_error, string) result" where
  "encode_envelope e =
    (case encode_message e of
       Inl err \<Rightarrow> Inl err
     | Inr data \<Rightarrow>
         if length data > max_frame_bytes then
           Inl (invalid_envelope ''remote-control frame exceeds the size limit'')
         else Inr data)"

end
