(* ===== verification/RemoteControl_Props.thy ===== *)
theory RemoteControl_Props
  imports RemoteControl
begin

section \<open>What the remote-control validation promises\<close>

text \<open>
  The contract of a valid envelope, written as a table of requirements instead of a switch; the
  equivalence of \<open>Envelope.Validate\<close> with it; which error code each rejection carries; what gets
  out of \<open>DecodeEnvelope\<close>; and that the chunk limits let every message through.
\<close>

subsection \<open>The contract of a valid envelope\<close>

definition sequenced_types :: "string list" where
  "sequenced_types = [envelope_type_request, envelope_type_response, envelope_type_event,
     envelope_type_ack, envelope_type_chunk]"

definition chunk_well_formed :: "chunk \<Rightarrow> bool" where
  "chunk_well_formed c \<longleftrightarrow>
     segment_id c < segment_count c \<and> unat (segment_count c) \<le> max_chunk_count \<and>
     0 < unat (message_size_bytes c) \<and> unat (message_size_bytes c) \<le> max_message_bytes \<and>
     length (message_chunk_base64 c) \<le> max_frame_bytes \<and>
     (\<exists>d. b64_decode (message_chunk_base64 c) = Some d \<and> d \<noteq> [])"

definition envelope_well_formed :: "envelope \<Rightarrow> bool" where
  "envelope_well_formed e \<longleftrightarrow>
     protocol_version e = 1 \<and> is_known_envelope_type (envelope_type e) \<and>
     client_id e \<noteq> [] \<and> length (client_id e) \<le> 128 \<and> length (stream_id e) \<le> 128 \<and>
     length (request_id e) \<le> 128 \<and> length (cursor e) \<le> 1024 \<and>
     length (payload e) \<le> max_message_bytes \<and> (payload e = [] \<or> json_valid (payload e)) \<and>
     (stream_id e = [] \<longrightarrow> envelope_type e \<in> {envelope_type_ping, envelope_type_pong}) \<and>
     (seq_id e = 0 \<longrightarrow> envelope_type e \<notin> set sequenced_types) \<and>
     (request_id e = [] \<longrightarrow> envelope_type e \<notin> {envelope_type_request, envelope_type_response}) \<and>
     (envelope_type e \<in> {envelope_type_request, envelope_type_event} \<longrightarrow>
        is_known_operation (operation e)) \<and>
     (envelope_type e = envelope_type_response \<longrightarrow> payload e = [] \<or> envelope_error e = None) \<and>
     (envelope_type e = envelope_type_chunk \<longrightarrow>
        (\<exists>c. envelope_chunk e = Some c \<and> chunk_well_formed c))"

lemma known_operation_not_Nil [simp]: "\<not> is_known_operation []"
  by (simp add: is_known_operation_def known_operations_def)

lemma b64_decode_Nil [simp]: "b64_decode [] = Some []"
  by (simp add: b64_decode_def)

lemma validate_chunk_iff: "validate_chunk c = None \<longleftrightarrow> chunk_well_formed c"
  by (auto simp: validate_chunk_def chunk_well_formed_def not_le unat_gt_0
      split: option.splits if_splits)

lemma validate_identifier_iff [simp]:
  "validate_identifier n v = None \<longleftrightarrow> length v \<le> max_identifier_bytes"
  by (simp add: validate_identifier_def)

lemma known_type_simps [simp]:
  "is_known_envelope_type envelope_type_request" "is_known_envelope_type envelope_type_response"
  "is_known_envelope_type envelope_type_event" "is_known_envelope_type envelope_type_ack"
  "is_known_envelope_type envelope_type_ping" "is_known_envelope_type envelope_type_pong"
  "is_known_envelope_type envelope_type_close" "is_known_envelope_type envelope_type_chunk"
  by (simp_all add: is_known_envelope_type_def)

lemma known_type_cases:
  "is_known_envelope_type t \<Longrightarrow>
    t = envelope_type_request \<or> t = envelope_type_response \<or> t = envelope_type_event
    \<or> t = envelope_type_ack \<or> t = envelope_type_ping \<or> t = envelope_type_pong
    \<or> t = envelope_type_close \<or> t = envelope_type_chunk"
  by (simp only: is_known_envelope_type_def insert_iff empty_iff simp_thms)

lemma validate_identifiers_iff:
  "validate_identifiers e = None \<longleftrightarrow>
     length (client_id e) \<le> 128 \<and> length (stream_id e) \<le> 128 \<and> length (request_id e) \<le> 128"
  by (auto simp: validate_identifiers_def first_error_None max_identifier_bytes_def)

lemma validate_common_iff:
  "validate_common e = None \<longleftrightarrow>
     protocol_version e = 1 \<and> is_known_envelope_type (envelope_type e) \<and> client_id e \<noteq> [] \<and>
     length (client_id e) \<le> 128 \<and> length (stream_id e) \<le> 128 \<and> length (request_id e) \<le> 128 \<and>
     length (cursor e) \<le> 1024 \<and> length (payload e) \<le> max_message_bytes \<and>
     (payload e = [] \<or> json_valid (payload e))"
  using validate_identifiers_iff [of e]
  by (auto simp: validate_common_def current_protocol_version_def max_cursor_bytes_def
      split: option.splits)

lemma validate_envelope_None:
  "validate_envelope e = None \<longleftrightarrow> validate_common e = None \<and> validate_by_type e = None"
  by (simp add: validate_envelope_def split: option.split)

lemma validate_envelope_iff: "validate_envelope e = None \<longleftrightarrow> envelope_well_formed e"
proof (cases "is_known_envelope_type (envelope_type e)")
  case False
  then show ?thesis
    by (simp add: validate_envelope_None validate_common_iff envelope_well_formed_def)
next
  case True
  show ?thesis
    using known_type_cases [OF True]
    by (elim disjE)
      (auto simp: validate_envelope_None validate_common_iff validate_by_type_def
        envelope_well_formed_def validate_chunk_iff sequenced_types_def split: option.splits)
qed

subsection \<open>Error codes\<close>

lemma error_code_of_simps [simp]:
  "error_code_of (ValidationError c m) = c" "error_code_of (invalid_envelope m) = error_invalid_envelope"
  by (simp_all add: error_code_of_def invalid_envelope_def)

lemma validate_identifiers_code:
  "validate_identifiers e = Some err \<Longrightarrow> error_code_of err = error_invalid_envelope"
  by (auto simp: validate_identifiers_def validate_identifier_def dest!: first_error_mem split: if_splits)

lemma validate_chunk_code:
  "validate_chunk c = Some err \<Longrightarrow> error_code_of err = error_invalid_envelope"
  by (auto simp: validate_chunk_def split: if_splits option.splits)

definition denied_only :: "envelope \<Rightarrow> bool" where
  "denied_only e \<longleftrightarrow> \<not> is_known_operation (operation e) \<and> operation e \<noteq> [] \<and>
     envelope_type e \<in> {envelope_type_request, envelope_type_event} \<and>
     envelope_well_formed (e\<lparr>operation := ''connection.handshake''\<rparr>)"

lemma handshake_known [simp]: "is_known_operation ''connection.handshake''"
  by (simp add: is_known_operation_def known_operations_def)

lemma validate_by_type_code:
  assumes "validate_by_type e = Some err" and "is_known_envelope_type (envelope_type e)"
  shows "error_code_of err = (if operation e \<noteq> [] \<and> \<not> is_known_operation (operation e) \<and>
      envelope_type e \<in> {envelope_type_request, envelope_type_event} \<and>
      validate_by_type (e\<lparr>operation := ''connection.handshake''\<rparr>) = None
    then error_operation_denied else error_invalid_envelope)"
  using assms known_type_cases [OF assms(2)]
  by (elim disjE) (auto simp: validate_by_type_def validate_chunk_code split: if_splits option.splits)

lemma validate_common_code:
  "validate_common e = Some err \<Longrightarrow> error_code_of err =
    (if protocol_version e \<noteq> 1 then error_protocol_incompatible else error_invalid_envelope)"
  by (auto simp: validate_common_def current_protocol_version_def validate_identifiers_code
      split: if_splits option.splits)

lemma validate_identifiers_operation [simp]:
  "validate_identifiers (e\<lparr>operation := x\<rparr>) = validate_identifiers e"
  by (simp add: validate_identifiers_def)

lemma validate_common_operation [simp]: "validate_common (e\<lparr>operation := x\<rparr>) = validate_common e"
  unfolding validate_common_def by (simp split del: if_split cong: option.case_cong if_cong)

lemma validate_envelope_Some:
  assumes "validate_envelope e = Some err"
  shows "error_code_of err =
    (if protocol_version e \<noteq> 1 then error_protocol_incompatible
     else if denied_only e then error_operation_denied
     else error_invalid_envelope)"
proof (cases "validate_common e")
  case (Some err')
  then have "\<not> denied_only e"
    by (simp add: denied_only_def validate_envelope_None flip: validate_envelope_iff)
  with Some assms validate_common_code [OF Some] show ?thesis
    by (auto simp: validate_envelope_def split: if_splits)
next
  case None
  then have "validate_by_type e = Some err" using assms by (simp add: validate_envelope_def)
  moreover from None have "is_known_envelope_type (envelope_type e)" and "protocol_version e = 1"
    unfolding validate_common_iff by blast+
  ultimately show ?thesis
    using None validate_by_type_code [of e err]
    by (auto simp: denied_only_def validate_envelope_None simp flip: validate_envelope_iff)
qed

definition remote_codes :: "string list" where
  "remote_codes = [error_protocol_incompatible, error_operation_denied, error_invalid_envelope]"

interpretation chunk_check: checked validate_chunk chunk_well_formed
    "\<lambda>err. error_code_of err = error_invalid_envelope"
  by unfold_locales (simp_all add: validate_chunk_iff validate_chunk_code)

interpretation envelope_check: checked validate_envelope envelope_well_formed
    "\<lambda>err. error_code_of err \<in> set remote_codes"
  by unfold_locales
    (auto simp: validate_envelope_iff remote_codes_def dest!: validate_envelope_Some split: if_splits)

lemma decode_envelope_eq:
  "length data \<le> max_frame_bytes \<Longrightarrow> unmarshal envelope_gty data = Some v \<Longrightarrow>
    decode_envelope data = envelope_check.guard (envelope_of v)"
  by (simp add: decode_envelope_def envelope_check.guard_def)

lemma decode_envelope_InrD:
  "decode_envelope data = Inr e \<Longrightarrow> envelope_well_formed e \<and> length data \<le> max_frame_bytes"
  by (auto simp: decode_envelope_def validate_envelope_iff [symmetric] split: if_splits option.splits)

lemma decode_envelope_InlD:
  assumes "decode_envelope data = Inl err"
  shows "error_code_of err \<in> set remote_codes"
proof (cases "length data \<le> max_frame_bytes \<and> unmarshal envelope_gty data \<noteq> None")
  case True
  then obtain v where "unmarshal envelope_gty data = Some v" and "length data \<le> max_frame_bytes" by auto
  then show ?thesis
    using assms envelope_check.guard_Inl [of "envelope_of v" err] by (simp add: decode_envelope_eq)
next
  case False
  with assms show ?thesis
    by (auto simp: decode_envelope_def remote_codes_def split: if_splits option.splits)
qed

subsection \<open>Chunking\<close>

text \<open>
  A sender's split of a message into at most \<open>MaxChunkCount\<close> equal parts, and the receiver's join.
  The package leaves both to its clients; they are here to state that its limits fit together.
\<close>

definition segment_bytes :: nat where
  "segment_bytes = max_message_bytes div max_chunk_count"

lemma segment_bytes_pos: "0 < segment_bytes"
  by (simp add: segment_bytes_def limit_defs)

function segments :: "string \<Rightarrow> string list" where
  "segments s = (if s = [] then [] else take segment_bytes s # segments (drop segment_bytes s))"
  by pat_completeness auto
termination
  by (relation "measure length") (use segment_bytes_pos in auto)

declare segments.simps [simp del]

lemma segments_Nil [simp]: "segments [] = []"
  by (simp add: segments.simps)

definition split_message :: "string \<Rightarrow> chunk list" where
  "split_message msg =
    map (\<lambda>(i, part).
        \<lparr>segment_id = of_nat i, segment_count = of_nat (length (segments msg)),
         message_size_bytes = of_nat (length msg), message_chunk_base64 = b64_encode part\<rparr>)
      (enumerate 0 (segments msg))"

definition join_chunks :: "chunk list \<Rightarrow> string option" where
  "join_chunks cs = map_option concat (those (map (\<lambda>c. b64_decode (message_chunk_base64 c)) cs))"

lemma concat_segments: "concat (segments s) = s"
proof (induction s rule: segments.induct)
  case (1 s)
  then show ?case by (cases "s = []") (simp_all add: segments.simps [of s])
qed

lemma segments_part: "p \<in> set (segments s) \<Longrightarrow> p \<noteq> [] \<and> length p \<le> segment_bytes"
proof (induction s rule: segments.induct)
  case (1 s)
  then show ?case using segment_bytes_pos
    by (cases "s = []") (auto simp: segments.simps [of s])
qed

lemma length_segments: "length s \<le> n * segment_bytes \<Longrightarrow> length (segments s) \<le> n"
proof (induction n arbitrary: s)
  case 0
  then show ?case by (simp add: segments.simps)
next
  case (Suc n)
  show ?case
  proof (cases "s = []")
    case False
    from Suc.prems have "length (drop segment_bytes s) \<le> n * segment_bytes" by simp
    then have "length (segments (drop segment_bytes s)) \<le> n" by (rule Suc.IH)
    with False show ?thesis by (simp add: segments.simps [of s])
  qed (simp add: segments.simps)
qed

lemma join_split_message: "join_chunks (split_message msg) = Some msg"
proof -
  have "those (map (\<lambda>c. b64_decode (message_chunk_base64 c)) (split_message msg))
      = those (map (\<lambda>x. b64_decode (b64_encode x)) (map snd (enumerate 0 (segments msg))))"
    unfolding split_message_def map_map by (rule arg_cong [where f = those]) (auto simp: comp_def)
  then have "those (map (\<lambda>c. b64_decode (message_chunk_base64 c)) (split_message msg))
      = Some (map snd (enumerate 0 (segments msg)))"
    using b64.dec_all [of "map snd (enumerate 0 (segments msg))"] by (simp add: list_all_iff)
  then show ?thesis by (simp add: join_chunks_def concat_segments)
qed

lemma split_message_valid:
  assumes "msg \<noteq> []" and "length msg \<le> max_message_bytes"
  shows "list_all (\<lambda>c. validate_chunk c = None) (split_message msg) \<and>
    length (split_message msg) \<le> max_chunk_count"
proof
  have n: "length (segments msg) \<le> max_chunk_count"
    using assms(2) by (intro length_segments) (simp add: segment_bytes_def limit_defs)
  then show "length (split_message msg) \<le> max_chunk_count" by (simp add: split_message_def)
  have u: "unat (of_nat (length (segments msg)) :: 32 word) = length (segments msg)"
    using n by (simp add: unat_of_nat limit_defs)
  have m: "unat (of_nat (length msg) :: 64 word) = length msg"
    using assms(2) by (simp add: unat_of_nat limit_defs)
  have "chunk_well_formed c" if "c \<in> set (split_message msg)" for c
  proof -
    from that obtain i part where c: "c = \<lparr>segment_id = of_nat i,
        segment_count = of_nat (length (segments msg)), message_size_bytes = of_nat (length msg),
        message_chunk_base64 = b64_encode part\<rparr>"
      and i: "i < length (segments msg)" and part: "part \<in> set (segments msg)"
      by (auto simp: split_message_def in_set_enumerate_eq)
    have "unat (of_nat i :: 32 word) = i" using i n by (simp add: unat_of_nat limit_defs)
    with i u have "(of_nat i :: 32 word) < of_nat (length (segments msg))" by (simp add: word_less_nat_alt)
    moreover have "length (b64_encode part) \<le> max_frame_bytes"
    proof -
      have "length part \<le> 131072"
        using segments_part [OF part] by (simp add: segment_bytes_def limit_defs)
      then have "(length part + 2) div 3 * 4 \<le> 262144" by linarith
      then show ?thesis by (simp add: length_b64_encode max_frame_bytes_def)
    qed
    ultimately show ?thesis
      using segments_part [OF part] assms n
      by (auto simp: c chunk_well_formed_def u m b64_roundtrip)
  qed
  then show "list_all (\<lambda>c. validate_chunk c = None) (split_message msg)"
    by (simp add: list_all_iff validate_chunk_iff)
qed

subsection \<open>Properties\<close>

text \<open>C1: \<open>Envelope.Validate\<close> accepts exactly the envelopes that meet the wire contract, and the
  code of every rejection is determined: another protocol version is \<open>protocol_incompatible\<close>, an
  envelope whose only fault is an operation outside the allow-list is \<open>operation_denied\<close>, and
  everything else is \<open>invalid_envelope\<close>.\<close>

theorem validate_envelope_outcome:
  "map_option error_code_of (validate_envelope e) =
    (if envelope_well_formed e then None
     else if protocol_version e \<noteq> 1 then Some error_protocol_incompatible
     else if denied_only e then Some error_operation_denied
     else Some error_invalid_envelope)"
proof (cases "validate_envelope e")
  case None
  then show ?thesis by (simp add: validate_envelope_iff)
next
  case (Some err)
  then have "\<not> envelope_well_formed e" by (simp flip: validate_envelope_iff)
  with Some validate_envelope_Some [OF Some] show ?thesis by simp
qed

text \<open>\<open>DecodeEnvelope\<close> returns an envelope exactly when the frame is within the size limit, is
  JSON that fits the envelope's fields, and the envelope read from it meets the wire contract; the
  result is then that envelope.\<close>

theorem decode_envelope_accepts:
  "decode_envelope data = Inr e \<longleftrightarrow>
     length data \<le> max_frame_bytes \<and> envelope_well_formed e \<and>
     map_option envelope_of (unmarshal envelope_gty data) = Some e"
  by (auto simp: decode_envelope_def validate_envelope_iff [symmetric] split: option.splits)

text \<open>Every error of \<open>DecodeEnvelope\<close> carries one of the three protocol codes, never
  \<open>internal_error\<close>; a frame over the limit or one that is not JSON is \<open>invalid_envelope\<close>.\<close>

theorem decode_envelope_error_code:
  assumes "decode_envelope data = Inl err"
  shows "error_code_of err \<in> set remote_codes \<and> error_code_of err \<noteq> error_internal \<and>
    (if max_frame_bytes < length data \<or> unmarshal envelope_gty data = None
     then error_code_of err = error_invalid_envelope else True)"
proof -
  have "error_code_of err \<in> set remote_codes" using assms by (rule decode_envelope_InlD)
  moreover from this have "error_code_of err \<noteq> error_internal" by (auto simp: remote_codes_def)
  moreover have "error_code_of err = error_invalid_envelope"
    if "max_frame_bytes < length data \<or> unmarshal envelope_gty data = None"
    using that assms by (auto simp: decode_envelope_def split: if_splits)
  ultimately show ?thesis by simp
qed

lemma decode_envelope_error_code_witness:
  "error_code_of (case decode_envelope ''[]'' of Inl err \<Rightarrow> err | Inr _ \<Rightarrow> OtherError []) = error_invalid_envelope"
proof -
  have "unmarshal envelope_gty ''[]'' = None" by code_simp
  moreover from this have "decode_envelope ''[]'' =
      Inl (invalid_envelope ''remote-control frame is invalid JSON'')"
    by (simp add: decode_envelope_def max_frame_bytes_def)
  ultimately show ?thesis
    using decode_envelope_error_code [of "''[]''" "invalid_envelope ''remote-control frame is invalid JSON''"]
    by simp
qed

definition read_only_operations :: "string list" where
  "read_only_operations =
    [''connection.handshake'', ''environment.status'', ''workspace.list'', ''agent.list'',
     ''model.list'', ''thread.list'', ''thread.snapshot'', ''file.list'', ''file.stat'',
     ''file.search'', ''file.preview.chunk'']"

text \<open>\<open>RequiresIdempotency\<close> splits the allow-list: the operations that do not need it are exactly
  the ones that only read, and no operation outside the allow-list asks for it.\<close>

theorem requires_idempotency_partition:
  "requires_idempotency op \<longleftrightarrow> is_known_operation op \<and> op \<notin> set read_only_operations"
proof -
  have "set (filter (\<lambda>x. x \<notin> set read_only_operations) known_operations) =
      {''thread.create'', ''thread.submit'', ''thread.interrupt'', ''thread.continue'',
       ''thread.steer'', ''thread.followUp'', ''thread.queue.remove'', ''thread.queue.promote'',
       ''message.reply'', ''message.markRead'', ''file.preview.open''}"
    by code_simp
  from this [symmetric] show ?thesis
    unfolding requires_idempotency_def is_known_operation_def by (simp only: set_filter mem_Collect_eq)
qed

text \<open>The transport limits fit together: every non-empty message within the message limit, cut
  into \<open>MaxChunkCount\<close> parts, gives at most that many chunks, each accepted by \<open>Chunk.Validate\<close>, and
  decoding the parts in order gives the message back.\<close>

theorem split_message_accepted:
  assumes "msg \<noteq> []" and "length msg \<le> limit_message_bytes default_transport_limits"
  shows "list_all (\<lambda>c. validate_chunk c = None) (split_message msg) \<and>
    length (split_message msg) \<le> limit_chunk_count default_transport_limits \<and>
    join_chunks (split_message msg) = Some msg"
  using split_message_valid [of msg] assms
  by (simp add: join_split_message default_transport_limits_def)

lemma split_message_accepted_witness:
  "join_chunks (split_message ''hello'') = Some ''hello'' \<and>
   list_all (\<lambda>c. validate_chunk c = None) (split_message ''hello'')"
  using split_message_accepted [of "''hello''"]
  by (simp add: default_transport_limits_def max_message_bytes_def)

text \<open>A chunk that \<open>Chunk.Validate\<close> accepts decodes to at least one byte and to at most three
  quarters of the frame limit, so all the parts of a message fit in a bounded buffer.\<close>

theorem validate_chunk_bound:
  assumes "validate_chunk c = None"
  shows "\<exists>d. b64_decode (message_chunk_base64 c) = Some d \<and> 0 < length d \<and>
    unat (segment_count c) * length d \<le> limit_chunk_count default_transport_limits * (3 * max_frame_bytes div 4)"
proof -
  from assms have c: "chunk_well_formed c" by (simp add: validate_chunk_iff)
  then obtain d where d: "b64_decode (message_chunk_base64 c) = Some d" "d \<noteq> []"
    by (auto simp: chunk_well_formed_def)
  have "length (message_chunk_base64 c) \<le> max_frame_bytes" "unat (segment_count c) \<le> max_chunk_count"
    using c by (auto simp: chunk_well_formed_def)
  moreover from this b64_decode_length [OF d(1)] have "length d \<le> 3 * max_frame_bytes div 4" by linarith
  ultimately have "unat (segment_count c) * length d \<le> max_chunk_count * (3 * max_frame_bytes div 4)"
    by (intro mult_le_mono)
  with d show ?thesis by (auto simp: default_transport_limits_def)
qed

lemma validate_chunk_bound_witness:
  "validate_chunk \<lparr>segment_id = 0, segment_count = 1, message_size_bytes = 3,
     message_chunk_base64 = ''YWJj''\<rparr> = None \<and>
   (\<exists>d. b64_decode ''YWJj'' = Some d \<and> 0 < length d \<and> length d \<le> 64 * 196608)"
proof -
  have d: "b64_decode ''YWJj'' = Some ''abc''" by code_simp
  have ok: "validate_chunk \<lparr>segment_id = 0, segment_count = 1, message_size_bytes = 3,
      message_chunk_base64 = ''YWJj''\<rparr> = None"
    by (simp add: validate_chunk_def limit_defs d)
  from validate_chunk_bound [OF this] ok show ?thesis
    by (simp add: default_transport_limits_def max_chunk_count_def max_frame_bytes_def)
qed

end
