(* ===== verification/Go_Json_Roundtrip.thy ===== *)
theory Go_Json_Roundtrip
  imports Go_Json_Encode
begin

section \<open>What json.Marshal writes, json.Unmarshal reads\<close>

text \<open>
  A text that is a JSON value is read the same way wherever a delimiter follows it (\<open>parse_append\<close>), so
  an object written field by field is read back field by field (\<open>reads_object\<close>), and decoding it into
  the struct it was written from restores every field, those left out as empty included
  (\<open>decode_struct\<close>).
\<close>

subsection \<open>A value in front of a delimiter\<close>

definition delimited :: "string \<Rightarrow> bool" where
  "delimited t \<longleftrightarrow> t = [] \<or> hd t \<in> {CHR '','', CHR ''}'', CHR '']''} \<or> json_space (hd t)"

lemma delimited_not_digit: "delimited t \<Longrightarrow> t = [] \<or> \<not> digit (hd t)"
  by (auto simp: delimited_def json_space_def digit_def)

lemma takeWhile_digit_append: "delimited t \<Longrightarrow> takeWhile digit (s @ t) = takeWhile digit s"
  by (cases t) (auto simp: takeWhile_append dest: delimited_not_digit
      intro: takeWhile_eq_all_conv [THEN iffD2, symmetric])

lemma dropWhile_digit_append: "delimited t \<Longrightarrow> dropWhile digit (s @ t) = dropWhile digit s @ t"
  by (cases t) (auto simp: dropWhile_append dest: delimited_not_digit)

lemma string_body_append: "string_body s = Some (b, r) \<Longrightarrow> string_body (s @ t) = Some (b, r @ t)"
proof (induction s arbitrary: b r rule: string_body.induct)
  case (2 c cs)
  consider (quoted) "c = quote" | (escaped) "c \<noteq> quote" "c = backslash"
    | (plain) "c \<noteq> quote" "c \<noteq> backslash" "32 \<le> byte_of c"
    using "2.prems" by (auto split: if_splits)
  then show ?case
  proof cases
    case quoted
    with "2.prems" show ?thesis by simp
  next
    case plain
    with "2.prems" obtain b' where b': "string_body cs = Some (b', r)" "b = c # b'" by auto
    with plain "2.IH"(3) [of b' r] show ?thesis by auto
  next
    case escaped
    then obtain e u where cs: "cs = e # u" using "2.prems" by (auto split: list.splits)
    show ?thesis
    proof (cases "e = CHR ''u''")
      case True
      then obtain h1 h2 h3 h4 v b' where u: "u = h1 # h2 # h3 # h4 # v" and h: "list_all (\<lambda>h. hex_value h \<noteq> None) [h1, h2, h3, h4]"
        and b': "string_body v = Some (b', r)" "b = c # e # h1 # h2 # h3 # h4 # b'"
        using "2.prems" escaped cs by (auto split: list.splits if_splits)
      have "string_body (v @ t) = Some (b', r @ t)"
        using "2.IH"(1) [OF escaped cs True u refl refl refl h b'(1)] .
      with escaped cs True u h b'(2) show ?thesis by simp
    next
      case False
      then obtain b' where e: "e \<in> set (quote # backslash # ''/bfnrt'')" and b': "string_body u = Some (b', r)" "b = c # e # b'"
        using "2.prems" escaped cs by (auto split: if_splits)
      have "string_body (u @ t) = Some (b', r @ t)"
        using "2.IH"(2) [OF escaped cs False e b'(1)] .
      with escaped cs False e b'(2) show ?thesis by simp
    qed
  qed
qed simp

lemma delimited_cases:
  assumes "delimited t"
  obtains "t = []" | x u where "t = x # u" "x \<in> {CHR '','', CHR ''}'', CHR '']'', CHR 0x20, CHR 0x09, CHR 0x0D, CHR 0x0A}"
  using assms by (cases t) (auto simp: delimited_def json_space_def)

lemma scan_exponent_append:
  assumes "delimited t" and "scan_exponent acc s = Some (l, r)"
  shows "scan_exponent acc (s @ t) = Some (l, r @ t)"
proof (cases s)
  case Nil
  with assms show ?thesis
    by (elim delimited_cases) (auto simp: scan_exponent_def)
next
  case (Cons e u)
  show ?thesis
  proof (cases "e = CHR ''e'' \<or> e = CHR ''E''")
    case True
    then obtain x v where "u = x # v" using assms(2) Cons by (cases u) (auto simp: scan_exponent_def Let_def)
    with True Cons assms show ?thesis
      using takeWhile_digit_append [OF assms(1), of u] dropWhile_digit_append [OF assms(1), of u]
        takeWhile_digit_append [OF assms(1), of v] dropWhile_digit_append [OF assms(1), of v]
      by (auto simp: scan_exponent_def Let_def split: if_splits simp del: takeWhile.simps dropWhile.simps)
  next
    case False
    with Cons assms(2) have "l = acc" "r = e # u" by (auto simp: scan_exponent_def)
    with Cons False show ?thesis by (simp add: scan_exponent_def)
  qed
qed

lemma scan_fraction_append:
  assumes "delimited t" and "scan_fraction acc s = Some (l, r)"
  shows "scan_fraction acc (s @ t) = Some (l, r @ t)"
proof (cases s)
  case Nil
  then have "scan_exponent acc [] = Some (l, r)" using assms(2) by (simp add: scan_fraction_def)
  from scan_exponent_append [OF assms(1) this] have "scan_exponent acc t = Some (l, r @ t)" by simp
  with assms(1) Nil show ?thesis by (elim delimited_cases) (auto simp: scan_fraction_def)
next
  case (Cons p u)
  with assms show ?thesis
    using scan_exponent_append [OF assms(1)] takeWhile_digit_append [OF assms(1), of u]
      dropWhile_digit_append [OF assms(1), of u] scan_exponent_append [OF assms(1), of acc s l r]
    by (auto simp: scan_fraction_def split: if_splits)
qed

lemma scan_number_append:
  assumes "delimited t" and "scan_number s = Some (l, r)"
  shows "scan_number (s @ t) = Some (l, r @ t)"
proof -
  define sg where "sg = (case s of x # _ \<Rightarrow> if x = CHR ''-'' then [x] else [] | [] \<Rightarrow> [])"
  obtain c u where c: "drop (length sg) s = c # u"
    using assms(2) by (cases "drop (length sg) s") (auto simp: scan_number_def sg_def Let_def)
  have s: "s \<noteq> []" using c by auto
  have sg': "(case s @ t of x # _ \<Rightarrow> if x = CHR ''-'' then [x] else [] | [] \<Rightarrow> []) = sg"
    using s by (cases s) (auto simp: sg_def)
  have d: "drop (length sg) (s @ t) = c # u @ t" using c by (cases s) (auto simp: sg_def)
  have num: "scan_number s = (if c = CHR ''0'' then scan_fraction (sg @ [c]) u
      else if digit c then scan_fraction (sg @ c # takeWhile digit u) (dropWhile digit u) else None)"
    using c by (simp add: scan_number_def sg_def Let_def)
  have "scan_number (s @ t) = (if c = CHR ''0'' then scan_fraction (sg @ [c]) (u @ t)
      else if digit c then scan_fraction (sg @ c # takeWhile digit (u @ t)) (dropWhile digit (u @ t)) else None)"
    using d unfolding scan_number_def sg' by (simp add: Let_def)
  with num assms show ?thesis
    using scan_fraction_append [OF assms(1)]
    by (simp add: takeWhile_digit_append dropWhile_digit_append split: if_splits)
qed

lemma prefix_delimited:
  assumes "delimited t" and "list_all (\<lambda>x. x \<notin> {CHR '','', CHR ''}'', CHR '']'', CHR 0x20, CHR 0x09, CHR 0x0D, CHR 0x0A}) w"
  shows "prefix w (s @ t) \<longleftrightarrow> prefix w s"
  using assms by (elim delimited_cases) (auto simp: prefix_append prefix_Cons)

lemma parse_scalar_append:
  assumes "delimited t" and "parse_scalar s = Some (v, r)"
  shows "parse_scalar (s @ t) = Some (v, r @ t)"
proof -
  have s: "s \<noteq> []" using assms(2) parse_scalar_shorter by fastforce
  have p: "prefix w (s @ t) \<longleftrightarrow> prefix w s" if "w \<in> {[quote], ''true'', ''false'', ''null''}" for w
    using that by (intro prefix_delimited [OF assms(1)]) auto
  have k: "drop (length w) (s @ t) = drop (length w) s @ t" if "prefix w s" for w
    using that by (auto simp: prefix_def)
  consider "prefix [quote] s" | w where "\<not> prefix [quote] s" "w \<in> {''true'', ''false'', ''null''}" "prefix w s"
    | "\<not> prefix [quote] s" "\<not> prefix ''true'' s" "\<not> prefix ''false'' s" "\<not> prefix ''null'' s" by blast
  then show ?thesis
  proof cases
    case 1
    then obtain b where "string_body (tl s) = Some (b, r)" "v = JStr (unquote b)"
      using assms(2) by (auto simp: parse_scalar_def)
    with 1 p [of "[quote]"] string_body_append [of "tl s" b r t] s show ?thesis
      by (simp add: parse_scalar_def)
  next
    case (2 w)
    then show ?thesis
      using assms(2) p k [of w] by (auto simp: parse_scalar_def prefix_def)
  next
    case 3
    then obtain l where "scan_number s = Some (l, r)" "v = JNum l"
      using assms(2) by (auto simp: parse_scalar_def)
    with 3 p scan_number_append [OF assms(1), of s l r] show ?thesis by (simp add: parse_scalar_def)
  qed
qed

lemma skip_space_append: "skip_space s \<noteq> [] \<Longrightarrow> skip_space (s @ t) = skip_space s @ t"
  by (auto simp: skip_space_def dropWhile_append)

lemma token_append: "token s = Some (x, r) \<Longrightarrow> token (s @ t) = Some (x, r @ t)"
  using skip_space_append [of s t] by (auto simp: token_def split: list.splits)

lemma read_key_append:
  assumes "read_key s = Some (k, r)" and "r \<noteq> []"
  shows "read_key (s @ t) = Some (k, r @ t)"
proof -
  obtain cs b u r' where s: "s = quote # cs" and b: "string_body cs = Some (b, u)" "k = unquote b"
    and u: "token u = Some (CHR '':'', r')" "r = skip_space r'"
    using assms(1) by (auto simp: read_key_def split: list.splits if_splits option.splits)
  with assms(2) string_body_append [OF b(1), of t] token_append [OF u(1), of t] skip_space_append [of r' t]
  show ?thesis by (simp add: read_key_def)
qed

lemma parse_value_nonempty: "parse_value n d [] = None"
  by (cases n) (simp_all add: parse_scalar_def scan_number_def)

lemma parse_elems_nonempty: "parse_elems n d [] = None"
  by (cases n) (simp_all add: parse_value_nonempty)

lemma parse_members_nonempty: "parse_members n d [] = None"
  by (cases n) (simp_all add: read_key_def)

lemma parse_append:
  assumes "delimited t"
  shows "parse_value n d s = Some (v, r) \<Longrightarrow> parse_value n d (s @ t) = Some (v, r @ t)"
    and "parse_elems n d s = Some (es, r) \<Longrightarrow> parse_elems n d (s @ t) = Some (es, r @ t)"
    and "parse_members n d s = Some (ms, r) \<Longrightarrow> parse_members n d (s @ t) = Some (ms, r @ t)"
  using assms
proof (induction n d s and n d s and n d s arbitrary: v r and es r and ms r
    rule: parse_value_parse_elems_parse_members.induct)
  case (2 n d s)
  have s: "s \<noteq> []" using "2.prems"(1) parse_value_nonempty by fastforce
  have p: "prefix ''{'' (s @ t) = prefix ''{'' s" "prefix ''['' (s @ t) = prefix ''['' s"
    "tl (s @ t) = tl s @ t" using s by (cases s; simp)+
  from "2.prems"(1) consider (scalar) "\<not> prefix ''{'' s" "\<not> prefix ''['' s" "parse_scalar s = Some (v, r)"
    | (emptyobj) "prefix ''{'' s" "d \<noteq> 0" "token (tl s) = Some (CHR ''}'', r)" "v = JObj []"
    | (emptyarr) "\<not> prefix ''{'' s" "prefix ''['' s" "d \<noteq> 0" "token (tl s) = Some (CHR '']'', r)" "v = JArr []"
    | (obj) x u ms where "prefix ''{'' s" "d \<noteq> 0" "token (tl s) = Some (x, u)" "x \<noteq> CHR ''}''"
        "parse_members n (d - 1) (x # u) = Some (ms, r)" "v = JObj ms"
    | (arr) x u es where "\<not> prefix ''{'' s" "prefix ''['' s" "d \<noteq> 0" "token (tl s) = Some (x, u)"
        "x \<noteq> CHR '']''" "parse_elems n (d - 1) (x # u) = Some (es, r)" "v = JArr es"
    by (auto split: if_splits option.splits)
  then show ?case
  proof cases
    case scalar
    then show ?thesis using p parse_scalar_append [OF "2.prems"(2)] by simp
  next
    case emptyobj
    then show ?thesis using p token_append [of "tl s" _ r t] by simp
  next
    case emptyarr
    then show ?thesis using p token_append [of "tl s" _ r t] by simp
  next
    case (obj x u ms)
    then have "parse_members n (d - 1) ((x # u) @ t) = Some (ms, r @ t)"
      using "2.IH"(1) "2.prems"(2) by blast
    with obj show ?thesis using p token_append [of "tl s" x u t] by simp
  next
    case (arr x u es)
    then have "parse_elems n (d - 1) ((x # u) @ t) = Some (es, r @ t)"
      using "2.IH"(2) "2.prems"(2) by blast
    with arr show ?thesis using p token_append [of "tl s" x u t] by simp
  qed
next
  case (4 n d s)
  from "4.prems"(1) obtain v r1 x r2 where v: "parse_value n d s = Some (v, r1)" and x: "token r1 = Some (x, r2)"
    and rest: "x = CHR '']'' \<and> es = [(take (length s - length r1) s, v)] \<and> r = r2 \<or>
      x \<noteq> CHR '']'' \<and> x = CHR '','' \<and> (\<exists>es'. parse_elems n d (skip_space r2) = Some (es', r) \<and>
        es = (take (length s - length r1) s, v) # es')"
    by (auto split: option.splits if_splits)
  from "4.IH"(1) [OF v "4.prems"(2)] have v': "parse_value n d (s @ t) = Some (v, r1 @ t)" .
  note x' = token_append [OF x, of t]
  from rest show ?case
  proof (elim disjE conjE exE)
    fix es' assume a: "x \<noteq> CHR '']''" "x = CHR '',''" "parse_elems n d (skip_space r2) = Some (es', r)"
      "es = (take (length s - length r1) s, v) # es'"
    then have "skip_space r2 \<noteq> []" using parse_elems_nonempty by fastforce
    with a "4.IH"(2) [OF v refl x refl a(1,2) a(3) "4.prems"(2)] v' x' skip_space_append [of r2 t]
    show ?case by simp
  qed (use v' x' in simp)
next
  case (6 n d s)
  from "6.prems"(1) obtain k s' v r1 x r2 where k: "read_key s = Some (k, s')"
    and v: "parse_value n d s' = Some (v, r1)" and x: "token r1 = Some (x, r2)"
    and rest: "x = CHR ''}'' \<and> ms = [(k, take (length s' - length r1) s', v)] \<and> r = r2 \<or>
      x \<noteq> CHR ''}'' \<and> x = CHR '','' \<and> (\<exists>ms'. parse_members n d (skip_space r2) = Some (ms', r) \<and>
        ms = (k, take (length s' - length r1) s', v) # ms')"
    by (auto split: option.splits if_splits)
  have "s' \<noteq> []" using v parse_value_nonempty by fastforce
  note k' = read_key_append [OF k this, of t]
  from "6.IH"(1) [OF k refl v "6.prems"(2)] have v': "parse_value n d (s' @ t) = Some (v, r1 @ t)" .
  note x' = token_append [OF x, of t]
  from rest show ?case
  proof (elim disjE conjE exE)
    fix ms' assume a: "x \<noteq> CHR ''}''" "x = CHR '',''" "parse_members n d (skip_space r2) = Some (ms', r)"
      "ms = (k, take (length s' - length r1) s', v) # ms'"
    then have "skip_space r2 \<noteq> []" using parse_members_nonempty by fastforce
    with a "6.IH"(2) [OF k refl v refl x refl a(1,2) a(3) "6.prems"(2)] v' x' k' skip_space_append [of r2 t]
    show ?case by simp
  qed (use v' x' k' in simp)
qed simp_all

subsection \<open>Written values are read\<close>

definition reads :: "int \<Rightarrow> string \<Rightarrow> json \<Rightarrow> bool" where
  "reads d s v \<longleftrightarrow> s \<noteq> [] \<and> \<not> json_space (hd s) \<and> parse_value (Suc (2 * length s)) d s = Some (v, [])"

lemma reads_in_front:
  assumes "reads d s v" and "delimited t" and "2 * length s < n"
  shows "parse_value n d (s @ t) = Some (v, t)"
proof -
  have "parse_value n d s = parse_value (Suc (2 * length s)) d s"
    using parse_fuel_stable [of s n "Suc (2 * length s)" d] assms(3) by blast
  with assms(1) have "parse_value n d s = Some (v, [])" by (simp add: reads_def)
  from parse_append(1) [OF assms(2) this] show ?thesis by simp
qed

lemma reads_skip: "reads d s v \<Longrightarrow> skip_space (s @ t) = s @ t"
  by (cases s) (auto simp: reads_def skip_space_def)

lemma json_string_skip: "skip_space (json_string s @ t) = json_string s @ t"
  by (simp add: skip_space_def json_string_def json_space_def)

lemma reads_string: "valid_utf8 s \<Longrightarrow> reads d (json_string s) (JStr s)"
  using parse_value_json_string [of s "2 * length (json_string s)" d "[]"]
  by (simp add: reads_def) (simp add: json_string_def json_space_def)

lemma reads_scalar:
  assumes "parse_scalar s = Some (v, [])" and "s \<noteq> []" and "hd s \<notin> set ''{['' \<union> {CHR 0x20, CHR 0x09, CHR 0x0D, CHR 0x0A}"
  shows "reads d s v"
  using assms by (cases s) (auto simp: reads_def json_space_def)

lemma reads_bool: "reads d (json_bool b) (JBool b)"
  by (rule reads_scalar) (simp_all add: json_bool_def parse_scalar_def)

text \<open>White space between tokens, as \<open>MarshalIndent\<close> puts it there.\<close>

definition white :: "string \<Rightarrow> bool" where
  "white w \<longleftrightarrow> list_all json_space w"

lemma white_Nil [simp]: "white []"
  by (simp add: white_def)

lemma skip_white: "white w \<Longrightarrow> skip_space (w @ s) = skip_space s"
  by (induction w) (simp_all add: white_def skip_space_def)

lemma token_white: "white w \<Longrightarrow> \<not> json_space x \<Longrightarrow> token (w @ x # s) = Some (x, s)"
  by (simp add: token_def skip_white) (simp add: skip_space_def)

lemma delimited_white: "white w \<Longrightarrow> delimited s \<Longrightarrow> delimited (w @ s)"
  by (cases w) (auto simp: white_def delimited_def)

lemma delimited_Cons [simp]: "x \<in> {CHR '','', CHR ''}'', CHR '']''} \<Longrightarrow> delimited (x # s)"
  by (simp add: delimited_def)

lemma not_space [simp]: "\<not> json_space (CHR '','')" "\<not> json_space (CHR ''}'')" "\<not> json_space (CHR '']'')"
  "\<not> json_space (CHR '':'')" "\<not> json_space quote"
  by (simp_all add: json_space_def)

subsection \<open>Written objects and arrays are read\<close>

definition member_text :: "string \<Rightarrow> string \<times> string \<times> json \<Rightarrow> string" where
  "member_text c m = (case m of (k, t, v) \<Rightarrow> json_string k @ CHR '':'' # c @ t)"

definition written :: "int \<Rightarrow> string \<times> string \<times> json \<Rightarrow> bool" where
  "written d m = (case m of (k, t, v) \<Rightarrow> valid_utf8 k \<and> reads d t v)"

lemma read_key_member:
  assumes "written d (k, t, v)" and "white c"
  shows "read_key (member_text c (k, t, v) @ u) = Some (k, t @ u)"
proof -
  have "string_body (json_escape k @ quote # CHR '':'' # c @ t @ u) = Some (json_escape k, CHR '':'' # c @ t @ u)"
    by (rule string_body_json_escape)
  moreover have "token (CHR '':'' # c @ t @ u) = Some (CHR '':'', c @ t @ u)"
    using token_white [of "[]"] by simp
  ultimately show ?thesis
    using assms reads_skip [of d t v u] skip_white [OF assms(2), of "t @ u"]
    by (simp add: read_key_def member_text_def json_string_def written_def unquote_json_escape)
qed

definition members_text :: "string \<Rightarrow> string \<Rightarrow> (string \<times> string \<times> json) list \<Rightarrow> string" where
  "members_text w c ms = join (CHR '','' # w) (map (member_text c) ms)"

lemma members_text_front: "ms \<noteq> [] \<Longrightarrow> \<exists>u. members_text w c ms @ t = quote # u"
  by (cases ms; cases "tl ms") (auto simp: members_text_def member_text_def json_string_def split: prod.splits)

lemma parse_members_written:
  assumes "ms \<noteq> []" and "list_all (written d) ms" and "2 * length (members_text w c ms @ w' @ ''}'') + 1 < n"
    and "white w" and "white c" and "white w'"
  shows "parse_members n d (members_text w c ms @ w' @ ''}'') = Some (ms, [])"
  using assms(1-3)
proof (induction ms arbitrary: n)
  case (Cons m ms)
  let ?w = "members_text w c ms @ w' @ ''}''"
  obtain k t v where m: "m = (k, t, v)" by (cases m) auto
  define u where "u = (if ms = [] then w' @ ''}'' else CHR '','' # w @ ?w)"
  have s: "members_text w c (m # ms) @ w' @ ''}'' = member_text c m @ u"
    by (cases ms) (simp_all add: members_text_def u_def)
  obtain n' where n: "n = Suc n'" using Cons.prems(3) by (cases n) auto
  have wm: "written d (k, t, v)" using Cons.prems(2) m by simp
  have total: "2 * length (member_text c m @ u) + 1 < n" using Cons.prems(3) unfolding s .
  then have len: "2 * length t < n'" by (simp add: n m member_text_def)
  have del: "delimited u" by (simp add: u_def delimited_white assms(6))
  have val: "parse_value n' d (t @ u) = Some (v, u)"
    using wm reads_in_front [OF _ del len] by (simp add: written_def)
  have raw: "take (length (t @ u) - length u) (t @ u) = t" by simp
  note key = read_key_member [OF wm assms(5), of u]
  show ?case
  proof (cases "ms = []")
    case True
    then have "token u = Some (CHR ''}'', [])" by (simp add: u_def token_white assms(6))
    with True val raw key show ?thesis unfolding s unfolding n m by simp
  next
    case False
    have tok: "token u = Some (CHR '','', w @ ?w)" using False token_white [of "[]"] by (simp add: u_def)
    have sk: "skip_space (w @ ?w) = ?w"
      using members_text_front [OF False, of w c "w' @ ''}''"]
      by (auto simp: skip_white assms(4)) (simp add: skip_space_def)
    have "2 * length ?w + 1 < n'"
      using total False by (simp add: n m u_def member_text_def json_string_def)
    then have "parse_members n' d ?w = Some (ms, [])"
      using Cons.IH [OF False] Cons.prems(2) by simp
    with val raw tok sk key show ?thesis unfolding s unfolding n m by simp
  qed
qed simp

lemma object_text_members:
  "ms \<noteq> [] \<Longrightarrow> object_text w c w' (map (\<lambda>(k, t, v). (k, t)) ms) = CHR ''{'' # w @ members_text w c ms @ w' @ ''}''"
  by (simp add: object_text_def members_text_def member_text_def [abs_def] comp_def split_def)

lemma reads_object:
  assumes "list_all (written (d - 1)) ms" and "d \<noteq> 0" and "white w" and "white c" and "white w'"
  shows "reads d (object_text w c w' (map (\<lambda>(k, t, v). (k, t)) ms)) (JObj ms)"
proof (cases "ms = []")
  case True
  then show ?thesis using assms(2)
    by (simp add: object_text_def reads_def json_space_def token_def skip_space_def numeral_eq_Suc)
next
  case False
  let ?w = "members_text w c ms @ w' @ ''}''"
  obtain u where u: "?w = quote # u" using members_text_front [OF False] by blast
  then have "token (w @ ?w) = Some (quote, u)" by (simp add: token_white assms(3))
  moreover have "parse_members (2 * length (CHR ''{'' # w @ ?w)) (d - 1) (quote # u) = Some (ms, [])"
    unfolding u [symmetric] using assms by (intro parse_members_written [OF False]) simp_all
  ultimately show ?thesis
    unfolding object_text_members [OF False] using assms(2) by (simp add: reads_def json_space_def)
qed

definition element_read :: "int \<Rightarrow> string \<times> json \<Rightarrow> bool" where
  "element_read d e = reads d (fst e) (snd e)"

lemma reads_front: "reads d s v \<Longrightarrow> \<exists>x u. s = x # u \<and> \<not> json_space x \<and> x \<noteq> CHR '']''"
  by (cases s) (auto simp: reads_def parse_scalar_def scan_number_def digit_def)

lemma elems_front: "es \<noteq> [] \<Longrightarrow> list_all (element_read d) es \<Longrightarrow>
    \<exists>x u. join sep (map fst es) @ t = x # u \<and> \<not> json_space x \<and> x \<noteq> CHR '']''"
  by (cases es; cases "tl es") (auto simp: element_read_def dest!: reads_front)

lemma parse_elems_written:
  assumes "es \<noteq> []" and "list_all (element_read d) es"
    and "2 * length (join (CHR '','' # w) (map fst es) @ w' @ '']'') + 1 < n" and "white w" and "white w'"
  shows "parse_elems n d (join (CHR '','' # w) (map fst es) @ w' @ '']'') = Some (es, [])"
  using assms(1-3)
proof (induction es arbitrary: n)
  case (Cons e es)
  let ?w = "join (CHR '','' # w) (map fst es) @ w' @ '']''"
  obtain t v where e: "e = (t, v)" by (cases e) auto
  define u where "u = (if es = [] then w' @ '']'' else CHR '','' # w @ ?w)"
  have s: "join (CHR '','' # w) (map fst (e # es)) @ w' @ '']'' = t @ u"
    by (cases es) (simp_all add: u_def e)
  obtain n' where n: "n = Suc n'" using Cons.prems(3) by (cases n) auto
  have re: "reads d t v" using Cons.prems(2) e by (simp add: element_read_def)
  have total: "2 * length (t @ u) + 1 < n" using Cons.prems(3) unfolding s .
  have "0 < length u" by (simp add: u_def)
  with total have len: "2 * length t < n'" by (simp add: n)
  have del: "delimited u" by (simp add: u_def delimited_white assms(5))
  have val: "parse_value n' d (t @ u) = Some (v, u)"
    using reads_in_front [OF re del len] .
  have raw: "take (length (t @ u) - length u) (t @ u) = t" by simp
  show ?case
  proof (cases "es = []")
    case True
    then have "token u = Some (CHR '']'', [])" by (simp add: u_def token_white assms(5))
    with True val raw show ?thesis unfolding s unfolding n e by simp
  next
    case False
    have tok: "token u = Some (CHR '','', w @ ?w)" using False token_white [of "[]"] by (simp add: u_def)
    have sk: "skip_space (w @ ?w) = ?w"
      using elems_front [OF False, of d "CHR '','' # w" "w' @ '']''"] Cons.prems(2)
      by (auto simp: skip_white assms(4)) (simp add: skip_space_def)
    have "t \<noteq> []" using re by (simp add: reads_def)
    then have "0 < length t" by simp
    then have "2 * length ?w + 1 < n'" using total False by (simp add: n u_def)
    then have "parse_elems n' d ?w = Some (es, [])"
      using Cons.IH [OF False] Cons.prems(2) by simp
    with val raw tok sk show ?thesis unfolding s unfolding n e by simp
  qed
qed simp

lemma reads_array:
  assumes "list_all (element_read (d - 1)) es" and "d \<noteq> 0" and "white w" and "white w'"
  shows "reads d (array_text w w' (map fst es)) (JArr es)"
proof (cases "es = []")
  case True
  then show ?thesis using assms(2)
    by (simp add: array_text_def reads_def json_space_def token_def skip_space_def numeral_eq_Suc)
next
  case False
  let ?w = "join (CHR '','' # w) (map fst es) @ w' @ '']''"
  obtain x u where u: "?w = x # u" "\<not> json_space x" "x \<noteq> CHR '']''"
    using elems_front [OF False assms(1)] by blast
  then have "token (w @ ?w) = Some (x, u)" by (simp add: token_white assms(3))
  moreover have "parse_elems (2 * length (CHR ''['' # w @ ?w)) (d - 1) (x # u) = Some (es, [])"
    unfolding u(1) [symmetric] using assms by (intro parse_elems_written [OF False]) simp_all
  ultimately show ?thesis
    using False u(3) assms(2) by (simp add: array_text_def reads_def json_space_def)
qed

subsection \<open>Written numbers\<close>

lemma digits_value_snoc: "digits_value (s @ [c]) = 10 * digits_value s + (byte_of c - 48)"
  by (simp add: digits_value_def)

lemma digit_show: "n < 10 \<Longrightarrow> byte_of (char_of (48 + n) :: char) = (48 + n :: nat)"
  by simp

lemma show_nat_digits: "show_nat n \<noteq> [] \<and> list_all digit (show_nat n) \<and> digits_value (show_nat n) = n"
proof (induction n rule: show_nat.induct)
  case (1 n)
  show ?case
  proof (cases "n < 10")
    case True
    then show ?thesis by (simp add: show_nat.simps [of n] digit_def digits_value_def)
  next
    case False
    have "byte_of (char_of (48 + n mod 10) :: char) = 48 + n mod 10"
      by (intro digit_show) simp
    with 1 [OF False] False show ?thesis
      by (simp add: show_nat.simps [of n] digit_def digits_value_snoc)
  qed
qed

lemma show_nat_hd: "0 < n \<Longrightarrow> hd (show_nat n) \<noteq> CHR ''0''"
proof (induction n rule: show_nat.induct)
  case (1 n)
  show ?case
  proof (cases "n < 10")
    case True
    then have "byte_of (char_of (48 + n) :: char) = 48 + n" by (intro digit_show)
    with 1(2) have "char_of (48 + n) \<noteq> CHR ''0''" by (intro notI) simp
    with True show ?thesis by (simp add: show_nat.simps [of n])
  next
    case False
    with 1 show_nat_digits [of "n div 10"] show ?thesis by (simp add: show_nat.simps [of n])
  qed
qed

lemma scan_number_show_nat: "scan_number (show_nat n) = Some (show_nat n, [])"
proof -
  obtain c u where s: "show_nat n = c # u" using show_nat_digits [of n] by (cases "show_nat n") auto
  have c: "digit c" and u: "list_all digit u" using show_nat_digits [of n] s by auto
  have m: "c \<noteq> CHR ''-''" using c by (auto simp: digit_def)
  have tw: "takeWhile digit u = u" "dropWhile digit u = []"
    using u by (auto simp: takeWhile_eq_all_conv dropWhile_eq_Nil_conv list_all_iff)
  show ?thesis
  proof (cases "n = 0")
    case True
    then have "show_nat n = ''0''" by (simp add: show_nat.simps)
    then show ?thesis by (simp add: scan_number_def scan_fraction_def scan_exponent_def)
  next
    case False
    then have "c \<noteq> CHR ''0''" using show_nat_hd [of n] s by simp
    with m c s show ?thesis by (simp add: tw scan_number_def scan_fraction_def scan_exponent_def)
  qed
qed

lemma reads_show_nat: "reads d (show_nat n) (JNum (show_nat n))"
proof (rule reads_scalar)
  obtain c u where s: "show_nat n = c # u" using show_nat_digits [of n] by (cases "show_nat n") auto
  have c: "digit c" using show_nat_digits [of n] s by auto
  then have x: "c \<notin> set ''{[tfn '' \<union> {quote, CHR 0x20, CHR 0x09, CHR 0x0D, CHR 0x0A}" by (auto simp: digit_def)
  show "hd (show_nat n) \<notin> set ''{['' \<union> {CHR 0x20, CHR 0x09, CHR 0x0D, CHR 0x0A}"
    using x s by auto
  show "parse_scalar (show_nat n) = Some (JNum (show_nat n), [])"
    using x scan_number_show_nat [of n] s by (auto simp: parse_scalar_def)
qed (use show_nat_digits in simp)

lemma parse_uint_show_nat: "n < 2 ^ w \<Longrightarrow> parse_uint w (show_nat n) = Some (int n)"
  using show_nat_digits [of n] by (simp add: parse_uint_def)

lemma parse_int64_show_nat: "n < 2 ^ 63 \<Longrightarrow> parse_int64 (show_nat n) = Some (int n)"
proof -
  assume n: "n < 2 ^ 63"
  have "\<not> prefix ''-'' (show_nat n)"
    using show_nat_digits [of n] by (cases "show_nat n") (auto simp: digit_def)
  with n show_nat_digits [of n] show ?thesis by (simp add: parse_int64_def)
qed

subsection \<open>A written struct is decoded\<close>

text \<open>
  One field of a struct as \<open>Marshal\<close> meets it: its name and type, whether it is written, the text
  written, what the reader makes of the text, and the value the field had.
\<close>

record row =
  row_name :: string
  row_type :: gty
  row_written :: bool
  row_text :: string
  row_json :: json
  row_value :: gval

definition row_ok :: "int \<Rightarrow> row \<Rightarrow> bool" where
  "row_ok d r \<longleftrightarrow> valid_utf8 (row_name r) \<and>
    (if row_written r then reads d (row_text r) (row_json r) \<and>
       decode False (row_type r) (zero_value (row_type r)) (row_text r) (row_json r) = (row_value r, True)
     else row_value r = zero_value (row_type r))"

definition row_field :: "row \<Rightarrow> string \<times> gty" where
  "row_field r = (row_name r, row_type r)"

definition row_entry :: "row \<Rightarrow> string \<times> gval" where
  "row_entry r = (row_name r, row_value r)"

definition blank_entry :: "row \<Rightarrow> string \<times> gval" where
  "blank_entry r = (row_name r, zero_value (row_type r))"

definition row_member :: "row \<Rightarrow> string \<times> string \<times> json" where
  "row_member r = (row_name r, row_text r, row_json r)"

definition written_fields :: "row list \<Rightarrow> (string \<times> string) list" where
  "written_fields rs = concat (map (\<lambda>r. omit_empty (\<not> row_written r) (row_name r) (row_text r)) rs)"

definition written_members :: "row list \<Rightarrow> (string \<times> string \<times> json) list" where
  "written_members rs = map row_member (filter row_written rs)"

lemmas row_defs = row_field_def row_entry_def blank_entry_def row_member_def

lemma written_fields_members:
  "written_fields rs = map (\<lambda>(k, t, v). (k, t)) (written_members rs)"
  by (induction rs) (simp_all add: written_fields_def written_members_def row_defs omit_empty_def)

lemma find_row_field:
  assumes "distinct (map row_name rs)" and "r \<in> set rs"
  shows "find_field (map row_field rs) (row_name r) = Some (row_field r)"
proof -
  have "List.find (\<lambda>(n, t). n = row_name r) (map row_field rs) = Some (row_field r)"
    using assms by (induction rs) (auto simp: row_defs)
  then show ?thesis by (simp add: find_field_def)
qed

lemma update_entry:
  "n \<notin> fst ` set xs \<Longrightarrow> AList.update n v (xs @ (n, w) # ys) = xs @ (n, v) # ys"
  by (induction xs) auto

lemma field_or_blank:
  "n \<notin> fst ` set xs \<Longrightarrow> field_or (xs @ (n, v) # ys) n t = v"
  by (induction xs) (auto simp: field_or_def)

lemma decode_fields_rows:
  assumes "distinct (map row_name (xs @ ys))" and "list_all (row_ok d) ys"
  shows "decode_fields False (map row_field (xs @ ys)) (map row_entry xs @ map blank_entry ys)
      (written_members ys) = (map row_entry (xs @ ys), True)"
  using assms
proof (induction ys arbitrary: xs)
  case (Cons r ys)
  have fresh: "row_name r \<notin> fst ` set (map row_entry xs)"
    using Cons.prems(1) by (auto simp: row_defs)
  have ih: "decode_fields False (map row_field (xs @ r # ys)) (map row_entry xs @ row_entry r # map blank_entry ys)
      (written_members ys) = (map row_entry (xs @ r # ys), True)"
    using Cons.IH [of "xs @ [r]"] Cons.prems by simp
  show ?case
  proof (cases "row_written r")
    case True
    have ok: "decode False (row_type r) (zero_value (row_type r)) (row_text r) (row_json r) = (row_value r, True)"
      using Cons.prems(2) True by (simp add: row_ok_def)
    have "find_field (map row_field (xs @ r # ys)) (row_name r) = Some (row_name r, row_type r)"
      using find_row_field [OF Cons.prems(1), of r] by (simp add: row_field_def)
    with True ok ih field_or_blank [OF fresh] update_entry [OF fresh] show ?thesis
      by (simp add: written_members_def row_member_def [of r] blank_entry_def [of r] row_entry_def [of r] del: map_append)
  next
    case False
    with Cons.prems(2) have "blank_entry r = row_entry r" by (simp add: row_ok_def row_defs)
    with False ih show ?thesis by (simp add: written_members_def)
  qed
qed (simp add: written_members_def)

lemma zero_rows: "zero_value (TStruct (map row_field rs)) = GStruct (map blank_entry rs)"
  by (simp add: row_defs)

lemma decode_struct:
  assumes "distinct (map row_name rs)" and "list_all (row_ok d) rs"
  shows "decode False (TStruct (map row_field rs)) (zero_value (TStruct (map row_field rs))) raw
      (JObj (written_members rs)) = (GStruct (map row_entry rs), True)"
  using decode_fields_rows [of "[]" rs d] assms unfolding zero_rows
  by (simp add: struct_fields_def)

lemma reads_struct:
  assumes "list_all (row_ok (d - 1)) rs" and "d \<noteq> 0" and "white w" and "white c" and "white w'"
  shows "reads d (object_text w c w' (written_fields rs)) (JObj (written_members rs))"
proof -
  have "list_all (written (d - 1)) (written_members rs)"
    using assms(1) by (auto simp: list_all_iff written_members_def written_def row_member_def row_ok_def)
  then show ?thesis unfolding written_fields_members using assms(2-5) by (rule reads_object)
qed

lemma unmarshal_reads:
  assumes "reads max_nesting s v" and "white u" and "decode False t (zero_value t) (s @ u) v = (x, True)"
  shows "unmarshal t (s @ u) = Some x"
proof -
  have sk: "skip_space (s @ u) = s @ u" using reads_skip [OF assms(1)] .
  have "delimited u" using delimited_white [OF assms(2), of "[]"] by (simp add: delimited_def)
  then have "parse_json (s @ u) = Some (v, u)"
    unfolding parse_json_def sk by (rule reads_in_front [OF assms(1)]) simp
  moreover have "skip_space u = []" using skip_white [OF assms(2), of "[]"] by (simp add: skip_space_def)
  ultimately have "parse_document (s @ u) = Some v" by (simp add: parse_document_def)
  with assms(3) show ?thesis by (simp add: unmarshal_def unmarshal_into_def)
qed

lemma unmarshal_struct:
  assumes "distinct (map row_name rs)" and "list_all (row_ok (max_nesting - 1)) rs"
    and "white w" and "white c" and "white w'" and "white u"
  shows "unmarshal (TStruct (map row_field rs)) (object_text w c w' (written_fields rs) @ u) =
    Some (GStruct (map row_entry rs))"
proof (rule unmarshal_reads [OF _ assms(6)])
  show "reads max_nesting (object_text w c w' (written_fields rs)) (JObj (written_members rs))"
    using assms(2) _ assms(3-5) by (rule reads_struct) (simp add: max_nesting_def)
qed (rule decode_struct [OF assms(1,2)])

subsection \<open>Rows of the types that occur\<close>

text \<open>
  A raw message that \<open>Marshal\<close> writes as it is and that may be nested at depth \<open>d\<close>: JSON without white
  space between its tokens, starting with the value itself.
\<close>

definition embeddable :: "int \<Rightarrow> string \<Rightarrow> bool" where
  "embeddable d p \<longleftrightarrow> p = [] \<or> json_compact p = Some p \<and> \<not> json_space (hd p) \<and>
    (case parse_value (Suc (2 * length p)) d p of Some (v, r) \<Rightarrow> r = [] | None \<Rightarrow> False)"

definition parsed :: "int \<Rightarrow> string \<Rightarrow> json" where
  "parsed d p = (case parse_value (Suc (2 * length p)) d p of Some (v, r) \<Rightarrow> v | None \<Rightarrow> JNull)"

lemma embeddable_reads: "embeddable d p \<Longrightarrow> p \<noteq> [] \<Longrightarrow> reads d p (parsed d p)"
  by (auto simp: embeddable_def reads_def parsed_def simp del: parse_value.simps split: option.splits)

subsection \<open>Rows\<close>

definition string_row :: "bool \<Rightarrow> string \<Rightarrow> string \<Rightarrow> row" where
  "string_row w n s = \<lparr>row_name = n, row_type = TString, row_written = w, row_text = json_string s,
    row_json = JStr s, row_value = GString s\<rparr>"

definition nat_row :: "bool \<Rightarrow> string \<Rightarrow> gty \<Rightarrow> nat \<Rightarrow> row" where
  "nat_row w n t k = \<lparr>row_name = n, row_type = t, row_written = w, row_text = show_nat k,
    row_json = JNum (show_nat k), row_value = GInt (int k)\<rparr>"

definition raw_row :: "int \<Rightarrow> string \<Rightarrow> string \<Rightarrow> row" where
  "raw_row d n p = \<lparr>row_name = n, row_type = TRaw, row_written = (p \<noteq> []), row_text = p,
    row_json = parsed d p, row_value = GRaw p\<rparr>"

definition bool_row :: "bool \<Rightarrow> string \<Rightarrow> bool \<Rightarrow> row" where
  "bool_row w n b = \<lparr>row_name = n, row_type = TBool, row_written = w, row_text = json_bool b,
    row_json = JBool b, row_value = GBool b\<rparr>"

text \<open>A pointer to a struct, from the rows of the struct when the pointer is not nil.\<close>

definition struct_row :: "string \<Rightarrow> string \<Rightarrow> string \<Rightarrow> string \<Rightarrow> gty \<Rightarrow> row list option \<Rightarrow> row" where
  "struct_row w c w' n t rs = \<lparr>row_name = n, row_type = TPtr t, row_written = (rs \<noteq> None),
    row_text = object_text w c w' (written_fields (case rs of None \<Rightarrow> [] | Some rs \<Rightarrow> rs)),
    row_json = JObj (written_members (case rs of None \<Rightarrow> [] | Some rs \<Rightarrow> rs)),
    row_value = (case rs of None \<Rightarrow> GNil | Some rs \<Rightarrow> GPtr (GStruct (map row_entry rs)))\<rparr>"

text \<open>A slice with \<open>omitempty\<close>: every element with its text, what the reader makes of it and its value.\<close>

type_synonym element = "string \<times> json \<times> gval"

definition slice_row :: "string \<Rightarrow> string \<Rightarrow> string \<Rightarrow> gty \<Rightarrow> element list \<Rightarrow> row" where
  "slice_row w w' n t es = \<lparr>row_name = n, row_type = TSlice t, row_written = (es \<noteq> []),
    row_text = array_text w w' (map fst es), row_json = JArr (map (\<lambda>(s, j, v). (s, j)) es),
    row_value = (if es = [] then GNil else GSlice (map (\<lambda>(s, j, v). v) es))\<rparr>"

definition element_ok :: "int \<Rightarrow> gty \<Rightarrow> element \<Rightarrow> bool" where
  "element_ok d t e = (case e of (s, j, v) \<Rightarrow>
    reads d s j \<and> decode False t (zero_value t) s j = (v, True))"

lemmas rows = string_row_def nat_row_def raw_row_def bool_row_def struct_row_def slice_row_def

lemma string_row_ok:
  "valid_utf8 n \<Longrightarrow> valid_utf8 s \<Longrightarrow> w \<or> s = [] \<Longrightarrow> row_ok d (string_row w n s)"
  by (auto simp: row_ok_def string_row_def reads_string)

lemma uint_row_ok:
  "valid_utf8 n \<Longrightarrow> k < 2 ^ b \<Longrightarrow> w \<or> k = 0 \<Longrightarrow> row_ok d (nat_row w n (TUint b) k)"
  by (auto simp: row_ok_def nat_row_def reads_show_nat parse_uint_show_nat)

lemma int_row_ok: "valid_utf8 n \<Longrightarrow> k < 2 ^ 63 \<Longrightarrow> row_ok d (nat_row True n TInt k)"
  by (auto simp: row_ok_def nat_row_def reads_show_nat parse_int64_show_nat)

lemma raw_row_ok: "valid_utf8 n \<Longrightarrow> embeddable d p \<Longrightarrow> row_ok d (raw_row d n p)"
  by (auto simp: row_ok_def raw_row_def embeddable_reads)

lemma bool_row_ok: "valid_utf8 n \<Longrightarrow> w \<or> \<not> b \<Longrightarrow> row_ok d (bool_row w n b)"
  by (auto simp: row_ok_def bool_row_def reads_bool)

lemma struct_row_ok:
  assumes "valid_utf8 n" and "d \<noteq> 0" and "pred_option (list_all (row_ok (d - 1))) rs"
    and "pred_option (\<lambda>rs. distinct (map row_name rs) \<and> t = TStruct (map row_field rs)) rs"
    and "white w" and "white c" and "white w'"
  shows "row_ok d (struct_row w c w' n t rs)"
proof (cases rs)
  case None
  then show ?thesis using assms(1) by (simp add: row_ok_def struct_row_def)
next
  case (Some r)
  have "pointee (TStruct fs) GNil = zero_value (TStruct fs)" for fs by (simp add: pointee_def)
  with Some assms reads_struct [of d r] decode_struct [of r "d - 1"]
  show ?thesis by (simp add: row_ok_def struct_row_def)
qed

lemma decode_elems_written:
  "list_all (element_ok d t) es \<Longrightarrow>
    decode_elems False t [] (map (\<lambda>(s, j, v). (s, j)) es) = (map (\<lambda>(s, j, v). v) es, True)"
  by (induction es) (auto simp: element_ok_def)

lemma slice_row_ok:
  assumes "valid_utf8 n" and "d \<noteq> 0" and "list_all (element_ok (d - 1) t) es" and "white w" and "white w'"
  shows "row_ok d (slice_row w w' n t es)"
proof (cases "es = []")
  case True
  then show ?thesis using assms(1) by (simp add: row_ok_def slice_row_def)
next
  case False
  have texts: "map fst es = map fst (map (\<lambda>(s, j, v). (s, j)) es)" by (simp add: split_def)
  have "list_all (element_read (d - 1)) (map (\<lambda>(s, j, v). (s, j)) es)"
    using assms(3) by (auto simp: list_all_iff element_ok_def element_read_def)
  then have "reads d (array_text w w' (map fst es)) (JArr (map (\<lambda>(s, j, v). (s, j)) es))"
    unfolding texts using assms(2,4,5) by (rule reads_array)
  with False assms(1) decode_elems_written [OF assms(3)] show ?thesis
    by (simp add: row_ok_def slice_row_def slice_elems_def)
qed

lemma struct_element_ok:
  assumes "distinct (map row_name rs)" and "list_all (row_ok (d - 1)) rs" and "d \<noteq> 0"
    and "white w" and "white c" and "white w'"
  shows "element_ok d (TStruct (map row_field rs)) (object_text w c w' (written_fields rs),
    JObj (written_members rs), GStruct (map row_entry rs))"
  using reads_struct [OF assms(2-6)] decode_struct [OF assms(1,2)] by (simp add: element_ok_def)

lemma string_element_ok: "valid_utf8 s \<Longrightarrow> element_ok d TString (json_string s, JStr s, GString s)"
  by (simp add: element_ok_def reads_string)

end
