(* ===== verification/RemoteControl_Roundtrip.thy ===== *)
theory RemoteControl_Roundtrip
  imports RemoteControl_Props Go_Json_Roundtrip
begin

section \<open>An encoded envelope is decoded\<close>

text \<open>
  \<open>DecodeEnvelope\<close> after \<open>EncodeEnvelope\<close> is the identity on envelopes whose strings are UTF-8 and
  whose raw messages are compact: each struct is a list of rows of \<open>Go_Json_Roundtrip\<close>, one per field.
  Without UTF-8 it is not, and a frame may even be refused.
\<close>

subsection \<open>What survives the wire\<close>

definition portable_error :: "remote_error \<Rightarrow> bool" where
  "portable_error r \<longleftrightarrow> valid_utf8 (remote_code r) \<and> valid_utf8 (remote_message r) \<and>
    embeddable (max_nesting - 2) (remote_details r)"

definition portable :: "envelope \<Rightarrow> bool" where
  "portable e \<longleftrightarrow>
    list_all valid_utf8 [client_id e, stream_id e, request_id e, cursor e, operation e] \<and>
    embeddable (max_nesting - 1) (payload e) \<and>
    (case envelope_error e of None \<Rightarrow> True | Some r \<Rightarrow> portable_error r) \<and>
    (case envelope_chunk e of None \<Rightarrow> True | Some c \<Rightarrow> valid_utf8 (message_chunk_base64 c))"

subsection \<open>Rows\<close>

definition chunk_rows :: "chunk \<Rightarrow> row list" where
  "chunk_rows c =
    [nat_row True ''segmentID'' (TUint 32) (unat (segment_id c)),
     nat_row True ''segmentCount'' (TUint 32) (unat (segment_count c)),
     nat_row True ''messageSizeBytes'' (TUint 64) (unat (message_size_bytes c)),
     string_row True ''messageChunkBase64'' (message_chunk_base64 c)]"

definition error_rows :: "remote_error \<Rightarrow> row list" where
  "error_rows r =
    [string_row True ''code'' (remote_code r), string_row True ''message'' (remote_message r),
     bool_row (remote_retryable r) ''retryable'' (remote_retryable r),
     raw_row (max_nesting - 2) ''details'' (remote_details r)]"

definition envelope_rows :: "envelope \<Rightarrow> row list" where
  "envelope_rows e =
    [nat_row True ''protocolVersion'' TInt (nat (protocol_version e)),
     string_row True ''type'' (envelope_type e),
     string_row (client_id e \<noteq> []) ''clientID'' (client_id e),
     string_row (stream_id e \<noteq> []) ''streamID'' (stream_id e),
     nat_row (seq_id e \<noteq> 0) ''seqID'' (TUint 64) (unat (seq_id e)),
     string_row (request_id e \<noteq> []) ''requestID'' (request_id e),
     string_row (cursor e \<noteq> []) ''cursor'' (cursor e),
     string_row (operation e \<noteq> []) ''operation'' (operation e),
     raw_row (max_nesting - 1) ''payload'' (payload e),
     struct_row [] [] [] ''error'' remote_error_type (map_option error_rows (envelope_error e)),
     struct_row [] [] [] ''chunk'' chunk_type (map_option chunk_rows (envelope_chunk e))]"

lemma names_valid:
  "list_all valid_utf8
    [''segmentID'', ''segmentCount'', ''messageSizeBytes'', ''messageChunkBase64'', ''code'',
     ''message'', ''retryable'', ''details'', ''protocolVersion'', ''type'', ''clientID'', ''streamID'',
     ''seqID'', ''requestID'', ''cursor'', ''operation'', ''payload'', ''error'', ''chunk'']"
  by (simp add: valid_utf8_ascii is_ascii_def del: valid_utf8.simps)

lemma word32_bound: "unat (x :: 32 word) < 2 ^ 32" and word64_bound: "unat (y :: 64 word) < 2 ^ 64"
  using unsigned_less [of x] unsigned_less [of y] by simp_all

lemma chunk_rows_ok: "valid_utf8 (message_chunk_base64 c) \<Longrightarrow> list_all (row_ok d) (chunk_rows c)"
  using names_valid by (auto simp: chunk_rows_def intro!: string_row_ok uint_row_ok word32_bound word64_bound)

lemma error_rows_ok: "portable_error r \<Longrightarrow> list_all (row_ok (max_nesting - 2)) (error_rows r)"
  using names_valid
  by (auto simp: error_rows_def portable_error_def intro!: string_row_ok bool_row_ok raw_row_ok)

lemma chunk_rows_type:
  "distinct (map row_name (chunk_rows c)) \<and> chunk_type = TStruct (map row_field (chunk_rows c))"
  by (simp add: chunk_rows_def chunk_type_def rows row_field_def)

lemma error_rows_type:
  "distinct (map row_name (error_rows r)) \<and> remote_error_type = TStruct (map row_field (error_rows r))"
  by (simp add: error_rows_def remote_error_type_def rows row_field_def)

lemma envelope_rows_type:
  "distinct (map row_name (envelope_rows e)) \<and> envelope_gty = TStruct (map row_field (envelope_rows e))"
  by (simp add: envelope_rows_def envelope_gty_def rows row_field_def)

lemma known_type_valid: "is_known_envelope_type t \<Longrightarrow> valid_utf8 t"
  by (auto simp: is_known_envelope_type_def valid_utf8_ascii is_ascii_def simp del: valid_utf8.simps)

lemma envelope_rows_ok:
  assumes "portable e" and "envelope_well_formed e"
  shows "list_all (row_ok (max_nesting - 1)) (envelope_rows e)"
proof -
  have "row_ok (max_nesting - 1) (struct_row [] [] [] ''error'' remote_error_type (map_option error_rows (envelope_error e)))"
    using assms(1) names_valid error_rows_ok error_rows_type
    by (intro struct_row_ok; cases "envelope_error e") (auto simp: max_nesting_def portable_def)
  moreover have "row_ok (max_nesting - 1) (struct_row [] [] [] ''chunk'' chunk_type (map_option chunk_rows (envelope_chunk e)))"
    using assms(1) names_valid chunk_rows_ok chunk_rows_type
    by (intro struct_row_ok; cases "envelope_chunk e") (auto simp: max_nesting_def portable_def)
  moreover have "valid_utf8 (envelope_type e)" and "protocol_version e = 1"
    using assms(2) known_type_valid by (auto simp: envelope_well_formed_def)
  ultimately show ?thesis
    using assms(1) names_valid unfolding envelope_rows_def
    by (auto simp: portable_def intro!: string_row_ok uint_row_ok int_row_ok raw_row_ok word64_bound)
qed

lemma raw_field_embeddable: "embeddable d p \<Longrightarrow> raw_field n p = Some (omit_empty (p = []) n p)"
  by (auto simp: raw_field_def embeddable_def omit_empty_def field_def)

lemma marshal_error_rows:
  "portable_error r \<Longrightarrow> marshal_remote_error r = Some (json_object (written_fields (error_rows r)))"
  using raw_field_embeddable [of "max_nesting - 2" "remote_details r"]
  by (simp add: marshal_remote_error_def portable_error_def written_fields_def
      error_rows_def rows field_def omit_empty_def)

lemma marshal_chunk_rows: "marshal_chunk c = json_object (written_fields (chunk_rows c))"
  by (simp add: marshal_chunk_def written_fields_def chunk_rows_def rows field_def omit_empty_def)

lemma marshal_envelope_rows:
  assumes "portable e" and "envelope_well_formed e"
  shows "marshal_envelope e = Some (json_object (written_fields (envelope_rows e)))"
proof -
  have "error_field (envelope_error e) =
      Some (omit_empty (envelope_error e = None) ''error'' (row_text (struct_row [] [] [] ''error'' remote_error_type (map_option error_rows (envelope_error e)))))"
    using assms(1) marshal_error_rows
    by (auto simp: error_field_def portable_def struct_row_def json_object_text omit_empty_def field_def split: option.split)
  moreover have "(case envelope_chunk e of None \<Rightarrow> [] | Some c \<Rightarrow> field ''chunk'' (marshal_chunk c)) =
      omit_empty (envelope_chunk e = None) ''chunk'' (row_text (struct_row [] [] [] ''chunk'' chunk_type (map_option chunk_rows (envelope_chunk e))))"
    using marshal_chunk_rows
    by (auto simp: struct_row_def json_object_text omit_empty_def field_def split: option.split)
  moreover have "raw_field ''payload'' (payload e) = Some (omit_empty (payload e = []) ''payload'' (payload e))"
    using assms(1) by (auto simp: portable_def raw_field_embeddable)
  moreover have "protocol_version e = 1" using assms(2) by (simp add: envelope_well_formed_def)
  ultimately show ?thesis
    by (simp add: marshal_envelope_def written_fields_def envelope_rows_def rows string_field_def field_def
        omit_empty_def show_int_def cong: if_cong)
qed

lemma chunk_of_rows: "chunk_of (GStruct (map row_entry (chunk_rows c))) = c"
  by (cases c) (simp add: chunk_of_def chunk_rows_def rows row_entry_def reader_defs)

lemma error_of_rows: "remote_error_of (GStruct (map row_entry (error_rows r))) = r"
  by (cases r) (simp add: remote_error_of_def error_rows_def rows row_entry_def reader_defs)

lemma envelope_of_rows:
  "envelope_well_formed e \<Longrightarrow> envelope_of (GStruct (map row_entry (envelope_rows e))) = e"
  using chunk_of_rows error_of_rows
  by (cases e) (auto simp: envelope_well_formed_def envelope_of_def envelope_rows_def rows row_entry_def
      reader_defs split: option.split)

lemma decode_encode:
  assumes "encode_envelope e = Inr data" and "portable e"
  shows "decode_envelope data = Inr e"
proof -
  from assms(1) have ok: "validate_envelope e = None" and m: "marshal_envelope e = Some data"
    and len: "length data \<le> max_frame_bytes"
    by (auto simp: encode_envelope_def encode_message_def split: sum.splits option.splits if_splits)
  then have wf: "envelope_well_formed e" by (simp add: validate_envelope_iff)
  have "data = json_object (written_fields (envelope_rows e))"
    using m marshal_envelope_rows [OF assms(2) wf] by simp
  then have "unmarshal envelope_gty data = Some (GStruct (map row_entry (envelope_rows e)))"
    using unmarshal_struct [OF _ envelope_rows_ok [OF assms(2) wf], of "[]" "[]" "[]" "[]"] envelope_rows_type [of e]
    by (simp add: json_object_text)
  with len ok envelope_of_rows [OF wf] show ?thesis by (simp add: decode_envelope_eq envelope_check.guard_def)
qed

subsection \<open>Property\<close>

text \<open>C2: Round trip of the wire: whatever \<open>EncodeEnvelope\<close> writes for an envelope with UTF-8
  strings and compact raw messages, \<open>DecodeEnvelope\<close> reads back to the same envelope, the fields
  left out of the frame as empty included.\<close>

theorem decode_encode_envelope:
  assumes "encode_envelope e = Inr data" and "portable e"
  shows "decode_envelope data = Inr e"
  using assms by (rule decode_encode)

definition example_request :: envelope where
  "example_request =
    \<lparr>protocol_version = 1, envelope_type = ''response'', client_id = ''c1'', stream_id = ''s1'', seq_id = 7,
     request_id = ''r1'', cursor = [], operation = [], payload = [],
     envelope_error = Some \<lparr>remote_code = ''thread_busy'', remote_message = ''busy <1>'', remote_retryable = True,
       remote_details = CHR ''{'' # json_string ''n'' @ '':[1,2]}''\<rparr>,
     envelope_chunk = None\<rparr>"

definition example_frame :: string where
  "example_frame = json_object
    [(''protocolVersion'', ''1''), (''type'', json_string ''response''), (''clientID'', json_string ''c1''),
     (''streamID'', json_string ''s1''), (''seqID'', ''7''), (''requestID'', json_string ''r1''),
     (''error'', json_object
       [(''code'', json_string ''thread_busy''), (''message'', json_string ''busy <1>''), (''retryable'', ''true''),
        (''details'', CHR ''{'' # json_string ''n'' @ '':[1,2]}'')])]"

lemma marshal_example: "marshal_envelope example_request = Some example_frame"
  by code_simp

lemma example_portable: "portable example_request"
  by code_simp

lemma example_frame_size: "length example_frame = 199"
  by code_simp

lemma encode_example: "encode_envelope example_request = Inr example_frame"
proof -
  have "validate_envelope example_request = None"
    by (simp add: validate_envelope_iff envelope_well_formed_def example_request_def is_known_envelope_type_def max_message_bytes_def)
  then show ?thesis
    by (simp add: encode_envelope_def encode_message_def marshal_example example_frame_size limit_defs)
qed

lemma decode_encode_envelope_witness:
  "decode_envelope (case encode_envelope example_request of Inr data \<Rightarrow> data | Inl _ \<Rightarrow> []) = Inr example_request"
  using decode_encode_envelope [OF encode_example example_portable] by (simp add: encode_example)

subsection \<open>Strings that are not UTF-8\<close>

text \<open>
  A byte that is no UTF-8 is written as the escape of U+FFFD and read back as its three bytes, so a
  string can come back three times as long.
\<close>

definition replacement :: string where
  "replacement = [CHR 0xEF, CHR 0xBF, CHR 0xBD]"

lemma unquote_replacement: "unquote (backslash # ''ufffd'' @ t) = replacement @ unquote t"
proof -
  have h: "hex4 (CHR ''f'') (CHR ''f'') (CHR ''f'') (CHR ''d'') = 65533"
    by (simp add: hex4_def hex_value_def)
  moreover have "utf16_pair 65533 v = None" for v by (simp add: utf16_pair_def)
  moreover have "encode_rune 65533 = replacement" by (simp add: encode_rune_def replacement_def)
  ultimately show ?thesis by (subst unquote.simps) (simp split: list.split)
qed

lemma escape_malformed: "json_escape (replicate n (CHR 0xFF)) = concat (replicate n (backslash # ''ufffd''))"
  by (induction n) (simp_all add: rune_at.simps)

lemma unquote_malformed: "unquote (json_escape (replicate n (CHR 0xFF))) = concat (replicate n replacement)"
  unfolding escape_malformed using unquote_replacement
  by (induction n) (simp_all add: unquote.simps [of "[]"])

lemma reads_malformed: "reads d (json_string (replicate n (CHR 0xFF))) (JStr (concat (replicate n replacement)))"
  using string_body_json_escape [of "replicate n (CHR 0xFF)" "[]"] unquote_malformed [of n]
  by (intro reads_scalar) (simp_all add: parse_scalar_def json_string_def)

definition malformed_ping :: envelope where
  "malformed_ping = \<lparr>protocol_version = 1, envelope_type = ''ping'', client_id = replicate 50 (CHR 0xFF),
     stream_id = [], seq_id = 0, request_id = [], cursor = [], operation = [], payload = [],
     envelope_error = None, envelope_chunk = None\<rparr>"

definition widened_ping :: envelope where
  "widened_ping = malformed_ping\<lparr>client_id := concat (replicate 50 replacement)\<rparr>"

definition malformed_rows :: "row list" where
  "malformed_rows = (envelope_rows widened_ping)
    [2 := (string_row True ''clientID'' (client_id widened_ping))\<lparr>row_text := json_string (client_id malformed_ping)\<rparr>]"

lemma malformed_rows_ok: "list_all (row_ok (max_nesting - 1)) malformed_rows"
proof -
  have "row_ok d ((string_row True ''clientID'' (concat (replicate n replacement)))
      \<lparr>row_text := json_string (replicate n (CHR 0xFF))\<rparr>)" for d n
    using names_valid reads_malformed by (simp add: row_ok_def string_row_def)
  moreover have "valid_utf8 ''ping''" by (simp add: valid_utf8_ascii is_ascii_def del: valid_utf8.simps)
  moreover have "row_ok d (struct_row [] [] [] n t None)" if "valid_utf8 n" for d n t
    using that by (simp add: row_ok_def struct_row_def)
  ultimately show ?thesis
    using names_valid
    by (auto simp: malformed_rows_def envelope_rows_def widened_ping_def malformed_ping_def embeddable_def
        intro!: string_row_ok uint_row_ok int_row_ok raw_row_ok)
qed

lemma malformed_rows_type:
  "distinct (map row_name malformed_rows) \<and> envelope_gty = TStruct (map row_field malformed_rows)"
  by (simp add: malformed_rows_def envelope_rows_def envelope_gty_def rows row_field_def)

lemma marshal_malformed: "marshal_envelope malformed_ping = Some (json_object (written_fields malformed_rows))"
  by (simp add: marshal_envelope_def malformed_rows_def malformed_ping_def widened_ping_def envelope_rows_def
      rows written_fields_def raw_field_def error_field_def string_field_def field_def omit_empty_def show_int_def
      replacement_def)

lemma envelope_of_malformed: "envelope_of (GStruct (map row_entry malformed_rows)) = widened_ping"
  by (simp add: malformed_rows_def malformed_ping_def widened_ping_def envelope_rows_def rows row_entry_def
      envelope_of_def reader_defs)

lemma encode_malformed:
  "encode_envelope malformed_ping = Inr (json_object (written_fields malformed_rows))"
proof -
  have "length (the (marshal_envelope malformed_ping)) \<le> 500" by code_simp
  then have "length (json_object (written_fields malformed_rows)) \<le> 500" by (simp add: marshal_malformed)
  moreover have "validate_envelope malformed_ping = None"
    by (simp add: validate_envelope_iff envelope_well_formed_def malformed_ping_def is_known_envelope_type_def
        sequenced_types_def max_message_bytes_def)
  ultimately show ?thesis
    by (simp add: encode_envelope_def encode_message_def marshal_malformed limit_defs)
qed

lemma validate_widened:
  "validate_envelope widened_ping =
    Some (invalid_envelope ''remote-control clientID exceeds the size limit'')"
proof -
  have "length (concat (replicate n replacement)) = 3 * n" for n
    by (induction n) (simp_all add: replacement_def)
  moreover have "replacement \<noteq> []" by (simp add: replacement_def)
  ultimately show ?thesis
    by (simp add: validate_envelope_def validate_common_def validate_identifiers_def validate_identifier_def
        widened_ping_def malformed_ping_def is_known_envelope_type_def limit_defs)
qed

text \<open>C3: The limits are not stable under the encoding: \<open>EncodeEnvelope\<close> accepts a ping whose client id is
  50 bytes that are not UTF-8, and \<open>DecodeEnvelope\<close> refuses the frame it returns, because the id has
  become 150 bytes on the way.\<close>

theorem encoded_frame_refused:
  "\<exists>data. encode_envelope malformed_ping = Inr data \<and>
    decode_envelope data = Inl (invalid_envelope ''remote-control clientID exceeds the size limit'')"
proof -
  let ?data = "json_object (written_fields malformed_rows)"
  have "unmarshal envelope_gty ?data = Some (GStruct (map row_entry malformed_rows))"
    using unmarshal_struct [OF _ malformed_rows_ok, of "[]" "[]" "[]" "[]"] malformed_rows_type
    by (simp add: json_object_text)
  moreover have "length ?data \<le> max_frame_bytes"
    using encode_malformed by (auto simp: encode_envelope_def split: sum.splits if_splits)
  moreover have "validate_envelope widened_ping =
      Some (invalid_envelope ''remote-control clientID exceeds the size limit'')"
    by (rule validate_widened)
  ultimately show ?thesis
    using encode_malformed by (simp add: decode_envelope_def envelope_of_malformed)
qed

end
