(* ===== verification/Go_Json_Types.thy ===== *)
theory Go_Json_Types
  imports Go_Json_Decode
begin

section \<open>Decoded values have the type they are decoded into\<close>

text \<open>
  The decoder is driven by a description of a Go type; here the values of each type are told apart
  (\<open>has_type\<close>, with the ranges of the integers) and every decoding is shown to stay in the type,
  whatever the text, errors included. Readers such as \<open>as_int\<close> then never fall back on a default.
\<close>

fun has_type :: "gty \<Rightarrow> gval \<Rightarrow> bool"
  and has_types :: "(string \<times> gty) list \<Rightarrow> (string \<times> gval) list \<Rightarrow> bool"
where
  "has_type TString v = (case v of GString s \<Rightarrow> True | _ \<Rightarrow> False)"
| "has_type TInt v = (case v of GInt n \<Rightarrow> - (2 ^ 63) \<le> n \<and> n < 2 ^ 63 | _ \<Rightarrow> False)"
| "has_type (TUint w) v = (case v of GInt n \<Rightarrow> 0 \<le> n \<and> n < 2 ^ w | _ \<Rightarrow> False)"
| "has_type TBool v = (case v of GBool b \<Rightarrow> True | _ \<Rightarrow> False)"
| "has_type TRaw v = (case v of GRaw s \<Rightarrow> True | _ \<Rightarrow> False)"
| "has_type TAny v = (case v of GAny a \<Rightarrow> True | _ \<Rightarrow> False)"
| "has_type (TPtr t) v = (case v of GNil \<Rightarrow> True | GPtr x \<Rightarrow> has_type t x | _ \<Rightarrow> False)"
| "has_type (TStruct fs) v = (case v of GStruct vs \<Rightarrow> has_types fs vs | _ \<Rightarrow> False)"
| "has_type (TMap t) v = (case v of GNil \<Rightarrow> True | GMap es \<Rightarrow> list_all (\<lambda>e. has_type t (snd e)) es | _ \<Rightarrow> False)"
| "has_type (TSlice t) v = (case v of GNil \<Rightarrow> True | GSlice vs \<Rightarrow> list_all (has_type t) vs | _ \<Rightarrow> False)"
| "has_types [] vs = (vs = [])"
| "has_types ((n, t) # fs) vs = (case vs of [] \<Rightarrow> False | (m, v) # vs' \<Rightarrow> m = n \<and> has_type t v \<and> has_types fs vs')"

text \<open>A Go type: the JSON names of a struct's fields differ.\<close>

fun proper_type :: "gty \<Rightarrow> bool" where
  "proper_type (TPtr t) = proper_type t"
| "proper_type (TStruct fs) = (distinct (map fst fs) \<and> list_all (\<lambda>f. proper_type (snd f)) fs)"
| "proper_type (TMap t) = proper_type t"
| "proper_type (TSlice t) = proper_type t"
| "proper_type _ = True"

lemma zero_has_type: "has_type t (zero_value t)"
proof (induction t rule: zero_value.induct)
  case (8 fs)
  have "has_types gs (map (\<lambda>(n, t). (n, zero_value t)) gs)" if "set gs \<subseteq> set fs" for gs
    using that 8 by (induction gs) auto
  then show ?case by simp
qed simp_all

lemma has_types_lookup:
  "has_types fs vs \<Longrightarrow> distinct (map fst fs) \<Longrightarrow> (n, t) \<in> set fs \<Longrightarrow>
    \<exists>v. map_of vs n = Some v \<and> has_type t v"
proof (induction fs arbitrary: vs)
  case (Cons f fs)
  then show ?case by (cases f; cases vs) (auto simp: image_iff split: prod.splits)
qed simp

lemma has_types_field_or:
  "has_types fs vs \<Longrightarrow> distinct (map fst fs) \<Longrightarrow> (n, t) \<in> set fs \<Longrightarrow> has_type t (field_or vs n t)"
  using has_types_lookup [of fs vs n t] by (auto simp: field_or_def)

lemma has_types_update:
  "has_types fs vs \<Longrightarrow> distinct (map fst fs) \<Longrightarrow> (n, t) \<in> set fs \<Longrightarrow> has_type t v \<Longrightarrow>
    has_types fs (AList.update n v vs)"
proof (induction fs arbitrary: vs)
  case (Cons f fs)
  then show ?case by (cases f; cases vs) (auto simp: image_iff split: prod.splits)
qed simp

lemma find_field_mem: "find_field fs k = Some f \<Longrightarrow> f \<in> set fs"
  by (auto simp: find_field_def split: option.splits dest: find_Some_mem)

lemma update_keeps:
  "list_all (\<lambda>e. P (snd e)) es \<Longrightarrow> P v \<Longrightarrow> list_all (\<lambda>e. P (snd e)) (AList.update k v es)"
  by (induction es) auto

lemma parse_uint_range: "parse_uint w s = Some n \<Longrightarrow> 0 \<le> n \<and> n < 2 ^ w"
  by (auto simp: parse_uint_def split: if_splits)

lemma parse_int64_range: "parse_int64 s = Some n \<Longrightarrow> - (2 ^ 63) \<le> n \<and> n < 2 ^ 63"
  by (auto simp: parse_int64_def Let_def split: if_splits)

text \<open>What a decoding starts from: the old value, or a fresh one.\<close>

lemma old_parts:
  "has_type (TPtr t) old \<Longrightarrow> has_type t (pointee t old)"
  "has_type (TMap t) old \<Longrightarrow> list_all (\<lambda>e. has_type t (snd e)) (map_entries old)"
  "has_type (TSlice t) old \<Longrightarrow> list_all (has_type t) (slice_elems old)"
  "has_type (TStruct fs) old \<Longrightarrow> has_types fs (struct_fields old)"
  by (auto simp: pointee_def map_entries_def slice_elems_def struct_fields_def zero_has_type split: gval.splits)

lemma has_types_member:
  assumes "proper_type (TStruct fs)" and "has_types fs vs" and "find_field fs k = Some (n, t)"
  shows "proper_type t \<and> has_type t (field_or vs n t) \<and>
    (has_type t v \<longrightarrow> has_types fs (AList.update n v vs))"
  using assms find_field_mem [OF assms(3)] has_types_field_or has_types_update
  by (auto simp: list_all_iff)

text \<open>Preservation, for values, fields, entries and elements at once.\<close>

lemma decode_has_type:
  shows "proper_type t \<Longrightarrow> has_type t old \<Longrightarrow> has_type t (fst (decode strict t old raw j))"
    and "proper_type (TStruct fs) \<Longrightarrow> has_types fs vs \<Longrightarrow> has_types fs (fst (decode_fields strict fs vs ms))"
    and "proper_type t \<Longrightarrow> list_all (\<lambda>e. has_type t (snd e)) es \<Longrightarrow>
      list_all (\<lambda>e. has_type t (snd e)) (fst (decode_entries strict t es ms))"
    and "proper_type t \<Longrightarrow> list_all (has_type t) olds \<Longrightarrow> list_all (has_type t) (fst (decode_elems strict t olds els))"
proof (induction strict t old raw j and strict fs vs ms and strict t es ms and strict t olds els
    rule: decode_decode_fields_decode_entries_decode_elems.induct)
  case (12 strict old raw l)
  then show ?case by (auto dest: parse_int64_range split: option.split)
next
  case (13 strict w old raw l)
  then show ?case by (auto dest: parse_uint_range split: option.split)
next
  case (17 strict fs vs k raw j ms)
  show ?case
  proof (cases "find_field fs k")
    case (Some f)
    obtain n t where f: "f = (n, t)" by (cases f)
    obtain v ok where v: "decode strict t (field_or vs n t) raw j = (v, ok)" by fastforce
    from has_types_member [OF "17.prems" Some [unfolded f], of v]
    have "proper_type t" "has_type t (field_or vs n t)" and upd: "has_type t v \<longrightarrow> has_types fs (AList.update n v vs)"
      by auto
    with "17.IH"(2) [OF Some f [symmetric]] v have "has_type t v" by simp
    with upd "17.IH"(3) [OF Some f [symmetric] v [symmetric] "17.prems"(1)] v show ?thesis
      using Some f by (simp add: split_def)
  qed (use 17 in \<open>simp add: split_def\<close>)
next
  case (19 strict t es k raw j ms)
  obtain v ok where v: "decode strict t (zero_value t) raw j = (v, ok)" by fastforce
  have "has_type t v" using "19.IH"(1) "19.prems" zero_has_type v by fastforce
  then have "list_all (\<lambda>e. has_type t (snd e)) (AList.update k v es)"
    using "19.prems" by (intro update_keeps)
  with "19.IH"(2) [OF v [symmetric] "19.prems"(1)] v show ?case by (simp add: split_def)
next
  case (21 strict t olds raw j es)
  have "has_type t (case olds of [] \<Rightarrow> zero_value t | v # _ \<Rightarrow> v)" "list_all (has_type t) (tl olds)"
    using "21.prems" zero_has_type by (cases olds; simp)+
  with 21 show ?case by (simp add: split_def) (metis prod.collapse)
qed (simp_all only: decode.simps decode_fields.simps decode_entries.simps decode_elems.simps,
    simp_all only: fst_conv old_parts proper_type.simps,
    simp_all add: split_def del: decode.simps split: json.split)

text \<open>\<open>json.Unmarshal\<close> leaves a value of the type, whether it fails or not.\<close>

lemma unmarshal_into_has_type:
  "proper_type t \<Longrightarrow> has_type t old \<Longrightarrow> has_type t (fst (unmarshal_into t old s))"
  by (auto simp: unmarshal_into_def decode_has_type(1) split: option.split)

lemma unmarshal_has_type: "proper_type t \<Longrightarrow> unmarshal t s = Some v \<Longrightarrow> has_type t v"
  using unmarshal_into_has_type [of t "zero_value t" s] zero_has_type [of t]
  by (auto simp: unmarshal_def split: prod.splits if_splits)

lemma decoder_decode_has_type: "proper_type t \<Longrightarrow> decoder_decode strict t s = Some (v, r) \<Longrightarrow> has_type t v"
proof -
  assume t: "proper_type t" and d: "decoder_decode strict t s = Some (v, r)"
  from d obtain j where "decode strict t (zero_value t) s j = (v, True)"
    by (auto simp: decoder_decode_def split: option.splits prod.splits if_splits)
  with decode_has_type(1) [OF t zero_has_type, of strict s j] show ?thesis by simp
qed

end
