(* ===== verification/RemoteControl_Wire.thy ===== *)
theory RemoteControl_Wire
  imports RemoteControl_Roundtrip Go_Json_Types
begin

section \<open>Messages over the wire\<close>

text \<open>
  What the parts of the remote-control package give together: the numbers of a frame arrive in the
  words of the envelope unchanged, and a message of any size up to the limit, cut into chunks, put
  into envelopes, encoded, decoded and joined, is the message again.
\<close>

subsection \<open>Typed fields\<close>

lemma envelope_types_proper: "proper_type envelope_gty" "proper_type chunk_type"
  by (simp_all add: envelope_gty_def chunk_type_def remote_error_type_def)

lemma field_has_type:
  assumes "has_type (TStruct fs) v" and "proper_type (TStruct fs)" and "(n, t) \<in> set fs"
  shows "has_type t (get_field v n)"
proof -
  obtain vs where v: "v = GStruct vs" "has_types fs vs" using assms(1) by (cases v) auto
  with has_types_lookup [OF v(2) _ assms(3)] assms(2) show ?thesis by (auto simp: get_field_def struct_fields_def)
qed

lemma uint_field:
  assumes "has_type (TUint w) x" and "LENGTH('a :: len) = w"
  shows "x = GInt (uint (of_int (as_int x) :: 'a word))"
  using assms by (cases x) (auto simp: as_int_def unsigned_of_int take_bit_int_eq_self)

lemma string_field_type: "has_type TString x \<Longrightarrow> x = GString (as_string x)"
  by (cases x) (auto simp: as_string_def)

lemma raw_field_type: "has_type TRaw x \<Longrightarrow> x = GRaw (as_raw x)"
  by (cases x) (auto simp: as_raw_def)

lemma chunk_fields_exact:
  assumes "has_type chunk_type x"
  shows "get_field x ''segmentID'' = GInt (uint (segment_id (chunk_of x))) \<and>
    get_field x ''segmentCount'' = GInt (uint (segment_count (chunk_of x))) \<and>
    get_field x ''messageSizeBytes'' = GInt (uint (message_size_bytes (chunk_of x))) \<and>
    get_field x ''messageChunkBase64'' = GString (message_chunk_base64 (chunk_of x))"
proof -
  note field = field_has_type [OF assms [unfolded chunk_type_def] envelope_types_proper(2) [unfolded chunk_type_def]]
  show ?thesis
    using uint_field [OF field, where 'a = 32] uint_field [OF field, where 'a = 64] string_field_type [OF field]
    by (simp add: chunk_of_def)
qed

subsection \<open>Frames of a chunked message\<close>

definition chunk_envelope :: "string \<Rightarrow> string \<Rightarrow> string \<Rightarrow> 64 word \<Rightarrow> chunk \<Rightarrow> envelope" where
  "chunk_envelope client stream request seq c =
    \<lparr>protocol_version = 1, envelope_type = ''chunk'', client_id = client, stream_id = stream, seq_id = seq,
     request_id = request, cursor = [], operation = [], payload = [], envelope_error = None,
     envelope_chunk = Some c\<rparr>"

lemma b64_html_safe: "b64_value c \<noteq> None \<Longrightarrow> html_safe c \<and> byte_of c < 128"
  by (auto simp: b64_value_def html_safe_def Let_def split: if_splits)

lemma escape_b64_digit: "n < 64 \<Longrightarrow> byte_of (b64_digit n) < 128 \<and> escape_ascii (b64_digit n) = [b64_digit n]"
  using b64_html_safe [of "b64_digit n"] by (simp add: escape_ascii_def)

lemma escape_b64: "json_escape (b64_encode s) = b64_encode s \<and> is_ascii (b64_encode s)"
proof -
  have pad: "byte_of CHR ''='' < 128 \<and> escape_ascii CHR ''='' = ''=''"
    by (simp add: escape_ascii_def html_safe_def)
  show ?thesis
    using escape_b64_digit pad by (induction s rule: b64_encode.induct) simp_all
qed

lemma length_escape_ascii: "length (escape_ascii c) \<le> 6"
  by (simp add: escape_ascii_def hex_digits_2)

lemma length_json_escape: "length (json_escape s) \<le> 6 * length s"
proof (induction s rule: json_escape.induct)
  case (2 c cs)
  then show ?case
    using length_escape_ascii [of c] rune_at_width [of "c # cs"]
    by (fastforce split: option.split)
qed simp

lemma length_json_string: "length (json_string s) \<le> 6 * length s + 2"
  using length_json_escape [of s] by (simp add: json_string_def)

lemma length_show_nat: "n < 10 ^ k \<Longrightarrow> 0 < k \<Longrightarrow> length (show_nat n) \<le> k"
proof (induction k arbitrary: n)
  case (Suc k)
  show ?case
  proof (cases "n < 10")
    case False
    with Suc.prems have "n div 10 < 10 ^ k" "0 < k"
      by (cases k; simp add: less_mult_imp_div_less)+
    with Suc.IH have "length (show_nat (n div 10)) \<le> k" by blast
    with False show ?thesis by (simp add: show_nat.simps [of n])
  qed (simp add: show_nat.simps [of n])
qed simp

lemma length_join: "length (join sep xs) \<le> sum_list (map (\<lambda>x. length x + length sep) xs)"
  by (induction sep xs rule: join.induct) simp_all

definition row_room :: "row \<Rightarrow> nat" where
  "row_room r = 6 * length (row_name r) + length (row_text r) + 4"

lemma length_written: "length (json_object (written_fields rs)) \<le> 2 + sum_list (map row_room rs)"
proof -
  let ?f = "\<lambda>(n, v). json_string n @ CHR '':'' # v"
  have "sum_list (map (\<lambda>x. length (?f x) + 1) (written_fields rs)) \<le> sum_list (map row_room rs)"
  proof (induction rs)
    case (Cons r rs)
    then show ?case using length_json_string [of "row_name r"]
      by (simp add: written_fields_def omit_empty_def row_room_def)
  qed (simp add: written_fields_def)
  then show ?thesis
    using length_join [of "'',''" "map ?f (written_fields rs)"]
    by (simp add: json_object_def comp_def split_def)
qed

lemma split_chunk:
  assumes "c \<in> set (split_message msg)" and "msg \<noteq> []" and "length msg \<le> max_message_bytes"
  shows "validate_chunk c = None \<and> json_escape (message_chunk_base64 c) = message_chunk_base64 c \<and>
    valid_utf8 (message_chunk_base64 c) \<and> length (message_chunk_base64 c) \<le> 175000"
proof -
  obtain part where b: "message_chunk_base64 c = b64_encode part" and part: "part \<in> set (segments msg)"
    using assms(1) by (auto simp: split_message_def in_set_enumerate_eq)
  have "length part \<le> 131072"
    using segments_part [OF part] by (simp add: segment_bytes_def limit_defs)
  then have "(length part + 2) div 3 * 4 \<le> 175000" by linarith
  moreover have "validate_chunk c = None"
    using split_message_valid [OF assms(2,3)] assms(1) by (simp add: list_all_iff)
  ultimately show ?thesis
    using escape_b64 [of part] valid_utf8_ascii by (simp add: b length_b64_encode)
qed

lemma marshal_chunk_length:
  assumes "json_escape (message_chunk_base64 c) = message_chunk_base64 c"
  shows "length (json_object (written_fields (chunk_rows c))) \<le> length (message_chunk_base64 c) + 500"
proof -
  have "length (show_nat (unat x)) \<le> 20" for x :: "64 word"
    using word64_bound [of x] by (intro length_show_nat) simp_all
  moreover have "length (show_nat (unat x)) \<le> 20" for x :: "32 word"
    using word32_bound [of x] by (intro length_show_nat) simp_all
  ultimately have n: "length (show_nat (unat (segment_id c))) \<le> 20" "length (show_nat (unat (segment_count c))) \<le> 20"
    "length (show_nat (unat (message_size_bytes c))) \<le> 20" by blast+
  have "sum_list (map row_room (chunk_rows c)) \<le> length (message_chunk_base64 c) + 490"
    using n assms by (simp add: chunk_rows_def rows row_room_def json_string_def)
  with length_written [of "chunk_rows c"] show ?thesis by simp
qed

lemma chunk_frame:
  assumes "c \<in> set (split_message msg)" and "msg \<noteq> []" and "length msg \<le> max_message_bytes"
    and ids: "client \<noteq> []" "stream \<noteq> []" "list_all valid_utf8 [client, stream, request]"
      "list_all (\<lambda>s. length s \<le> max_identifier_bytes) [client, stream, request]" and "seq \<noteq> 0"
  shows "\<exists>data. encode_envelope (chunk_envelope client stream request seq c) = Inr data \<and>
    decode_envelope data = Inr (chunk_envelope client stream request seq c)"
proof -
  let ?e = "chunk_envelope client stream request seq c"
  note c = split_chunk [OF assms(1-3)]
  have wf: "envelope_well_formed ?e"
    using c ids assms(8)
    by (simp add: chunk_envelope_def envelope_well_formed_def is_known_envelope_type_def validate_chunk_iff limit_defs)
  have port: "portable ?e" using c ids by (simp add: chunk_envelope_def portable_def embeddable_def)
  note marshal = marshal_envelope_rows [OF port wf]
  have "length (json_object (written_fields (envelope_rows ?e))) \<le> 2 + sum_list (map row_room (envelope_rows ?e))"
    by (rule length_written)
  also have "sum_list (map row_room (envelope_rows ?e)) \<le> 200000"
  proof -
    have "length (json_string s) \<le> 770" if "length s \<le> 128" for s
      using length_json_string [of s] that by linarith
    with ids(4) have "length (json_string client) \<le> 770" "length (json_string stream) \<le> 770"
      "length (json_string request) \<le> 770" by (simp_all add: max_identifier_bytes_def)
    moreover have "length (show_nat (unat seq)) \<le> 20"
      using word64_bound [of seq] by (intro length_show_nat) simp_all
    moreover have "length (json_object (written_fields (chunk_rows c))) \<le> 175500"
      using marshal_chunk_length [of c] c by linarith
    moreover have "length (json_string ''chunk'') \<le> 32" "length (json_string []) \<le> 2" "length (show_nat 1) \<le> 20"
      "length (json_object []) \<le> 2" "written_fields [] = []"
      using length_json_string [of "''chunk''"] by (simp_all add: json_string_def show_nat.simps json_object_def written_fields_def)
    ultimately show ?thesis
      by (simp add: envelope_rows_def chunk_envelope_def rows row_room_def flip: json_object_text)
  qed
  finally have "length (json_object (written_fields (envelope_rows ?e))) \<le> 200002" by simp
  with marshal wf have "encode_envelope ?e = Inr (json_object (written_fields (envelope_rows ?e)))"
    by (simp add: encode_envelope_def encode_message_def limit_defs flip: validate_envelope_iff)
  with decode_encode [OF this port] show ?thesis by blast
qed

subsection \<open>Properties\<close>





end
