(* ===== verification/ProductPolicy.thy ===== *)
theory ProductPolicy
  imports Go_Quote Go_Json_Decode
begin

section \<open>Product policy: query scope and scheduled tasks\<close>

text \<open>
  \<open>integrations/opagent/product_policy.go\<close>: the prompt augmenter and the tool-scope hook that keep a
  turn inside the graph source it was started from, and the cron hook that reserves the Cloud Sync
  task. A \<open>map[string]any\<close> is an association list with distinct keys; a Go function that returns
  \<open>(any, error)\<close> returns the pair, because it returns the parameters also beside an error. A nil map
  is the empty list: no lookup tells them apart, and neither does any branch of this file.
\<close>

subsection \<open>Reading dynamic values\<close>

type_synonym meta = "(string \<times> any) list"

definition string_value :: "any \<Rightarrow> string" where
  "string_value v = (case v of AString s \<Rightarrow> s | _ \<Rightarrow> [])"

definition lookup_any :: "meta \<Rightarrow> string \<Rightarrow> any" where
  "lookup_any m k = (case map_of m k of Some v \<Rightarrow> v | None \<Rightarrow> ANil)"

definition meta_object :: "meta \<Rightarrow> string \<Rightarrow> meta option" where
  "meta_object values key =
    (case map_of values key of
       None \<Rightarrow> None
     | Some v \<Rightarrow> (case v of AMeta m \<Rightarrow> Some m | AMap m \<Rightarrow> Some m | _ \<Rightarrow> None))"

definition meta_string :: "meta \<Rightarrow> string \<Rightarrow> string" where
  "meta_string values key = string_value (lookup_any values key)"

definition string_list_contains :: "any \<Rightarrow> string \<Rightarrow> bool" where
  "string_list_contains v expected =
    (case v of
       AStrings ss \<Rightarrow> list_ex (\<lambda>s. trim_space s = expected) ss
     | ASlice vs \<Rightarrow> list_ex (\<lambda>x. trim_space (string_value x) = expected) vs
     | _ \<Rightarrow> False)"

abbreviation "gbrain_agent_id \<equiv> ''agent-gbrain''"
abbreviation "cloud_sync_task_id \<equiv> ''task-openbrain-cloud-sync''"
abbreviation "cloud_sync_managed_kind \<equiv> ''openbrain-cloud-sync''"
abbreviation "cloud_sync_skill_id \<equiv> ''skill-openbrain-cloud-sync''"
abbreviation "cloud_sync_target_agent_id \<equiv> ''agent-coder''"
abbreviation "cloud_sync_payload_kind \<equiv> ''agentTurn''"
abbreviation "cloud_sync_prompt_preamble \<equiv> ''Run OpenBrain Cloud Sync.''"

subsection \<open>The prompt augmenter\<close>

text \<open>The scope the two gbrain hooks read: the object \<open>gbrainQueryScope\<close> of kind \<open>source\<close>.\<close>

definition source_scope :: "meta \<Rightarrow> meta option" where
  "source_scope m =
    (case meta_object m ''gbrainQueryScope'' of
       None \<Rightarrow> None
     | Some scope \<Rightarrow> if trim_space (meta_string scope ''kind'') = ''source'' then Some scope else None)"

definition scope_prompt :: "(nat \<Rightarrow> bool) \<Rightarrow> string \<Rightarrow> string \<Rightarrow> string" where
  "scope_prompt printable label source_id =
    join [CHR 0x0A]
      [''## OpenBrain GBrain Query Scope'',
       [],
       ''This turn was started from OpenBrain graph scope '' @ go_quote printable label @ ''.'',
       ''Only use GBrain Cloud results from source_id '' @ go_quote printable source_id @ ''.'',
       ''When calling the gbrain-cloud query tool, include source_id ''
         @ go_quote printable source_id @ ''.'',
       ''Do not use search or an unscoped query unless the user explicitly asks to broaden the scope.'']"

definition gbrain_prompt_augmenter ::
    "(nat \<Rightarrow> bool) \<Rightarrow> string \<Rightarrow> string \<Rightarrow> meta \<Rightarrow> string" where
  "gbrain_prompt_augmenter printable prompt0 agent_id m =
    (let prompt = trim_space prompt0 in
     if trim_space agent_id \<noteq> gbrain_agent_id then prompt
     else
       (case source_scope m of
          None \<Rightarrow> prompt
        | Some scope \<Rightarrow>
            (let source_id = trim_space (meta_string scope ''sourceID'') in
             if source_id = [] then prompt
             else
               (let label0 = trim_space (meta_string scope ''label'');
                    label = (if label0 = [] then source_id else label0);
                    sp = scope_prompt printable label source_id
                in if prompt = [] then sp else prompt @ [CHR 0x0A, CHR 0x0A] @ sp))))"

subsection \<open>The tool scope\<close>

definition is_gbrain_source_scoped_tool :: "string \<Rightarrow> string \<Rightarrow> any \<Rightarrow> any \<Rightarrow> bool" where
  "is_gbrain_source_scoped_tool server_id tool_name input_schema params =
    (if \<not> contains (to_lower (trim_space server_id)) ''gbrain-cloud'' then False
     else if to_lower (trim_space tool_name) \<in> {''query'', ''search''} then True
     else if (case input_schema of
                AMap schema \<Rightarrow>
                  (case lookup_any schema ''properties'' of
                     AMap properties \<Rightarrow> map_of properties ''source_id'' \<noteq> None
                   | _ \<Rightarrow> False)
              | _ \<Rightarrow> False) then True
     else (case params of AMap arguments \<Rightarrow> map_of arguments ''source_id'' \<noteq> None | _ \<Rightarrow> False))"

definition gbrain_tool_scope ::
    "(nat \<Rightarrow> bool) \<Rightarrow> meta \<Rightarrow> string \<Rightarrow> string \<Rightarrow> any \<Rightarrow> any \<Rightarrow> any \<times> string option" where
  "gbrain_tool_scope printable m server_id tool_name input_schema params =
    (if \<not> is_gbrain_source_scoped_tool server_id tool_name input_schema params then (params, None)
     else
       (case source_scope m of
          None \<Rightarrow> (params, None)
        | Some scope \<Rightarrow>
            (let source_id = trim_space (meta_string scope ''sourceID'') in
             if source_id = [] then
               (params, Some ''GBrain query scope has no allowed source ID; refresh the OpenBrain graph'')
             else
               (case params of
                  AMap arguments \<Rightarrow>
                    (let requested = trim_space (string_value (lookup_any arguments ''source_id'')) in
                     if requested \<noteq> [] \<and> requested \<noteq> source_id then
                       (params, Some (''source_id '' @ go_quote printable requested
                                        @ '' is outside the OpenBrain graph scope''))
                     else if requested = source_id then (params, None)
                     else (AMap (AList.update ''source_id'' (AString source_id) arguments), None))
                | _ \<Rightarrow> (params, Some ''GBrain query scope requires object tool arguments'')))))"

subsection \<open>The schedule policy\<close>

record cron_payload =
  payload_kind :: string
  payload_text :: string
  payload_data :: meta

record cron_task =
  task_id :: string
  target_kind :: string
  target_agent_id :: string
  task_payload :: cron_payload

definition is_cloud_sync_payload :: "cron_payload \<Rightarrow> bool" where
  "is_cloud_sync_payload p =
    (if trim_space (string_value (lookup_any (payload_data p) ''managedKind'')) = cloud_sync_managed_kind
     then True
     else if string_list_contains (lookup_any (payload_data p) ''selectedSkillIDs'') cloud_sync_skill_id
     then True
     else (case meta_object (payload_data p) ''selectedSkillContext'' of
             None \<Rightarrow> False
           | Some ctx \<Rightarrow> trim_space (meta_string ctx ''managedKind'') = cloud_sync_managed_kind))"

definition validate_cloud_sync_payload :: "cron_payload \<Rightarrow> string option" where
  "validate_cloud_sync_payload p =
    (if trim_space (payload_kind p) \<noteq> cloud_sync_payload_kind
        \<or> \<not> has_prefix (trim_space (payload_text p)) cloud_sync_prompt_preamble then
       Some ''OpenBrain Cloud Sync payload shape does not match product policy''
     else if trim_space (string_value (lookup_any (payload_data p) ''managedKind''))
               \<noteq> cloud_sync_managed_kind then
       Some ''OpenBrain Cloud Sync managed kind is missing''
     else if \<not> string_list_contains (lookup_any (payload_data p) ''selectedSkillIDs'')
                cloud_sync_skill_id then
       Some ''OpenBrain Cloud Sync must select its product skill''
     else (case meta_object (payload_data p) ''selectedSkillContext'' of
             None \<Rightarrow> Some ''OpenBrain Cloud Sync selected skill context is invalid''
           | Some ctx \<Rightarrow>
               if trim_space (meta_string ctx ''managedKind'') \<noteq> cloud_sync_managed_kind
               then Some ''OpenBrain Cloud Sync selected skill context is invalid'' else None))"

definition authorize_cloud_sync_task :: "cron_task \<Rightarrow> string option" where
  "authorize_cloud_sync_task t =
    (if \<not> (trim_space (task_id t) = cloud_sync_task_id \<or> is_cloud_sync_payload (task_payload t)) then None
     else if trim_space (task_id t) \<noteq> cloud_sync_task_id then
       Some ''OpenBrain Cloud Sync identity is reserved for its product-managed task''
     else if trim_space (target_kind t) \<noteq> ''agent''
          \<or> trim_space (target_agent_id t) \<noteq> cloud_sync_target_agent_id then
       Some ''OpenBrain Cloud Sync must target the managed Coder agent''
     else validate_cloud_sync_payload (task_payload t))"

text \<open>\<open>protocol.Content\<close>: nil, a JSON content (whose pointer may be nil), or some other content.\<close>

datatype content = NoContent | JsonContent "string option" | OtherContent

definition cron_content_json :: "content \<Rightarrow> (string, string) result" where
  "cron_content_json c =
    (case c of
       NoContent \<Rightarrow> Inr []
     | JsonContent (Some raw) \<Rightarrow> Inr raw
     | _ \<Rightarrow> Inl ''OpenBrain cron policy requires JSON content'')"

definition cron_payload_type :: gty where
  "cron_payload_type = TStruct [(''kind'', TString), (''text'', TString), (''data'', TMap TAny)]"

definition cron_task_type :: gty where
  "cron_task_type = TStruct
    [(''id'', TString),
     (''target'', TStruct [(''kind'', TString), (''agentID'', TString)]),
     (''payload'', cron_payload_type)]"

definition cron_write_type :: gty where
  "cron_write_type = TStruct [(''task'', cron_task_type)]"

definition cron_run_type :: gty where
  "cron_run_type = TStruct [(''id'', TString), (''payload'', TPtr cron_payload_type)]"

definition cron_payload_of :: "gval \<Rightarrow> cron_payload" where
  "cron_payload_of v =
    \<lparr>payload_kind = as_string (get_field v ''kind''), payload_text = as_string (get_field v ''text''),
     payload_data = map (\<lambda>(k, x). (k, as_any x)) (map_entries (get_field v ''data''))\<rparr>"

definition cron_task_of :: "gval \<Rightarrow> cron_task" where
  "cron_task_of v =
    \<lparr>task_id = as_string (get_field v ''id''),
     target_kind = as_string (get_field (get_field v ''target'') ''kind''),
     target_agent_id = as_string (get_field (get_field v ''target'') ''agentID''),
     task_payload = cron_payload_of (get_field v ''payload'')\<rparr>"

text \<open>
  Decode a request. Empty content leaves the zero value. The text of a decoding error ends with the
  library's own message, which is left out.
\<close>

definition decode_cron :: "gty \<Rightarrow> string \<Rightarrow> string \<Rightarrow> (string, gval) result" where
  "decode_cron t what raw =
    (if raw = [] then Inr (zero_value t)
     else (case unmarshal t raw of
             None \<Rightarrow> Inl (''decode OpenBrain cron '' @ what @ '' policy'')
           | Some v \<Rightarrow> Inr v))"

definition cron_run_policy :: "string \<Rightarrow> cron_payload option \<Rightarrow> string option" where
  "cron_run_policy tid po =
    (if trim_space tid \<noteq> cloud_sync_task_id then
       (case po of
          Some p \<Rightarrow>
            if is_cloud_sync_payload p then
              Some ''OpenBrain Cloud Sync payload is reserved for its product-managed task''
            else None
        | None \<Rightarrow> None)
     else (case po of None \<Rightarrow> None | Some p \<Rightarrow> validate_cloud_sync_payload p))"

definition open_brain_cron_policy :: "string \<Rightarrow> content \<Rightarrow> string option" where
  "open_brain_cron_policy op_code c =
    (case cron_content_json c of
       Inl err \<Rightarrow> Some err
     | Inr raw \<Rightarrow>
         if op_code \<in> {''cron/add'', ''cron/upsert'', ''cron/update''} then
           (case decode_cron cron_write_type ''write'' raw of
              Inl err \<Rightarrow> Some err
            | Inr v \<Rightarrow> authorize_cloud_sync_task (cron_task_of (get_field v ''task'')))
         else if op_code = ''cron/run'' then
           (case decode_cron cron_run_type ''run'' raw of
              Inl err \<Rightarrow> Some err
            | Inr v \<Rightarrow>
                cron_run_policy (as_string (get_field v ''id''))
                  (map_option cron_payload_of (as_ptr (get_field v ''payload''))))
         else None)"

end
