(* ===== verification/ProductPolicy_Props.thy ===== *)
theory ProductPolicy_Props
  imports ProductPolicy
begin

section \<open>What the product policy promises\<close>

text \<open>
  The contract of the managed Cloud Sync task and the proof that the cron hook enforces it; the
  confinement of a scoped tool call to its graph source; and the shape of the scoped prompt.
\<close>

subsection \<open>The managed task\<close>

definition managed_payload :: "cron_payload \<Rightarrow> bool" where
  "managed_payload p \<longleftrightarrow>
     trim_space (payload_kind p) = cloud_sync_payload_kind \<and>
     has_prefix (trim_space (payload_text p)) cloud_sync_prompt_preamble \<and>
     trim_space (meta_string (payload_data p) ''managedKind'') = cloud_sync_managed_kind \<and>
     string_list_contains (lookup_any (payload_data p) ''selectedSkillIDs'') cloud_sync_skill_id \<and>
     (\<exists>ctx. meta_object (payload_data p) ''selectedSkillContext'' = Some ctx \<and>
        trim_space (meta_string ctx ''managedKind'') = cloud_sync_managed_kind)"

definition managed_task :: "cron_task \<Rightarrow> bool" where
  "managed_task t \<longleftrightarrow>
     trim_space (task_id t) = cloud_sync_task_id \<and> trim_space (target_kind t) = ''agent'' \<and>
     trim_space (target_agent_id t) = cloud_sync_target_agent_id \<and> managed_payload (task_payload t)"

definition unrelated_task :: "cron_task \<Rightarrow> bool" where
  "unrelated_task t \<longleftrightarrow>
     trim_space (task_id t) \<noteq> cloud_sync_task_id \<and> \<not> is_cloud_sync_payload (task_payload t)"

lemma validate_cloud_sync_payload_iff: "validate_cloud_sync_payload p = None \<longleftrightarrow> managed_payload p"
  by (auto simp: validate_cloud_sync_payload_def managed_payload_def meta_string_def
      split: option.splits)

lemma managed_payload_is_cloud_sync: "managed_payload p \<Longrightarrow> is_cloud_sync_payload p"
  by (simp add: managed_payload_def is_cloud_sync_payload_def meta_string_def)

text \<open>Every refusal says whose rule it is.\<close>

abbreviation (input) "cloud_sync_refusal \<equiv> prefix ''OpenBrain Cloud Sync''"

lemma validate_refusal: "pred_option cloud_sync_refusal (validate_cloud_sync_payload p)"
  by (simp add: validate_cloud_sync_payload_def split: option.split)

lemma authorize_refusal: "pred_option cloud_sync_refusal (authorize_cloud_sync_task t)"
  by (simp add: authorize_cloud_sync_task_def validate_refusal)

lemma authorize_cloud_sync_task_iff:
  "authorize_cloud_sync_task t = None \<longleftrightarrow> unrelated_task t \<or> managed_task t"
  by (simp add: authorize_cloud_sync_task_def unrelated_task_def managed_task_def
      validate_cloud_sync_payload_iff) blast

interpretation payload_check: checked validate_cloud_sync_payload managed_payload cloud_sync_refusal
  using validate_refusal
  by unfold_locales (auto simp: validate_cloud_sync_payload_iff option.pred_set)

interpretation task_check: checked authorize_cloud_sync_task
    "\<lambda>t. unrelated_task t \<or> managed_task t" cloud_sync_refusal
  using authorize_refusal
  by unfold_locales (auto simp: authorize_cloud_sync_task_iff option.pred_set)

subsection \<open>Scoped tool calls\<close>

lemma lookup_any_update:
  "lookup_any (AList.update k v m) k' = (if k' = k then v else lookup_any m k')"
  by (simp add: lookup_any_def AList.update_conv')

lemma string_value_simps [simp]: "string_value (AString s) = s" "string_value ANil = []"
  by (simp_all add: string_value_def)

text \<open>A scoped call that goes through names the scope's own source and keeps its other arguments.\<close>

definition confined :: "string \<Rightarrow> any \<Rightarrow> any \<Rightarrow> bool" where
  "confined source_id params next \<longleftrightarrow>
     (\<exists>args args'. params = AMap args \<and> next = AMap args' \<and>
        trim_space (string_value (lookup_any args' ''source_id'')) = source_id \<and>
        (\<forall>k. k \<noteq> ''source_id'' \<longrightarrow> map_of args' k = map_of args k))"

lemma gbrain_tool_scope_confined:
  assumes "is_gbrain_source_scoped_tool server tool schema params"
    and "source_scope m = Some scope"
    and "gbrain_tool_scope printable m server tool schema params = (next', None)"
  shows "trim_space (meta_string scope ''sourceID'') \<noteq> [] \<and>
    confined (trim_space (meta_string scope ''sourceID'')) params next'"
  using assms
  by (auto simp: gbrain_tool_scope_def confined_def Let_def lookup_any_update AList.update_conv'
      split: if_splits any.splits)

lemma gbrain_tool_scope_error:
  "gbrain_tool_scope printable m server tool schema params = (next', Some err) \<Longrightarrow> next' = params"
  by (auto simp: gbrain_tool_scope_def Let_def split: if_splits any.splits option.splits)

lemma scoped_tool_update:
  assumes "is_gbrain_source_scoped_tool server tool schema (AMap args)"
  shows "is_gbrain_source_scoped_tool server tool schema (AMap (AList.update ''source_id'' v args))"
  using assms unfolding is_gbrain_source_scoped_tool_def
  by (simp add: AList.update_conv' split: if_split_asm)

subsection \<open>The scoped prompt\<close>

lemma one_line_quote_end: "CHR 0x0A \<notin> set (go_quote printable s)"
  by (rule one_line_no_newline) simp

definition scope_lines :: "(nat \<Rightarrow> bool) \<Rightarrow> string \<Rightarrow> string \<Rightarrow> string list" where
  "scope_lines printable label source_id =
    [''## OpenBrain GBrain Query Scope'',
     [],
     ''This turn was started from OpenBrain graph scope '' @ go_quote printable label @ ''.'',
     ''Only use GBrain Cloud results from source_id '' @ go_quote printable source_id @ ''.'',
     ''When calling the gbrain-cloud query tool, include source_id ''
       @ go_quote printable source_id @ ''.'',
     ''Do not use search or an unscoped query unless the user explicitly asks to broaden the scope.'']"

lemma split_scope_prompt:
  "split_byte (CHR 0x0A) (scope_prompt printable label source_id) = scope_lines printable label source_id"
proof -
  have "list_all (\<lambda>l. CHR 0x0A \<notin> set l) (scope_lines printable label source_id)"
    by (simp add: scope_lines_def one_line_quote_end)
  moreover have "scope_lines printable label source_id \<noteq> []" by (simp add: scope_lines_def)
  moreover have "scope_prompt printable label source_id = join [CHR 0x0A] (scope_lines printable label source_id)"
    by (simp only: scope_prompt_def scope_lines_def)
  ultimately show ?thesis by (simp add: split_byte_join)
qed

lemma augmenter_lines:
  assumes "trim_space agent_id = gbrain_agent_id" and "source_scope m = Some scope"
    and "trim_space (meta_string scope ''sourceID'') = source_id" and "source_id \<noteq> []"
    and "label = (let l = trim_space (meta_string scope ''label'') in if l = [] then source_id else l)"
  shows "split_byte (CHR 0x0A) (gbrain_prompt_augmenter printable prompt agent_id m) =
    (if trim_space prompt = [] then [] else split_byte (CHR 0x0A) (trim_space prompt) @ [[]])
      @ scope_lines printable label source_id"
  using assms(3-)
  by (simp add: gbrain_prompt_augmenter_def assms(1,2) Let_def split_scope_prompt
      split_byte_append_sep split_byte_append_sep [where b = "c # b" for c b, simplified])

subsection \<open>Properties\<close>

text \<open>C6: A scheduler write passes the cron hook exactly when its content is JSON that decodes as a
  task (or is empty) and the task either has nothing to do with Cloud Sync or is the managed task in
  full: reserved id, Coder agent as target, the preamble, the managed kind, the product skill and the
  skill context.\<close>

theorem cron_write_accepted:
  assumes "op_code \<in> {''cron/add'', ''cron/upsert'', ''cron/update''}"
  shows "open_brain_cron_policy op_code c = None \<longleftrightarrow>
    (\<exists>raw v. cron_content_json c = Inr raw \<and> decode_cron cron_write_type ''write'' raw = Inr v \<and>
      (unrelated_task (cron_task_of (get_field v ''task''))
       \<or> managed_task (cron_task_of (get_field v ''task''))))"
  using assms
  by (auto simp: open_brain_cron_policy_def authorize_cloud_sync_task_iff split: sum.splits)

lemma cron_write_accepted_witness:
  "open_brain_cron_policy ''cron/add'' (JsonContent None) \<noteq> None"
  using cron_write_accepted [of "''cron/add''" "JsonContent None"]
  by (simp add: cron_content_json_def)

text \<open>C7: A run request passes the cron hook exactly when it decodes and, for the reserved id, it
  carries no payload or the full managed payload and, for any other id, its payload is not one that
  claims Cloud Sync.\<close>

theorem cron_run_accepted:
  "open_brain_cron_policy ''cron/run'' c = None \<longleftrightarrow>
    (\<exists>raw v. cron_content_json c = Inr raw \<and> decode_cron cron_run_type ''run'' raw = Inr v \<and>
      pred_option
        (\<lambda>p. if trim_space (as_string (get_field v ''id'')) = cloud_sync_task_id
             then managed_payload p else \<not> is_cloud_sync_payload p)
        (map_option cron_payload_of (as_ptr (get_field v ''payload''))))"
proof -
  have run: "cron_run_policy tid po = None \<longleftrightarrow>
      pred_option (\<lambda>p. if trim_space tid = cloud_sync_task_id then managed_payload p
        else \<not> is_cloud_sync_payload p) po" for tid po
    by (cases po) (simp_all add: cron_run_policy_def validate_cloud_sync_payload_iff)
  show ?thesis
    by (simp add: open_brain_cron_policy_def flip: run split: sum.split)
qed

text \<open>C8: In an accepted task the reserved id and a Cloud Sync payload occur only together, and then
  the task targets the managed Coder agent: no other task can borrow the identity and the managed
  task cannot run another payload.\<close>

theorem authorized_task_identity:
  assumes "authorize_cloud_sync_task t = None"
  shows "(trim_space (task_id t) = cloud_sync_task_id \<longleftrightarrow> is_cloud_sync_payload (task_payload t)) \<and>
    (if is_cloud_sync_payload (task_payload t)
     then trim_space (target_agent_id t) = cloud_sync_target_agent_id else True)"
  using assms managed_payload_is_cloud_sync
  by (auto simp: authorize_cloud_sync_task_iff unrelated_task_def managed_task_def)

lemma authorized_task_identity_witness:
  "is_cloud_sync_payload \<lparr>payload_kind = [], payload_text = [], payload_data = []\<rparr> = False"
proof -
  let ?t = "\<lparr>task_id = ''daily'', target_kind = [], target_agent_id = [],
      task_payload = \<lparr>payload_kind = [], payload_text = [], payload_data = []\<rparr>\<rparr>"
  have "authorize_cloud_sync_task ?t = None" by code_simp
  from authorized_task_identity [OF this] show ?thesis by (auto simp: trim_space_plain)
qed



abbreviation "example_scope \<equiv>
  [(''gbrainQueryScope'', AMeta [(''kind'', AString ''source''), (''sourceID'', AString '' wiki'')])]"

lemma query_tool_scoped: "is_gbrain_source_scoped_tool ''gbrain-cloud'' ''query'' schema params"
proof -
  have "trim_space ''gbrain-cloud'' = ''gbrain-cloud''" "trim_space ''query'' = ''query''" by code_simp+
  then show ?thesis
    by (simp add: is_gbrain_source_scoped_tool_def to_lower_ascii ascii_lower_def)
qed

lemma example_source:
  "source_scope example_scope = Some [(''kind'', AString ''source''), (''sourceID'', AString '' wiki'')]"
  "trim_space (meta_string [(''kind'', AString ''source''), (''sourceID'', AString '' wiki'')]
    ''sourceID'') = ''wiki''"
  by code_simp+



text \<open>Applying the tool scope to parameters it has already let through changes nothing.\<close>

theorem gbrain_tool_scope_idempotent:
  assumes "gbrain_tool_scope printable m server tool schema params = (next', None)"
  shows "gbrain_tool_scope printable m server tool schema next' = (next', None)"
proof (cases "next' = params")
  case False
  with assms obtain scope args where
    scoped: "is_gbrain_source_scoped_tool server tool schema (AMap args)" and
    scope: "source_scope m = Some scope" and
    source: "trim_space (meta_string scope ''sourceID'') \<noteq> []" and
    next': "next' = AMap (AList.update ''source_id''
      (AString (trim_space (meta_string scope ''sourceID''))) args)"
    by (auto simp: gbrain_tool_scope_def Let_def split: if_splits any.splits option.splits)
  show ?thesis
    using scoped_tool_update [OF scoped] scope source
    by (simp add: gbrain_tool_scope_def next' Let_def lookup_any_update)
qed (use assms in simp)

lemma gbrain_tool_scope_idempotent_witness:
  "gbrain_tool_scope (\<lambda>_. True) example_scope ''gbrain-cloud'' ''query'' ANil
     (AMap [(''source_id'', AString ''wiki'')]) = (AMap [(''source_id'', AString ''wiki'')], None)"
proof -
  have "gbrain_tool_scope (\<lambda>_. True) example_scope ''gbrain-cloud'' ''query'' ANil (AMap []) =
      (AMap [(''source_id'', AString ''wiki'')], None)"
    using query_tool_scoped [of ANil "AMap []"]
    by (simp add: gbrain_tool_scope_def example_source lookup_any_def)
  then show ?thesis by (rule gbrain_tool_scope_idempotent)
qed





end
