(* ===== verification/Go_Ip.thy ===== *)
theory Go_Ip
  imports Go_Strings
begin

section \<open>IP addresses\<close>

text \<open>
  \<open>netip.ParseAddr\<close> and \<open>net.ParseIP\<close>. An address is its list of bytes, four for IPv4 and sixteen for
  IPv6; an IPv6 address can carry a zone, which \<open>net.ParseIP\<close> refuses.
\<close>

definition hex_value :: "char \<Rightarrow> nat option" where
  "hex_value c =
    (let x = byte_of c in
     if 48 \<le> x \<and> x \<le> 57 then Some (x - 48)
     else if 97 \<le> x \<and> x \<le> 102 then Some (x - 87)
     else if 65 \<le> x \<and> x \<le> 70 then Some (x - 55)
     else None)"

definition is_digit :: "char \<Rightarrow> bool" where
  "is_digit c \<longleftrightarrow> 48 \<le> byte_of c \<and> byte_of c \<le> 57"

subsection \<open>IPv4\<close>

text \<open>One octet: decimal digits without a leading zero, at most 255.\<close>

definition ipv4_octet :: "string \<Rightarrow> nat option" where
  "ipv4_octet s =
    (let v = foldl (\<lambda>n c. 10 * n + (byte_of c - 48)) 0 s in
     if s \<noteq> [] \<and> list_all is_digit s \<and> (hd s = CHR ''0'' \<longrightarrow> length s = 1) \<and> v \<le> 255 then Some v
     else None)"

definition parse_ipv4 :: "string \<Rightarrow> nat list option" where
  "parse_ipv4 s =
    (let parts = split_byte (CHR ''.'') s in
     if length parts = 4 then those (map ipv4_octet parts) else None)"

subsection \<open>IPv6\<close>

text \<open>
  The loop over the fields: \<open>ip\<close> holds the bytes read, \<open>ell\<close> where the ellipsis was. A field is one
  to four hexadecimal digits; a field followed by a dot starts a trailing IPv4 address.
\<close>

function ipv6_fields :: "nat list \<Rightarrow> nat option \<Rightarrow> string \<Rightarrow> (nat list \<times> nat option) option" where
  "ipv6_fields ip ell s =
    (if 16 \<le> length ip then (if s = [] then Some (ip, ell) else None)
     else
       (let hs = takeWhile (\<lambda>c. hex_value c \<noteq> None) s; rest = dropWhile (\<lambda>c. hex_value c \<noteq> None) s;
            acc = foldl (\<lambda>n c. 16 * n + the (hex_value c)) 0 hs
        in
        if hs = [] \<or> 4 < length hs then None
        else
          (case rest of
             [] \<Rightarrow> Some (ip @ [acc div 256, acc mod 256], ell)
           | c # cs \<Rightarrow>
               if c = CHR ''.'' then
                 (if (ell = None \<and> length ip \<noteq> 12) \<or> 16 < length ip + 4 then None
                  else map_option (\<lambda>v4. (ip @ v4, ell)) (parse_ipv4 s))
               else if c \<noteq> CHR '':'' \<or> cs = [] then None
               else if hd cs = CHR '':'' then
                 (if ell \<noteq> None then None
                  else if tl cs = [] then
                    Some (ip @ [acc div 256, acc mod 256], Some (length ip + 2))
                  else ipv6_fields (ip @ [acc div 256, acc mod 256]) (Some (length ip + 2)) (tl cs))
               else ipv6_fields (ip @ [acc div 256, acc mod 256]) ell cs)))"
  by pat_completeness auto
termination
  by (relation "measure (\<lambda>(ip, ell, s). 16 - length ip)") auto

declare ipv6_fields.simps [simp del]

definition parse_ipv6 :: "string \<Rightarrow> (nat list \<times> string) option" where
  "parse_ipv6 s0 =
    (case cut_byte (CHR ''%'') s0 of
       (s, zone, found) \<Rightarrow>
         if found \<and> zone = [] then None
         else
           (let lead = has_prefix s ''::''; body = (if lead then drop 2 s else s) in
            if lead \<and> body = [] then Some (replicate 16 0, zone)
            else
              (case ipv6_fields [] (if lead then Some 0 else None) body of
                 None \<Rightarrow> None
               | Some (ip, ell) \<Rightarrow>
                   (case ell of
                      None \<Rightarrow> if length ip < 16 then None else Some (ip, zone)
                    | Some k \<Rightarrow>
                        if length ip < 16
                        then Some (take k ip @ replicate (16 - length ip) 0 @ drop k ip, zone)
                        else None))))"

definition parse_addr :: "string \<Rightarrow> (nat list \<times> string) option" where
  "parse_addr s =
    (case List.find (\<lambda>c. c \<in> {CHR ''.'', CHR '':'', CHR ''%''}) s of
       None \<Rightarrow> None
     | Some c \<Rightarrow>
         if c = CHR ''.'' then map_option (\<lambda>ip. (ip, [])) (parse_ipv4 s)
         else if c = CHR '':'' then parse_ipv6 s
         else None)"

definition parse_ip :: "string \<Rightarrow> nat list option" where
  "parse_ip s =
    (case parse_addr s of Some (ip, zone) \<Rightarrow> (if zone = [] then Some ip else None) | None \<Rightarrow> None)"

text \<open>\<open>IP.To4\<close> and \<open>IP.IsLoopback\<close>.\<close>

definition to4 :: "nat list \<Rightarrow> nat list option" where
  "to4 ip =
    (if length ip = 4 then Some ip
     else if length ip = 16 \<and> take 12 ip = replicate 10 0 @ [255, 255] then Some (drop 12 ip)
     else None)"

definition is_loopback :: "nat list \<Rightarrow> bool" where
  "is_loopback ip =
    (case to4 ip of
       Some ip4 \<Rightarrow> hd ip4 = 127
     | None \<Rightarrow> ip = replicate 15 0 @ [1])"

end
