(* ===== verification/Go_Url.thy ===== *)
theory Go_Url
  imports Go_Ip Go_Utf8
begin

section \<open>URLs\<close>

text \<open>
  \<open>net/url\<close>: \<open>Parse\<close>, \<open>URL.String\<close>, \<open>URL.Hostname\<close> and \<open>PathEscape\<close>, as of Go 1.26 (a bracketed
  host must be an IPv6 address, and any other host has at most one colon). The user information is
  the user name and the password, if there is one.
\<close>

subsection \<open>Escaping\<close>

datatype url_mode = EncodePath | EncodePathSegment | EncodeHost | EncodeZone | EncodeUser | EncodeFragment

definition alphanum :: "char \<Rightarrow> bool" where
  "alphanum c \<longleftrightarrow> (let x = byte_of c in
     48 \<le> x \<and> x \<le> 57 \<or> 65 \<le> x \<and> x \<le> 90 \<or> 97 \<le> x \<and> x \<le> 122)"

definition should_escape :: "url_mode \<Rightarrow> char \<Rightarrow> bool" where
  "should_escape mode c =
    (if alphanum c then False
     else if mode \<in> {EncodeHost, EncodeZone}
             \<and> c \<in> set ''!$&()*+,;=:[]<>'' \<union> {CHR 0x27, CHR 0x22} then False
     else if c \<in> set ''-_.~'' then False
     else if c \<in> set ''$&+,/:;=?@'' then
       (case mode of
          EncodePath \<Rightarrow> c = CHR ''?''
        | EncodePathSegment \<Rightarrow> c \<in> set ''/;,?''
        | EncodeUser \<Rightarrow> c \<in> set ''@/?:''
        | EncodeFragment \<Rightarrow> False
        | _ \<Rightarrow> True)
     else if mode = EncodeFragment \<and> c \<in> set ''!()*'' then False
     else True)"

definition upper_hex :: "nat \<Rightarrow> char" where
  "upper_hex n = (if n < 10 then char_of (48 + n) else char_of (55 + n))"

fun escape :: "url_mode \<Rightarrow> string \<Rightarrow> string" where
  "escape mode [] = []"
| "escape mode (c # cs) =
    (if should_escape mode c
     then [CHR ''%'', upper_hex (byte_of c div 16), upper_hex (byte_of c mod 16)]
     else [c]) @ escape mode cs"

definition path_escape :: "string \<Rightarrow> string" where
  "path_escape s = escape EncodePathSegment s"

fun unescape :: "url_mode \<Rightarrow> string \<Rightarrow> string option" where
  "unescape mode [] = Some []"
| "unescape mode (c # cs) =
    (if c = CHR ''%'' then
       (case cs of
          a # b # rest \<Rightarrow>
            (case (hex_value a, hex_value b) of
               (Some x, Some y) \<Rightarrow>
                 (let v = char_of (16 * x + y) :: char; is25 = (a = CHR ''2'' \<and> b = CHR ''5'') in
                  if mode = EncodeHost \<and> x < 8 \<and> \<not> is25 then None
                  else if mode = EncodeZone \<and> \<not> is25 \<and> v \<noteq> CHR '' '' \<and> should_escape EncodeHost v
                  then None
                  else map_option (Cons v) (unescape mode rest))
             | _ \<Rightarrow> None)
        | _ \<Rightarrow> None)
     else if mode \<in> {EncodeHost, EncodeZone} \<and> byte_of c < 128 \<and> should_escape mode c then None
     else map_option (Cons c) (unescape mode cs))"

subsection \<open>Parsing\<close>

record url =
  scheme :: string
  opaque :: string
  user :: "(string \<times> string option) option"
  host :: string
  url_path :: string
  raw_path :: string
  omit_host :: bool
  force_query :: bool
  raw_query :: string
  fragment :: string
  raw_fragment :: string

definition empty_url :: url where
  "empty_url = \<lparr>scheme = [], opaque = [], user = None, host = [], url_path = [], raw_path = [],
     omit_host = False, force_query = False, raw_query = [], fragment = [], raw_fragment = []\<rparr>"

definition has_ctl_byte :: "string \<Rightarrow> bool" where
  "has_ctl_byte s = list_ex (\<lambda>c. byte_of c < 32 \<or> byte_of c = 127) s"

definition letter :: "char \<Rightarrow> bool" where
  "letter c \<longleftrightarrow> (let x = byte_of c in 65 \<le> x \<and> x \<le> 90 \<or> 97 \<le> x \<and> x \<le> 122)"

text \<open>The scheme and the rest; \<open>None\<close> is the error for a leading colon.\<close>

definition get_scheme :: "string \<Rightarrow> (string \<times> string) option" where
  "get_scheme s =
    (let w = takeWhile (\<lambda>c. letter c \<or> is_digit c \<or> c \<in> set ''+-.'') s;
         r = dropWhile (\<lambda>c. letter c \<or> is_digit c \<or> c \<in> set ''+-.'') s
     in if w \<noteq> [] \<and> \<not> letter (hd w) then Some ([], s)
        else if r \<noteq> [] \<and> hd r = CHR '':'' then
          (if w = [] then None else Some (w, tl r))
        else Some ([], s))"

definition valid_optional_port :: "string \<Rightarrow> bool" where
  "valid_optional_port s \<longleftrightarrow> s = [] \<or> (hd s = CHR '':'' \<and> list_all is_digit (tl s))"

definition valid_userinfo :: "string \<Rightarrow> bool" where
  "valid_userinfo s =
    list_all (\<lambda>c. alphanum c \<or> c \<in> set ''-._:~!$&()*+,;=%@'' \<or> c = CHR 0x27) s"

text \<open>Where the last occurrence of a byte splits a string.\<close>

definition cut_last :: "char \<Rightarrow> string \<Rightarrow> (string \<times> string) option" where
  "cut_last c s =
    (if c \<in> set s
     then Some (rev (tl (dropWhile (\<lambda>x. x \<noteq> c) (rev s))), rev (takeWhile (\<lambda>x. x \<noteq> c) (rev s)))
     else None)"

text \<open>A host in brackets, split at the first \<open>%25\<close> into the address and its zone.\<close>

fun cut_zone :: "string \<Rightarrow> string \<times> string" where
  "cut_zone [] = ([], [])"
| "cut_zone (c # cs) =
    (if prefix ''%25'' (c # cs) then ([], c # cs)
     else (case cut_zone cs of (a, b) \<Rightarrow> (c # a, b)))"

definition parse_bracketed :: "string \<Rightarrow> string option" where
  "parse_bracketed h =
    (case cut_last (CHR 0x5D) h of
       None \<Rightarrow> None
     | Some (front, port) \<Rightarrow>
         if \<not> valid_optional_port port then None
         else
           (case cut_zone (tl front) of
              (addr, zone) \<Rightarrow>
                (case (unescape EncodeHost addr, unescape EncodeZone zone, unescape EncodeHost port) of
                   (Some a, Some z, Some p) \<Rightarrow>
                     (case parse_addr (a @ z) of
                        Some (ip, zn) \<Rightarrow>
                          if length ip = 4 then None else Some (CHR 0x5B # a @ z @ CHR 0x5D # p)
                      | None \<Rightarrow> None)
                 | _ \<Rightarrow> None)))"

definition parse_host :: "string \<Rightarrow> string \<Rightarrow> string option" where
  "parse_host sch h =
    (if has_prefix h [CHR 0x5B] \<and> CHR 0x5B \<notin> set (tl h) then parse_bracketed h
     else if CHR 0x5B \<in> set h then None
     else if CHR '':'' \<in> set h
          \<and> \<not> valid_optional_port
                (if sch \<in> {''postgresql'', ''postgres''}
                 then CHR '':'' # snd (the (cut_last (CHR '':'') h))
                 else dropWhile (\<lambda>c. c \<noteq> CHR '':'') h)
     then None
     else unescape EncodeHost h)"

definition parse_authority ::
    "string \<Rightarrow> string \<Rightarrow> ((string \<times> string option) option \<times> string) option" where
  "parse_authority sch authority =
    (case cut_last (CHR ''@'') authority of
       None \<Rightarrow> map_option (\<lambda>h. (None, h)) (parse_host sch authority)
     | Some (info, h) \<Rightarrow>
         (case parse_host sch h of
            None \<Rightarrow> None
          | Some h' \<Rightarrow>
              if \<not> valid_userinfo info then None
              else
                (case cut_byte (CHR '':'') info of
                   (name, password, found) \<Rightarrow>
                     (case (unescape EncodeUser name, unescape EncodeUser password) of
                        (Some n, Some p) \<Rightarrow> Some (Some (n, if found then Some p else None), h')
                      | _ \<Rightarrow> None))))"

definition set_path :: "string \<Rightarrow> url \<Rightarrow> url option" where
  "set_path p u =
    map_option
      (\<lambda>path. u\<lparr>url_path := path, raw_path := (if p = escape EncodePath path then [] else p)\<rparr>)
      (unescape EncodePath p)"

definition set_fragment :: "string \<Rightarrow> url \<Rightarrow> url option" where
  "set_fragment f u =
    map_option
      (\<lambda>frag. u\<lparr>fragment := frag,
          raw_fragment := (if f = escape EncodeFragment frag then [] else f)\<rparr>)
      (unescape EncodeFragment f)"

text \<open>The query is split off the rest; a lone trailing \<open>?\<close> is remembered.\<close>

definition split_query :: "string \<Rightarrow> string \<times> string \<times> bool" where
  "split_query rest =
    (if rest \<noteq> [] \<and> last rest = CHR ''?'' \<and> CHR ''?'' \<notin> set (butlast rest)
     then (butlast rest, [], True)
     else (case cut_byte (CHR ''?'') rest of (r, q, found) \<Rightarrow> (r, q, False)))"

definition parse_hierarchical :: "url \<Rightarrow> string \<Rightarrow> url option" where
  "parse_hierarchical u rest =
    (if (scheme u \<noteq> [] \<or> \<not> has_prefix rest ''///'') \<and> has_prefix rest ''//'' then
       (let authority = takeWhile (\<lambda>c. c \<noteq> CHR ''/'') (drop 2 rest);
            path = dropWhile (\<lambda>c. c \<noteq> CHR ''/'') (drop 2 rest)
        in (case parse_authority (scheme u) authority of
              None \<Rightarrow> None
            | Some (usr, h) \<Rightarrow> set_path path (u\<lparr>user := usr, host := h\<rparr>)))
     else if scheme u \<noteq> [] \<and> has_prefix rest ''/'' then set_path rest (u\<lparr>omit_host := True\<rparr>)
     else set_path rest u)"

definition parse_no_fragment :: "string \<Rightarrow> url option" where
  "parse_no_fragment raw =
    (if has_ctl_byte raw then None
     else if raw = ''*'' then Some (empty_url\<lparr>url_path := ''*''\<rparr>)
     else
       (case get_scheme raw of
          None \<Rightarrow> None
        | Some (sch, rest0) \<Rightarrow>
            (case split_query rest0 of
               (rest, query, force) \<Rightarrow>
                 (let u = empty_url\<lparr>scheme := to_lower sch, raw_query := query, force_query := force\<rparr> in
                  if \<not> has_prefix rest ''/'' then
                    (if sch \<noteq> [] then Some (u\<lparr>opaque := rest\<rparr>)
                     else if contains (takeWhile (\<lambda>c. c \<noteq> CHR ''/'') rest) '':'' then None
                     else parse_hierarchical u rest)
                  else parse_hierarchical u rest))))"

definition url_parse :: "string \<Rightarrow> url option" where
  "url_parse raw =
    (case cut_byte (CHR ''#'') raw of
       (u, frag, found) \<Rightarrow>
         (case parse_no_fragment u of
            None \<Rightarrow> None
          | Some parsed \<Rightarrow> if frag = [] then Some parsed else set_fragment frag parsed))"

subsection \<open>Printing\<close>

definition valid_encoded :: "url_mode \<Rightarrow> string \<Rightarrow> bool" where
  "valid_encoded mode s =
    list_all (\<lambda>c. c \<in> set ''!$&()*+,;=:@[]%'' \<or> c = CHR 0x27 \<or> \<not> should_escape mode c) s"

definition escaped_path :: "url \<Rightarrow> string" where
  "escaped_path u =
    (if raw_path u \<noteq> [] \<and> valid_encoded EncodePath (raw_path u)
        \<and> unescape EncodePath (raw_path u) = Some (url_path u) then raw_path u
     else if url_path u = ''*'' then ''*''
     else escape EncodePath (url_path u))"

definition escaped_fragment :: "url \<Rightarrow> string" where
  "escaped_fragment u =
    (if raw_fragment u \<noteq> [] \<and> valid_encoded EncodeFragment (raw_fragment u)
        \<and> unescape EncodeFragment (raw_fragment u) = Some (fragment u) then raw_fragment u
     else escape EncodeFragment (fragment u))"

definition user_string :: "string \<times> string option \<Rightarrow> string" where
  "user_string ui =
    (case ui of (n, p) \<Rightarrow>
       escape EncodeUser n @ (case p of Some w \<Rightarrow> CHR '':'' # escape EncodeUser w | None \<Rightarrow> []))"

definition authority_string :: "url \<Rightarrow> string" where
  "authority_string u =
    (if scheme u \<noteq> [] \<or> host u \<noteq> [] \<or> user u \<noteq> None then
       (if omit_host u \<and> host u = [] \<and> user u = None then []
        else (if host u \<noteq> [] \<or> url_path u \<noteq> [] \<or> user u \<noteq> None then ''//'' else [])
             @ (case user u of Some ui \<Rightarrow> user_string ui @ ''@'' | None \<Rightarrow> [])
             @ escape EncodeHost (host u))
     else [])"

definition url_string :: "url \<Rightarrow> string" where
  "url_string u =
    (let sch = (if scheme u \<noteq> [] then scheme u @ '':'' else []);
         head = sch @ authority_string u;
         path = escaped_path u;
         slash = (if path \<noteq> [] \<and> hd path \<noteq> CHR ''/'' \<and> host u \<noteq> [] then ''/'' else []);
         dot = (if head @ slash = [] \<and> contains (takeWhile (\<lambda>c. c \<noteq> CHR ''/'') path) '':''
                then ''./'' else [])
     in (if opaque u \<noteq> [] then sch @ opaque u else head @ slash @ dot @ path)
        @ (if force_query u \<or> raw_query u \<noteq> [] then CHR ''?'' # raw_query u else [])
        @ (if fragment u \<noteq> [] then CHR ''#'' # escaped_fragment u else []))"

text \<open>\<open>URL.Hostname\<close>: the host without its port and without its brackets.\<close>

definition hostname :: "url \<Rightarrow> string" where
  "hostname u =
    (let h = (case cut_last (CHR '':'') (host u) of
                Some (front, port) \<Rightarrow>
                  if valid_optional_port (CHR '':'' # port) then front else host u
              | None \<Rightarrow> host u)
     in if has_prefix h [CHR 0x5B] \<and> has_suffix h [CHR 0x5D] then butlast (tl h) else h)"

text \<open>An HTTPS URL of an authority and a path that needs no escape, without query and fragment.\<close>

lemma url_parse_https:
  assumes "cut_byte (CHR ''#'') s = (s, [], False)" and "\<not> has_ctl_byte s"
    and "get_scheme s = Some (''https'', ''//'' @ authority @ path)"
    and "split_query (''//'' @ authority @ path) = (''//'' @ authority @ path, [], False)"
    and "CHR ''/'' \<notin> set authority" and "path = [] \<or> hd path = CHR ''/''"
    and "parse_authority ''https'' authority = Some (usr, h)"
    and "unescape EncodePath path = Some path" and "escape EncodePath path = path"
  shows "url_parse s = Some (empty_url\<lparr>scheme := ''https'', user := usr, host := h, url_path := path\<rparr>)"
proof -
  have l: "is_ascii ''https''" "map ascii_lower ''https'' = ''https''" by code_simp+
  have t: "to_lower ''https'' = ''https''" using to_lower_ascii [OF l(1)] l(2) by simp
  have n: "s \<noteq> ''*''"
  proof
    assume "s = ''*''"
    moreover have "get_scheme ''*'' = Some ([], ''*'')" by code_simp
    ultimately show False using assms(3) by simp
  qed
  have w: "takeWhile (\<lambda>c. c \<noteq> CHR ''/'') (authority @ path) = authority"
    "dropWhile (\<lambda>c. c \<noteq> CHR ''/'') (authority @ path) = path"
    using assms(5,6) by (cases path; auto simp: takeWhile_append dropWhile_append)+
  show ?thesis
    using assms n w t
    by (simp add: url_parse_def parse_no_fragment_def parse_hierarchical_def set_path_def has_prefix_def
        empty_url_def)
qed

end
