(* ===== verification/Go_Path.thy ===== *)
theory Go_Path
  imports Go_Strings
begin

section \<open>File paths\<close>

text \<open>
  \<open>path/filepath\<close> on Unix: \<open>Clean\<close>, \<open>Join\<close>, \<open>IsAbs\<close>, \<open>Base\<close>, \<open>Dir\<close> and \<open>Rel\<close>. A cleaned path is
  its list of elements and whether it starts at the root; the laws at the end are stated on that
  form.
\<close>

abbreviation "slash \<equiv> CHR 0x2F"
abbreviation "dot \<equiv> [CHR 0x2E]"
abbreviation "dotdot \<equiv> [CHR 0x2E, CHR 0x2E]"

definition is_abs :: "string \<Rightarrow> bool" where
  "is_abs s = has_prefix s [slash]"

text \<open>The element loop of \<open>Clean\<close>: \<open>st\<close> holds the elements written so far, the last one first.\<close>

fun clean_stack :: "bool \<Rightarrow> string list \<Rightarrow> string list \<Rightarrow> string list" where
  "clean_stack r st [] = st"
| "clean_stack r st (p # ps) =
    (if p = [] \<or> p = dot then clean_stack r st ps
     else if p = dotdot then
       (case st of
          t # st' \<Rightarrow> if t \<noteq> dotdot then clean_stack r st' ps else clean_stack r (dotdot # st) ps
        | [] \<Rightarrow> if r then clean_stack r [] ps else clean_stack r [dotdot] ps)
     else clean_stack r (p # st) ps)"

definition components :: "string \<Rightarrow> string list" where
  "components s = rev (clean_stack (is_abs s) [] (split_byte slash s))"

definition render :: "bool \<Rightarrow> string list \<Rightarrow> string" where
  "render r cs =
    (if r then slash # join [slash] cs else if cs = [] then dot else join [slash] cs)"

definition clean :: "string \<Rightarrow> string" where
  "clean s = render (is_abs s) (components s)"

definition path_join :: "string list \<Rightarrow> string" where
  "path_join es =
    (case dropWhile (\<lambda>e. e = []) es of [] \<Rightarrow> [] | es' \<Rightarrow> clean (join [slash] es'))"

definition path_base :: "string \<Rightarrow> string" where
  "path_base s =
    (if s = [] then dot
     else (let t = trim_right_byte slash s;
               b = rev (takeWhile (\<lambda>c. c \<noteq> slash) (rev t))
           in if b = [] then [slash] else b))"

definition path_dir :: "string \<Rightarrow> string" where
  "path_dir s = clean (rev (dropWhile (\<lambda>c. c \<noteq> slash) (rev s)))"

text \<open>Drop the elements two paths share, from the front.\<close>

fun drop_common :: "string list \<Rightarrow> string list \<Rightarrow> string list \<times> string list" where
  "drop_common (x # xs) (y # ys) = (if x = y then drop_common xs ys else (x # xs, y # ys))"
| "drop_common xs ys = (xs, ys)"

text \<open>\<open>Rel\<close>; the base \<open>.\<close> counts as no element, the target \<open>.\<close> as one, as in the source of the library.\<close>

definition path_rel :: "string \<Rightarrow> string \<Rightarrow> string option" where
  "path_rel base targ =
    (if clean base = clean targ then Some dot
     else if is_abs base \<noteq> is_abs targ then None
     else
       (case drop_common (components base)
               (if \<not> is_abs targ \<and> components targ = [] then [dot] else components targ) of
          (up, down) \<Rightarrow>
            if up \<noteq> [] \<and> hd up = dotdot then None
            else Some (join [slash] (map (\<lambda>_. dotdot) up @ down))))"

subsection \<open>Laws\<close>

text \<open>An element that names an entry of a directory.\<close>

definition proper :: "string \<Rightarrow> bool" where
  "proper p \<longleftrightarrow> p \<noteq> [] \<and> p \<noteq> dot \<and> p \<noteq> dotdot \<and> slash \<notin> set p"

lemma clean_stack_append: "clean_stack r st (ps @ qs) = clean_stack r (clean_stack r st ps) qs"
  by (induction r st ps rule: clean_stack.induct) (auto split: list.splits)

lemma clean_stack_proper: "list_all proper ps \<Longrightarrow> clean_stack r st ps = rev ps @ st"
  by (induction ps arbitrary: st) (auto simp: proper_def)

text \<open>The elements \<open>Clean\<close> can leave: proper ones after leading \<open>..\<close>, which a rooted path has not.\<close>

definition clean_form :: "bool \<Rightarrow> string list \<Rightarrow> bool" where
  "clean_form r cs \<longleftrightarrow>
     (\<exists>n ps. cs = replicate n dotdot @ ps \<and> list_all proper ps \<and> (r \<longrightarrow> n = 0))"

lemma clean_stack_dotdots:
  "\<not> r \<Longrightarrow> clean_stack r (replicate m dotdot) (replicate n dotdot) = replicate (n + m) dotdot"
proof (induction n arbitrary: m)
  case (Suc n)
  have "clean_stack r (replicate m dotdot) (replicate (Suc n) dotdot)
      = clean_stack r (replicate (Suc m) dotdot) (replicate n dotdot)"
    using Suc.prems by (cases m) auto
  with Suc.IH [of "Suc m"] Suc.prems show ?case by simp
qed simp

lemma clean_stack_form: "clean_form r cs \<Longrightarrow> clean_stack r [] cs = rev cs"
  using clean_stack_dotdots [of r 0]
  by (cases r) (auto simp: clean_form_def clean_stack_append clean_stack_proper)

lemma clean_form_step:
  assumes "clean_form r (rev st)" and "slash \<notin> set p"
  shows "clean_form r (rev (clean_stack r st [p]))"
proof -
  from assms(1) obtain n ps where st: "rev st = replicate n dotdot @ ps" and ps: "list_all proper ps"
    and r: "r \<longrightarrow> n = 0" by (auto simp: clean_form_def)
  from st have st': "st = rev ps @ replicate n dotdot" by (metis rev_append rev_replicate rev_rev_ident)
  consider "p = [] \<or> p = dot" | "p = dotdot" | "proper p" using assms(2) by (auto simp: proper_def)
  then show ?thesis
  proof cases
    case 1
    then show ?thesis using assms(1) by auto
  next
    case 2
    show ?thesis
    proof (cases ps rule: rev_cases)
      case Nil
      then have "rev (clean_stack r st [p]) = (if r then [] else replicate (Suc n) dotdot)"
        using 2 r st' by (cases n) (auto simp: replicate_append_same)
      then show ?thesis by (auto simp: clean_form_def intro: exI [of _ "[]"] exI [of _ "Suc n"])
    next
      case (snoc qs q)
      with ps have "q \<noteq> dotdot" "list_all proper qs" by (auto simp: proper_def)
      with snoc 2 st' r show ?thesis by (auto simp: clean_form_def)
    qed
  next
    case 3
    then have "rev (clean_stack r st [p]) = replicate n dotdot @ (ps @ [p])"
      using st by (simp add: proper_def)
    moreover have "list_all proper (ps @ [p])" using ps 3 by simp
    ultimately show ?thesis unfolding clean_form_def using r by blast
  qed
qed

lemma clean_form_clean_stack:
  "clean_form r (rev st) \<Longrightarrow> list_all (\<lambda>p. slash \<notin> set p) ps \<Longrightarrow> clean_form r (rev (clean_stack r st ps))"
proof (induction ps arbitrary: st)
  case (Cons p ps)
  then have "clean_form r (rev (clean_stack r st [p]))" by (intro clean_form_step) auto
  with Cons have "clean_form r (rev (clean_stack r (clean_stack r st [p]) ps))" by simp
  then show ?case using clean_stack_append [of r st "[p]" ps] by simp
qed simp

lemma clean_form_components: "clean_form (is_abs s) (components s)"
proof -
  have "clean_form (is_abs s) (rev [])" unfolding clean_form_def by (intro exI [of _ 0] exI [of _ "[]"]) simp
  then show ?thesis unfolding components_def
    by (rule clean_form_clean_stack) (auto simp: list_all_iff dest: split_byte_free)
qed

lemma clean_form_free: "clean_form r cs \<Longrightarrow> p \<in> set cs \<Longrightarrow> p \<noteq> [] \<and> slash \<notin> set p"
proof -
  assume "clean_form r cs" and "p \<in> set cs"
  then obtain n ps where "p \<in> set (replicate n dotdot @ ps)" and "list_all proper ps"
    unfolding clean_form_def by blast
  then have "p = dotdot \<or> proper p" by (auto simp: list_all_iff)
  then show ?thesis by (elim disjE) (simp_all add: proper_def)
qed

lemma join_first: "cs \<noteq> [] \<Longrightarrow> hd cs \<noteq> [] \<Longrightarrow> join sep cs \<noteq> [] \<and> hd (join sep cs) = hd (hd cs)"
  by (cases "(sep, cs)" rule: join.cases) auto

lemma is_abs_render: "clean_form r cs \<Longrightarrow> is_abs (render r cs) = r"
proof (cases "r \<or> cs = []")
  case False
  assume form: "clean_form r cs"
  with False have "hd cs \<noteq> []" "slash \<notin> set (hd cs)" using clean_form_free [OF form, of "hd cs"] by auto
  with join_first [of cs "[slash]"] False show ?thesis
    by (cases "join [slash] cs") (auto simp: render_def is_abs_def has_prefix_def dest: hd_in_set)
qed (auto simp: render_def is_abs_def has_prefix_def)

lemma components_render: "clean_form r cs \<Longrightarrow> components (render r cs) = cs"
proof -
  assume form: "clean_form r cs"
  have free: "list_all (\<lambda>p. slash \<notin> set p) cs" using clean_form_free [OF form] by (auto simp: list_all_iff)
  have "clean_stack r [] (split_byte slash (render r cs)) = clean_stack r [] cs"
    using free by (cases "cs = []") (simp_all add: render_def split_byte_join)
  then show ?thesis by (simp add: components_def is_abs_render [OF form] clean_stack_form [OF form])
qed

lemma is_abs_clean [simp]: "is_abs (clean s) = is_abs s"
  by (simp add: clean_def is_abs_render clean_form_components)

lemma components_clean [simp]: "components (clean s) = components s"
  by (simp add: clean_def components_render clean_form_components)

lemma clean_idem [simp]: "clean (clean s) = clean s"
  by (simp add: clean_def [of "clean s"]) (simp add: clean_def)

lemma is_abs_append: "s \<noteq> [] \<Longrightarrow> is_abs (s @ t) = is_abs s"
  by (cases s) (auto simp: is_abs_def has_prefix_def)

lemma components_snoc:
  assumes "s \<noteq> []" and "proper p"
  shows "components (s @ slash # p) = components s @ [p]"
proof -
  have "split_byte slash (s @ slash # p) = split_byte slash s @ [p]"
    using assms(2) by (simp add: split_byte_append_sep split_byte_plain proper_def)
  then show ?thesis
    using assms by (simp add: components_def is_abs_append clean_stack_append proper_def)
qed

lemma path_join_snoc:
  assumes "s \<noteq> []" and "proper p"
  shows "path_join [s, p] = render (is_abs s) (components s @ [p])"
proof -
  have "path_join [s, p] = clean (s @ slash # p)"
    using assms by (simp add: path_join_def)
  then show ?thesis using assms by (simp add: clean_def components_snoc is_abs_append)
qed

lemma render_not_Nil [simp]: "clean_form r cs \<Longrightarrow> render r cs \<noteq> []"
  using join_first [of cs "[slash]"] clean_form_free [of r cs "hd cs"] by (auto simp: render_def)

lemma clean_form_snoc: "clean_form r cs \<Longrightarrow> proper p \<Longrightarrow> clean_form r (cs @ [p])"
  unfolding clean_form_def
proof (elim exE conjE)
  fix n ps
  assume "cs = replicate n dotdot @ ps" "list_all proper ps" "r \<longrightarrow> n = 0" "proper p"
  then show "\<exists>n qs. cs @ [p] = replicate n dotdot @ qs \<and> list_all proper qs \<and> (r \<longrightarrow> n = 0)"
    by (intro exI [of _ n] exI [of _ "ps @ [p]"]) simp
qed

lemma join_snoc: "cs \<noteq> [] \<Longrightarrow> join sep (cs @ [p]) = join sep cs @ sep @ p"
  by (induction sep cs rule: join.induct) auto

lemma path_dir_render:
  assumes "clean_form r cs" and "proper p"
  shows "path_dir (render r (cs @ [p])) = render r cs"
proof -
  have p: "dropWhile (\<lambda>c. c \<noteq> slash) (rev p @ t) = dropWhile (\<lambda>c. c \<noteq> slash) t" for t
    using assms(2) by (intro dropWhile_append2) (auto simp: proper_def)
  have free: "list_all (\<lambda>q. slash \<notin> set q) cs"
    using clean_form_free [OF assms(1)] by (auto simp: list_all_iff)
  show ?thesis
  proof (cases "cs = []")
    case True
    have "path_dir p = clean []" using p [of "[]"] by (simp only: path_dir_def append_Nil2) simp
    moreover have "path_dir (slash # p) = clean [slash]" using p [of "[slash]"] by (simp add: path_dir_def)
    ultimately show ?thesis
      using True by (simp add: render_def clean_def components_def is_abs_def has_prefix_def)
  next
    case False
    let ?s = "if r then slash # join [slash] cs else join [slash] cs"
    have s: "render r cs = ?s" using False by (simp add: render_def)
    have "rev (dropWhile (\<lambda>c. c \<noteq> slash) (rev (render r (cs @ [p])))) = ?s @ [slash]"
      using p False by (simp add: render_def join_snoc)
    then have "path_dir (render r (cs @ [p])) = clean (render r cs @ [slash])"
      by (simp add: path_dir_def s)
    moreover have "split_byte slash (render r cs @ [slash]) = split_byte slash (render r cs) @ [[]]"
      using split_byte_append_sep [of slash "render r cs" "[]"] by simp
    ultimately show ?thesis
      using assms(1) components_render [OF assms(1)] is_abs_render [OF assms(1)]
      by (simp add: clean_def components_def is_abs_append clean_stack_append)
  qed
qed

lemma drop_common_append [simp]: "drop_common xs (xs @ ys) = drop_common [] ys"
  by (induction xs) (cases ys; auto)+

lemma path_rel_below:
  assumes "components targ = components base @ ps" and "is_abs targ = is_abs base"
    and "ps \<noteq> []"
  shows "path_rel base targ = Some (join [slash] ps)"
proof -
  have "clean base \<noteq> clean targ"
  proof
    assume "clean base = clean targ"
    then have "components base = components targ" by (metis components_clean)
    with assms show False by simp
  qed
  then show ?thesis using assms by (cases ps) (simp_all add: path_rel_def)
qed

lemma path_rel_self: "clean targ = clean base \<Longrightarrow> path_rel base targ = Some dot"
  by (simp add: path_rel_def)

text \<open>Names below a directory.\<close>

lemma join_Cons_concat: "join sep (x # xs) = x @ concat (map (\<lambda>y. sep @ y) xs)"
  by (induction xs arbitrary: x) auto

lemma components_below:
  "s \<noteq> [] \<Longrightarrow> list_all proper ps \<Longrightarrow>
    components (s @ concat (map (Cons slash) ps)) = components s @ ps"
proof (induction ps rule: rev_induct)
  case (snoc p ps)
  then show ?case
    using components_snoc [of "s @ concat (map (Cons slash) ps)" p] by simp
qed simp

lemma path_join_proper:
  "s \<noteq> [] \<Longrightarrow> list_all proper ps \<Longrightarrow> path_join (s # ps) = render (is_abs s) (components s @ ps)"
  by (simp add: path_join_def join_Cons_concat clean_def is_abs_append components_below)

lemma clean_form_below:
  "clean_form r cs \<Longrightarrow> list_all proper ps \<Longrightarrow> clean_form r (cs @ ps)"
proof (induction ps rule: rev_induct)
  case (snoc p ps)
  then show ?case using clean_form_snoc [of r "cs @ ps" p] by simp
qed simp

lemma components_path_join:
  "s \<noteq> [] \<Longrightarrow> list_all proper ps \<Longrightarrow> components (path_join (s # ps)) = components s @ ps"
  by (simp add: path_join_proper components_render clean_form_below clean_form_components)

lemma clean_path_join:
  "s \<noteq> [] \<Longrightarrow> list_all proper ps \<Longrightarrow> clean (path_join (s # ps)) = path_join (s # ps)"
  by (simp add: path_join_proper clean_def components_render is_abs_render clean_form_below
      clean_form_components)

lemma is_abs_path_join: "s \<noteq> [] \<Longrightarrow> list_all proper ps \<Longrightarrow> is_abs (path_join (s # ps)) = is_abs s"
  by (simp add: path_join_proper is_abs_render clean_form_below clean_form_components)

end
