(* ===== verification/Machine.thy ===== *)
theory Machine
  imports Go_Json_Decode Go_Url Go_Path "HOL-Library.State_Monad"
begin

section \<open>The world around a program, and programs that talk to it\<close>

text \<open>
  What a program of this repository can reach outside its own memory: files, the \<open>git\<close> executable
  and HTTP servers. None of that code is in the repository, so it is the record \<open>outside\<close> of
  functions on a world of any type \<open>'w\<close>, an argument of every definition that uses it. A machine is
  the world and the list of the interactions so far; the list is not read by any program, it is what
  the theorems about order and about what leaves the machine speak of.
\<close>

subsection \<open>Interactions\<close>

datatype event =
    is_ReadFile: ReadFile (read_path: string)
  | WalkTree (walk_root: string)
  | is_Git: Git (git_dir: string) (git_env: "string list") (git_args: "string list")
  | HttpPost (http_url: string) (http_headers: "(string \<times> string) list")
  | MakeTemp (temp_dir: string)
  | WriteFile (write_path: string) (write_content: string)
  | RemoveAll (removed_path: string)
  | Lstat (stat_path: string)
  | is_HttpSend: HttpSend (send_url: string) (send_headers: "(string \<times> string) list") (send_body: string)

text \<open>A directory tree as \<open>filepath.WalkDir\<close> sees it: it lists the entries \<open>os.ReadDir\<close> returns.\<close>

datatype node = FileNode | SymlinkNode | DirNode "(string \<times> node) list"

datatype read_result = FileBytes string | FileMissing | FileError string

record http_response =
  status_code :: int
  status_line :: string
  response_body :: string

text \<open>
  \<open>git_process\<close> gets the directory, the variables added to the environment and the arguments, and
  gives the combined output and the error of the process; \<open>http_post\<close> gets the URL and the headers.
  \<open>json_error\<close> and \<open>url_error\<close> are the texts of the errors of \<open>json.Unmarshal\<close> and of
  \<open>http.NewRequest\<close>.
\<close>

record 'w outside =
  read_file :: "string \<Rightarrow> 'w \<Rightarrow> read_result \<times> 'w"
  walk_tree :: "string \<Rightarrow> 'w \<Rightarrow> node option \<times> 'w"
  git_process :: "string \<Rightarrow> string list \<Rightarrow> string list \<Rightarrow> 'w \<Rightarrow> (string \<times> string option) \<times> 'w"
  http_post :: "string \<Rightarrow> (string \<times> string) list \<Rightarrow> 'w \<Rightarrow> (string, http_response) result \<times> 'w"
  make_temp :: "string \<Rightarrow> 'w \<Rightarrow> (string, string) result \<times> 'w"
  write_file :: "string \<Rightarrow> string \<Rightarrow> 'w \<Rightarrow> string option \<times> 'w"
  remove_all :: "string \<Rightarrow> 'w \<Rightarrow> 'w"
  base_dir_env :: string
  user_home :: "string option"
  json_error :: "string \<Rightarrow> string"
  url_error :: "string \<Rightarrow> string"

record 'w machine =
  world :: 'w
  events :: "event list"

abbreviation ret :: "'a \<Rightarrow> ('s, 'a) state" where
  "ret a \<equiv> State_Monad.return a"

definition interact :: "('w \<Rightarrow> 'a \<times> 'w) \<Rightarrow> ('a \<Rightarrow> event list) \<Rightarrow> ('w machine, 'a) state" where
  "interact f log =
    State (\<lambda>m. case f (world m) of (a, w) \<Rightarrow> (a, \<lparr>world = w, events = events m @ log a\<rparr>))"

definition do_read_file :: "'w outside \<Rightarrow> string \<Rightarrow> ('w machine, read_result) state" where
  "do_read_file os p = interact (read_file os p) (\<lambda>_. [ReadFile p])"

definition do_walk_tree :: "'w outside \<Rightarrow> string \<Rightarrow> ('w machine, node option) state" where
  "do_walk_tree os p = interact (walk_tree os p) (\<lambda>_. [WalkTree p])"

definition do_git ::
    "'w outside \<Rightarrow> string \<Rightarrow> string list \<Rightarrow> string list \<Rightarrow> ('w machine, string \<times> string option) state" where
  "do_git os dir env args = interact (git_process os dir env args) (\<lambda>_. [Git dir env args])"

definition do_http_post ::
    "'w outside \<Rightarrow> string \<Rightarrow> (string \<times> string) list \<Rightarrow> ('w machine, (string, http_response) result) state" where
  "do_http_post os u hs = interact (http_post os u hs) (\<lambda>_. [HttpPost u hs])"

definition do_make_temp :: "'w outside \<Rightarrow> string \<Rightarrow> ('w machine, (string, string) result) state" where
  "do_make_temp os pattern =
    interact (make_temp os pattern) (\<lambda>r. case r of Inl _ \<Rightarrow> [] | Inr dir \<Rightarrow> [MakeTemp dir])"

definition do_write_file :: "'w outside \<Rightarrow> string \<Rightarrow> string \<Rightarrow> ('w machine, string option) state" where
  "do_write_file os p c = interact (write_file os p c) (\<lambda>_. [WriteFile p c])"

definition do_remove_all :: "'w outside \<Rightarrow> string \<Rightarrow> ('w machine, unit) state" where
  "do_remove_all os p = interact (\<lambda>w. ((), remove_all os p w)) (\<lambda>_. [RemoveAll p])"

lemmas do_defs = do_read_file_def do_walk_tree_def do_git_def do_http_post_def do_make_temp_def
  do_write_file_def do_remove_all_def

subsection \<open>Reasoning about programs\<close>

text \<open>
  \<open>ends m p Q\<close>: run from the machine \<open>m\<close>, the program \<open>p\<close> ends with a value and the interactions it
  added that satisfy \<open>Q\<close>. The rules take a program apart; every program here terminates, so there is
  nothing partial about it.
\<close>

definition ends :: "'w machine \<Rightarrow> ('w machine, 'a) state \<Rightarrow> ('a \<Rightarrow> event list \<Rightarrow> bool) \<Rightarrow> bool" where
  "ends m p Q = (\<exists>es. events (snd (run_state p m)) = events m @ es \<and> Q (fst (run_state p m)) es)"

text \<open>\<open>always p Q\<close>: the same from every machine.\<close>

definition always :: "('w machine, 'a) state \<Rightarrow> ('a \<Rightarrow> event list \<Rightarrow> bool) \<Rightarrow> bool" where
  "always p Q = (\<forall>m. ends m p Q)"

named_theorems program_rules \<open>how a program is taken apart\<close>

lemma alwaysI: "(\<And>m. ends m p Q) \<Longrightarrow> always p Q"
  by (simp add: always_def)

lemma alwaysD: "always p Q \<Longrightarrow> ends m p Q"
  by (simp add: always_def)

lemma always_mono: "always p Q \<Longrightarrow> (\<And>a es. Q a es \<Longrightarrow> R a es) \<Longrightarrow> always p R"
  unfolding always_def ends_def by blast

lemma always_conj: "always p Q \<Longrightarrow> always p R \<Longrightarrow> always p (\<lambda>a es. Q a es \<and> R a es)"
  unfolding always_def ends_def by (metis same_append_eq)

lemma always_return [program_rules]: "Q a [] \<Longrightarrow> always (ret a) Q"
  by (simp add: always_def ends_def State_Monad.return_def)

lemma always_bind:
  assumes "always p R" and "\<And>a es. R a es \<Longrightarrow> always (f a) (\<lambda>b es'. Q b (es @ es'))"
  shows "always (State_Monad.bind p f) Q"
proof (rule alwaysI)
  fix m
  obtain a m' where r: "run_state p m = (a, m')" by fastforce
  have "ends m p R" using assms(1) by (rule alwaysD)
  with r obtain es where es: "events m' = events m @ es" and R: "R a es"
    by (auto simp: ends_def)
  from assms(2) [OF R] obtain es' where
    "events (snd (run_state (f a) m')) = events m' @ es'" "Q (fst (run_state (f a) m')) (es @ es')"
    unfolding always_def ends_def by blast
  with r es show "ends m (State_Monad.bind p f) Q" by (auto simp: ends_def)
qed

lemma always_seq:
  "always p (\<lambda>a es. always (f a) (\<lambda>b es'. Q b (es @ es'))) \<Longrightarrow> always (State_Monad.bind p f) Q"
  by (rule always_bind)

lemma always_map: "always p (\<lambda>a es. Q (f a) es) \<Longrightarrow> always (State_Monad.bind p (\<lambda>a. ret (f a))) Q"
  by (rule always_seq, erule always_mono) (simp add: always_return)

lemma always_interact: "(\<And>a. Q a (log a)) \<Longrightarrow> always (interact f log) Q"
  by (simp add: always_def ends_def interact_def split: prod.split)

lemma always_do [program_rules]:
  "(\<And>r. Q r [ReadFile p]) \<Longrightarrow> always (do_read_file os p) Q"
  "(\<And>t. T t [WalkTree p]) \<Longrightarrow> always (do_walk_tree os p) T"
  "(\<And>g. G g [Git d e as]) \<Longrightarrow> always (do_git os d e as) G"
  "(\<And>h. H h [HttpPost u hs]) \<Longrightarrow> always (do_http_post os u hs) H"
  "(\<And>w. W w [WriteFile p c]) \<Longrightarrow> always (do_write_file os p c) W"
  "U () [RemoveAll p] \<Longrightarrow> always (do_remove_all os p) U"
  by (auto simp: do_defs intro: always_interact)

lemma always_make_temp [program_rules]:
  "(\<And>e. Q (Inl e) []) \<Longrightarrow> (\<And>d. Q (Inr d) [MakeTemp d]) \<Longrightarrow> always (do_make_temp os p) Q"
  by (auto simp: do_defs intro!: always_interact split: sum.split)

lemma always_if [program_rules]:
  "(b \<Longrightarrow> always p Q) \<Longrightarrow> (\<not> b \<Longrightarrow> always q Q) \<Longrightarrow> always (if b then p else q) Q"
  by simp

lemma always_option [program_rules]:
  "(x = None \<Longrightarrow> always p Q) \<Longrightarrow> (\<And>y. x = Some y \<Longrightarrow> always (f y) Q) \<Longrightarrow>
    always (case x of None \<Rightarrow> p | Some y \<Rightarrow> f y) Q"
  by (cases x) auto

lemma always_sum [program_rules]:
  "(\<And>e. x = Inl e \<Longrightarrow> always (f e) Q) \<Longrightarrow> (\<And>y. x = Inr y \<Longrightarrow> always (g y) Q) \<Longrightarrow>
    always (case x of Inl e \<Rightarrow> f e | Inr y \<Rightarrow> g y) Q"
  by (cases x) auto

lemma always_prod [program_rules]:
  "(\<And>a b. x = (a, b) \<Longrightarrow> always (f a b) Q) \<Longrightarrow> always (case x of (a, b) \<Rightarrow> f a b) Q"
  by (cases x) auto

lemma always_read_result [program_rules]:
  "(\<And>b. x = FileBytes b \<Longrightarrow> always (f b) Q) \<Longrightarrow> (x = FileMissing \<Longrightarrow> always p Q) \<Longrightarrow>
    (\<And>e. x = FileError e \<Longrightarrow> always (g e) Q) \<Longrightarrow>
    always (case x of FileBytes b \<Rightarrow> f b | FileMissing \<Rightarrow> p | FileError e \<Rightarrow> g e) Q"
  by (cases x) auto

lemma always_Let [program_rules]: "(\<And>y. y = x \<Longrightarrow> always (f y) Q) \<Longrightarrow> always (Let x f) Q"
  by simp

text \<open>Every interaction of a program satisfies a predicate.\<close>

abbreviation emits :: "(event \<Rightarrow> bool) \<Rightarrow> ('w machine, 'a) state \<Rightarrow> bool" where
  "emits P p \<equiv> always p (\<lambda>_. list_all P)"

lemma emits_mono: "emits P p \<Longrightarrow> (\<And>e. P e \<Longrightarrow> R e) \<Longrightarrow> emits R p"
  by (erule always_mono) (auto simp: list_all_iff)

lemma emits_bind:
  "emits P p \<Longrightarrow> (\<And>a. emits P (f a)) \<Longrightarrow> emits P (State_Monad.bind p f)"
  by (rule always_bind, assumption) (auto elim!: always_mono)

text \<open>A program followed by one that only tidies up.\<close>

lemma always_run: "always p Q \<Longrightarrow> run_state p m = (a, m') \<Longrightarrow>
    \<exists>es. events m' = events m @ es \<and> Q a es"
  by (drule alwaysD [of p Q m]) (simp add: ends_def)

end
