(* ===== verification/SyncErrors.thy ===== *)
theory SyncErrors
  imports Go_Utf8
begin

section \<open>Error codes of the Cloud Sync helper\<close>

text \<open>
  \<open>skills/openbrain-cloud-sync/cmd/openbrain-cloud-sync-helper/main.go\<close>, its classification of
  error texts: a Go \<open>error\<close> is what \<open>err.Error()\<close> gives, a string, and \<open>nil\<close> is \<open>None\<close>.
\<close>

definition contains_some :: "string \<Rightarrow> string list \<Rightarrow> bool" where
  "contains_some text patterns = list_ex (contains text) patterns"

definition git_auth_patterns :: "string list" where
  "git_auth_patterns =
    [''authentication failed'', ''could not read username'', ''could not read password'',
     ''invalid username or password'', ''support for password authentication was removed'',
     ''http basic: access denied'', ''403'', ''401'']"

definition git_permission_patterns :: "string list" where
  "git_permission_patterns = [''repository not found'', ''permission denied'']"

definition is_git_auth_error_text :: "string \<Rightarrow> bool" where
  "is_git_auth_error_text text0 =
    (let text = to_lower (trim_space text0) in
     if text = [] then False else contains_some text git_auth_patterns)"

definition is_git_permission_or_repo_error_text :: "string \<Rightarrow> bool" where
  "is_git_permission_or_repo_error_text text0 =
    (let text = to_lower (trim_space text0) in
     if text = [] then False else contains_some text git_permission_patterns)"

definition classify_error :: "string option \<Rightarrow> string" where
  "classify_error err =
    (case err of
       None \<Rightarrow> []
     | Some msg \<Rightarrow>
         (let text = to_lower msg in
          if contains text ''login_required'' then ''login_required''
          else if contains text ''workspace_not_bound_for_account'' then
            ''workspace_not_bound_for_account''
          else if contains text ''cloud_permission_denied'' then ''cloud_permission_denied''
          else if is_git_auth_error_text text then ''git_token_expired''
          else ''error''))"

definition classify_git_error :: "string option \<Rightarrow> string \<Rightarrow> string" where
  "classify_git_error err fallback =
    (case err of
       None \<Rightarrow> []
     | Some msg \<Rightarrow>
         (let text = to_lower msg in
          if is_git_permission_or_repo_error_text text then ''git_permission_denied''
          else if is_git_auth_error_text text then ''git_token_expired''
          else if contains text ''conflict'' \<or> contains text ''unmerged'' then ''git_conflict''
          else fallback))"

definition retryable_code :: "string \<Rightarrow> bool" where
  "retryable_code code \<longleftrightarrow> trim_space code = ''git_token_expired''"

definition recovery_for_code :: "string \<Rightarrow> string" where
  "recovery_for_code code0 =
    (let code = trim_space code0 in
     if code = ''login_required'' then
       ''OpenBrain login is expired or missing. Ask the user to sign in again from the desktop OpenBrain login dialog, then rerun this helper command.''
     else if code = ''git_token_expired'' then
       ''The short-lived workspace git token may have expired. Rerun this helper command once; it will request a fresh token before retrying git.''
     else if code = ''workspace_not_bound_for_account'' then
       ''This local workspace binding does not belong to the current OpenBrain account. Switch accounts, ask for workspace sharing, remove the local binding, or bind this folder again for the current account.''
     else if code = ''cloud_permission_denied'' then
       ''The current OpenBrain account does not have Cloud access to this workspace. Switch accounts, ask for workspace sharing, remove the local binding, or skip this workspace.''
     else if code = ''git_permission_denied'' then
       ''The workspace repository is missing or the GitHub App no longer has access. Ask the user to reconnect GitHub or confirm repository access before retrying.''
     else [])"

definition sanitize :: "string \<Rightarrow> string \<Rightarrow> string" where
  "sanitize text0 secret =
    (let text = trim_space text0 in
     if secret \<noteq> [] then replace_all text secret ''[redacted]'' else text)"

end
