(* ===== verification/SyncIndex.thy ===== *)
theory SyncIndex
  imports Machine SyncErrors
begin

section \<open>The workspace index and the login of the Cloud Sync helper\<close>

text \<open>
  \<open>openbrain-cloud-sync-helper/main.go\<close>: the records of \<open>workspaces.json\<close> and \<open>auth.json\<close>, how they
  are read, which partition of the index is active, and which workspaces the helper may touch. A nil
  map and a missing key look the same to every lookup, so a map of pointers is an association list
  of options.
\<close>

subsection \<open>Data\<close>

record sync_policy =
  auto_sync :: bool
  interval_sec :: int

record storage_binding =
  storage_enabled :: bool
  storage_backend :: string
  storage_provider :: string
  storage_remote_url :: string
  storage_policy :: sync_policy

record workspace_entry =
  workspace_id :: string
  org_id :: string
  local_name :: string
  workspace_path :: string
  repository :: string
  storage :: "storage_binding option"
  entry_policy :: sync_policy
  backup_enabled :: bool

type_synonym account = "workspace_entry list"

record organization = org_accounts :: "(string \<times> account option) list"

record deployment = organizations :: "(string \<times> organization option) list"

record workspace_index =
  index_version :: int
  deployments :: "(string \<times> deployment option) list option"
  index_workspaces :: "workspace_entry list"
  active_deployment_id :: string
  active_org_id :: string
  active_uid :: string

record auth_config =
  auth_version :: int
  gateway :: string
  auth_token :: string
  auth_uid :: string
  auth_deployment_id :: string
  auth_org_id :: string
  identity_id :: string
  connection_id :: string
  auth_method :: string
  auth_time :: string
  expires_at :: string

definition provider_github :: string where "provider_github = ''github''"
definition default_branch :: string where "default_branch = ''main''"

subsection \<open>The JSON of the two files\<close>

definition policy_type :: gty where
  "policy_type = TStruct [(''autoSync'', TBool), (''intervalSec'', TInt)]"

definition storage_type :: gty where
  "storage_type = TStruct
    [(''enabled'', TBool), (''backend'', TString), (''provider'', TString),
     (''remoteURL'', TString), (''syncPolicy'', policy_type)]"

definition entry_type :: gty where
  "entry_type = TStruct
    [(''workspaceID'', TString), (''orgID'', TString), (''localName'', TString),
     (''path'', TString), (''repository'', TRaw), (''storage'', TPtr storage_type),
     (''syncPolicy'', policy_type), (''backupEnabled'', TBool)]"

definition account_type :: gty where
  "account_type = TStruct [(''workspaces'', TSlice entry_type)]"

definition organization_type :: gty where
  "organization_type = TStruct [(''accounts'', TMap (TPtr account_type))]"

definition deployment_type :: gty where
  "deployment_type = TStruct [(''organizations'', TMap (TPtr organization_type))]"

definition index_type :: gty where
  "index_type = TStruct
    [(''version'', TInt), (''deployments'', TMap (TPtr deployment_type)),
     (''workspaces'', TSlice entry_type)]"

definition auth_type :: gty where
  "auth_type = TStruct
    [(''version'', TInt), (''gateway'', TString), (''token'', TString), (''uid'', TString),
     (''deploymentID'', TString), (''orgID'', TString), (''identityID'', TString),
     (''connectionID'', TString), (''authMethod'', TString), (''authTime'', TString),
     (''expiresAt'', TString)]"

definition policy_of :: "gval \<Rightarrow> sync_policy" where
  "policy_of v =
    \<lparr>auto_sync = as_bool (get_field v ''autoSync''), interval_sec = as_int (get_field v ''intervalSec'')\<rparr>"

definition storage_of :: "gval \<Rightarrow> storage_binding" where
  "storage_of v =
    \<lparr>storage_enabled = as_bool (get_field v ''enabled''),
     storage_backend = as_string (get_field v ''backend''),
     storage_provider = as_string (get_field v ''provider''),
     storage_remote_url = as_string (get_field v ''remoteURL''),
     storage_policy = policy_of (get_field v ''syncPolicy'')\<rparr>"

definition entry_of :: "gval \<Rightarrow> workspace_entry" where
  "entry_of v =
    \<lparr>workspace_id = as_string (get_field v ''workspaceID''), org_id = as_string (get_field v ''orgID''),
     local_name = as_string (get_field v ''localName''),
     workspace_path = as_string (get_field v ''path''),
     repository = as_raw (get_field v ''repository''),
     storage = map_option storage_of (as_ptr (get_field v ''storage'')),
     entry_policy = policy_of (get_field v ''syncPolicy''),
     backup_enabled = as_bool (get_field v ''backupEnabled'')\<rparr>"

text \<open>A map of pointers: what each key points to, through \<open>f\<close>.\<close>

definition pointer_map :: "(gval \<Rightarrow> 'a) \<Rightarrow> gval \<Rightarrow> (string \<times> 'a option) list" where
  "pointer_map f v = map (\<lambda>(k, p). (k, map_option f (as_ptr p))) (map_entries v)"

definition account_of :: "gval \<Rightarrow> account" where
  "account_of v = map entry_of (as_slice (get_field v ''workspaces''))"

definition organization_of :: "gval \<Rightarrow> organization" where
  "organization_of v = \<lparr>org_accounts = pointer_map account_of (get_field v ''accounts'')\<rparr>"

definition deployment_of :: "gval \<Rightarrow> deployment" where
  "deployment_of v = \<lparr>organizations = pointer_map organization_of (get_field v ''organizations'')\<rparr>"

definition index_of :: "gval \<Rightarrow> workspace_index" where
  "index_of v =
    \<lparr>index_version = as_int (get_field v ''version''),
     deployments =
       (case get_field v ''deployments'' of
          GMap es \<Rightarrow> Some (pointer_map deployment_of (GMap es)) | _ \<Rightarrow> None),
     index_workspaces = map entry_of (as_slice (get_field v ''workspaces'')),
     active_deployment_id = [], active_org_id = [], active_uid = []\<rparr>"

definition auth_of :: "gval \<Rightarrow> auth_config" where
  "auth_of v =
    \<lparr>auth_version = as_int (get_field v ''version''), gateway = as_string (get_field v ''gateway''),
     auth_token = as_string (get_field v ''token''), auth_uid = as_string (get_field v ''uid''),
     auth_deployment_id = as_string (get_field v ''deploymentID''),
     auth_org_id = as_string (get_field v ''orgID''),
     identity_id = as_string (get_field v ''identityID''),
     connection_id = as_string (get_field v ''connectionID''),
     auth_method = as_string (get_field v ''authMethod''),
     auth_time = as_string (get_field v ''authTime''),
     expires_at = as_string (get_field v ''expiresAt'')\<rparr>"

definition no_auth :: auth_config where
  "no_auth = auth_of (zero_value auth_type)"

subsection \<open>The active partition\<close>

text \<open>A lookup in a map of pointers: a missing key is a nil pointer.\<close>

definition pointer_at :: "(string \<times> 'a option) list \<Rightarrow> string \<Rightarrow> 'a option" where
  "pointer_at m k = (case map_of m k of Some p \<Rightarrow> p | None \<Rightarrow> None)"

definition activate :: "string \<Rightarrow> string \<Rightarrow> string \<Rightarrow> workspace_index \<Rightarrow> workspace_index" where
  "activate deployment_id0 org_id0 uid0 index0 =
    (let deployment_id = trim_space deployment_id0; oid = trim_space org_id0; uid = trim_space uid0;
         deps = (case deployments index0 of Some ds \<Rightarrow> ds | None \<Rightarrow> []);
         index = index0\<lparr>active_deployment_id := deployment_id, active_org_id := oid,
                   active_uid := uid, deployments := Some deps\<rparr>
     in if deployment_id = [] \<or> oid = [] \<or> uid = [] then index\<lparr>index_workspaces := []\<rparr>
        else
          (case pointer_at deps deployment_id of
             None \<Rightarrow> index\<lparr>index_workspaces := []\<rparr>
           | Some dep \<Rightarrow>
               (case pointer_at (organizations dep) oid of
                  None \<Rightarrow> index\<lparr>index_workspaces := []\<rparr>
                | Some organization \<Rightarrow>
                    (case pointer_at (org_accounts organization) uid of
                       None \<Rightarrow> index\<lparr>index_workspaces := []\<rparr>
                     | Some acc \<Rightarrow> index\<lparr>index_workspaces := acc\<rparr>))))"

definition new_workspace_index :: "auth_config \<Rightarrow> workspace_index" where
  "new_workspace_index auth =
    activate (auth_deployment_id auth) (auth_org_id auth) (auth_uid auth)
      \<lparr>index_version = 3, deployments = Some [], index_workspaces = [],
       active_deployment_id = [], active_org_id = [], active_uid = []\<rparr>"

subsection \<open>Reading the files\<close>

definition open_brain_home :: "'w outside \<Rightarrow> string" where
  "open_brain_home os =
    (let value = trim_space (base_dir_env os) in
     if value \<noteq> [] then value
     else
       (case user_home os of
          None \<Rightarrow> path_join [''.opagent'', ''openbrain'']
        | Some home \<Rightarrow>
            if trim_space home = [] then path_join [''.opagent'', ''openbrain'']
            else path_join [home, ''.opagent'', ''openbrain'']))"

definition complete_auth :: "auth_config \<Rightarrow> bool" where
  "complete_auth a \<longleftrightarrow>
     \<not> (auth_version a \<noteq> 2 \<or> trim_space (auth_uid a) = [] \<or>
        trim_space (auth_token a) = [] \<or> trim_space (auth_deployment_id a) = [] \<or>
        trim_space (auth_org_id a) = [] \<or> trim_space (identity_id a) = [] \<or>
        trim_space (connection_id a) = [] \<or> trim_space (auth_method a) = [] \<or>
        trim_space (auth_time a) = [] \<or> trim_space (expires_at a) = [])"

text \<open>\<open>loadAuth\<close> returns what it has read also beside an error.\<close>

definition auth_from :: "'w outside \<Rightarrow> read_result \<Rightarrow> auth_config \<times> string option" where
  "auth_from os res =
    (case res of
       FileBytes raw \<Rightarrow>
         (case unmarshal_into auth_type (zero_value auth_type) raw of
            (v, ok) \<Rightarrow>
              if \<not> ok then (auth_of v, Some (json_error os raw))
              else if \<not> complete_auth (auth_of v) then
                (auth_of v, Some ''login_required: tenant-bound sign in is required before syncing OpenBrain Cloud'')
              else (auth_of v, None))
     | _ \<Rightarrow> (no_auth, Some ''login_required: sign in before syncing OpenBrain Cloud''))"

definition auth_path :: "'w outside \<Rightarrow> string" where
  "auth_path os = path_join [open_brain_home os, ''configs'', ''user'', ''auth.json'']"

definition load_auth :: "'w outside \<Rightarrow> ('w machine, auth_config \<times> string option) state" where
  "load_auth os = do {
     res \<leftarrow> do_read_file os (auth_path os);
     ret (auth_from os res)
   }"

definition index_from ::
    "'w outside \<Rightarrow> auth_config \<Rightarrow> read_result \<Rightarrow> (string, workspace_index) result" where
  "index_from os auth res =
    (case res of
       FileMissing \<Rightarrow> Inr (new_workspace_index auth)
     | FileError e \<Rightarrow> Inl e
     | FileBytes raw \<Rightarrow>
         (case unmarshal index_type raw of
            None \<Rightarrow> Inl (json_error os raw)
          | Some v \<Rightarrow>
              (let index = index_of v in
               if index_version index \<noteq> 3 \<or> deployments index = None
               then Inr (new_workspace_index auth)
               else Inr (activate (auth_deployment_id auth) (auth_org_id auth) (auth_uid auth) index))))"

definition index_path :: "'w outside \<Rightarrow> string" where
  "index_path os = path_join [open_brain_home os, ''index'', ''workspaces.json'']"

definition load_index :: "'w outside \<Rightarrow> ('w machine, (string, workspace_index) result) state" where
  "load_index os = do {
     (auth, err) \<leftarrow> load_auth os;
     (case err of
        Some _ \<Rightarrow> ret (Inr (new_workspace_index auth))
      | None \<Rightarrow> do {
          res \<leftarrow> do_read_file os (index_path os);
          ret (index_from os auth res)
        })
   }"

subsection \<open>Eligible workspaces\<close>

definition is_zero_policy :: "sync_policy \<Rightarrow> bool" where
  "is_zero_policy p \<longleftrightarrow> \<not> auto_sync p \<and> interval_sec p = 0"

definition workspace_auto_sync_enabled :: "workspace_entry \<Rightarrow> bool" where
  "workspace_auto_sync_enabled e =
    (let policy = (case storage e of
                     Some s \<Rightarrow> if is_zero_policy (entry_policy e) then storage_policy s
                               else entry_policy e
                   | None \<Rightarrow> entry_policy e)
     in if is_zero_policy policy then backup_enabled e else auto_sync policy)"

definition is_eligible_workspace :: "workspace_entry \<Rightarrow> bool \<Rightarrow> bool" where
  "is_eligible_workspace e include_disabled =
    (case storage e of
       None \<Rightarrow> False
     | Some s \<Rightarrow>
         if \<not> storage_enabled s then False
         else if trim_space (storage_backend s) \<noteq> ''git''
              \<or> trim_space (storage_provider s) \<noteq> provider_github then False
         else if \<not> include_disabled \<and> \<not> workspace_auto_sync_enabled e then False
         else trim_space (workspace_id e) \<noteq> [] \<and> trim_space (workspace_path e) \<noteq> [])"

definition load_eligible_workspaces ::
    "'w outside \<Rightarrow> bool \<Rightarrow> ('w machine, (string, workspace_entry list) result) state" where
  "load_eligible_workspaces os include_disabled = do {
     index \<leftarrow> load_index os;
     ret (case index of
            Inl e \<Rightarrow> Inl e
          | Inr i \<Rightarrow>
              Inr (filter (\<lambda>e. is_eligible_workspace e include_disabled) (index_workspaces i)))
   }"

definition find_eligible_workspace ::
    "'w outside \<Rightarrow> string \<Rightarrow> bool \<Rightarrow> ('w machine, (string, workspace_entry) result) state" where
  "find_eligible_workspace os workspace_id0 include_disabled = do {
     entries \<leftarrow> load_eligible_workspaces os include_disabled;
     ret
       (case entries of
          Inl e \<Rightarrow> Inl e
        | Inr es \<Rightarrow>
            (case List.find (\<lambda>e. trim_space (workspace_id e) = trim_space workspace_id0) es of
               Some e \<Rightarrow> Inr e
             | None \<Rightarrow>
                 Inl (''workspace_not_bound_for_account: workspace '' @ trim_space workspace_id0
                      @ '' is not bound for the current OpenBrain account'')))
   }"

end
