(* ===== verification/SyncGit.thy ===== *)
theory SyncGit
  imports SyncIndex "HOL-Library.List_Lexorder" "HOL-Library.Char_ord"
begin

section \<open>Git and the Cloud gateway in the Cloud Sync helper\<close>

text \<open>
  \<open>openbrain-cloud-sync-helper/main.go\<close>: running git and reading its output, the search for nested
  repositories, the target of fetch, pull and push, the askpass script, the workspace token and the
  request that starts the Cloud indexing. The build is the Unix one. A call that returns
  \<open>(string, error)\<close> and whose callers drop the string beside an error is a sum.
\<close>

subsection \<open>Results\<close>

record workspace_result =
  result_id :: string
  result_name :: string
  result_path :: string
  result_org :: string
  status :: string
  code :: string
  message :: string
  recovery :: string
  retryable :: bool
  branch :: string
  ahead :: bool
  behind :: bool
  dirty :: bool
  unmerged :: bool
  nested_git :: "string list"
  gitlinks :: "string list"

record git_access_token =
  token_username :: string
  access_token :: string
  token_remote_url :: string

record git_target =
  target_url :: string
  target_branch :: string

subsection \<open>Running git\<close>

definition run_git ::
    "'w outside \<Rightarrow> string \<Rightarrow> string list \<Rightarrow> string list \<Rightarrow> ('w machine, (string, string) result) state" where
  "run_git os dir env args = do {
     (out, err) \<leftarrow> do_git os dir env args;
     (let text = trim_space out in
      ret (case err of
             None \<Rightarrow> Inr text
           | Some e \<Rightarrow> if text \<noteq> [] then Inl text else Inl e))
   }"

definition ensure_git_repo :: "'w outside \<Rightarrow> string \<Rightarrow> ('w machine, string option) state" where
  "ensure_git_repo os dir = do {
     res \<leftarrow> run_git os dir [] [''rev-parse'', ''--show-toplevel''];
     ret (case res of Inl _ \<Rightarrow> Some ''workspace is not a git repository'' | Inr _ \<Rightarrow> None)
   }"

definition status_lines :: "string \<Rightarrow> string list" where
  "status_lines out =
    filter (\<lambda>l. trim_space l \<noteq> [])
      (map (trim_right_byte (CHR 0x0D)) (split_byte (CHR 0x0A) out))"

definition git_status :: "'w outside \<Rightarrow> string \<Rightarrow> ('w machine, (string, string list) result) state" where
  "git_status os dir = do {
     res \<leftarrow> run_git os dir [] [''status'', ''--porcelain=v1'', ''--branch''];
     ret (case res of Inl e \<Rightarrow> Inl e | Inr out \<Rightarrow> Inr (status_lines out))
   }"

definition apply_status_line :: "workspace_result \<Rightarrow> string \<Rightarrow> workspace_result" where
  "apply_status_line out line =
    (if has_prefix line ''## '' then
       out\<lparr>ahead := contains line ''ahead '', behind := contains line ''behind ''\<rparr>
     else
       (let out' = out\<lparr>dirty := True\<rparr>; xy = take 2 line in
        if contains xy ''U'' \<or> xy = ''AA'' \<or> xy = ''DD'' then out'\<lparr>unmerged := True\<rparr> else out'))"

definition apply_status :: "workspace_result \<Rightarrow> string list \<Rightarrow> workspace_result" where
  "apply_status out lines =
    foldl apply_status_line
      (out\<lparr>dirty := False, ahead := False, behind := False, unmerged := False\<rparr>) lines"

text \<open>\<open>fmt.Sscanf\<close> with \<open>%d\<close> on trimmed text: an optional sign and the digits that follow it.\<close>

definition scan_int :: "string \<Rightarrow> int option" where
  "scan_int s =
    (let sign = (if s \<noteq> [] \<and> hd s \<in> {CHR ''+'', CHR ''-''} then [hd s] else []);
         ds = takeWhile digit (drop (length sign) s)
     in if ds = [] then None
        else parse_int64 ((if sign = ''-'' then ''-'' else []) @ ds))"

definition count_git_revisions :: "'w outside \<Rightarrow> string \<Rightarrow> string \<Rightarrow> ('w machine, int) state" where
  "count_git_revisions os dir revs = do {
     res \<leftarrow> run_git os dir [] [''rev-list'', ''--count'', revs];
     ret (case res of
            Inl _ \<Rightarrow> 0
          | Inr out \<Rightarrow> (case scan_int (trim_space out) of Some n \<Rightarrow> n | None \<Rightarrow> 0))
   }"

definition fetch_head_marks :: "workspace_result \<Rightarrow> int \<Rightarrow> int \<Rightarrow> workspace_result" where
  "fetch_head_marks out b a =
    (let out1 = (if b > 0 then out\<lparr>behind := True\<rparr> else out) in
     if a > 0 then out1\<lparr>ahead := True\<rparr> else out1)"

definition apply_fetch_head_status ::
    "'w outside \<Rightarrow> string \<Rightarrow> workspace_result \<Rightarrow> ('w machine, workspace_result) state" where
  "apply_fetch_head_status os dir out = do {
     b \<leftarrow> count_git_revisions os dir ''HEAD..FETCH_HEAD'';
     a \<leftarrow> count_git_revisions os dir ''FETCH_HEAD..HEAD'';
     ret (fetch_head_marks out b a)
   }"

subsection \<open>Nested repositories\<close>

definition allowed_paths :: "string list \<Rightarrow> string list" where
  "allowed_paths ps = filter (\<lambda>p. p \<noteq> []) (map (\<lambda>p. trim_byte slash (trim_space p)) ps)"

text \<open>What the walk function does at one entry: the nested repository it records.\<close>

definition nested_here :: "string \<Rightarrow> string list \<Rightarrow> string \<Rightarrow> string \<Rightarrow> string list" where
  "nested_here root allowed path name =
    (if name = ''.git'' \<and> path \<noteq> path_join [root, ''.git''] then
       (case path_rel root (path_dir path) of
          None \<Rightarrow> []
        | Some rel \<Rightarrow> if rel \<noteq> dot \<and> rel \<notin> set allowed then [rel] else [])
     else [])"

definition skipped_dir :: "string \<Rightarrow> bool" where
  "skipped_dir name \<longleftrightarrow> name = ''.git'' \<or> name = ''node_modules'' \<or> name = ''.cache''"

fun walk_nested :: "string \<Rightarrow> string list \<Rightarrow> string \<Rightarrow> string \<Rightarrow> node \<Rightarrow> string list"
  and walk_entries :: "string \<Rightarrow> string list \<Rightarrow> string \<Rightarrow> (string \<times> node) list \<Rightarrow> string list" where
  "walk_nested root allowed path name (DirNode es) =
    nested_here root allowed path name
      @ (if skipped_dir name then [] else walk_entries root allowed path es)"
| "walk_nested root allowed path name _ = nested_here root allowed path name"
| "walk_entries root allowed path [] = []"
| "walk_entries root allowed path ((n, child) # es) =
    walk_nested root allowed (path_join [path, n]) n child @ walk_entries root allowed path es"

definition gitlink_of_line :: "string \<Rightarrow> string list" where
  "gitlink_of_line line =
    (let fs = Go_Strings.fields line in
     if 4 \<le> length fs \<and> hd fs = ''160000'' then [last fs] else [])"

definition detect_nested_git ::
    "'w outside \<Rightarrow> string \<Rightarrow> string list \<Rightarrow> ('w machine, string list \<times> string list) state" where
  "detect_nested_git os root allow_nested = do {
     tree \<leftarrow> do_walk_tree os root;
     (let nested = (case tree of
                      None \<Rightarrow> []
                    | Some t \<Rightarrow> walk_nested root (allowed_paths allow_nested) root (path_base root) t)
      in do {
        res \<leftarrow> run_git os root [] [''ls-files'', ''--stage''];
        (let links = (case res of
                        Inl _ \<Rightarrow> []
                      | Inr out \<Rightarrow> concat (map gitlink_of_line (split_byte (CHR 0x0A) out)))
         in ret (sort nested, sort links))
      })
   }"

subsection \<open>The git target\<close>

definition strip_remote_user_info :: "string \<Rightarrow> string" where
  "strip_remote_user_info remote_url0 =
    (let remote_url = trim_space remote_url0 in
     if remote_url = [] then []
     else
       (case url_parse remote_url of
          None \<Rightarrow> remote_url
        | Some parsed \<Rightarrow>
            if user parsed = None then remote_url else url_string (parsed\<lparr>user := None\<rparr>)))"

definition repository_type :: gty where
  "repository_type = TStruct [(''remoteURL'', TString), (''defaultBranch'', TString)]"

text \<open>The error of this \<open>json.Unmarshal\<close> is dropped: what it has filled in stays.\<close>

definition repository_binding :: "workspace_entry \<Rightarrow> gval" where
  "repository_binding e =
    (if repository e = [] then zero_value repository_type
     else fst (unmarshal_into repository_type (zero_value repository_type) (repository e)))"

definition git_target_for :: "workspace_entry \<Rightarrow> git_access_token option \<Rightarrow> git_target" where
  "git_target_for e tok =
    (let url0 = (case tok of Some t \<Rightarrow> trim_space (token_remote_url t) | None \<Rightarrow> []);
         url1 = (case storage e of
                   Some s \<Rightarrow> if url0 = [] then trim_space (storage_remote_url s) else url0
                 | None \<Rightarrow> url0);
         repo = repository_binding e;
         url2 = (if repository e \<noteq> [] \<and> url1 = []
                 then trim_space (as_string (get_field repo ''remoteURL'')) else url1);
         br = trim_space (as_string (get_field repo ''defaultBranch''))
     in \<lparr>target_url = strip_remote_user_info url2, target_branch = (if br = [] then default_branch else br)\<rparr>)"

definition workspace_name :: "workspace_entry \<Rightarrow> string" where
  "workspace_name e =
    (let name = trim_space (local_name e) in
     if name \<noteq> [] then name else path_base (trim_space (workspace_path e)))"

definition base_workspace_result :: "workspace_entry \<Rightarrow> workspace_result" where
  "base_workspace_result e =
    \<lparr>result_id = trim_space (workspace_id e), result_name = workspace_name e,
     result_path = trim_space (workspace_path e), result_org = trim_space (org_id e),
     status = [], code = [], message = [], recovery = [], retryable = False,
     branch = target_branch (git_target_for e None), ahead = False, behind = False, dirty = False,
     unmerged = False, nested_git = [], gitlinks = []\<rparr>"

definition blocked :: "workspace_result \<Rightarrow> string \<Rightarrow> string \<Rightarrow> workspace_result" where
  "blocked out c err =
    out\<lparr>status := ''blocked'', code := c, message := sanitize err [],
        recovery := recovery_for_code c, retryable := retryable_code c\<rparr>"

subsection \<open>Requests to the gateway\<close>

definition read_limit :: int where "read_limit = 1048576"

definition limited :: "string \<Rightarrow> string" where
  "limited s = (if int (length s) \<le> read_limit then s else take (nat read_limit) s)"

definition gateway_headers :: "auth_config \<Rightarrow> (string \<times> string) list" where
  "gateway_headers auth =
    [(''Authorization'', ''Bearer '' @ trim_space (auth_token auth)),
     (''Accept'', ''application/json'')]
    @ (if trim_space (auth_uid auth) \<noteq> [] then [(''X-UID'', trim_space (auth_uid auth))] else [])"

definition workspace_endpoint :: "string \<Rightarrow> workspace_entry \<Rightarrow> string \<Rightarrow> string" where
  "workspace_endpoint gw e action =
    gw @ ''/v1/orgs/'' @ path_escape (org_id e) @ ''/workspaces/'' @ path_escape (workspace_id e) @ action"

text \<open>\<open>http.NewRequestWithContext\<close> and \<open>http.DefaultClient.Do\<close>.\<close>

definition post_request ::
    "'w outside \<Rightarrow> string \<Rightarrow> (string \<times> string) list \<Rightarrow> ('w machine, (string, http_response) result) state" where
  "post_request os endpoint headers =
    (if url_parse endpoint = None then ret (Inl (url_error os endpoint))
     else do_http_post os endpoint headers)"

definition token_type :: gty where
  "token_type = TStruct
    [(''username'', TString), (''accessToken'', TString), (''accessTokenExpiresAt'', TString),
     (''remoteURL'', TString)]"

definition token_of :: "gval \<Rightarrow> git_access_token" where
  "token_of v =
    \<lparr>token_username = as_string (get_field v ''username''),
     access_token = as_string (get_field v ''accessToken''),
     token_remote_url = as_string (get_field v ''remoteURL'')\<rparr>"

definition token_from_response ::
    "'w outside \<Rightarrow> workspace_entry \<Rightarrow> http_response \<Rightarrow> (string, git_access_token) result" where
  "token_from_response os e res =
    (let raw = limited (response_body res); st = status_code res in
     if 400 \<le> st \<and> st < 500 \<and> contains (to_lower raw) ''permission required'' then
       Inl (''cloud_permission_denied: permission required for workspace '' @ trim_space (workspace_id e))
     else if st = 401 \<or> st = 403 then
       Inl (''login_required: git token request failed: '' @ status_line res)
     else if st < 200 \<or> 300 \<le> st then
       Inl (''git token request failed: '' @ status_line res @ '': '' @ trim_space raw)
     else
       (case unmarshal token_type raw of
          None \<Rightarrow> Inl (json_error os raw)
        | Some v \<Rightarrow>
            (let parsed = token_of v in
             if trim_space (access_token parsed) = [] then
               Inl ''git token response did not include an access token''
             else if trim_space (token_username parsed) = [] then
               Inr (parsed\<lparr>token_username := ''x-access-token''\<rparr>)
             else Inr parsed)))"

definition workspace_git_token ::
    "'w outside \<Rightarrow> workspace_entry \<Rightarrow> ('w machine, (string, git_access_token) result) state" where
  "workspace_git_token os e = do {
     (auth, err) \<leftarrow> load_auth os;
     (case err of
        Some msg \<Rightarrow> ret (Inl msg)
      | None \<Rightarrow>
          (let gw = trim_right_byte slash (trim_space (gateway auth)) in
           if gw = [] \<or> trim_space (auth_token auth) = [] then
             ret (Inl ''login_required: sign in before syncing git storage'')
           else if trim_space (org_id e) = [] \<or> trim_space (workspace_id e) = [] then
             ret (Inl ''workspace identity is missing'')
           else do {
             res \<leftarrow> post_request os (workspace_endpoint gw e ''/git-token'') (gateway_headers auth);
             ret (case res of Inl msg \<Rightarrow> Inl msg | Inr r \<Rightarrow> token_from_response os e r)
           }))
   }"

definition brain_sync_response :: "http_response \<Rightarrow> string option" where
  "brain_sync_response res =
    (let raw = limited (response_body res); st = status_code res in
     if st = 401 \<or> st = 403 then
       Some (''login_required: brain sync request failed: '' @ status_line res)
     else if st < 200 \<or> 300 \<le> st then
       Some (''brain sync request failed: '' @ status_line res @ '': '' @ trim_space raw)
     else None)"

definition trigger_brain_sync :: "'w outside \<Rightarrow> workspace_entry \<Rightarrow> ('w machine, string option) state" where
  "trigger_brain_sync os e = do {
     (auth, err) \<leftarrow> load_auth os;
     (case err of
        Some msg \<Rightarrow> ret (Some msg)
      | None \<Rightarrow>
          (let gw = trim_right_byte slash (trim_space (gateway auth)) in
           if gw = [] \<or> trim_space (auth_token auth) = [] then
             ret (Some ''login_required: sign in before syncing OpenBrain Cloud brain'')
           else do {
             res \<leftarrow> post_request os (workspace_endpoint gw e ''/brain/sync'') (gateway_headers auth);
             ret (case res of Inl msg \<Rightarrow> Some msg | Inr r \<Rightarrow> brain_sync_response r)
           }))
   }"

subsection \<open>Credentials for git\<close>

definition credential_override :: "string list" where
  "credential_override =
    [''GIT_CONFIG_COUNT=1'', ''GIT_CONFIG_KEY_0=credential.helper'', ''GIT_CONFIG_VALUE_0='']"

definition newline :: string where "newline = [CHR 0x0A]"
definition dquote :: string where "dquote = [CHR 0x22]"
definition squote :: string where "squote = [CHR 0x27]"

text \<open>The branch of a shell \<open>case\<close> that prints a variable.\<close>

definition askpass_branch :: "string \<Rightarrow> string \<Rightarrow> string" where
  "askpass_branch pattern variable =
    ''  '' @ pattern @ '') printf '' @ squote @ ''%s'' @ [CHR 0x5C] @ ''n'' @ squote @ '' ''
      @ dquote @ ''$'' @ variable @ dquote @ '' ;;'' @ newline"

definition askpass_script :: string where
  "askpass_script =
    ''#!/bin/sh'' @ newline @ ''case '' @ dquote @ ''$1'' @ dquote @ '' in'' @ newline
      @ askpass_branch ''*Username*'' ''OPENBRAIN_GIT_ASKPASS_USERNAME''
      @ askpass_branch ''*'' ''OPENBRAIN_GIT_ASKPASS_TOKEN''
      @ ''esac'' @ newline"

text \<open>The environment, the directory the cleanup removes, and the error.\<close>

definition git_askpass_env ::
    "'w outside \<Rightarrow> string \<Rightarrow> string
      \<Rightarrow> ('w machine, string list \<times> string option \<times> string option) state" where
  "git_askpass_env os username0 token0 =
    (let token = trim_space token0 in
     if token = [] then
       ret ([''GIT_TERMINAL_PROMPT=0'', ''GCM_INTERACTIVE=never''] @ credential_override, None, None)
     else
       (let username = (if trim_space username0 = [] then ''x-access-token'' else trim_space username0)
        in do {
          temp \<leftarrow> do_make_temp os ''openbrain-git-askpass-'';
          (case temp of
             Inl e \<Rightarrow> ret ([], None, Some e)
           | Inr dir \<Rightarrow> do {
               werr \<leftarrow> do_write_file os (path_join [dir, ''askpass.sh'']) askpass_script;
               (case werr of
                  Some e \<Rightarrow> do {
                    _ \<leftarrow> do_remove_all os dir;
                    ret ([], None, Some e)
                  }
                | None \<Rightarrow>
                    ret ([''GIT_ASKPASS='' @ path_join [dir, ''askpass.sh''],
                          ''GIT_TERMINAL_PROMPT=0'', ''GCM_INTERACTIVE=never'',
                          ''OPENBRAIN_GIT_ASKPASS_USERNAME='' @ username,
                          ''OPENBRAIN_GIT_ASKPASS_TOKEN='' @ token] @ credential_override,
                         Some dir, None))
             })
        }))"

record git_auth_result =
  auth_env :: "string list"
  auth_cleanup :: "string option"
  auth_target :: git_target
  auth_error :: "string option"

definition git_auth :: "'w outside \<Rightarrow> workspace_entry \<Rightarrow> ('w machine, git_auth_result) state" where
  "git_auth os e = do {
     token \<leftarrow> workspace_git_token os e;
     (case token of
        Inl err \<Rightarrow>
          ret \<lparr>auth_env = [], auth_cleanup = None, auth_target = git_target_for e None,
               auth_error = Some err\<rparr>
      | Inr t \<Rightarrow> do {
          (env, cleanup, err) \<leftarrow> git_askpass_env os (token_username t) (access_token t);
          ret \<lparr>auth_env = env, auth_cleanup = cleanup, auth_target = git_target_for e (Some t),
               auth_error = err\<rparr>
        })
   }"

definition run_cleanup :: "'w outside \<Rightarrow> string option \<Rightarrow> ('w machine, unit) state" where
  "run_cleanup os c = (case c of None \<Rightarrow> ret () | Some dir \<Rightarrow> do_remove_all os dir)"

end
