(* ===== verification/SyncIndex_Props.thy ===== *)
theory SyncIndex_Props
  imports SyncIndex
begin

section \<open>What the index and the error codes promise\<close>

text \<open>
  Which workspaces the helper can see at all: those of the partition of the index that the login
  names, filtered by their storage binding and policy; and what a missing login and an error text
  turn into.
\<close>

subsection \<open>The partition of an account\<close>

definition account_partition ::
    "workspace_index \<Rightarrow> string \<Rightarrow> string \<Rightarrow> string \<Rightarrow> workspace_entry list option" where
  "account_partition index deployment_id oid uid =
    Option.bind (deployments index) (\<lambda>ds.
    Option.bind (pointer_at ds deployment_id) (\<lambda>dep.
    Option.bind (pointer_at (organizations dep) oid) (\<lambda>organization.
    pointer_at (org_accounts organization) uid)))"

lemma pointer_at_Nil [simp]: "pointer_at [] k = None"
  by (simp add: pointer_at_def)

lemma activate_workspaces:
  "index_workspaces (activate d oid uid index) =
    (if trim_space d = [] \<or> trim_space oid = [] \<or> trim_space uid = [] then []
     else case account_partition index (trim_space d) (trim_space oid) (trim_space uid) of
            None \<Rightarrow> [] | Some es \<Rightarrow> es)"
  by (auto simp: activate_def account_partition_def Let_def split: option.split)

lemma activate_ids [simp]:
  "active_deployment_id (activate d oid uid index) = trim_space d"
  "active_org_id (activate d oid uid index) = trim_space oid"
  "active_uid (activate d oid uid index) = trim_space uid"
  by (auto simp: activate_def Let_def split: option.split)

lemma new_workspace_index_empty [simp]: "index_workspaces (new_workspace_index auth) = []"
  by (auto simp: new_workspace_index_def activate_workspaces account_partition_def)

lemma auth_from_complete: "auth_from os res = (auth, None) \<Longrightarrow> complete_auth auth"
  by (auto simp: auth_from_def split: read_result.splits if_splits prod.splits)

subsection \<open>What one run reads\<close>

definition auth_read :: "'w outside \<Rightarrow> 'w machine \<Rightarrow> auth_config \<times> string option" where
  "auth_read os m = auth_from os (fst (read_file os (auth_path os) (world m)))"

definition index_read :: "'w outside \<Rightarrow> 'w machine \<Rightarrow> read_result" where
  "index_read os m =
    fst (read_file os (index_path os) (snd (read_file os (auth_path os) (world m))))"

lemma run_load_index:
  "fst (run_state (load_index os) m) =
    (case auth_read os m of
       (auth, Some _) \<Rightarrow> Inr (new_workspace_index auth)
     | (auth, None) \<Rightarrow> index_from os auth (index_read os m))"
  by (simp add: load_index_def load_auth_def do_defs interact_def auth_read_def index_read_def
      split: prod.split option.split)

lemma run_load_eligible:
  "fst (run_state (load_eligible_workspaces os d) m) =
    (case fst (run_state (load_index os) m) of
       Inl e \<Rightarrow> Inl e
     | Inr i \<Rightarrow> Inr (filter (\<lambda>e. is_eligible_workspace e d) (index_workspaces i)))"
  by (simp add: load_eligible_workspaces_def split: prod.split)

lemma run_find_eligible:
  "fst (run_state (find_eligible_workspace os wid d) m) =
    (case fst (run_state (load_eligible_workspaces os d) m) of
       Inl e \<Rightarrow> Inl e
     | Inr es \<Rightarrow>
         (case List.find (\<lambda>e. trim_space (workspace_id e) = trim_space wid) es of
            Some e \<Rightarrow> Inr e
          | None \<Rightarrow> Inl (''workspace_not_bound_for_account: workspace '' @ trim_space wid
                   @ '' is not bound for the current OpenBrain account'')))"
  by (simp add: find_eligible_workspace_def split: prod.split)

lemma index_from_workspaces:
  assumes "index_from os auth res = Inr i" and "e \<in> set (index_workspaces i)"
  shows "\<exists>raw v es. res = FileBytes raw \<and> unmarshal index_type raw = Some v \<and>
    account_partition (index_of v) (trim_space (auth_deployment_id auth))
      (trim_space (auth_org_id auth)) (trim_space (auth_uid auth)) = Some es \<and> e \<in> set es"
  using assms
  by (auto simp: index_from_def Let_def activate_workspaces split: read_result.splits option.splits if_splits)

lemma eligible_iff:
  "is_eligible_workspace e d \<longleftrightarrow>
    (\<exists>s. storage e = Some s \<and> storage_enabled s \<and> trim_space (storage_backend s) = ''git'' \<and>
       trim_space (storage_provider s) = provider_github) \<and>
    (d \<or> workspace_auto_sync_enabled e) \<and>
    trim_space (workspace_id e) \<noteq> [] \<and> trim_space (workspace_path e) \<noteq> []"
  by (auto simp: is_eligible_workspace_def split: option.splits)

subsection \<open>Error texts\<close>

lemma contains_lower: "contains s p \<Longrightarrow> lower_pattern p \<Longrightarrow> contains (to_lower s) p"
  using contains_lower_infix by (auto simp: contains_iff_sublist sublist_def)

lemma auth_text_found:
  assumes "contains text p" and "p \<in> set git_auth_patterns" and "solid p" and "lower_pattern p"
  shows "is_git_auth_error_text text"
proof -
  have c: "contains (to_lower (trim_space text)) p"
    using assms by (intro contains_lower contains_trim_space)
  moreover from this assms(3) have "to_lower (trim_space text) \<noteq> []" by (auto simp: solid_def)
  ultimately show ?thesis
    using assms(2) by (auto simp: is_git_auth_error_text_def Let_def contains_some_def list_ex_iff)
qed

definition http_numbers :: "string list" where
  "http_numbers = [''401'', ''403'']"

lemma http_numbers_pattern:
  "p \<in> set http_numbers \<Longrightarrow> p \<in> set git_auth_patterns \<and> solid p \<and> lower_pattern p"
  by (auto simp: http_numbers_def git_auth_patterns_def solid_def space_bytes_def space_seqs_def
      lower_pattern_def ascii_lower_def)

lemma classify_error_codes:
  "classify_error (Some msg) \<in> {''login_required'', ''workspace_not_bound_for_account'',
     ''cloud_permission_denied'', ''git_token_expired'', ''error''}"
  by (auto simp: classify_error_def Let_def)

lemma trim_space_codes [simp]:
  "trim_space ''login_required'' = ''login_required''"
  "trim_space ''workspace_not_bound_for_account'' = ''workspace_not_bound_for_account''"
  "trim_space ''cloud_permission_denied'' = ''cloud_permission_denied''"
  "trim_space ''git_token_expired'' = ''git_token_expired''"
  "trim_space ''git_permission_denied'' = ''git_permission_denied''"
  by (simp_all add: trim_space_plain plain_ends_def space_seqs_def)

subsection \<open>A small world\<close>

text \<open>Two files, no git and no network; a tilde stands for the double quote.\<close>

definition quoted :: "string \<Rightarrow> string" where
  "quoted s = map (\<lambda>c. if c = CHR ''~'' then CHR 0x22 else c) s"

definition example_auth :: string where
  "example_auth = quoted
    ''{~version~:2,~gateway~:~https://gw~,~token~:~t~,~uid~:~u~,~deploymentID~:~d~,~orgID~:~o~,~identityID~:~i~,~connectionID~:~c~,~authMethod~:~m~,~authTime~:~1~,~expiresAt~:~2~}''"

definition example_index :: string where
  "example_index = quoted
    ''{~version~:3,~deployments~:{~d~:{~organizations~:{~o~:{~accounts~:{~u~:{~workspaces~:[{~workspaceID~:~w~,~path~:~/w~,~storage~:{~enabled~:true,~backend~:~git~,~provider~:~github~},~backupEnabled~:true}]}}}}}}}''"

definition example_outside :: "unit outside" where
  "example_outside =
    \<lparr>read_file = (\<lambda>p w. (FileBytes (if has_suffix p ''auth.json'' then example_auth else example_index), w)),
     walk_tree = (\<lambda>p w. (None, w)), git_process = (\<lambda>d e a w. (([], Some ''no git''), w)),
     http_post = (\<lambda>u h w. (Inl ''no network'', w)), make_temp = (\<lambda>p w. (Inl ''no temp'', w)),
     write_file = (\<lambda>p c w. (None, w)), remove_all = (\<lambda>p w. w), base_dir_env = ''/b'',
     user_home = None, json_error = (\<lambda>s. ''json''), url_error = (\<lambda>s. ''url'')\<rparr>"

definition example_machine :: "unit machine" where
  "example_machine = \<lparr>world = (), events = []\<rparr>"

subsection \<open>Properties\<close>

text \<open>C22: A workspace the sync command finds is in the part of the index that the signed-in
  deployment, organization and user name, it has the requested id, and it is bound to GitHub storage
  that is switched on; without \<open>--include-disabled\<close> its policy allows automatic sync. Nothing is
  found without a complete login.\<close>

theorem found_workspace_of_account:
  assumes "run_state (find_eligible_workspace os wid include_disabled) m = (Inr e, m')"
  shows "\<exists>auth raw v es s. auth_read os m = (auth, None) \<and> complete_auth auth \<and>
    index_read os m = FileBytes raw \<and> unmarshal index_type raw = Some v \<and>
    account_partition (index_of v) (trim_space (auth_deployment_id auth))
      (trim_space (auth_org_id auth)) (trim_space (auth_uid auth)) = Some es \<and> e \<in> set es \<and>
    trim_space (workspace_id e) = trim_space wid \<and> trim_space (workspace_id e) \<noteq> [] \<and>
    storage e = Some s \<and> storage_enabled s \<and> trim_space (storage_provider s) = provider_github \<and>
    (include_disabled \<or> workspace_auto_sync_enabled e)"
proof -
  have f: "fst (run_state (find_eligible_workspace os wid include_disabled) m) = Inr e" using assms by simp
  then obtain es0 where es0: "fst (run_state (load_eligible_workspaces os include_disabled) m) = Inr es0"
    and find: "List.find (\<lambda>e. trim_space (workspace_id e) = trim_space wid) es0 = Some e"
    by (auto simp: run_find_eligible split: sum.splits option.splits)
  from find_Some_mem [OF find] have e: "e \<in> set es0" "trim_space (workspace_id e) = trim_space wid" by auto
  from es0 obtain i where i: "fst (run_state (load_index os) m) = Inr i"
    and mem: "e \<in> set (index_workspaces i)" and eligible: "is_eligible_workspace e include_disabled"
    using e(1) by (auto simp: run_load_eligible split: sum.splits)
  from i mem obtain auth where auth: "auth_read os m = (auth, None)"
    and i': "index_from os auth (index_read os m) = Inr i"
    by (auto simp: run_load_index split: prod.splits option.splits)
  have "complete_auth auth" using auth auth_from_complete by (simp add: auth_read_def)
  with index_from_workspaces [OF i' mem] auth e(2) eligible show ?thesis
    unfolding eligible_iff by blast
qed

lemma found_workspace_of_account_witness:
  "\<exists>e m'. run_state (find_eligible_workspace example_outside ''w'' False) example_machine = (Inr e, m') \<and>
    workspace_auto_sync_enabled e"
proof -
  have "is_ok (fst (run_state (find_eligible_workspace example_outside ''w'' False) example_machine))"
    by code_simp
  then obtain e m' where "run_state (find_eligible_workspace example_outside ''w'' False) example_machine
      = (Inr e, m')"
    by (cases "run_state (find_eligible_workspace example_outside ''w'' False) example_machine")
      (auto simp: is_ok_def split: sum.splits)
  with found_workspace_of_account [OF this] show ?thesis by blast
qed

text \<open>C23: A login that cannot be read or is incomplete is not reported: the preflight sees an empty
  list of workspaces, and a sync of any workspace fails as not bound for the account, whatever
  \<open>auth.json\<close> and the index hold.\<close>

theorem missing_login_hidden:
  assumes "auth_read os m = (auth, Some err)"
  shows "fst (run_state (load_eligible_workspaces os include_disabled) m) = Inr [] \<and>
    fst (run_state (find_eligible_workspace os wid include_disabled) m) =
      Inl (''workspace_not_bound_for_account: workspace '' @ trim_space wid
        @ '' is not bound for the current OpenBrain account'')"
  using assms by (simp add: run_find_eligible run_load_eligible run_load_index)

lemma missing_login_hidden_witness:
  "fst (run_state (load_eligible_workspaces
      (example_outside\<lparr>read_file := (\<lambda>p w. (FileMissing, w))\<rparr>) True) example_machine) = Inr []"
  using missing_login_hidden [of "example_outside\<lparr>read_file := (\<lambda>p w. (FileMissing, w))\<rparr>" example_machine]
  by (simp add: auth_read_def auth_from_def)

text \<open>C24: A failed git command whose output contains the digits 401 or 403 anywhere, and no permission
  phrase, is classified as an expired token that is worth a retry, also when the output is a merge
  conflict.\<close>

theorem number_hides_conflict:
  assumes "n \<in> set http_numbers" and "contains (to_lower msg) n"
    and "\<not> is_git_permission_or_repo_error_text (to_lower msg)"
  shows "classify_git_error (Some msg) fallback = ''git_token_expired'' \<and>
    retryable_code (classify_git_error (Some msg) fallback)"
proof -
  have "is_git_auth_error_text (to_lower msg)"
    using auth_text_found [OF assms(2)] http_numbers_pattern [OF assms(1)] by blast
  with assms(3) show ?thesis by (simp add: classify_git_error_def retryable_code_def)
qed

lemma number_hides_conflict_witness:
  "classify_git_error (Some ''conflict in notes/401k.md'') ''git_rebase_failed'' = ''git_token_expired''"
proof -
  have l: "to_lower ''conflict in notes/401k.md'' = ''conflict in notes/401k.md''"
    by (simp add: to_lower_ascii ascii_lower_def)
  moreover have "contains ''conflict in notes/401k.md'' ''401''" by code_simp
  moreover have "\<not> is_git_permission_or_repo_error_text ''conflict in notes/401k.md''"
  proof -
    have "trim_space ''conflict in notes/401k.md'' = ''conflict in notes/401k.md''" by code_simp
    moreover have "\<not> contains_some ''conflict in notes/401k.md'' git_permission_patterns" by code_simp
    ultimately show ?thesis by (simp add: is_git_permission_or_repo_error_text_def l)
  qed
  ultimately show ?thesis
    using number_hides_conflict [of "''401''" "''conflict in notes/401k.md''" "''git_rebase_failed''"]
    by (simp add: http_numbers_def)
qed

text \<open>Every code \<open>classifyError\<close> gives, the catch-all \<open>error\<close> apart, comes with a recovery text
  for the user, and only an expired git token is marked retryable.\<close>

theorem classified_error_recovery:
  "(classify_error (Some msg) = ''error'' \<longleftrightarrow> recovery_for_code (classify_error (Some msg)) = []) \<and>
   (retryable_code (classify_error (Some msg)) \<longleftrightarrow> classify_error (Some msg) = ''git_token_expired'')"
  using classify_error_codes [of msg]
  by (elim insertE emptyE) (simp_all add: recovery_for_code_def retryable_code_def trim_space_plain
      plain_ends_def space_seqs_def)



end
