(* ===== verification/SyncGit_Props.thy ===== *)
theory SyncGit_Props
  imports SyncGit SyncIndex_Props
begin

section \<open>What the git helpers promise\<close>

text \<open>
  The search for nested repositories finds exactly the repositories the walk can reach; a remote URL
  loses its user information; the requests for two workspaces differ; what a status says.
\<close>

subsection \<open>The walk over the workspace\<close>

text \<open>The directories a walk enters, by their path below the root.\<close>

inductive walk_to :: "node \<Rightarrow> string list \<Rightarrow> node \<Rightarrow> bool" where
  here: "walk_to t [] t"
| down: "(n, c) \<in> set es \<Longrightarrow> \<not> skipped_dir n \<Longrightarrow> walk_to c ps t \<Longrightarrow> walk_to (DirNode es) (n # ps) t"

inductive_cases walk_to_ConsE: "walk_to t (n # ps) t'"
inductive_cases walk_to_NilE: "walk_to t [] t'"
inductive_simps walk_to_File: "walk_to FileNode ps t"
inductive_simps walk_to_Symlink: "walk_to SymlinkNode ps t"
inductive_simps walk_to_Nil [simp]: "walk_to t [] t'"
inductive_simps walk_to_Cons: "walk_to (DirNode es) (n # ps) t"

text \<open>A directory below the root that has an entry \<open>.git\<close>.\<close>

definition has_git :: "node \<Rightarrow> string list \<Rightarrow> bool" where
  "has_git t ps \<longleftrightarrow> (\<exists>es c. walk_to t ps (DirNode es) \<and> (''.git'', c) \<in> set es)"

text \<open>Every entry has a name a directory can hold.\<close>

inductive named :: "node \<Rightarrow> bool" where
  "named FileNode"
| "named SymlinkNode"
| "(\<And>n c. (n, c) \<in> set es \<Longrightarrow> proper n \<and> named c) \<Longrightarrow> named (DirNode es)"

inductive_simps named_Dir: "named (DirNode es)"

lemma has_git_leaf [simp]: "\<not> has_git FileNode ps" "\<not> has_git SymlinkNode ps"
  by (auto simp: has_git_def walk_to_File walk_to_Symlink)

lemma has_git_Nil: "has_git (DirNode es) [] \<longleftrightarrow> (\<exists>c. (''.git'', c) \<in> set es)"
  by (auto simp: has_git_def)

lemma has_git_Cons: "has_git (DirNode es) (n # ps) \<longleftrightarrow>
    (\<exists>c. (n, c) \<in> set es \<and> \<not> skipped_dir n \<and> has_git c ps)"
  by (auto simp: has_git_def walk_to_Cons)

text \<open>The path \<open>p\<close> leads \<open>ps\<close> below the root.\<close>

definition below :: "string \<Rightarrow> string list \<Rightarrow> string \<Rightarrow> bool" where
  "below root ps p \<longleftrightarrow> p \<noteq> [] \<and> is_abs p = is_abs root \<and> components p = components root @ ps"

lemma below_join:
  assumes "below root ps p" and "proper n"
  shows "below root (ps @ [n]) (path_join [p, n])"
    and "path_join [p, n] = render (is_abs root) (components root @ ps @ [n])"
proof -
  have j: "path_join [p, n] = render (is_abs root) (components root @ ps @ [n])"
    using assms path_join_snoc [of p n] by (simp add: below_def)
  have form: "clean_form (is_abs root) (components root @ ps @ [n])"
    using clean_form_snoc [OF clean_form_components [of p] assms(2)] assms(1) by (simp add: below_def)
  from j show "below root (ps @ [n]) (path_join [p, n])"
    by (simp add: below_def components_render [OF form] is_abs_render [OF form] render_not_Nil [OF form])
  show "path_join [p, n] = render (is_abs root) (components root @ ps @ [n])" by (rule j)
qed

lemma proper_git: "proper ''.git''"
  by (simp add: proper_def)

lemma nested_here_git:
  assumes root: "root \<noteq> []" and p: "below root ps p"
  shows "nested_here root allowed (path_join [p, ''.git'']) ''.git'' =
    (if ps \<noteq> [] \<and> join [slash] ps \<noteq> dot \<and> join [slash] ps \<notin> set allowed then [join [slash] ps] else [])"
proof -
  have r: "below root [] root" using root by (simp add: below_def)
  note jp = below_join [OF p proper_git] and jr = below_join [OF r proper_git]
  have eq: "path_join [p, ''.git''] = path_join [root, ''.git''] \<longleftrightarrow> ps = []"
    using jp jr by (auto simp: below_def)
  have form: "clean_form (is_abs root) (components root @ ps)"
    using clean_form_components [of p] p by (simp add: below_def)
  have dir: "path_dir (path_join [p, ''.git'']) = render (is_abs root) (components root @ ps)"
    using path_dir_render [OF form proper_git] jp(2) by simp
  show ?thesis
  proof (cases "ps = []")
    case True
    with eq show ?thesis by (simp add: nested_here_def)
  next
    case False
    then have "path_rel root (render (is_abs root) (components root @ ps)) = Some (join [slash] ps)"
      by (intro path_rel_below) (simp_all add: components_render [OF form] is_abs_render [OF form])
    with False eq show ?thesis by (simp add: nested_here_def dir)
  qed
qed

lemma nested_here_other: "n \<noteq> ''.git'' \<Longrightarrow> nested_here root allowed path n = []"
  by (simp add: nested_here_def)

lemma join_not_dot: "list_all proper ps \<Longrightarrow> ps \<noteq> [] \<Longrightarrow> join [slash] ps \<noteq> dot"
  by (induction "[slash]" ps rule: join.induct) (auto simp: proper_def append_eq_Cons_conv)

text \<open>Below a directory \<open>ps\<close> the walk records the directories with a \<open>.git\<close>, unless allowed.\<close>

definition recorded :: "string list \<Rightarrow> string list \<Rightarrow> (string list \<Rightarrow> bool) \<Rightarrow> string set" where
  "recorded allowed ps has = {join [slash] (ps @ qs) | qs. ps @ qs \<noteq> [] \<and> has qs} - set allowed"

lemma recorded_or: "recorded allowed ps (\<lambda>qs. f qs \<or> g qs) = recorded allowed ps f \<union> recorded allowed ps g"
  by (auto simp: recorded_def)

lemma recorded_none [simp]: "recorded allowed ps (\<lambda>qs. False) = {}"
  by (simp add: recorded_def)

lemma recorded_under: "recorded allowed ps (\<lambda>qs. \<exists>qs'. qs = n # qs' \<and> has qs') = recorded allowed (ps @ [n]) has"
  by (auto simp: recorded_def)

lemma has_git_entries:
  "has_git (DirNode ((n, c) # es)) =
    (\<lambda>qs. (qs = [] \<and> n = ''.git'') \<or> (\<exists>qs'. qs = n # qs' \<and> (\<not> skipped_dir n \<and> has_git c qs'))
      \<or> has_git (DirNode es) qs)"
proof
  fix qs
  show "has_git (DirNode ((n, c) # es)) qs =
    ((qs = [] \<and> n = ''.git'') \<or> (\<exists>qs'. qs = n # qs' \<and> (\<not> skipped_dir n \<and> has_git c qs'))
      \<or> has_git (DirNode es) qs)"
    by (cases qs) (auto simp: has_git_Nil has_git_Cons)
qed

lemma walk_git_entry:
  assumes "root \<noteq> []" and "below root ps p" and "list_all proper ps"
  shows "set (walk_nested root allowed (path_join [p, ''.git'']) ''.git'' c) =
    recorded allowed ps (\<lambda>qs. qs = [])"
proof -
  have "walk_nested root allowed (path_join [p, ''.git'']) ''.git'' c
      = nested_here root allowed (path_join [p, ''.git'']) ''.git''"
    by (cases c) (simp_all add: skipped_dir_def)
  then show ?thesis
    using nested_here_git [OF assms(1,2)] join_not_dot [OF assms(3)] by (auto simp: recorded_def)
qed

lemma walk_skipped_entry:
  "skipped_dir n \<Longrightarrow> n \<noteq> ''.git'' \<Longrightarrow> walk_nested root allowed path n c = []"
  by (cases c) (simp_all add: nested_here_other)

lemma walk_recorded:
  "root \<noteq> [] \<Longrightarrow> named t \<Longrightarrow> below root ps path \<Longrightarrow> list_all proper ps \<Longrightarrow> \<not> skipped_dir name \<Longrightarrow>
      set (walk_nested root allowed path name t) = recorded allowed ps (has_git t)"
  "root \<noteq> [] \<Longrightarrow> named (DirNode es) \<Longrightarrow> below root ps path \<Longrightarrow> list_all proper ps \<Longrightarrow>
      set (walk_entries root allowed path es) = recorded allowed ps (has_git (DirNode es))"
proof (induction root allowed path name t and root allowed path es arbitrary: ps and ps
    rule: walk_nested_walk_entries.induct)
  case (1 root allowed path name es)
  then show ?case by (auto simp: nested_here_other skipped_dir_def)
next
  case (3 root allowed path)
  have "has_git (DirNode []) = (\<lambda>qs. False)"
  proof
    fix qs show "has_git (DirNode []) qs = False" by (cases qs) (simp_all add: has_git_Nil has_git_Cons)
  qed
  then show ?case by simp
next
  case (4 root allowed path n child es)
  from 4(4) have n: "proper n" "named child" "named (DirNode es)" by (auto simp: named_Dir)
  have rest: "set (walk_entries root allowed path es) = recorded allowed ps (has_git (DirNode es))"
    by (rule 4(2)) (use 4 n in auto)
  consider "n = ''.git''" | "skipped_dir n" "n \<noteq> ''.git''" | "\<not> skipped_dir n" by blast
  then show ?case
  proof cases
    case 1
    have "skipped_dir n" using 1 by (simp add: skipped_dir_def)
    with 1 rest show ?thesis
      by (simp add: has_git_entries recorded_or walk_git_entry [OF 4(3,5,6)] recorded_under)
  next
    case 2
    with rest show ?thesis by (simp add: has_git_entries recorded_or walk_skipped_entry recorded_under)
  next
    case 3
    then have "n \<noteq> ''.git''" by (auto simp: skipped_dir_def)
    moreover have "set (walk_nested root allowed (path_join [path, n]) n child) =
        recorded allowed (ps @ [n]) (has_git child)"
      by (rule 4(1)) (use 4 n 3 below_join(1) in auto)
    ultimately show ?thesis using 3 rest by (simp add: has_git_entries recorded_or recorded_under)
  qed
qed (simp_all add: nested_here_other skipped_dir_def, simp_all add: recorded_def)

lemma run_detect:
  "fst (fst (run_state (detect_nested_git os root allow) m)) =
    (case fst (walk_tree os root (world m)) of
       None \<Rightarrow> []
     | Some t \<Rightarrow> sort (walk_nested root (allowed_paths allow) root (path_base root) t))"
  by (simp add: detect_nested_git_def run_git_def do_defs interact_def Let_def
      split: prod.split option.split)

subsection \<open>URLs without user information\<close>

lemma upper_hex_alphanum: "n < 16 \<Longrightarrow> alphanum (upper_hex n)"
  by (simp add: alphanum_def upper_hex_def Let_def)

lemma escape_set: "c \<in> set (escape mode s) \<Longrightarrow> c = CHR ''%'' \<or> \<not> should_escape mode c"
proof (induction s)
  case (Cons b s)
  have "byte_of b div 16 < 16" "byte_of b mod 16 < 16" for b :: char
    using nat_of_char_less_256 [of b] by linarith+
  with upper_hex_alphanum have "\<not> should_escape mode (upper_hex (byte_of b div 16))"
    "\<not> should_escape mode (upper_hex (byte_of b mod 16))"
    by (simp_all add: should_escape_def)
  with Cons show ?case by (auto split: if_splits)
qed simp

lemma escape_free: "should_escape mode c \<Longrightarrow> c \<noteq> CHR ''%'' \<Longrightarrow> c \<notin> set (escape mode s)"
  using escape_set by blast

lemma should_escape_delimiters:
  "should_escape EncodeHost (CHR ''@'')" "should_escape EncodeHost slash"
  "should_escape EncodeHost (CHR ''?'')" "should_escape EncodeHost (CHR ''#'')"
  "should_escape EncodePathSegment slash" "should_escape EncodePathSegment (CHR ''%'')"
  "should_escape EncodePath (CHR ''%'')" "should_escape EncodePathSegment (CHR ''?'')"
  "should_escape EncodePathSegment (CHR ''#'')"
  by (simp_all add: should_escape_def alphanum_def Let_def)

lemma hex_value_upper: "n < 16 \<Longrightarrow> hex_value (upper_hex n) = Some n"
  by (simp add: hex_value_def upper_hex_def Let_def)

text \<open>Escaping a path segment can be undone.\<close>

lemma unescape_escape_segment: "unescape EncodePathSegment (escape EncodePathSegment s) = Some s"
proof (induction s)
  case (Cons c s)
  have b: "byte_of c div 16 < 16" "byte_of c mod 16 < 16"
    using nat_of_char_less_256 [of c] by linarith+
  have "16 * (byte_of c div 16) + byte_of c mod 16 = byte_of c" by simp
  with b Cons show ?case
    using should_escape_delimiters(6) by (auto simp: hex_value_upper)
qed simp

interpretation path_segment: codec "escape EncodePathSegment" "unescape EncodePathSegment" "\<lambda>_. True"
  by unfold_locales (rule unescape_escape_segment)

text \<open>A parsed URL with user information has an authority and a rooted path.\<close>

definition rooted :: "string \<Rightarrow> bool" where
  "rooted p \<longleftrightarrow> p = [] \<or> hd p = slash"

lemma unescape_rooted: "unescape EncodePath p = Some q \<Longrightarrow> rooted p \<Longrightarrow> rooted q"
  by (cases p) (auto simp: rooted_def split: if_splits)

lemma set_path_user:
  "set_path p u = Some v \<Longrightarrow> rooted p \<Longrightarrow>
    user v = user u \<and> opaque v = opaque u \<and> rooted (url_path v) \<and> rooted (raw_path v)"
  by (auto simp: set_path_def unescape_rooted) (simp add: rooted_def)

lemma set_path_no_user: "set_path p u = Some v \<Longrightarrow> user v = user u"
  by (auto simp: set_path_def)

lemma rooted_dropWhile: "rooted (dropWhile (\<lambda>c. c \<noteq> slash) s)"
  using hd_dropWhile [of "\<lambda>c. c \<noteq> slash" s] by (auto simp: rooted_def)

lemma parse_hierarchical_user:
  assumes "parse_hierarchical u rest = Some v" and "user u = None" and "opaque u = []" and "user v \<noteq> None"
  shows "opaque v = [] \<and> rooted (url_path v) \<and> rooted (raw_path v)"
proof -
  have "(scheme u \<noteq> [] \<or> \<not> has_prefix rest ''///'') \<and> has_prefix rest ''//''"
    using assms by (auto simp: parse_hierarchical_def dest!: set_path_no_user split: if_splits)
  then obtain usr h where
    "set_path (dropWhile (\<lambda>c. c \<noteq> slash) (drop 2 rest)) (u\<lparr>user := usr, host := h\<rparr>) = Some v"
    using assms(1) by (auto simp: parse_hierarchical_def Let_def split: option.splits)
  from set_path_user [OF this rooted_dropWhile] assms(3) show ?thesis by simp
qed

lemma parse_no_fragment_user:
  assumes "parse_no_fragment raw = Some v" and "user v \<noteq> None"
  shows "opaque v = [] \<and> rooted (url_path v) \<and> rooted (raw_path v)"
  using assms parse_hierarchical_user
  by (fastforce simp: parse_no_fragment_def empty_url_def Let_def split: if_splits option.splits prod.splits)

lemma url_parse_user:
  assumes "url_parse raw = Some v" and "user v \<noteq> None"
  shows "opaque v = [] \<and> rooted (url_path v) \<and> rooted (raw_path v)"
proof -
  from assms(1) obtain u where u: "parse_no_fragment (fst (cut_byte (CHR ''#'') raw)) = Some u"
    and v: "user v = user u" "opaque v = opaque u" "url_path v = url_path u" "raw_path v = raw_path u"
    by (auto simp: url_parse_def set_fragment_def split: prod.splits option.splits if_splits)
  from parse_no_fragment_user [OF u] assms(2) v show ?thesis by simp
qed

lemma escaped_path_rooted: "rooted (url_path u) \<Longrightarrow> rooted (raw_path u) \<Longrightarrow> rooted (escaped_path u)"
proof -
  assume r: "rooted (url_path u)" "rooted (raw_path u)"
  have "\<not> should_escape EncodePath slash" by (simp add: should_escape_def alphanum_def)
  with r(1) have "rooted (escape EncodePath (url_path u))"
    by (cases "url_path u") (auto simp: rooted_def)
  with r show ?thesis by (auto simp: escaped_path_def rooted_def)
qed

lemma strip_user_shape:
  assumes "url_parse (trim_space r) = Some u" and "user u \<noteq> None" and "host u \<noteq> []"
  shows "\<exists>rest. strip_remote_user_info r =
      (if scheme u = [] then [] else scheme u @ '':'') @ ''//'' @ escape EncodeHost (host u) @ rest \<and>
    (rest = [] \<or> hd rest \<in> {slash, CHR ''?'', CHR ''#''})"
proof -
  let ?v = "u\<lparr>user := None\<rparr>"
  from url_parse_user [OF assms(1,2)] have p: "opaque u = []" and path: "rooted (escaped_path ?v)"
    using escaped_path_rooted [of ?v] by simp_all
  have "url_parse [] = Some empty_url"
    by (simp add: url_parse_def cut_byte_def parse_no_fragment_def has_ctl_byte_def get_scheme_def
        split_query_def parse_hierarchical_def set_path_def has_prefix_def empty_url_def)
  with assms(1,3) have "trim_space r \<noteq> []" by (auto simp: empty_url_def)
  then have "strip_remote_user_info r = url_string ?v"
    using assms by (auto simp: strip_remote_user_info_def Let_def)
  moreover define tail where "tail =
      (if force_query u \<or> raw_query u \<noteq> [] then CHR ''?'' # raw_query u else [])
      @ (if fragment u \<noteq> [] then CHR ''#'' # escaped_fragment ?v else [])"
  ultimately have "strip_remote_user_info r =
      (if scheme u = [] then [] else scheme u @ '':'') @ ''//'' @ escape EncodeHost (host u)
        @ escaped_path ?v @ tail"
    using assms(3) p path by (auto simp: url_string_def authority_string_def Let_def rooted_def)
  moreover have "escaped_path ?v @ tail = [] \<or> hd (escaped_path ?v @ tail) \<in> {slash, CHR ''?'', CHR ''#''}"
    using path by (cases "escaped_path ?v") (auto simp: tail_def rooted_def)
  ultimately show ?thesis by blast
qed

subsection \<open>Endpoints\<close>

lemma append_slash_eq:
  assumes "slash \<notin> set a" and "slash \<notin> set b" and "a @ slash # x = b @ slash # y"
  shows "a = b \<and> x = y"
proof -
  have t: "takeWhile (\<lambda>c. c \<noteq> slash) (p @ slash # z) = p" if "slash \<notin> set p" for p z
    using that by (subst takeWhile_append2) auto
  have "a = b" using arg_cong [OF assms(3), of "takeWhile (\<lambda>c. c \<noteq> slash)"]
    by (simp only: t [OF assms(1)] t [OF assms(2)])
  with assms(3) show ?thesis by simp
qed

lemma escaped_segment_free: "slash \<notin> set (path_escape s)"
  unfolding path_escape_def by (rule escape_free) (simp_all add: should_escape_delimiters)

lemma path_escape_inj: "path_escape s = path_escape t \<Longrightarrow> s = t"
  unfolding path_escape_def by (rule path_segment.enc_inj) simp_all

subsection \<open>What a status says\<close>

definition header_line :: "string \<Rightarrow> bool" where
  "header_line l \<longleftrightarrow> has_prefix l ''## ''"

definition conflict_line :: "string \<Rightarrow> bool" where
  "conflict_line l \<longleftrightarrow> \<not> header_line l \<and> (contains (take 2 l) ''U'' \<or> take 2 l = ''AA'' \<or> take 2 l = ''DD'')"

lemma foldl_status:
  "dirty (foldl apply_status_line out ls) \<longleftrightarrow> dirty out \<or> (\<exists>l \<in> set ls. \<not> header_line l)"
  "unmerged (foldl apply_status_line out ls) \<longleftrightarrow> unmerged out \<or> (\<exists>l \<in> set ls. conflict_line l)"
  by (induction ls arbitrary: out)
    (auto simp: apply_status_line_def header_line_def conflict_line_def Let_def)

lemma status_conflict_codes:
  "map (\<lambda>xy. conflict_line (xy @ '' f''))
     [''DD'', ''AU'', ''UD'', ''UA'', ''DU'', ''AA'', ''UU'', ''M '', '' M'', ''A '', ''D '', ''R '', ''??'']
   = replicate 7 True @ replicate 6 False"
  by code_simp

subsection \<open>Properties\<close>

text \<open>C18: The nested repositories a preflight reports are exactly the directories below the workspace
  that the walk reaches and that hold an entry \<open>.git\<close> (a repository or a worktree file), less the
  allowed ones, in lexical order. The walk reaches a directory unless it is, or is below, a directory
  called \<open>.git\<close>, \<open>node_modules\<close> or \<open>.cache\<close>.\<close>

theorem nested_repositories_found:
  assumes "fst (walk_tree os root (world m)) = Some tree"
    and "named tree" and "root \<noteq> []" and "\<not> skipped_dir (path_base root)"
  shows "set (fst (fst (run_state (detect_nested_git os root allow) m))) =
      {join [slash] ps | ps. ps \<noteq> [] \<and> has_git tree ps} - set (allowed_paths allow) \<and>
    sorted (fst (fst (run_state (detect_nested_git os root allow) m)))"
proof -
  have "below root [] root" using assms(3) by (simp add: below_def)
  from walk_recorded(1) [OF assms(3,2) this _ assms(4), of "allowed_paths allow"]
  have "set (walk_nested root (allowed_paths allow) root (path_base root) tree) =
      recorded (allowed_paths allow) [] (has_git tree)" by simp
  then show ?thesis by (simp add: run_detect assms(1) recorded_def)
qed

definition example_tree :: node where
  "example_tree = DirNode
    [(''.git'', DirNode []), (''lib'', DirNode [(''.git'', FileNode)]), (''a.md'', FileNode),
     (''node_modules'', DirNode [(''x'', DirNode [(''.git'', DirNode [])])])]"

lemma nested_repositories_found_witness:
  "set (fst (fst (run_state (detect_nested_git
      (example_outside\<lparr>walk_tree := \<lambda>p w. (Some example_tree, w)\<rparr>) ''/w'' []) example_machine))) =
    {join [slash] ps | ps. ps \<noteq> [] \<and> has_git example_tree ps} \<and> has_git example_tree [''lib'']"
proof -
  have n: "named example_tree"
    by (auto simp: example_tree_def proper_def intro!: named.intros)
  have b: "\<not> skipped_dir (path_base ''/w'')" by code_simp
  have "has_git example_tree [''lib'']"
    by (auto simp: example_tree_def has_git_Cons has_git_Nil skipped_dir_def)
  with nested_repositories_found [of "example_outside\<lparr>walk_tree := \<lambda>p w. (Some example_tree, w)\<rparr>" "''/w''"
      example_machine example_tree "[]"] n b
  show ?thesis by (simp add: allowed_paths_def)
qed

text \<open>A remote URL with a password in it, parsed and stripped.\<close>

lemma example_remote_url:
  "strip_remote_user_info ''https://u:p@h/x'' = ''https://h/x'' \<and>
   url_parse (trim_space ''https://u:p@h/x'') =
     Some (empty_url\<lparr>scheme := ''https'', user := Some (''u'', Some ''p''), host := ''h'', url_path := ''/x''\<rparr>)"
proof -
  have u: "url_parse ''https://u:p@h/x'' =
      Some (empty_url\<lparr>scheme := ''https'', user := Some (''u'', Some ''p''), host := ''h'', url_path := ''/x''\<rparr>)"
    by (rule url_parse_https [where authority = "''u:p@h''"]) code_simp+
  have l: "trim_space ''https://u:p@h/x'' = ''https://u:p@h/x''" "escape EncodePath ''/x'' = ''/x''"
    "escape EncodeHost ''h'' = ''h''" by code_simp+
  show ?thesis
    by (simp del: escape.simps unescape.simps add: u l strip_remote_user_info_def url_string_def
        authority_string_def escaped_path_def escaped_fragment_def empty_url_def)
qed



text \<open>C20: The gateway endpoints of two workspaces are different, whatever bytes their ids hold: an id
  is one path segment, so none can reach the endpoint of another workspace or of another action.\<close>

theorem workspace_endpoint_injective:
  "workspace_endpoint gw e1 (slash # a1) = workspace_endpoint gw e2 (slash # a2) \<longleftrightarrow>
    org_id e1 = org_id e2 \<and> workspace_id e1 = workspace_id e2 \<and> a1 = a2"
proof
  assume "workspace_endpoint gw e1 (slash # a1) = workspace_endpoint gw e2 (slash # a2)"
  then have eq: "path_escape (org_id e1) @ slash # ''workspaces/'' @ path_escape (workspace_id e1) @ slash # a1
      = path_escape (org_id e2) @ slash # ''workspaces/'' @ path_escape (workspace_id e2) @ slash # a2"
    by (simp add: workspace_endpoint_def)
  from append_slash_eq [OF escaped_segment_free escaped_segment_free eq]
  have org: "path_escape (org_id e1) = path_escape (org_id e2)"
    and "path_escape (workspace_id e1) @ slash # a1 = path_escape (workspace_id e2) @ slash # a2"
    by auto
  from append_slash_eq [OF escaped_segment_free escaped_segment_free this(2)] org
  show "org_id e1 = org_id e2 \<and> workspace_id e1 = workspace_id e2 \<and> a1 = a2"
    using path_escape_inj by auto
qed (simp add: workspace_endpoint_def)


end
