(* ===== verification/SyncRun.thy ===== *)
theory SyncRun
  imports SyncGit Go_Quote
begin

section \<open>The commands of the Cloud Sync helper\<close>

text \<open>
  \<open>openbrain-cloud-sync-helper/main.go\<close>: the preflight and the sync of one workspace, the two
  commands with their flags, and \<open>main\<close>. A \<open>defer cleanup()\<close> is the last step of the function that
  defers it. The time limits of the contexts show up as errors of the calls they bound.
\<close>

subsection \<open>Preflight\<close>

definition fail_with :: "workspace_result \<Rightarrow> string \<Rightarrow> string \<Rightarrow> workspace_result" where
  "fail_with out c msg = out\<lparr>status := ''blocked'', code := c, message := msg\<rparr>"

text \<open>The part of the preflight after the credentials are there.\<close>

definition preflight_inspect ::
    "'w outside \<Rightarrow> workspace_entry \<Rightarrow> workspace_result \<Rightarrow> ('w machine, workspace_result) state" where
  "preflight_inspect os e out = do {
     st \<leftarrow> git_status os (workspace_path e);
     (case st of
        Inl err \<Rightarrow> ret (fail_with out ''git_status_failed'' err)
      | Inr lines \<Rightarrow> do {
          out' \<leftarrow> apply_fetch_head_status os (workspace_path e) (apply_status out lines);
          ret
            (if unmerged out' then
               fail_with out' ''git_conflict'' ''workspace has unresolved git conflicts''
             else if dirty out' \<or> ahead out' \<or> behind out' then out'\<lparr>status := ''needs_sync''\<rparr>
             else out'\<lparr>status := ''clean''\<rparr>)
        })
   }"

definition preflight_fetch ::
    "'w outside \<Rightarrow> workspace_entry \<Rightarrow> git_auth_result \<Rightarrow> workspace_result
      \<Rightarrow> ('w machine, workspace_result) state" where
  "preflight_fetch os e auth out =
    (if target_url (auth_target auth) \<noteq> [] then do {
       res \<leftarrow> run_git os (workspace_path e) (auth_env auth)
         [''fetch'', ''--quiet'', target_url (auth_target auth), target_branch (auth_target auth)];
       (case res of
          Inl err \<Rightarrow> ret (blocked out (classify_git_error (Some err) ''git_fetch_failed'') err)
        | Inr _ \<Rightarrow> preflight_inspect os e out)
     }
     else preflight_inspect os e out)"

definition preflight_workspace ::
    "'w outside \<Rightarrow> workspace_entry \<Rightarrow> string list \<Rightarrow> ('w machine, workspace_result) state" where
  "preflight_workspace os e allow_nested =
    (let out = base_workspace_result e in
     do {
       no_repo \<leftarrow> ensure_git_repo os (workspace_path e);
       (case no_repo of
          Some msg \<Rightarrow> ret (fail_with out ''not_git_repository'' msg)
        | None \<Rightarrow> do {
            (nested, links) \<leftarrow> detect_nested_git os (workspace_path e) allow_nested;
            (let out = out\<lparr>nested_git := nested, gitlinks := links\<rparr> in
             if nested \<noteq> [] \<or> links \<noteq> [] then
               ret (fail_with out ''nested_git''
                 ''workspace contains nested git repositories or gitlinks'')
             else do {
               auth \<leftarrow> git_auth os e;
               final \<leftarrow> (case auth_error auth of
                 Some err \<Rightarrow> ret (blocked out (classify_error (Some err)) err)
               | None \<Rightarrow> preflight_fetch os e auth out);
               _ \<leftarrow> run_cleanup os (auth_cleanup auth);
               ret final
             })
          })
     })"

subsection \<open>Sync\<close>

definition commit_args :: "string list" where
  "commit_args =
    [''-c'', ''user.name=OpenBrain'', ''-c'', ''user.email=openbrain@users.noreply.github.com'',
     ''commit'', ''-m'', ''Sync workspace'']"

text \<open>Commit what is dirty: the result that ends the sync, or nothing.\<close>

definition commit_changes ::
    "'w outside \<Rightarrow> workspace_entry \<Rightarrow> workspace_result \<Rightarrow> ('w machine, workspace_result option) state" where
  "commit_changes os e out =
    (if dirty out then do {
       added \<leftarrow> run_git os (workspace_path e) [] [''add'', ''-A''];
       (case added of
          Inl err \<Rightarrow> ret (Some (blocked out ''git_add_failed'' err))
        | Inr _ \<Rightarrow> do {
            committed \<leftarrow> run_git os (workspace_path e) [] commit_args;
            ret (case committed of
                   Inl err \<Rightarrow>
                     if \<not> contains (to_lower err) ''nothing to commit''
                     then Some (blocked out ''git_commit_failed'' err) else None
                 | Inr _ \<Rightarrow> None)
          })
     }
     else ret None)"

definition push_and_index ::
    "'w outside \<Rightarrow> workspace_entry \<Rightarrow> git_auth_result \<Rightarrow> workspace_result
      \<Rightarrow> ('w machine, workspace_result) state" where
  "push_and_index os e auth out = do {
     pushed \<leftarrow> run_git os (workspace_path e) (auth_env auth)
       [''push'', target_url (auth_target auth), ''HEAD:'' @ target_branch (auth_target auth)];
     (case pushed of
        Inl err \<Rightarrow> ret (blocked out (classify_git_error (Some err) ''git_push_failed'') err)
      | Inr _ \<Rightarrow> do {
          indexed \<leftarrow> trigger_brain_sync os e;
          ret (case indexed of
                 Some err \<Rightarrow> blocked out (classify_error (Some err)) err
               | None \<Rightarrow>
                   out\<lparr>status := ''synced'', code := [], message := [], dirty := False,
                       ahead := False, behind := False\<rparr>)
        })
   }"

text \<open>From the rebase on.\<close>

definition rebase_and_push ::
    "'w outside \<Rightarrow> workspace_entry \<Rightarrow> git_auth_result \<Rightarrow> workspace_result
      \<Rightarrow> ('w machine, workspace_result) state" where
  "rebase_and_push os e auth out = do {
     pulled \<leftarrow> run_git os (workspace_path e) (auth_env auth)
       [''pull'', ''--rebase'', target_url (auth_target auth), target_branch (auth_target auth)];
     (case pulled of
        Inl err \<Rightarrow> ret (blocked out (classify_git_error (Some err) ''git_rebase_failed'') err)
      | Inr _ \<Rightarrow> do {
          st \<leftarrow> git_status os (workspace_path e);
          (case st of
             Inl err \<Rightarrow> ret (blocked out ''git_status_failed'' err)
           | Inr lines \<Rightarrow>
               (let out = apply_status out lines in
                if unmerged out then
                  ret (fail_with out ''git_conflict''
                    ''workspace has unresolved git conflicts after rebase'')
                else do {
                  stop \<leftarrow> commit_changes os e out;
                  (case stop of
                     Some res \<Rightarrow> ret res
                   | None \<Rightarrow> push_and_index os e auth out)
                }))
        })
   }"

text \<open>From the second look at the status on.\<close>

definition sync_steps ::
    "'w outside \<Rightarrow> workspace_entry \<Rightarrow> git_auth_result \<Rightarrow> workspace_result
      \<Rightarrow> ('w machine, workspace_result) state" where
  "sync_steps os e auth out =
    (if target_url (auth_target auth) = [] then
       ret (fail_with out ''missing_remote'' ''workspace git remote URL is missing'')
     else do {
       st \<leftarrow> git_status os (workspace_path e);
       (case st of
          Inl err \<Rightarrow> ret (fail_with out ''git_status_failed'' err)
        | Inr lines \<Rightarrow>
            (let out = apply_status out lines in
             if unmerged out then
               ret (fail_with out ''git_conflict'' ''workspace has unresolved git conflicts'')
             else do {
               stop \<leftarrow> commit_changes os e out;
               (case stop of
                  Some res \<Rightarrow> ret res
                | None \<Rightarrow> rebase_and_push os e auth out)
             }))
     })"

definition sync_workspace ::
    "'w outside \<Rightarrow> workspace_entry \<Rightarrow> string list \<Rightarrow> ('w machine, workspace_result) state" where
  "sync_workspace os e allow_nested = do {
     out \<leftarrow> preflight_workspace os e allow_nested;
     (if status out = ''blocked'' \<or> status out = ''clean'' then ret out
      else do {
        auth \<leftarrow> git_auth os e;
        final \<leftarrow> (case auth_error auth of
          Some err \<Rightarrow> ret (blocked out (classify_error (Some err)) err)
        | None \<Rightarrow> sync_steps os e auth out);
        _ \<leftarrow> run_cleanup os (auth_cleanup auth);
        ret final
      })
   }"

subsection \<open>Flags\<close>

text \<open>
  \<open>flag.Parse\<close> for the three flags of both commands: a flag is \<open>-name\<close> or \<open>--name\<close>, with \<open>=value\<close>
  or, unless it is boolean, the next argument as its value; the first other argument ends the flags.
\<close>

record options =
  opt_workspace_id :: string
  opt_include_disabled :: bool
  opt_allow_nested :: "string list"

definition no_options :: options where
  "no_options = \<lparr>opt_workspace_id = [], opt_include_disabled = False, opt_allow_nested = []\<rparr>"

definition string_list_flag_set :: "string list \<Rightarrow> string \<Rightarrow> string list" where
  "string_list_flag_set vs value =
    (let trimmed = trim_space value in if trimmed = [] then vs else vs @ [trimmed])"

definition parse_bool :: "string \<Rightarrow> bool option" where
  "parse_bool s =
    (if s \<in> {''1'', ''t'', ''T'', ''true'', ''TRUE'', ''True''} then Some True
     else if s \<in> {''0'', ''f'', ''F'', ''false'', ''FALSE'', ''False''} then Some False
     else None)"

definition flag_name :: "string \<Rightarrow> string option" where
  "flag_name s =
    (if length s < 2 \<or> hd s \<noteq> CHR ''-'' then None
     else Some (if prefix ''--'' s then drop 2 s else tl s))"

fun parse_flags :: "(nat \<Rightarrow> bool) \<Rightarrow> options \<Rightarrow> string list \<Rightarrow> (string, options) result" where
  "parse_flags printable opts [] = Inr opts"
| "parse_flags printable opts (s # args) =
    (case flag_name s of
       None \<Rightarrow> Inr opts
     | Some body \<Rightarrow>
         if s = ''--'' then Inr opts
         else if body = [] \<or> hd body = CHR ''-'' \<or> hd body = CHR ''='' then
           Inl (''bad flag syntax: '' @ s)
         else
           (case cut_byte (CHR ''='') body of
              (name, value, has_value) \<Rightarrow>
                if name = ''include-disabled'' then
                  (if has_value then
                     (case parse_bool value of
                        None \<Rightarrow> Inl (''invalid boolean value '' @ go_quote printable value @ '' for -''
                                      @ name @ '': parse error'')
                      | Some b \<Rightarrow> parse_flags printable (opts\<lparr>opt_include_disabled := b\<rparr>) args)
                   else parse_flags printable (opts\<lparr>opt_include_disabled := True\<rparr>) args)
                else if name = ''workspace-id'' \<or> name = ''allow-nested'' then
                  (let set_value = (\<lambda>v. if name = ''workspace-id'' then opts\<lparr>opt_workspace_id := v\<rparr>
                        else opts\<lparr>opt_allow_nested := string_list_flag_set (opt_allow_nested opts) v\<rparr>)
                   in if has_value then parse_flags printable (set_value value) args
                      else
                        (case args of
                           [] \<Rightarrow> Inl (''flag needs an argument: -'' @ name)
                         | v # rest \<Rightarrow> parse_flags printable (set_value v) rest))
                else if name = ''help'' \<or> name = ''h'' then Inl ''flag: help requested''
                else Inl (''flag provided but not defined: -'' @ name)))"

subsection \<open>The two commands and main\<close>

text \<open>
  What the helper writes: the outer \<open>result\<close>, with the workspaces of a preflight or the one of a
  sync. \<open>run_preflight\<close> and \<open>run_sync\<close> return the error their Go counterparts return, or the result
  they have written.
\<close>

record helper_result =
  ok :: bool
  outer_status :: string
  outer_code :: string
  outer_message :: string
  outer_recovery :: string
  outer_retryable :: bool
  workspaces :: "workspace_result list"
  workspace :: "workspace_result option"

definition plain_result :: "bool \<Rightarrow> string \<Rightarrow> helper_result" where
  "plain_result b st = \<lparr>ok = b, outer_status = st, outer_code = [], outer_message = [],
     outer_recovery = [], outer_retryable = False, workspaces = [], workspace = None\<rparr>"

definition blocked_result :: "string \<Rightarrow> helper_result" where
  "blocked_result err =
    (let c = classify_error (Some err) in
     (plain_result False ''blocked'')\<lparr>outer_code := c, outer_message := sanitize err [],
        outer_recovery := recovery_for_code c, outer_retryable := retryable_code c\<rparr>)"

fun preflight_all ::
    "'w outside \<Rightarrow> string list \<Rightarrow> workspace_entry list \<Rightarrow> ('w machine, workspace_result list) state" where
  "preflight_all os allow_nested [] = ret []"
| "preflight_all os allow_nested (e # es) = do {
     r \<leftarrow> preflight_workspace os e allow_nested;
     rs \<leftarrow> preflight_all os allow_nested es;
     ret (r # rs)
   }"

definition wanted :: "string \<Rightarrow> workspace_entry \<Rightarrow> bool" where
  "wanted wid e \<longleftrightarrow> \<not> (trim_space wid \<noteq> [] \<and> trim_space (workspace_id e) \<noteq> trim_space wid)"

definition run_preflight ::
    "(nat \<Rightarrow> bool) \<Rightarrow> 'w outside \<Rightarrow> string list \<Rightarrow> ('w machine, (string, helper_result) result) state" where
  "run_preflight printable os args =
    (case parse_flags printable no_options args of
       Inl err \<Rightarrow> ret (Inl err)
     | Inr opts \<Rightarrow> do {
         entries \<leftarrow> load_eligible_workspaces os (opt_include_disabled opts);
         (case entries of
            Inl err \<Rightarrow> ret (Inr (blocked_result err))
          | Inr es \<Rightarrow> do {
              results \<leftarrow> preflight_all os (opt_allow_nested opts)
                (filter (wanted (opt_workspace_id opts)) es);
              ret (Inr ((plain_result True ''ok'')
                \<lparr>workspaces := sort_key (\<lambda>r. to_lower (result_name r)) results\<rparr>))
            })
       })"

definition sync_result :: "workspace_result \<Rightarrow> helper_result" where
  "sync_result w =
    (if status w = ''synced'' \<or> status w = ''clean'' then
       (plain_result True (status w))\<lparr>workspace := Some w\<rparr>
     else
       (plain_result False ''blocked'')
         \<lparr>outer_code := code w, outer_message := message w, outer_recovery := recovery w,
          outer_retryable := retryable w, workspace := Some w\<rparr>)"

definition run_sync ::
    "(nat \<Rightarrow> bool) \<Rightarrow> 'w outside \<Rightarrow> string list \<Rightarrow> ('w machine, (string, helper_result) result) state" where
  "run_sync printable os args =
    (case parse_flags printable no_options args of
       Inl err \<Rightarrow> ret (Inl err)
     | Inr opts \<Rightarrow>
         if trim_space (opt_workspace_id opts) = [] then ret (Inl ''--workspace-id is required'')
         else do {
           found \<leftarrow> find_eligible_workspace os (opt_workspace_id opts) (opt_include_disabled opts);
           (case found of
              Inl err \<Rightarrow> ret (Inr (blocked_result err))
            | Inr e \<Rightarrow> do {
                w \<leftarrow> sync_workspace os e (opt_allow_nested opts);
                ret (Inr (sync_result w))
              })
         })"

definition run_command ::
    "(nat \<Rightarrow> bool) \<Rightarrow> 'w outside \<Rightarrow> string list \<Rightarrow> ('w machine, (string, helper_result) result) state" where
  "run_command printable os argv =
    (if length argv < 2 then
       ret (Inl ''usage: openbrain-cloud-sync-helper <preflight|sync>'')
     else if argv ! 1 = ''preflight'' then run_preflight printable os (drop 2 argv)
     else if argv ! 1 = ''sync'' then run_sync printable os (drop 2 argv)
     else ret (Inl (''unknown command: '' @ argv ! 1)))"

text \<open>\<open>main\<close>: what is written and the exit status.\<close>

definition helper_main ::
    "(nat \<Rightarrow> bool) \<Rightarrow> 'w outside \<Rightarrow> string list \<Rightarrow> ('w machine, helper_result \<times> nat) state" where
  "helper_main printable os argv = do {
     res \<leftarrow> run_command printable os argv;
     ret (case res of
            Inr r \<Rightarrow> (r, 0)
          | Inl err \<Rightarrow>
              ((plain_result False ''error'')
                 \<lparr>outer_code := ''internal_error'', outer_message := sanitize err []\<rparr>, 1))
   }"

end
