(* ===== verification/SyncSteps.thy ===== *)
theory SyncSteps
  imports SyncRun SyncIndex_Props
begin

section \<open>The steps of the Cloud Sync commands\<close>

text \<open>
  What each part of a preflight and of a sync does, whatever git, the file system and the gateway
  answer: the interactions it adds, in order, and what they mean for its result. The properties of
  the commands rest on these.
\<close>

subsection \<open>The git commands\<close>

definition inspect_args :: "string list list" where
  "inspect_args =
    [[''rev-parse'', ''--show-toplevel''], [''ls-files'', ''--stage''],
     [''status'', ''--porcelain=v1'', ''--branch''],
     [''rev-list'', ''--count'', ''HEAD..FETCH_HEAD''],
     [''rev-list'', ''--count'', ''FETCH_HEAD..HEAD'']]"

definition record_args :: "string list list" where
  "record_args = [[''add'', ''-A''], commit_args]"

definition fetch_args :: "git_target \<Rightarrow> string list" where
  "fetch_args t = [''fetch'', ''--quiet'', target_url t, target_branch t]"

definition pull_args :: "git_target \<Rightarrow> string list" where
  "pull_args t = [''pull'', ''--rebase'', target_url t, target_branch t]"

definition push_args :: "git_target \<Rightarrow> string list" where
  "push_args t = [''push'', target_url t, ''HEAD:'' @ target_branch t]"

text \<open>A target the helper can use for a workspace: read from its entry and perhaps a token.\<close>

definition target_of :: "workspace_entry \<Rightarrow> git_target \<Rightarrow> bool" where
  "target_of e t \<longleftrightarrow> (\<exists>token. t = git_target_for e token)"

text \<open>An interaction of a preflight, and one of a sync.\<close>

definition plain_step :: "'w outside \<Rightarrow> workspace_entry \<Rightarrow> event \<Rightarrow> bool" where
  "plain_step os e ev =
    (case ev of
       ReadFile p \<Rightarrow> p = auth_path os
     | WalkTree p \<Rightarrow> p = workspace_path e
     | Git dir env args \<Rightarrow> dir = workspace_path e \<and> env = [] \<and> args \<in> set inspect_args
     | HttpPost u hs \<Rightarrow> (\<exists>gw action. u = workspace_endpoint gw e action \<and>
         action \<in> {''/git-token'', ''/brain/sync''})
     | MakeTemp d \<Rightarrow> True
     | WriteFile p c \<Rightarrow> c = askpass_script
     | RemoveAll p \<Rightarrow> True)"

definition preflight_step :: "'w outside \<Rightarrow> workspace_entry \<Rightarrow> event \<Rightarrow> bool" where
  "preflight_step os e ev \<longleftrightarrow> plain_step os e ev \<or>
     (\<exists>env t. ev = Git (workspace_path e) env (fetch_args t) \<and> target_of e t)"

definition sync_step :: "'w outside \<Rightarrow> workspace_entry \<Rightarrow> event \<Rightarrow> bool" where
  "sync_step os e ev \<longleftrightarrow> preflight_step os e ev \<or>
     (\<exists>args \<in> set record_args. ev = Git (workspace_path e) [] args) \<or>
     (\<exists>env t. ev \<in> {Git (workspace_path e) env (pull_args t), Git (workspace_path e) env (push_args t)}
        \<and> target_of e t)"

lemma plain_step_simps [simp]:
  "plain_step os e (ReadFile (auth_path os))" "plain_step os e (WalkTree (workspace_path e))"
  "plain_step os e (HttpPost (workspace_endpoint gw e ''/git-token'') hs)"
  "plain_step os e (HttpPost (workspace_endpoint gw e ''/brain/sync'') hs)"
  "plain_step os e (MakeTemp d)" "plain_step os e (WriteFile p askpass_script)"
  "plain_step os e (RemoveAll d)"
  "args \<in> set inspect_args \<Longrightarrow> plain_step os e (Git (workspace_path e) [] args)"
  by (auto simp: plain_step_def)

lemma preflight_stepI: "plain_step os e ev \<Longrightarrow> preflight_step os e ev"
  by (simp add: preflight_step_def)

lemma sync_stepI: "preflight_step os e ev \<Longrightarrow> sync_step os e ev"
  by (simp add: sync_step_def)

lemma always_run_git [program_rules]:
  "(\<And>r. Q r [Git dir env args]) \<Longrightarrow> always (run_git os dir env args) Q"
  unfolding run_git_def Let_def by (intro always_seq program_rules) simp

lemma always_git_status [program_rules]:
  "(\<And>r. Q r [Git dir [] [''status'', ''--porcelain=v1'', ''--branch'']]) \<Longrightarrow> always (git_status os dir) Q"
  unfolding git_status_def by (intro always_map program_rules)

lemma always_ensure_git_repo [program_rules]:
  "(\<And>r. Q r [Git dir [] [''rev-parse'', ''--show-toplevel'']]) \<Longrightarrow> always (ensure_git_repo os dir) Q"
  unfolding ensure_git_repo_def by (intro always_map program_rules)

lemma always_count [program_rules]:
  "(\<And>r. Q r [Git dir [] [''rev-list'', ''--count'', revs]]) \<Longrightarrow> always (count_git_revisions os dir revs) Q"
  unfolding count_git_revisions_def by (intro always_map program_rules)

lemma always_fetch_head [program_rules]:
  "(\<And>b a. Q (fetch_head_marks out b a)
      [Git dir [] [''rev-list'', ''--count'', ''HEAD..FETCH_HEAD''],
       Git dir [] [''rev-list'', ''--count'', ''FETCH_HEAD..HEAD'']]) \<Longrightarrow>
    always (apply_fetch_head_status os dir out) Q"
  unfolding apply_fetch_head_status_def by (intro always_seq program_rules) simp

lemma always_detect [program_rules]:
  "(\<And>n g. Q (n, g) [WalkTree dir, Git dir [] [''ls-files'', ''--stage'']]) \<Longrightarrow>
    always (detect_nested_git os dir allow) Q"
  unfolding detect_nested_git_def Let_def by (intro always_seq program_rules) simp

lemma always_load_auth [program_rules]:
  "(\<And>r. Q r [ReadFile (auth_path os)]) \<Longrightarrow> always (load_auth os) Q"
  unfolding load_auth_def by (intro always_map program_rules)

subsection \<open>Temporary directories\<close>

text \<open>The temporary directories that are still there after some interactions.\<close>

fun open_dirs :: "string list \<Rightarrow> event list \<Rightarrow> string list" where
  "open_dirs ds [] = ds"
| "open_dirs ds (MakeTemp d # es) = open_dirs (d # ds) es"
| "open_dirs ds (RemoveAll d # es) = open_dirs (remove1 d ds) es"
| "open_dirs ds (_ # es) = open_dirs ds es"

lemma open_dirs_append [simp]: "open_dirs ds (es @ es') = open_dirs (open_dirs ds es) es'"
  by (induction ds es rule: open_dirs.induct) auto

text \<open>Interactions that neither make nor remove a directory.\<close>

definition no_temp :: "event \<Rightarrow> bool" where
  "no_temp ev = (case ev of MakeTemp d \<Rightarrow> False | RemoveAll d \<Rightarrow> False | _ \<Rightarrow> True)"

lemma no_temp_simps [simp]:
  "no_temp (ReadFile p)" "no_temp (WalkTree p)" "no_temp (Git d env args)" "no_temp (HttpPost u hs)"
  "no_temp (WriteFile p c)" "\<not> no_temp (MakeTemp d)" "\<not> no_temp (RemoveAll d)"
  by (simp_all add: no_temp_def)

lemma open_dirs_no_temp: "list_all no_temp es \<Longrightarrow> open_dirs ds es = ds"
  by (induction ds es rule: open_dirs.induct) auto

subsection \<open>Credentials\<close>

lemma token_from_response_token:
  "token_from_response os e res = Inr t \<Longrightarrow> trim_space (access_token t) \<noteq> []"
  by (auto simp: token_from_response_def Let_def split: if_splits option.splits)

definition token_events :: "'w outside \<Rightarrow> workspace_entry \<Rightarrow> event list \<Rightarrow> bool" where
  "token_events os e es \<longleftrightarrow>
     (\<exists>gw hs. es = [ReadFile (auth_path os), HttpPost (workspace_endpoint gw e ''/git-token'') hs])"

lemma always_post [program_rules]:
  "(\<And>m. Q (Inl m) []) \<Longrightarrow> (\<And>r. Q r [HttpPost u hs]) \<Longrightarrow> always (post_request os u hs) Q"
  unfolding post_request_def by (intro program_rules) auto

lemma always_workspace_git_token:
  "always (workspace_git_token os e)
    (\<lambda>r es. (es = [ReadFile (auth_path os)] \<or> token_events os e es) \<and>
       (\<forall>t. r = Inr t \<longrightarrow> token_events os e es \<and> trim_space (access_token t) \<noteq> []))"
  unfolding workspace_git_token_def Let_def
  by (intro always_seq program_rules)
    (auto simp: token_events_def token_from_response_token split: sum.splits)

lemma always_askpass:
  "always (git_askpass_env os u t)
    (\<lambda>(env, cleanup, err) es. trim_space t \<noteq> [] \<longrightarrow>
       (cleanup = None \<and> err \<noteq> None \<and> es = []) \<or>
       (\<exists>d p. cleanup = None \<and> err \<noteq> None \<and> es = [MakeTemp d, WriteFile p askpass_script, RemoveAll d]) \<or>
       (\<exists>d p. cleanup = Some d \<and> err = None \<and> es = [MakeTemp d, WriteFile p askpass_script]))"
  unfolding git_askpass_env_def Let_def
  by (intro always_seq program_rules) auto

text \<open>What the interactions of \<open>gitAuth\<close> are when it succeeds with the directory \<open>d\<close>.\<close>

definition auth_events :: "'w outside \<Rightarrow> workspace_entry \<Rightarrow> string \<Rightarrow> event list \<Rightarrow> bool" where
  "auth_events os e d es \<longleftrightarrow>
     (\<exists>es0 p. token_events os e es0 \<and> es = es0 @ [MakeTemp d, WriteFile p askpass_script])"

definition auth_outcome ::
    "'w outside \<Rightarrow> workspace_entry \<Rightarrow> git_auth_result \<Rightarrow> event list \<Rightarrow> bool" where
  "auth_outcome os e r es \<longleftrightarrow>
     target_of e (auth_target r) \<and> list_all (plain_step os e) es \<and>
     open_dirs [] es = (case auth_cleanup r of None \<Rightarrow> [] | Some d \<Rightarrow> [d]) \<and>
     (\<forall>ev \<in> set es. \<not> is_Git ev) \<and>
     (auth_error r = None \<longrightarrow> (\<exists>d. auth_cleanup r = Some d \<and> auth_events os e d es))"

lemma token_events_plain:
  "token_events os e es \<Longrightarrow> list_all (plain_step os e) es \<and> open_dirs [] es = [] \<and> (\<forall>ev \<in> set es. \<not> is_Git ev)"
  by (auto simp: token_events_def)

lemma always_git_auth: "always (git_auth os e) (auth_outcome os e)"
  unfolding git_auth_def
proof (rule always_bind [OF always_workspace_git_token], goal_cases)
  case (1 r es)
  show ?case
  proof (cases r)
    case (Inl err)
    with 1 show ?thesis
      by (auto intro!: program_rules simp: auth_outcome_def target_of_def dest: token_events_plain)
  next
    case (Inr t)
    with 1 have t: "token_events os e es" "trim_space (access_token t) \<noteq> []" by auto
    from token_events_plain [OF t(1)]
    have p: "list_all (plain_step os e) es" "open_dirs [] es = []" "\<forall>ev \<in> set es. \<not> is_Git ev"
      by auto
    show ?thesis unfolding Inr sum.case
    proof (rule always_bind [OF always_askpass], goal_cases)
      case (1 a es')
      then show ?case using t p
        by (auto intro!: program_rules simp: auth_outcome_def auth_events_def target_of_def
            split: prod.splits)
    qed
  qed
qed

lemma run_cleanup_events:
  "open_dirs [] es = (case c of None \<Rightarrow> [] | Some d \<Rightarrow> [d]) \<Longrightarrow>
    always (run_cleanup os c) (\<lambda>_ es'. open_dirs [] (es @ es') = [] \<and>
      es' = (case c of None \<Rightarrow> [] | Some d \<Rightarrow> [RemoveAll d]))"
  by (cases c) (auto simp: run_cleanup_def intro!: program_rules)

subsection \<open>Preflight\<close>

abbreviation "rev_parse_event e \<equiv> Git (workspace_path e) [] [''rev-parse'', ''--show-toplevel'']"
abbreviation "ls_files_event e \<equiv> Git (workspace_path e) [] [''ls-files'', ''--stage'']"
abbreviation "status_event e \<equiv> Git (workspace_path e) [] [''status'', ''--porcelain=v1'', ''--branch'']"
abbreviation "behind_event e \<equiv> Git (workspace_path e) [] [''rev-list'', ''--count'', ''HEAD..FETCH_HEAD'']"
abbreviation "ahead_event e \<equiv> Git (workspace_path e) [] [''rev-list'', ''--count'', ''FETCH_HEAD..HEAD'']"

definition inspect_outcome :: "workspace_entry \<Rightarrow> workspace_result \<Rightarrow> workspace_result \<Rightarrow> event list \<Rightarrow> bool" where
  "inspect_outcome e out r es \<longleftrightarrow>
     nested_git r = nested_git out \<and> gitlinks r = gitlinks out \<and> result_id r = result_id out \<and>
     (status r = ''blocked'' \<and> code r \<in> {''git_status_failed'', ''git_conflict''} \<and>
        es \<in> {[status_event e], [status_event e, behind_event e, ahead_event e]} \<or>
      status r \<in> {''clean'', ''needs_sync''} \<and> code r = code out \<and> \<not> unmerged r \<and>
        (status r = ''clean'' \<longleftrightarrow> \<not> (dirty r \<or> ahead r \<or> behind r)) \<and>
        es = [status_event e, behind_event e, ahead_event e])"

lemma foldl_status_keeps:
  "nested_git (foldl apply_status_line out ls) = nested_git out"
  "gitlinks (foldl apply_status_line out ls) = gitlinks out"
  "result_id (foldl apply_status_line out ls) = result_id out"
  "result_name (foldl apply_status_line out ls) = result_name out"
  "code (foldl apply_status_line out ls) = code out"
  "status (foldl apply_status_line out ls) = status out"
  by (induction ls arbitrary: out) (simp_all add: apply_status_line_def Let_def)

lemma apply_status_keeps [simp]:
  "nested_git (apply_status out ls) = nested_git out" "gitlinks (apply_status out ls) = gitlinks out"
  "result_id (apply_status out ls) = result_id out" "result_name (apply_status out ls) = result_name out"
  "code (apply_status out ls) = code out" "status (apply_status out ls) = status out"
  by (simp_all add: apply_status_def foldl_status_keeps)

lemma fetch_head_marks_keeps [simp]:
  "nested_git (fetch_head_marks out b a) = nested_git out" "gitlinks (fetch_head_marks out b a) = gitlinks out"
  "result_id (fetch_head_marks out b a) = result_id out" "result_name (fetch_head_marks out b a) = result_name out"
  "code (fetch_head_marks out b a) = code out" "status (fetch_head_marks out b a) = status out"
  by (simp_all add: fetch_head_marks_def Let_def)

lemma always_preflight_inspect: "always (preflight_inspect os e out) (inspect_outcome e out)"
  unfolding preflight_inspect_def
  by (intro always_seq program_rules) (auto simp: inspect_outcome_def fail_with_def split: sum.split
      intro!: always_seq program_rules)

lemma classify_nonempty [simp]:
  "classify_error (Some err) \<noteq> []" "fb \<noteq> [] \<Longrightarrow> classify_git_error (Some err) fb \<noteq> []"
  by (simp_all add: classify_error_def classify_git_error_def Let_def)

lemma blocked_simps [simp]:
  "status (blocked out c err) = ''blocked''" "code (blocked out c err) = c"
  "nested_git (blocked out c err) = nested_git out" "gitlinks (blocked out c err) = gitlinks out"
  "result_id (blocked out c err) = result_id out" "result_name (blocked out c err) = result_name out"
  by (simp_all add: blocked_def)

lemma fail_with_simps [simp]:
  "status (fail_with out c msg) = ''blocked''" "code (fail_with out c msg) = c"
  "nested_git (fail_with out c msg) = nested_git out" "gitlinks (fail_with out c msg) = gitlinks out"
  "result_id (fail_with out c msg) = result_id out" "result_name (fail_with out c msg) = result_name out"
  by (simp_all add: fail_with_def)

lemma base_simps [simp]:
  "status (base_workspace_result e) = []" "code (base_workspace_result e) = []"
  "nested_git (base_workspace_result e) = []" "gitlinks (base_workspace_result e) = []"
  "result_id (base_workspace_result e) = trim_space (workspace_id e)"
  "result_name (base_workspace_result e) = workspace_name e"
  by (simp_all add: base_workspace_result_def)

definition fetch_events :: "workspace_entry \<Rightarrow> git_auth_result \<Rightarrow> event list" where
  "fetch_events e auth =
    (if target_url (auth_target auth) = [] then []
     else [Git (workspace_path e) (auth_env auth) (fetch_args (auth_target auth))])"

definition fetch_outcome ::
    "workspace_entry \<Rightarrow> git_auth_result \<Rightarrow> workspace_result \<Rightarrow> workspace_result \<Rightarrow> event list \<Rightarrow> bool" where
  "fetch_outcome e auth out r es \<longleftrightarrow>
     (\<exists>err. r = blocked out (classify_git_error (Some err) ''git_fetch_failed'') err \<and>
        es = fetch_events e auth) \<or>
     (\<exists>es1. es = fetch_events e auth @ es1 \<and> inspect_outcome e out r es1)"

lemma always_preflight_fetch: "always (preflight_fetch os e auth out) (fetch_outcome e auth out)"
proof (cases "target_url (auth_target auth) = []")
  case True
  then show ?thesis
    using always_mono [OF always_preflight_inspect, of e out _ os]
    by (simp add: preflight_fetch_def fetch_outcome_def fetch_events_def)
next
  case False
  have "always (preflight_inspect os e out) (\<lambda>r es. fetch_outcome e auth out r (fetch_events e auth @ es))"
    by (rule always_mono [OF always_preflight_inspect]) (auto simp: fetch_outcome_def)
  with False show ?thesis
    unfolding preflight_fetch_def
    by (auto intro!: always_seq program_rules simp: fetch_outcome_def fetch_events_def fetch_args_def)
qed

text \<open>The interactions of a preflight that is not blocked; \<open>d\<close> is its temporary directory.\<close>

definition preflight_trace :: "'w outside \<Rightarrow> workspace_entry \<Rightarrow> event list \<Rightarrow> bool" where
  "preflight_trace os e es \<longleftrightarrow>
     (\<exists>d auth es1. auth_events os e d es1 \<and> target_of e (auth_target auth) \<and>
        es = [rev_parse_event e, WalkTree (workspace_path e), ls_files_event e] @ es1
          @ fetch_events e auth @ [status_event e, behind_event e, ahead_event e, RemoveAll d])"

definition preflight_outcome :: "'w outside \<Rightarrow> workspace_entry \<Rightarrow> workspace_result \<Rightarrow> event list \<Rightarrow> bool" where
  "preflight_outcome os e r es \<longleftrightarrow>
     result_id r = trim_space (workspace_id e) \<and> 
     list_all (preflight_step os e) es \<and> open_dirs [] es = [] \<and>
     (nested_git r \<noteq> [] \<or> gitlinks r \<noteq> [] \<longrightarrow>
        status r = ''blocked'' \<and> code r = ''nested_git'' \<and>
        es = [rev_parse_event e, WalkTree (workspace_path e), ls_files_event e]) \<and>
     (status r = ''blocked'' \<and> code r \<noteq> [] \<or>
      status r \<in> {''clean'', ''needs_sync''} \<and> code r = [] \<and> \<not> unmerged r \<and>
        (status r = ''clean'' \<longleftrightarrow> \<not> (dirty r \<or> ahead r \<or> behind r)) \<and> preflight_trace os e es)"

lemma inspect_steps:
  "inspect_outcome e out r es \<Longrightarrow> list_all (preflight_step os e) es \<and> list_all no_temp es"
  by (auto simp: inspect_outcome_def inspect_args_def intro!: preflight_stepI)

lemma fetch_steps:
  "target_of e (auth_target auth) \<Longrightarrow>
    list_all (preflight_step os e) (fetch_events e auth) \<and> list_all no_temp (fetch_events e auth)"
  by (auto simp: fetch_events_def preflight_step_def)

lemma fetch_outcome_steps:
  assumes "fetch_outcome e auth out r es" and "target_of e (auth_target auth)"
  shows "list_all (preflight_step os e) es \<and> list_all no_temp es"
  using assms fetch_steps [OF assms(2)] inspect_steps by (fastforce simp: fetch_outcome_def)

text \<open>
  Both commands authenticate, run something with the credentials and clean up. \<open>Q\<close> says what the
  middle part does when the credentials are there.
\<close>

lemma always_with_auth:
  assumes "\<And>auth d. auth_cleanup auth = Some d \<Longrightarrow> target_of e (auth_target auth) \<Longrightarrow>
      auth_error auth = None \<Longrightarrow>
      always (body auth) (\<lambda>r es. Q auth r es \<and> list_all P es \<and> list_all no_temp es)"
    and "\<And>ev. plain_step os e ev \<Longrightarrow> P ev"
  shows "always
    (do { auth \<leftarrow> git_auth os e;
          final \<leftarrow> (case auth_error auth of
            Some err \<Rightarrow> ret (blocked out (classify_error (Some err)) err)
          | None \<Rightarrow> body auth);
          _ \<leftarrow> run_cleanup os (auth_cleanup auth);
          ret final })
    (\<lambda>r es. list_all P es \<and> open_dirs [] es = [] \<and>
       ((\<exists>err. r = blocked out (classify_error (Some err)) err \<and> (\<forall>ev \<in> set es. \<not> is_Git ev)) \<or>
        (\<exists>auth d es1 es2. auth_events os e d es1 \<and> target_of e (auth_target auth) \<and>
           Q auth r es2 \<and> es = es1 @ es2 @ [RemoveAll d])))"
proof (rule always_bind [OF always_git_auth], goal_cases)
  case (1 auth es)
  then have auth: "target_of e (auth_target auth)" "list_all P es"
    and dirs: "open_dirs [] es = (case auth_cleanup auth of None \<Rightarrow> [] | Some d \<Rightarrow> [d])"
    and no_git: "\<forall>ev \<in> set es. \<not> is_Git ev"
    using assms(2) by (auto simp: auth_outcome_def list_all_iff)
  have removed: "P (RemoveAll d)" for d using assms(2) by simp
  show ?case
  proof (cases "auth_error auth")
    case (Some err)
    then show ?thesis
      using auth dirs no_git removed unfolding run_cleanup_def
      by (intro always_seq program_rules) (auto intro!: always_seq program_rules split: option.splits)
  next
    case None
    with 1 obtain d where d: "auth_cleanup auth = Some d" "auth_events os e d es"
      by (auto simp: auth_outcome_def)
    show ?thesis unfolding None option.case
    proof (rule always_bind [OF assms(1) [OF d(1) auth(1) None]], goal_cases)
      case (1 r es')
      then have "list_all P (es @ es' @ [RemoveAll d])" "open_dirs [] (es @ es' @ [RemoveAll d]) = []"
        using auth(2) dirs d(1) removed open_dirs_no_temp [of es'] by auto
      moreover have "\<exists>auth d' es1 es2. auth_events os e d' es1 \<and> target_of e (auth_target auth) \<and>
          Q auth r es2 \<and> es @ es' @ [RemoveAll d] = es1 @ es2 @ [RemoveAll d']"
        using 1 d auth(1) by blast
      ultimately show ?case unfolding run_cleanup_def d(1) option.case
        by (intro always_seq program_rules) simp
    qed
  qed
qed

lemma always_preflight: "always (preflight_workspace os e allow) (preflight_outcome os e)"
proof -
  let ?out = "\<lambda>n g. base_workspace_result e\<lparr>nested_git := n, gitlinks := g\<rparr>"
  have start: "list_all (preflight_step os e)
      [rev_parse_event e, WalkTree (workspace_path e), ls_files_event e]"
    by (simp add: preflight_stepI inspect_args_def)
  have tail: "always
    (do { auth \<leftarrow> git_auth os e;
          final \<leftarrow> (case auth_error auth of
            Some err \<Rightarrow> ret (blocked (?out [] []) (classify_error (Some err)) err)
          | None \<Rightarrow> preflight_fetch os e auth (?out [] []));
          _ \<leftarrow> run_cleanup os (auth_cleanup auth);
          ret final })
    (\<lambda>r es. preflight_outcome os e r
      ([rev_parse_event e, WalkTree (workspace_path e), ls_files_event e] @ es))"
  proof (rule always_mono [OF always_with_auth
        [where Q = "\<lambda>auth. fetch_outcome e auth (?out [] [])" and P = "preflight_step os e"]], goal_cases)
    case (1 auth d)
    show ?case
      by (rule always_mono [OF always_preflight_fetch])
        (use fetch_outcome_steps [OF _ 1(2), of "?out [] []"] in auto)
  next
    case (2 ev)
    then show ?case by (rule preflight_stepI)
  next
    case (3 r es)
    then consider (stop) err where "r = blocked (?out [] []) (classify_error (Some err)) err"
      | (run) auth d es1 es2 where "auth_events os e d es1" "target_of e (auth_target auth)"
          "fetch_outcome e auth (?out [] []) r es2" "es = es1 @ es2 @ [RemoveAll d]"
      by blast
    then show ?case
    proof cases
      case stop
      with 3 start show ?thesis by (simp add: preflight_outcome_def)
    next
      case run
      from run(3) consider err where "r = blocked (?out [] []) (classify_git_error (Some err) ''git_fetch_failed'') err"
        | es3 where "es2 = fetch_events e auth @ es3" "inspect_outcome e (?out [] []) r es3"
        by (auto simp: fetch_outcome_def)
      then show ?thesis
      proof cases
        case 1
        with 3 start show ?thesis by (simp add: preflight_outcome_def)
      next
        case 2
        with run have t: "preflight_trace os e ([rev_parse_event e, WalkTree (workspace_path e), ls_files_event e] @ es)"
          if "es3 = [status_event e, behind_event e, ahead_event e]"
          using that unfolding preflight_trace_def by auto
        from 2(2) 3 start t show ?thesis
          by (auto simp: preflight_outcome_def inspect_outcome_def)
      qed
    qed
  qed
  have tail': "always (case (n, g) of (nested, links) \<Rightarrow>
      if nested \<noteq> [] \<or> links \<noteq> []
      then ret (fail_with (?out nested links) ''nested_git'' ''workspace contains nested git repositories or gitlinks'')
      else do { auth \<leftarrow> git_auth os e;
          final \<leftarrow> (case auth_error auth of
            Some err \<Rightarrow> ret (blocked (?out nested links) (classify_error (Some err)) err)
          | None \<Rightarrow> preflight_fetch os e auth (?out nested links));
          _ \<leftarrow> run_cleanup os (auth_cleanup auth);
          ret final })
    (\<lambda>r es. preflight_outcome os e r
      ([rev_parse_event e, WalkTree (workspace_path e), ls_files_event e] @ es))" for n g
    using tail start by (auto intro!: always_return simp: preflight_outcome_def)
  show ?thesis
    unfolding preflight_workspace_def Let_def
  proof (rule always_seq, rule always_ensure_git_repo, rule always_option, goal_cases)
    case (1 r)
    show ?case
      by (rule always_seq, rule always_detect) (use tail' in simp)
  next
    case (2 r msg)
    then show ?case
      by (auto intro!: always_return simp: preflight_outcome_def preflight_stepI inspect_args_def)
  qed
qed

subsection \<open>Sync\<close>

abbreviation "add_event e \<equiv> Git (workspace_path e) [] [''add'', ''-A'']"
abbreviation "commit_event e \<equiv> Git (workspace_path e) [] commit_args"
abbreviation "pull_event e auth \<equiv> Git (workspace_path e) (auth_env auth) (pull_args (auth_target auth))"
abbreviation "push_event e auth \<equiv> Git (workspace_path e) (auth_env auth) (push_args (auth_target auth))"

definition is_push :: "event \<Rightarrow> bool" where
  "is_push ev =
    (case ev of Git dir env args \<Rightarrow> args \<noteq> [] \<and> hd args = ''push'' | _ \<Rightarrow> False)"

lemma is_push_simps [simp]:
  "\<not> is_push (ReadFile p)" "\<not> is_push (WalkTree p)" "\<not> is_push (HttpPost u hs)"
  "\<not> is_push (MakeTemp d)" "\<not> is_push (WriteFile p c)" "\<not> is_push (RemoveAll d)"
  "\<not> is_push (Git dir env [])" "is_push (Git dir env (a # args)) \<longleftrightarrow> a = ''push''"
  "\<not> is_push (commit_event e)" "\<not> is_push (pull_event e auth)" "is_push (push_event e auth)"
  by (simp_all add: is_push_def commit_args_def pull_args_def push_args_def)

text \<open>The two commits of a sync are made or not: the interactions of one of them.\<close>

definition record_trace :: "workspace_entry \<Rightarrow> event list \<Rightarrow> bool" where
  "record_trace e es \<longleftrightarrow> es = [] \<or> es = [add_event e, commit_event e]"

definition index_trace :: "'w outside \<Rightarrow> workspace_entry \<Rightarrow> event list \<Rightarrow> bool" where
  "index_trace os e es \<longleftrightarrow>
     (\<exists>gw hs. es = [ReadFile (auth_path os), HttpPost (workspace_endpoint gw e ''/brain/sync'') hs])"

text \<open>How a part of a sync ends that has to run through the interactions \<open>steps\<close> to reach the push.\<close>

definition stage_outcome ::
    "'w outside \<Rightarrow> workspace_entry \<Rightarrow> git_auth_result \<Rightarrow> (event list \<Rightarrow> bool)
      \<Rightarrow> workspace_result \<Rightarrow> workspace_result \<Rightarrow> event list \<Rightarrow> bool" where
  "stage_outcome os e auth steps out r es \<longleftrightarrow>
     result_id r = result_id out \<and> list_all (sync_step os e) es \<and> list_all no_temp es \<and>
     (status r = ''blocked'' \<and> code r \<noteq> [] \<and>
        (list_all (\<lambda>ev. \<not> is_push ev) es \<or>
         (\<exists>xs ys. es = xs @ push_event e auth # ys \<and> steps xs \<and> (\<forall>ev \<in> set ys. \<not> is_Git ev))) \<or>
      status r = ''synced'' \<and> code r = [] \<and> \<not> (dirty r \<or> ahead r \<or> behind r \<or> unmerged r) \<and>
        (\<exists>xs ys. es = xs @ push_event e auth # ys \<and> steps xs \<and> index_trace os e ys))"

lemma stage_blocked:
  "list_all (sync_step os e) es \<Longrightarrow> list_all no_temp es \<Longrightarrow> list_all (\<lambda>ev. \<not> is_push ev) es \<Longrightarrow>
    status r = ''blocked'' \<Longrightarrow> code r \<noteq> [] \<Longrightarrow> result_id r = result_id out \<Longrightarrow>
    stage_outcome os e auth steps out r es"
  by (simp add: stage_outcome_def)

text \<open>Put more interactions in front.\<close>

lemma stage_extend:
  assumes "stage_outcome os e auth steps out r es" and "list_all (sync_step os e) pre"
    and "list_all no_temp pre" and "list_all (\<lambda>ev. \<not> is_push ev) pre"
    and "\<And>xs. steps xs \<Longrightarrow> steps' (pre @ xs)" and "result_id out = result_id out'"
  shows "stage_outcome os e auth steps' out' r (pre @ es)"
  using assms(1) unfolding stage_outcome_def
proof (elim conjE disjE exE, goal_cases)
  case 1
  with assms show ?case by (auto simp: stage_outcome_def)
next
  case (2 xs ys)
  have "\<exists>xs' ys. pre @ es = xs' @ push_event e auth # ys \<and> steps' xs' \<and> (\<forall>ev \<in> set ys. \<not> is_Git ev)"
    using 2 assms(5) by (intro exI [of _ "pre @ xs"] exI [of _ ys]) simp
  moreover have "result_id r = result_id out'" "list_all (sync_step os e) (pre @ es)"
    "list_all no_temp (pre @ es)" "status r = ''blocked''" "code r \<noteq> []"
    using 2 assms by simp_all
  ultimately show ?case unfolding stage_outcome_def by blast
next
  case (3 xs ys)
  have "\<exists>xs' ys. pre @ es = xs' @ push_event e auth # ys \<and> steps' xs' \<and> index_trace os e ys"
    using 3 assms(5) by (intro exI [of _ "pre @ xs"] exI [of _ ys]) simp
  moreover have "result_id r = result_id out'" "list_all (sync_step os e) (pre @ es)"
    "list_all no_temp (pre @ es)"
    using 3 assms by simp_all
  ultimately show ?case unfolding stage_outcome_def using 3 by blast
qed

lemma always_brain_sync:
  "always (trigger_brain_sync os e)
    (\<lambda>r es. (r = None \<longrightarrow> index_trace os e es) \<and> (es = [ReadFile (auth_path os)] \<or> index_trace os e es))"
  unfolding trigger_brain_sync_def Let_def
  by (intro always_seq program_rules) (auto simp: index_trace_def split: sum.splits)

lemma index_trace_steps:
  "index_trace os e es \<Longrightarrow>
    list_all (sync_step os e) es \<and> list_all no_temp es \<and> (\<forall>ev \<in> set es. \<not> is_Git ev)"
  by (auto simp: index_trace_def sync_stepI preflight_stepI)

lemma sync_step_simps [simp]:
  "sync_step os e (status_event e)" "sync_step os e (add_event e)" "sync_step os e (commit_event e)"
  "sync_step os e (ReadFile (auth_path os))"
  "target_of e (auth_target auth) \<Longrightarrow> sync_step os e (pull_event e auth)"
  "target_of e (auth_target auth) \<Longrightarrow> sync_step os e (push_event e auth)"
  by (auto simp: sync_step_def record_args_def inspect_args_def preflight_stepI)

lemma always_push_and_index:
  assumes "target_of e (auth_target auth)" and "\<not> unmerged out"
  shows "always (push_and_index os e auth out) (stage_outcome os e auth (\<lambda>xs. xs = []) out)"
  unfolding push_and_index_def push_args_def [symmetric]
proof (rule always_seq, rule always_run_git, rule always_sum, goal_cases)
  case (1 r err)
  with assms show ?case by (intro always_return) (auto simp: stage_outcome_def)
next
  case (2 r out')
  show ?case
  proof (rule always_map, rule always_mono [OF always_brain_sync], goal_cases)
    case (1 a es)
    then have "list_all (sync_step os e) es \<and> list_all no_temp es \<and> (\<forall>ev \<in> set es. \<not> is_Git ev)"
      using index_trace_steps by auto
    with 1 assms show ?case by (cases a) (auto simp: stage_outcome_def)
  qed
qed

end
