(* ===== verification/SyncRun_Props.thy ===== *)
theory SyncRun_Props
  imports SyncSteps
begin

section \<open>What the Cloud Sync commands promise\<close>

text \<open>
  Theorems about every run of the helper, whatever git, the file system and the gateway answer: the
  git commands it can issue, the order of its steps, when it pushes, what it leaves behind, and what
  its results say.
\<close>

subsection \<open>The stages of a sync\<close>

definition commit_outcome ::
    "workspace_entry \<Rightarrow> workspace_result \<Rightarrow> workspace_result option \<Rightarrow> event list \<Rightarrow> bool" where
  "commit_outcome e out r es \<longleftrightarrow>
     (r = None \<longrightarrow> es = (if dirty out then [add_event e, commit_event e] else [])) \<and>
     es \<in> {[], [add_event e], [add_event e, commit_event e]} \<and>
     (\<forall>b. r = Some b \<longrightarrow> status b = ''blocked'' \<and> code b \<noteq> [] \<and> result_id b = result_id out)"

lemma always_commit: "always (commit_changes os e out) (commit_outcome e out)"
  unfolding commit_changes_def
  by (intro always_seq program_rules) (auto simp: commit_outcome_def split: sum.splits if_splits)

lemma commit_steps:
  "commit_outcome e out r es \<Longrightarrow>
    list_all (sync_step os e) es \<and> list_all no_temp es \<and> list_all (\<lambda>ev. \<not> is_push ev) es"
  by (auto simp: commit_outcome_def)

text \<open>The interactions between the rebase and the push, and from the second status to the push.\<close>

definition rebase_trace :: "workspace_entry \<Rightarrow> git_auth_result \<Rightarrow> event list \<Rightarrow> bool" where
  "rebase_trace e auth xs \<longleftrightarrow> (\<exists>c. record_trace e c \<and> xs = [pull_event e auth, status_event e] @ c)"

definition sync_trace :: "workspace_entry \<Rightarrow> git_auth_result \<Rightarrow> event list \<Rightarrow> bool" where
  "sync_trace e auth xs \<longleftrightarrow>
     (\<exists>c ys. record_trace e c \<and> rebase_trace e auth ys \<and> xs = status_event e # c @ ys)"

lemma status_end:
  assumes target: "target_of e (auth_target auth)"
  assumes next_stage: "\<And>out'. \<not> unmerged out' \<Longrightarrow> result_id out' = result_id out \<Longrightarrow>
      always (next out') (stage_outcome os e auth steps out')"
    and steps': "\<And>c xs. record_trace e c \<Longrightarrow> steps xs \<Longrightarrow> steps' (status_event e # c @ xs)"
    and err: "\<And>msg. status (f msg) = ''blocked'' \<and> code (f msg) \<noteq> [] \<and> result_id (f msg) = result_id out"
  shows "always
    (do { st \<leftarrow> git_status os (workspace_path e);
          (case st of
             Inl msg \<Rightarrow> ret (f msg)
           | Inr lines \<Rightarrow>
               (let out = apply_status out lines in
                if unmerged out then ret (fail_with out ''git_conflict'' msg')
                else do {
                  stop \<leftarrow> commit_changes os e out;
                  (case stop of Some res \<Rightarrow> ret res | None \<Rightarrow> next out)
                })) })
    (stage_outcome os e auth steps' out)"
proof (rule always_seq, rule always_git_status, rule always_sum, goal_cases)
  case (1 r msg)
  show ?case using err [of msg] by (intro always_return stage_blocked) simp_all
next
  case (2 r lines)
  let ?out = "apply_status out lines"
  show ?case unfolding Let_def
  proof (rule always_if, goal_cases)
    case 1
    show ?case by (intro always_return stage_blocked) simp_all
  next
    case 2
    show ?case
    proof (rule always_bind [OF always_commit], rule always_option, goal_cases)
      case (1 a es)
      then have "record_trace e es" by (auto simp: commit_outcome_def record_trace_def)
      show ?case
      proof (rule always_mono [OF next_stage], goal_cases)
        case 1 show ?case by fact
      next
        case 2 show ?case by simp
      next
        case (3 r es')
        have "stage_outcome os e auth steps' out r ((status_event e # es) @ es')"
          using 3 by (rule stage_extend)
            (use commit_steps [OF \<open>commit_outcome _ _ a es\<close>] steps' \<open>record_trace e es\<close> in auto)
        then show ?case by simp
      qed
    next
      case (2 a es b)
      then show ?case using commit_steps [OF 2(1)]
        by (intro always_return stage_blocked) (auto simp: commit_outcome_def)
    qed
  qed
qed

lemma always_rebase_and_push:
  assumes "target_of e (auth_target auth)"
  shows "always (rebase_and_push os e auth out) (stage_outcome os e auth (rebase_trace e auth) out)"
  unfolding rebase_and_push_def pull_args_def [symmetric]
proof (rule always_seq, rule always_run_git, rule always_sum, goal_cases)
  case (1 r err)
  show ?case using assms by (intro always_return stage_blocked) simp_all
next
  case (2 r x)
  have "always (push_and_index os e auth out') (stage_outcome os e auth (\<lambda>xs. xs = []) out')"
    if "\<not> unmerged out'" for out'
    using assms that by (rule always_push_and_index)
  then show ?case
    by (intro always_mono [OF status_end
          [where steps = "\<lambda>xs. xs = []" and steps' = "\<lambda>xs. rebase_trace e auth (pull_event e auth # xs)"]])
      (use assms in \<open>auto simp: rebase_trace_def intro: stage_extend [where pre = "[pull_event e auth]", simplified]\<close>)
qed

lemma always_sync_steps:
  assumes "target_of e (auth_target auth)"
  shows "always (sync_steps os e auth out)
    (\<lambda>r es. stage_outcome os e auth (sync_trace e auth) out r es \<and> list_all (sync_step os e) es \<and> list_all no_temp es)"
proof -
  have "always (sync_steps os e auth out) (stage_outcome os e auth (sync_trace e auth) out)"
    unfolding sync_steps_def
  proof (rule always_if, goal_cases)
    case 1
    show ?case by (intro always_return stage_blocked) simp_all
  next
    case 2
    show ?case
      by (rule status_end [where steps = "rebase_trace e auth"])
        (use assms always_rebase_and_push in \<open>auto simp: sync_trace_def\<close>)
  qed
  then show ?thesis by (rule always_mono) (simp add: stage_outcome_def)
qed

subsection \<open>A whole sync\<close>

text \<open>The interactions of a sync up to its push; \<open>d\<close> is the directory of the second credentials.\<close>

definition push_trace ::
    "'w outside \<Rightarrow> workspace_entry \<Rightarrow> git_auth_result \<Rightarrow> string \<Rightarrow> event list \<Rightarrow> bool" where
  "push_trace os e auth d es \<longleftrightarrow>
     (\<exists>pre es1 xs. preflight_trace os e pre \<and> auth_events os e d es1 \<and>
        target_of e (auth_target auth) \<and> sync_trace e auth xs \<and> es = pre @ es1 @ xs)"

definition sync_outcome :: "'w outside \<Rightarrow> workspace_entry \<Rightarrow> workspace_result \<Rightarrow> event list \<Rightarrow> bool" where
  "sync_outcome os e r es \<longleftrightarrow>
     result_id r = trim_space (workspace_id e) \<and>
     (status r = ''blocked'' \<and> code r \<noteq> [] \<and>
        (list_all (\<lambda>ev. \<not> is_push ev) es \<or>
         (\<exists>auth d xs ys. push_trace os e auth d xs \<and> (\<forall>ev \<in> set ys. \<not> is_Git ev) \<and>
            es = xs @ push_event e auth # ys)) \<or>
      status r = ''clean'' \<and> code r = [] \<and> \<not> (dirty r \<or> ahead r \<or> behind r \<or> unmerged r) \<and>
        preflight_trace os e es \<or>
      status r = ''synced'' \<and> code r = [] \<and> \<not> (dirty r \<or> ahead r \<or> behind r \<or> unmerged r) \<and>
        (\<exists>auth d xs ys. push_trace os e auth d xs \<and> index_trace os e ys \<and>
           es = xs @ push_event e auth # ys @ [RemoveAll d]))"

lemma plain_not_push: "plain_step os e ev \<Longrightarrow> \<not> is_push ev"
  by (cases ev) (auto simp: plain_step_def is_push_def inspect_args_def)

lemma preflight_not_push: "preflight_step os e ev \<Longrightarrow> \<not> is_push ev"
  by (auto simp: preflight_step_def plain_not_push fetch_args_def)

lemma auth_events_not_push: "auth_events os e d es \<Longrightarrow> list_all (\<lambda>ev. \<not> is_push ev) es"
  by (auto simp: auth_events_def token_events_def)

lemma preflight_steps:
  assumes "preflight_outcome os e r es"
  shows "list_all (\<lambda>ev. \<not> is_push ev) es \<and> list_all (sync_step os e) es"
proof -
  have "list_all (preflight_step os e) es" using assms by (simp add: preflight_outcome_def)
  then show ?thesis by (auto simp: list_all_iff preflight_not_push sync_stepI)
qed

text \<open>The second half of a sync, behind a preflight that found work to do.\<close>

lemma sync_tail:
  assumes pre: "preflight_outcome os e out pre" and work: "status out \<noteq> ''blocked''" "status out \<noteq> ''clean''"
  shows "always
    (do { auth \<leftarrow> git_auth os e;
          final \<leftarrow> (case auth_error auth of
            Some err \<Rightarrow> ret (blocked out (classify_error (Some err)) err)
          | None \<Rightarrow> sync_steps os e auth out);
          _ \<leftarrow> run_cleanup os (auth_cleanup auth);
          ret final })
    (\<lambda>r es. sync_outcome os e r (pre @ es) \<and> list_all (sync_step os e) (pre @ es) \<and>
       open_dirs [] (pre @ es) = [])"
proof (rule always_mono [OF always_with_auth
      [where Q = "\<lambda>auth. stage_outcome os e auth (sync_trace e auth) out" and P = "sync_step os e"]], goal_cases)
  case (1 auth d)
  then show ?case by (intro always_sync_steps)
next
  case (2 ev)
  then show ?case by (intro sync_stepI preflight_stepI)
next
  case (3 r es)
  from pre work have pre_trace: "preflight_trace os e pre" and no_push: "list_all (\<lambda>ev. \<not> is_push ev) pre"
    and rest: "result_id out = trim_space (workspace_id e)" "list_all (sync_step os e) pre" "open_dirs [] pre = []"
    using preflight_steps [OF pre] by (auto simp: preflight_outcome_def)
  from 3 consider (stop) err where "r = blocked out (classify_error (Some err)) err" "\<forall>ev \<in> set es. \<not> is_Git ev"
    | (run) auth d es1 es2 where "auth_events os e d es1" "target_of e (auth_target auth)"
        "stage_outcome os e auth (sync_trace e auth) out r es2" "es = es1 @ es2 @ [RemoveAll d]"
    by blast
  then have "sync_outcome os e r (pre @ es)"
  proof cases
    case stop
    then have "list_all (\<lambda>ev. \<not> is_push ev) es"
      by (auto simp: list_all_iff is_push_def split: event.splits)
    with stop no_push rest show ?thesis by (simp add: sync_outcome_def)
  next
    case run
    have trace: "push_trace os e auth d (pre @ es1 @ xs)" if "sync_trace e auth xs" for xs
      unfolding push_trace_def using that run(1,2) pre_trace by blast
    from run(3) show ?thesis unfolding stage_outcome_def
    proof (elim conjE disjE exE, goal_cases)
      case 1
      with run(4) no_push rest auth_events_not_push [OF run(1)] show ?case by (simp add: sync_outcome_def)
    next
      case (2 xs ys)
      have "push_trace os e auth d (pre @ es1 @ xs) \<and> (\<forall>ev \<in> set (ys @ [RemoveAll d]). \<not> is_Git ev) \<and>
          pre @ es = (pre @ es1 @ xs) @ push_event e auth # (ys @ [RemoveAll d])"
        using 2 run(4) trace by simp
      with 2 rest show ?case unfolding sync_outcome_def by metis
    next
      case (3 xs ys)
      have "push_trace os e auth d (pre @ es1 @ xs) \<and> index_trace os e ys \<and>
          pre @ es = (pre @ es1 @ xs) @ push_event e auth # ys @ [RemoveAll d]"
        using 3 run(4) trace by simp
      with 3 rest show ?case unfolding sync_outcome_def by metis
    qed
  qed
  with 3 rest show ?case by simp
qed

lemma always_sync:
  "always (sync_workspace os e allow)
    (\<lambda>r es. sync_outcome os e r es \<and> list_all (sync_step os e) es \<and> open_dirs [] es = [])"
  unfolding sync_workspace_def
proof (rule always_bind [OF always_preflight], rule always_if, goal_cases)
  case (1 out pre)
  with preflight_steps [OF 1(1)] show ?case
    by (intro always_return) (auto simp: preflight_outcome_def sync_outcome_def)
next
  case (2 out pre)
  then show ?case by (intro sync_tail) simp_all
qed

subsection \<open>The commands\<close>

lemma preflight_all_ids:
  "map result_id (fst (run_state (preflight_all os allow es) m)) = map (\<lambda>e. trim_space (workspace_id e)) es"
proof (induction es arbitrary: m)
  case (Cons e es)
  obtain r m' where r: "run_state (preflight_workspace os e allow) m = (r, m')" by fastforce
  from always_run [OF always_preflight r] have "result_id r = trim_space (workspace_id e)"
    by (auto simp: preflight_outcome_def)
  with Cons [of m'] r show ?case
    by (cases "run_state (preflight_all os allow es) m'") simp
qed simp

definition reads_only :: "event \<Rightarrow> bool" where
  "reads_only ev =
    (case ev of Git dir env args \<Rightarrow> args \<in> set inspect_args \<or> (args \<noteq> [] \<and> hd args = ''fetch'') | _ \<Rightarrow> True)"

lemma preflight_reads_only: "preflight_step os e ev \<Longrightarrow> reads_only ev"
  by (cases ev) (auto simp: preflight_step_def plain_step_def reads_only_def fetch_args_def)

lemma always_preflight_all:
  "always (preflight_all os allow es) (\<lambda>_ evs. list_all reads_only evs \<and> open_dirs [] evs = [])"
proof (induction es)
  case (Cons e es)
  show ?case unfolding preflight_all.simps
  proof (rule always_bind [OF always_preflight], rule always_map, rule always_mono [OF Cons.IH], goal_cases)
    case (1 r pre rs evs)
    then show ?case
      by (auto simp: preflight_outcome_def list_all_iff intro: preflight_reads_only)
  qed
qed (auto intro!: program_rules)

lemma emits_load_eligible: "always (load_eligible_workspaces os d) (\<lambda>_. list_all is_ReadFile)"
  unfolding load_eligible_workspaces_def load_index_def
  by (intro always_map emits_bind program_rules) (auto intro!: emits_bind program_rules)

lemma emits_find_eligible: "always (find_eligible_workspace os w d) (\<lambda>_. list_all is_ReadFile)"
  unfolding find_eligible_workspace_def by (intro always_map emits_load_eligible)

lemma run_run_preflight:
  assumes "parse_flags printable no_options args = Inr opts"
    and "fst (run_state (load_eligible_workspaces os (opt_include_disabled opts)) m) = Inr entries"
  shows "\<exists>results. fst (run_state (run_preflight printable os args) m) =
      Inr ((plain_result True ''ok'')\<lparr>workspaces := sort_key (\<lambda>r. to_lower (result_name r)) results\<rparr>) \<and>
    map result_id results =
      map (\<lambda>e. trim_space (workspace_id e)) (filter (wanted (opt_workspace_id opts)) entries)"
proof -
  obtain m' where "run_state (load_eligible_workspaces os (opt_include_disabled opts)) m = (Inr entries, m')"
    using assms(2) by (cases "run_state (load_eligible_workspaces os (opt_include_disabled opts)) m") auto
  then show ?thesis
    using assms(1) preflight_all_ids
      [of os "opt_allow_nested opts" "filter (wanted (opt_workspace_id opts)) entries" m']
    by (cases "run_state (preflight_all os (opt_allow_nested opts)
          (filter (wanted (opt_workspace_id opts)) entries)) m'")
      (simp add: run_preflight_def, blast)
qed

subsection \<open>What the two commands report\<close>

lemma read_files_only: "list_all is_ReadFile es \<Longrightarrow> list_all reads_only es \<and> open_dirs [] es = []"
proof (induction es)
  case (Cons ev es)
  then show ?case by (cases ev) (simp_all add: reads_only_def)
qed simp

lemma always_run_preflight:
  "always (run_preflight printable os args)
    (\<lambda>res es. open_dirs [] es = [] \<and> list_all reads_only es \<and>
       (case res of
          Inl err \<Rightarrow> es = []
        | Inr r \<Rightarrow> workspace r = None \<and> (ok r \<longleftrightarrow> outer_code r = []) \<and> (ok r \<or> list_all is_ReadFile es)))"
  unfolding run_preflight_def
proof (rule always_sum, (simp add: always_return)[1], rule always_bind [OF emits_load_eligible], rule always_sum, goal_cases)
  case (1 opts a es err)
  with read_files_only [of es] show ?case
    by (intro always_return) (simp add: blocked_result_def plain_result_def Let_def)
next
  case (2 opts a es entries)
  with read_files_only [of es] show ?case
    by (intro always_map always_mono [OF always_preflight_all]) (simp add: plain_result_def)
qed

text \<open>The sync command passes on what its sync says; without a sync it has only read files.\<close>

lemma always_run_sync:
  "always (run_sync printable os args)
    (\<lambda>res es. open_dirs [] es = [] \<and>
       (case res of
          Inl err \<Rightarrow> es = []
        | Inr r \<Rightarrow> (ok r \<longleftrightarrow> outer_code r = []) \<and>
            (case workspace r of
               None \<Rightarrow> \<not> ok r \<and> list_all is_ReadFile es
             | Some w \<Rightarrow> outer_status r = status w \<and> outer_code r = code w \<and>
                 (ok r \<or> outer_retryable r = retryable w))))"
  unfolding run_sync_def
proof (rule always_sum, (simp add: always_return)[1], rule always_if, (simp add: always_return)[1],
    rule always_bind [OF emits_find_eligible], rule always_sum, goal_cases)
  case (1 opts a es err)
  with read_files_only [of es] show ?case
    by (intro always_return) (simp add: blocked_result_def plain_result_def Let_def)
next
  case (2 opts a es e)
  with read_files_only [of es] show ?case
    by (intro always_map always_mono [OF always_sync])
      (auto simp: sync_outcome_def sync_result_def plain_result_def)
qed

subsection \<open>Properties\<close>



text \<open>C14: Every temporary directory a sync makes for its credentials is removed before it returns, on
  every path, errors included.\<close>

theorem sync_removes_credentials:
  "always (sync_workspace os e allow) (\<lambda>r es. open_dirs [] es = [])"
  by (rule always_mono [OF always_sync]) simp


text \<open>C15: The preflight command reports every eligible workspace once, or the one asked for, ordered by
  name without regard to case.\<close>

theorem preflight_reports_all:
  assumes "parse_flags printable no_options args = Inr opts"
    and "fst (run_state (load_eligible_workspaces os (opt_include_disabled opts)) m) = Inr entries"
  shows "\<exists>r. fst (run_state (run_preflight printable os args) m) = Inr r \<and> ok r \<and>
    sorted (map (\<lambda>w. to_lower (result_name w)) (workspaces r)) \<and>
    mset (map result_id (workspaces r)) =
      mset (map (\<lambda>e. trim_space (workspace_id e)) (filter (wanted (opt_workspace_id opts)) entries))"
proof -
  from run_run_preflight [OF assms] obtain results where
    r: "fst (run_state (run_preflight printable os args) m) =
      Inr ((plain_result True ''ok'')\<lparr>workspaces := sort_key (\<lambda>r. to_lower (result_name r)) results\<rparr>)"
    and ids: "map result_id results =
      map (\<lambda>e. trim_space (workspace_id e)) (filter (wanted (opt_workspace_id opts)) entries)" by blast
  have "mset (map result_id (sort_key (\<lambda>r. to_lower (result_name r)) results)) = mset (map result_id results)"
    by simp
  with r ids show ?thesis by (auto simp: plain_result_def)
qed

lemma preflight_reports_all_witness:
  "\<exists>r. fst (run_state (run_preflight (\<lambda>_. True) (example_outside\<lparr>read_file := (\<lambda>p w. (FileMissing, w))\<rparr>)
      [''--include-disabled'']) example_machine) = Inr r \<and> ok r \<and> workspaces r = []"
proof -
  let ?os = "example_outside\<lparr>read_file := (\<lambda>p w. (FileMissing, w))\<rparr>"
  have p: "parse_flags (\<lambda>_. True) no_options [''--include-disabled''] =
      Inr (no_options\<lparr>opt_include_disabled := True\<rparr>)" by code_simp
  have l: "fst (run_state (load_eligible_workspaces ?os True) example_machine) = Inr []"
    by (simp add: run_load_eligible run_load_index auth_read_def auth_from_def)
  from preflight_reports_all [OF p, of ?os example_machine "[]"] l show ?thesis by auto
qed

end
