(* ===== verification/SyncOutput.thy ===== *)
theory SyncOutput
  imports SyncRun Go_Json_Roundtrip
begin

section \<open>What the Cloud Sync helper prints\<close>

text \<open>
  \<open>writeJSON\<close> of \<open>openbrain-cloud-sync-helper/main.go\<close>: \<open>json.MarshalIndent\<close> of the outer \<open>result\<close> with
  an indent of two blanks, and a line feed. The callers of the helper read this text; the property here
  is that they get the result back, field by field.
\<close>

subsection \<open>Printing\<close>

text \<open>A line feed and the indent of depth \<open>n\<close>.\<close>

definition newline :: "nat \<Rightarrow> string" where
  "newline n = CHR 0x0A # concat (replicate n ''  '')"

definition indent_object :: "nat \<Rightarrow> (string \<times> string) list \<Rightarrow> string" where
  "indent_object n fs = object_text (newline (Suc n)) '' '' (newline n) fs"

definition indent_array :: "nat \<Rightarrow> string list \<Rightarrow> string" where
  "indent_array n vs = array_text (newline (Suc n)) (newline n) vs"

definition flag_field :: "string \<Rightarrow> bool \<Rightarrow> (string \<times> string) list" where
  "flag_field n b = omit_empty (\<not> b) n (json_bool b)"

definition strings_field :: "nat \<Rightarrow> string \<Rightarrow> string list \<Rightarrow> (string \<times> string) list" where
  "strings_field d n vs = omit_empty (vs = []) n (indent_array d (map json_string vs))"

definition workspace_result_text :: "nat \<Rightarrow> workspace_result \<Rightarrow> string" where
  "workspace_result_text d r = indent_object d
    (field ''workspaceID'' (json_string (result_id r)) @
     string_field ''workspaceName'' (result_name r) @
     field ''workspacePath'' (json_string (result_path r)) @
     string_field ''orgID'' (result_org r) @
     field ''status'' (json_string (status r)) @
     string_field ''code'' (code r) @
     string_field ''message'' (message r) @
     string_field ''recovery'' (recovery r) @
     flag_field ''retryable'' (retryable r) @
     string_field ''branch'' (branch r) @
     flag_field ''ahead'' (ahead r) @
     flag_field ''behind'' (behind r) @
     flag_field ''dirty'' (dirty r) @
     flag_field ''unmerged'' (unmerged r) @
     strings_field (Suc d) ''nestedGit'' (nested_git r) @
     strings_field (Suc d) ''gitlinks'' (gitlinks r))"

text \<open>No operation of the helper sets \<open>Meta\<close>, so it is never printed.\<close>

definition result_text :: "helper_result \<Rightarrow> string" where
  "result_text r = indent_object 0
    (field ''ok'' (json_bool (ok r)) @
     field ''status'' (json_string (outer_status r)) @
     string_field ''code'' (outer_code r) @
     string_field ''message'' (outer_message r) @
     string_field ''recovery'' (outer_recovery r) @
     flag_field ''retryable'' (outer_retryable r) @
     omit_empty (workspaces r = []) ''workspaces''
       (indent_array 1 (map (workspace_result_text 2) (workspaces r))) @
     (case workspace r of None \<Rightarrow> [] | Some w \<Rightarrow> field ''workspace'' (workspace_result_text 1 w)))"

definition write_json :: "helper_result \<Rightarrow> string" where
  "write_json r = result_text r @ [CHR 0x0A]"

text \<open>The whole program: what stands on the standard output, and the exit status.\<close>

definition helper_output ::
    "(nat \<Rightarrow> bool) \<Rightarrow> 'w outside \<Rightarrow> string list \<Rightarrow> ('w machine, string \<times> nat) state" where
  "helper_output printable os argv = do {
     (r, exit_status) \<leftarrow> helper_main printable os argv;
     ret (write_json r, exit_status)
   }"

subsection \<open>Reading it back\<close>

definition workspace_result_type :: gty where
  "workspace_result_type = TStruct
    [(''workspaceID'', TString), (''workspaceName'', TString), (''workspacePath'', TString),
     (''orgID'', TString), (''status'', TString), (''code'', TString), (''message'', TString),
     (''recovery'', TString), (''retryable'', TBool), (''branch'', TString), (''ahead'', TBool),
     (''behind'', TBool), (''dirty'', TBool), (''unmerged'', TBool), (''nestedGit'', TSlice TString),
     (''gitlinks'', TSlice TString)]"

definition result_type :: gty where
  "result_type = TStruct
    [(''ok'', TBool), (''status'', TString), (''code'', TString), (''message'', TString),
     (''recovery'', TString), (''retryable'', TBool), (''workspaces'', TSlice workspace_result_type),
     (''workspace'', TPtr workspace_result_type), (''meta'', TMap TString)]"

definition workspace_result_of :: "gval \<Rightarrow> workspace_result" where
  "workspace_result_of v =
    (let s = (\<lambda>n. as_string (get_field v n)); b = (\<lambda>n. as_bool (get_field v n));
         l = (\<lambda>n. map as_string (as_slice (get_field v n)))
     in \<lparr>result_id = s ''workspaceID'', result_name = s ''workspaceName'', result_path = s ''workspacePath'',
         result_org = s ''orgID'', status = s ''status'', code = s ''code'', message = s ''message'',
         recovery = s ''recovery'', retryable = b ''retryable'', branch = s ''branch'', ahead = b ''ahead'',
         behind = b ''behind'', dirty = b ''dirty'', unmerged = b ''unmerged'', nested_git = l ''nestedGit'',
         gitlinks = l ''gitlinks''\<rparr>)"

definition helper_result_of :: "gval \<Rightarrow> helper_result" where
  "helper_result_of v =
    (let s = (\<lambda>n. as_string (get_field v n)); b = (\<lambda>n. as_bool (get_field v n))
     in \<lparr>ok = b ''ok'', outer_status = s ''status'', outer_code = s ''code'', outer_message = s ''message'',
         outer_recovery = s ''recovery'', outer_retryable = b ''retryable'',
         workspaces = map workspace_result_of (as_slice (get_field v ''workspaces'')),
         workspace = map_option workspace_result_of (as_ptr (get_field v ''workspace''))\<rparr>)"

definition workspace_result_strings :: "workspace_result \<Rightarrow> string list" where
  "workspace_result_strings r =
    [result_id r, result_name r, result_path r, result_org r, status r, code r, message r, recovery r,
     branch r] @ nested_git r @ gitlinks r"

definition result_strings :: "helper_result \<Rightarrow> string list" where
  "result_strings r = [outer_status r, outer_code r, outer_message r, outer_recovery r] @
    concat (map workspace_result_strings (workspaces r)) @
    (case workspace r of None \<Rightarrow> [] | Some w \<Rightarrow> workspace_result_strings w)"

lemma white_newline: "white (newline n)"
  by (induction n) (auto simp: newline_def white_def json_space_def)

lemma white_blank: "white '' ''"
  by (simp add: white_def json_space_def)

definition strings_row :: "nat \<Rightarrow> string \<Rightarrow> string list \<Rightarrow> row" where
  "strings_row d n vs = slice_row (newline (Suc d)) (newline d) n TString
    (map (\<lambda>s. (json_string s, JStr s, GString s)) vs)"

definition workspace_result_rows :: "nat \<Rightarrow> workspace_result \<Rightarrow> row list" where
  "workspace_result_rows d r =
    [string_row True ''workspaceID'' (result_id r),
     string_row (result_name r \<noteq> []) ''workspaceName'' (result_name r),
     string_row True ''workspacePath'' (result_path r),
     string_row (result_org r \<noteq> []) ''orgID'' (result_org r),
     string_row True ''status'' (status r),
     string_row (code r \<noteq> []) ''code'' (code r),
     string_row (message r \<noteq> []) ''message'' (message r),
     string_row (recovery r \<noteq> []) ''recovery'' (recovery r),
     bool_row (retryable r) ''retryable'' (retryable r),
     string_row (branch r \<noteq> []) ''branch'' (branch r),
     bool_row (ahead r) ''ahead'' (ahead r),
     bool_row (behind r) ''behind'' (behind r),
     bool_row (dirty r) ''dirty'' (dirty r),
     bool_row (unmerged r) ''unmerged'' (unmerged r),
     strings_row (Suc d) ''nestedGit'' (nested_git r),
     strings_row (Suc d) ''gitlinks'' (gitlinks r)]"

definition workspace_element :: "nat \<Rightarrow> workspace_result \<Rightarrow> element" where
  "workspace_element d r = (workspace_result_text d r, JObj (written_members (workspace_result_rows d r)),
    GStruct (map row_entry (workspace_result_rows d r)))"

definition result_rows :: "helper_result \<Rightarrow> row list" where
  "result_rows r =
    [bool_row True ''ok'' (ok r),
     string_row True ''status'' (outer_status r),
     string_row (outer_code r \<noteq> []) ''code'' (outer_code r),
     string_row (outer_message r \<noteq> []) ''message'' (outer_message r),
     string_row (outer_recovery r \<noteq> []) ''recovery'' (outer_recovery r),
     bool_row (outer_retryable r) ''retryable'' (outer_retryable r),
     slice_row (newline 2) (newline 1) ''workspaces'' workspace_result_type
       (map (workspace_element 2) (workspaces r)),
     struct_row (newline 2) '' '' (newline 1) ''workspace'' workspace_result_type
       (map_option (workspace_result_rows 1) (workspace r)),
     \<lparr>row_name = ''meta'', row_type = TMap TString, row_written = False, row_text = [], row_json = JNull,
      row_value = GNil\<rparr>]"

lemma output_names_valid:
  "list_all valid_utf8
    [''workspaceID'', ''workspaceName'', ''workspacePath'', ''orgID'', ''status'', ''code'', ''message'',
     ''recovery'', ''retryable'', ''branch'', ''ahead'', ''behind'', ''dirty'', ''unmerged'', ''nestedGit'',
     ''gitlinks'', ''ok'', ''workspaces'', ''workspace'', ''meta'']"
  by (simp add: valid_utf8_ascii is_ascii_def del: valid_utf8.simps)

lemma strings_row_ok:
  "valid_utf8 n \<Longrightarrow> d \<noteq> 0 \<Longrightarrow> list_all valid_utf8 vs \<Longrightarrow> row_ok d (strings_row k n vs)"
  unfolding strings_row_def
  by (rule slice_row_ok) (auto simp: white_newline list_all_iff intro: string_element_ok)

lemma workspace_result_rows_ok:
  "list_all valid_utf8 (workspace_result_strings r) \<Longrightarrow> d \<noteq> 0 \<Longrightarrow> list_all (row_ok d) (workspace_result_rows k r)"
  using output_names_valid
  by (auto simp: workspace_result_rows_def workspace_result_strings_def
      intro!: string_row_ok bool_row_ok strings_row_ok)

lemma workspace_result_rows_type:
  "distinct (map row_name (workspace_result_rows d r)) \<and>
    workspace_result_type = TStruct (map row_field (workspace_result_rows d r))"
  by (simp add: workspace_result_rows_def workspace_result_type_def strings_row_def rows row_field_def)

lemma workspace_result_text_rows:
  "workspace_result_text d r = indent_object d (written_fields (workspace_result_rows d r))"
  by (simp add: workspace_result_text_def written_fields_def workspace_result_rows_def strings_row_def rows
      string_field_def strings_field_def flag_field_def field_def omit_empty_def indent_array_def comp_def
      cong: if_cong)

lemma workspace_result_of_rows:
  "workspace_result_of (GStruct (map row_entry (workspace_result_rows d r))) = r"
  by (cases r) (simp add: workspace_result_of_def workspace_result_rows_def strings_row_def rows row_entry_def
      reader_defs comp_def)

lemma workspace_element_ok:
  assumes "list_all valid_utf8 (workspace_result_strings r)" and "d \<noteq> 0" and "d - 1 \<noteq> 0"
  shows "element_ok d workspace_result_type (workspace_element k r)"
  using struct_element_ok [OF _ workspace_result_rows_ok [OF assms(1,3)] assms(2) white_newline white_blank
      white_newline, of k "Suc k" k] workspace_result_rows_type [of k r]
  by (simp add: workspace_element_def workspace_result_text_rows indent_object_def)

lemma result_rows_ok:
  assumes "list_all valid_utf8 (result_strings r)"
  shows "list_all (row_ok (max_nesting - 1)) (result_rows r)"
proof -
  let ?d = "max_nesting - 1"
  have strs: "list_all valid_utf8 (workspace_result_strings w)" if "w \<in> set (workspaces r) \<or> workspace r = Some w" for w
    using assms that by (auto simp: result_strings_def list_all_iff)
  have "element_ok (?d - 1) workspace_result_type (workspace_element 2 w)" if "w \<in> set (workspaces r)" for w
    using strs that by (intro workspace_element_ok) (simp_all add: max_nesting_def)
  then have "row_ok ?d (slice_row (newline 2) (newline 1) ''workspaces'' workspace_result_type
      (map (workspace_element 2) (workspaces r)))"
    using output_names_valid by (intro slice_row_ok) (auto simp: list_all_iff max_nesting_def white_newline)
  moreover have "row_ok ?d (struct_row (newline 2) '' '' (newline 1) ''workspace'' workspace_result_type
      (map_option (workspace_result_rows 1) (workspace r)))"
    using output_names_valid strs workspace_result_rows_type
    by (intro struct_row_ok; cases "workspace r")
      (auto simp: max_nesting_def white_newline white_blank intro!: workspace_result_rows_ok)
  moreover have "row_ok ?d \<lparr>row_name = ''meta'', row_type = TMap TString, row_written = False, row_text = [],
      row_json = JNull, row_value = GNil\<rparr>"
    using output_names_valid by (simp add: row_ok_def)
  ultimately show ?thesis
    using assms output_names_valid unfolding result_rows_def
    by (auto simp: result_strings_def intro!: string_row_ok bool_row_ok)
qed

lemma result_rows_type:
  "distinct (map row_name (result_rows r)) \<and> result_type = TStruct (map row_field (result_rows r))"
  by (simp add: result_rows_def result_type_def rows row_field_def)

lemma result_text_rows: "result_text r = indent_object 0 (written_fields (result_rows r))"
proof -
  have "(case workspace r of None \<Rightarrow> [] | Some w \<Rightarrow> field ''workspace'' (workspace_result_text 1 w)) =
      omit_empty (workspace r = None) ''workspace'' (row_text (struct_row (newline 2) '' '' (newline 1)
        ''workspace'' workspace_result_type (map_option (workspace_result_rows 1) (workspace r))))"
    by (auto simp: struct_row_def omit_empty_def field_def workspace_result_text_rows indent_object_def
        numeral_2_eq_2 split: option.split)
  moreover have "map fst (map (workspace_element 2) ws) = map (workspace_result_text 2) ws" for ws
    by (simp add: workspace_element_def)
  ultimately show ?thesis
    by (simp add: result_text_def written_fields_def result_rows_def rows string_field_def flag_field_def
        field_def omit_empty_def indent_array_def numeral_2_eq_2 del: map_map cong: if_cong)
qed

lemma helper_result_of_rows: "helper_result_of (GStruct (map row_entry (result_rows r))) = r"
proof -
  have "map workspace_result_of (map (\<lambda>(s, j, v). v) (map (workspace_element 2) ws)) = ws" for ws
    by (simp add: workspace_element_def comp_def workspace_result_of_rows)
  moreover have "map_option workspace_result_of (map_option (\<lambda>rs. GStruct (map row_entry rs))
      (map_option (workspace_result_rows 1) w)) = w" for w
    by (cases w) (simp_all add: workspace_result_of_rows)
  ultimately show ?thesis
    by (cases r) (auto simp: helper_result_of_def result_rows_def rows row_entry_def reader_defs
        workspace_result_of_rows simp del: map_map split: option.split)
qed

lemma unmarshal_write_json:
  assumes "list_all valid_utf8 (result_strings r)"
  shows "map_option helper_result_of (unmarshal result_type (write_json r)) = Some r"
proof -
  have "unmarshal result_type (write_json r) = Some (GStruct (map row_entry (result_rows r)))"
    using unmarshal_struct [OF _ result_rows_ok [OF assms] white_newline white_blank white_newline, of "[CHR 0x0A]" 1 0]
      result_rows_type [of r]
    by (simp add: write_json_def result_text_rows indent_object_def white_def json_space_def)
  then show ?thesis by (simp add: helper_result_of_rows)
qed

interpretation printed: codec write_json "\<lambda>s. map_option helper_result_of (unmarshal result_type s)"
    "\<lambda>r. list_all valid_utf8 (result_strings r)"
  by unfold_locales (rule unmarshal_write_json)

subsection \<open>Property\<close>

text \<open>C16: The text the helper prints is one JSON document, and decoding it into the same Go type gives
  the result back, every field, every workspace and every nested list, as long as the strings in it are
  UTF-8; so two different results are never printed alike.\<close>

theorem printed_result_read:
  assumes "list_all valid_utf8 (result_strings r)"
  shows "map_option helper_result_of (unmarshal result_type (write_json r)) = Some r \<and>
    (\<forall>r'. list_all valid_utf8 (result_strings r') \<longrightarrow> write_json r' = write_json r \<longrightarrow> r' = r)"
  using printed.dec_enc [OF assms] printed.enc_inj assms by blast

definition example_result :: helper_result where
  "example_result = (plain_result True ''ok'')\<lparr>workspaces :=
    [\<lparr>result_id = ''w1'', result_name = ''notes'', result_path = ''/n'', result_org = [], status = ''blocked'',
      code = ''nested_git'', message = ''a <b>'', recovery = [], retryable = False, branch = ''main'', ahead = False,
      behind = False, dirty = True, unmerged = False, nested_git = [''/n/x'', ''/n/y''], gitlinks = []\<rparr>]\<rparr>"

lemma printed_result_read_witness:
  "map_option helper_result_of (unmarshal result_type (write_json example_result)) = Some example_result"
proof -
  have "list_all valid_utf8 (result_strings example_result)" by code_simp
  then show ?thesis using printed_result_read by blast
qed

end
