(* ===== verification/SyncMain.thy ===== *)
theory SyncMain
  imports SyncRun_Props SyncOutput
begin

section \<open>A whole run of the Cloud Sync helper\<close>

text \<open>
  \<open>main\<close> of \<open>openbrain-cloud-sync-helper/main.go\<close> from the arguments to the printed result: the flags,
  the command, its interactions with the machine and the text on the standard output, put together from
  the theorems about its parts.
\<close>

lemma always_run_command:
  "always (run_command printable os argv)
    (\<lambda>res es. open_dirs [] es = [] \<and>
       (case res of
          Inl err \<Rightarrow> es = []
        | Inr r \<Rightarrow> (ok r \<longleftrightarrow> outer_code r = []) \<and>
            (case workspace r of
               None \<Rightarrow> list_all reads_only es \<and> (ok r \<or> list_all is_ReadFile es)
             | Some w \<Rightarrow> outer_status r = status w \<and> outer_code r = code w \<and>
                 (ok r \<or> outer_retryable r = retryable w))))"
  unfolding run_command_def
proof (intro always_if, goal_cases)
  case 1 show ?case by (intro always_return) simp
next
  case 2 show ?case by (rule always_mono [OF always_run_preflight]) (auto split: sum.splits)
next
  case 3 show ?case
    by (rule always_mono [OF always_run_sync]) (auto split: sum.splits option.splits simp: read_files_only)
next
  case 4 show ?case by (intro always_return) simp
qed

lemma always_helper_main:
  "always (helper_main printable os argv)
    (\<lambda>(r, exit_status) es. (ok r \<longleftrightarrow> outer_code r = []) \<and>
       (exit_status = 0 \<or> exit_status = 1 \<and> outer_code r = ''internal_error'' \<and> es = []) \<and>
       open_dirs [] es = [] \<and>
       (case workspace r of
          None \<Rightarrow> list_all reads_only es \<and> (ok r \<or> list_all is_ReadFile es)
        | Some w \<Rightarrow> outer_status r = status w \<and> outer_code r = code w \<and>
            (ok r \<or> outer_retryable r = retryable w)))"
  unfolding helper_main_def
  by (intro always_map always_mono [OF always_run_command]) (auto simp: plain_result_def split: sum.splits)

subsection \<open>Property\<close>



end
