(* ===== verification/Host.thy ===== *)
theory Host
  imports Machine "HOL-Library.Word"
begin

section \<open>The host the OpAgent integration runs on\<close>

text \<open>
  What \<open>integrations/opagent\<close> asks of its host: \<open>os.Lstat\<close>, \<open>os.ReadFile\<close>, an HTTP client, the
  clock and a few facts about the process. They are the record \<open>host\<close> of functions on a world, in the
  way of \<open>outside\<close>, and every use is an interaction of the machine. The build is the Unix one.
  \<open>NotExist\<close> is an error that \<open>os.IsNotExist\<close> recognises; \<open>fmt.Errorf\<close> wraps an error into a
  \<open>Failure\<close>, which it does not.
\<close>

datatype host_error = is_not_exist: NotExist string | Failure string

fun error_text :: "host_error \<Rightarrow> string" where
  "error_text (NotExist e) = e"
| "error_text (Failure e) = e"

definition wrap_error :: "string \<Rightarrow> host_error \<Rightarrow> host_error" where
  "wrap_error what e = Failure (what @ '': '' @ error_text e)"

text \<open>\<open>FileInfo.Mode()\<close>: whether the file is a regular one, and the mode word.\<close>

record file_info =
  is_regular :: bool
  mode_bits :: "32 word"

text \<open>
  \<open>host_now\<close> is the JSON text of \<open>time.Now().UTC()\<close>, \<open>host_name\<close> and \<open>home_dir\<close> what
  \<open>os.Hostname\<close> and \<open>os.UserHomeDir\<close> return. \<open>json_fault\<close> and \<open>url_fault\<close> are the texts of the errors
  of \<open>json.Unmarshal\<close> and \<open>http.NewRequest\<close>.
\<close>

record 'w host =
  host_lstat :: "string \<Rightarrow> 'w \<Rightarrow> (host_error, file_info) result \<times> 'w"
  host_read :: "string \<Rightarrow> 'w \<Rightarrow> (host_error, string) result \<times> 'w"
  host_send :: "string \<Rightarrow> (string \<times> string) list \<Rightarrow> string \<Rightarrow> 'w \<Rightarrow> (string, http_response) result \<times> 'w"
  host_now :: "'w \<Rightarrow> string \<times> 'w"
  host_name :: string
  process_id :: int
  env_base_dir :: string
  home_dir :: "string option"
  json_fault :: "string \<Rightarrow> string"
  url_fault :: "string \<Rightarrow> string"

definition do_lstat :: "'w host \<Rightarrow> string \<Rightarrow> ('w machine, (host_error, file_info) result) state" where
  "do_lstat h p = interact (host_lstat h p) (\<lambda>_. [Lstat p])"

definition do_read :: "'w host \<Rightarrow> string \<Rightarrow> ('w machine, (host_error, string) result) state" where
  "do_read h p = interact (host_read h p) (\<lambda>_. [ReadFile p])"

definition do_send ::
    "'w host \<Rightarrow> string \<Rightarrow> (string \<times> string) list \<Rightarrow> string \<Rightarrow>
      ('w machine, (string, http_response) result) state" where
  "do_send h u hs body = interact (host_send h u hs body) (\<lambda>_. [HttpSend u hs body])"

definition do_now :: "'w host \<Rightarrow> ('w machine, string) state" where
  "do_now h = interact (host_now h) (\<lambda>_. [])"

lemmas host_do_defs = do_lstat_def do_read_def do_send_def do_now_def

lemma always_host_do [program_rules]:
  "(\<And>r. Q r [Lstat p]) \<Longrightarrow> always (do_lstat h p) Q"
  "(\<And>r. R r [ReadFile p]) \<Longrightarrow> always (do_read h p) R"
  "(\<And>r. S r [HttpSend u hs b]) \<Longrightarrow> always (do_send h u hs b) S"
  "(\<And>r. T r []) \<Longrightarrow> always (do_now h) T"
  by (auto simp: host_do_defs intro: always_interact)

subsection \<open>Regular files\<close>

text \<open>\<open>requireRegularFile\<close>: \<open>None\<close> is the nil error.\<close>

definition regular_file_error :: "bool \<Rightarrow> (host_error, file_info) result \<Rightarrow> host_error option" where
  "regular_file_error executable r =
    (case r of
       Inl e \<Rightarrow> Some e
     | Inr info \<Rightarrow>
         if \<not> is_regular info then
           Some (Failure ''path must be a regular file, not a symlink or special file'')
         else if executable \<and> and (and (mode_bits info) 0x1FF) 0x49 = 0 then
           Some (Failure ''file is not executable'')
         else None)"

definition require_regular_file ::
    "'w host \<Rightarrow> string \<Rightarrow> bool \<Rightarrow> ('w machine, host_error option) state" where
  "require_regular_file h path executable = do {
     r \<leftarrow> do_lstat h path;
     ret (regular_file_error executable r)
   }"

lemma always_require_regular [program_rules]:
  "(\<And>r. Q (regular_file_error x r) [Lstat p]) \<Longrightarrow> always (require_regular_file h p x) Q"
  unfolding require_regular_file_def by (intro always_map always_host_do)

end
