(* ===== verification/OpAgent.thy ===== *)
theory OpAgent
  imports Host
begin

section \<open>Product policy hooks for the OpAgent Runtime: sessions and authorizers\<close>

text \<open>
  \<open>integrations/opagent/integration.go\<close> and \<open>defaults.go\<close>: the product base directory, the session
  token on disk and the headers it is put into, and the two hooks that decide which nodes the
  Runtime may start or call. The SDK of OpAgent is not in the repository: what the hooks use of it is
  the record \<open>sdk\<close>, and \<open>op_node\<close> has the fields of \<open>OpNode\<close> they read. The header map is the list of
  its entries in the order the loop meets them; Go chooses that order anew each time, so what is
  proved for every list is proved for every order.
\<close>

definition session_placeholder :: string where "session_placeholder = ''{openbrain_session}''"
definition gbrain_cloud_node_id :: string where "gbrain_cloud_node_id = ''tools-gbrain-cloud''"
definition gbrain_cloud_url :: string where "gbrain_cloud_url = ''https://api.op-agent.com/brain/mcp''"
definition managed_server_agent_id :: string where "managed_server_agent_id = ''agent-openbrain-server''"

record sdk =
  uri_to_path :: "string \<Rightarrow> string"
  kind_tools :: string
  kind_agent :: string
  system_started :: string

record run_spec =
  run_command :: "string list"
  run_daemon :: bool
  run_url :: string
  run_header :: "(string \<times> string) list"

record op_node =
  node_id :: string
  node_kind :: string
  op_codes :: "string list"
  node_uri :: string
  node_cwd :: string
  node_run :: run_spec

text \<open>A hook that authorizes a node gives \<open>nil\<close> or an error; a nil node is \<open>None\<close>.\<close>

type_synonym 'w authorizer = "op_node option \<Rightarrow> ('w machine, host_error option) state"

subsection \<open>The base directory\<close>

definition resolve_base_dir :: "'w host \<Rightarrow> string \<Rightarrow> (string, string) result" where
  "resolve_base_dir h value0 =
    (let value1 = trim_space value0;
         value2 = (if value1 = [] then trim_space (env_base_dir h) else value1)
     in and_then
          (if value2 = [] then
             (case home_dir h of
                None \<Rightarrow> Inl ''resolve OpenBrain product base directory''
              | Some home \<Rightarrow>
                  if trim_space home = [] then Inl ''resolve OpenBrain product base directory''
                  else Inr (path_join [home, ''.opagent'', ''openbrain'']))
           else Inr value2)
          (\<lambda>value. if \<not> is_abs value then Inl ''OpenBrain product base directory must be absolute''
                   else Inr (clean value)))"

subsection \<open>The session\<close>

definition session_auth_type :: gty where
  "session_auth_type = TStruct [(''version'', TInt), (''token'', TString)]"

text \<open>What is read from \<open>auth.json\<close> after its first JSON value is ignored.\<close>

definition session_from :: "string \<Rightarrow> (string, string) result" where
  "session_from raw =
    (case decoder_decode False session_auth_type raw of
       None \<Rightarrow> Inl ''OpenBrain auth config is invalid''
     | Some (v, rest) \<Rightarrow>
         (let tok = trim_space (as_string (get_field v ''token'')) in
          if as_int (get_field v ''version'') \<noteq> 2 \<or> tok = [] then Inl ''OpenBrain login is required''
          else Inr tok))"

definition auth_file :: "string \<Rightarrow> string" where
  "auth_file base = path_join [base, ''configs'', ''user'', ''auth.json'']"

definition disk_session_token :: "'w host \<Rightarrow> string \<Rightarrow> ('w machine, (string, string) result) state" where
  "disk_session_token h base = do {
     bad \<leftarrow> require_regular_file h (auth_file base) False;
     (case bad of
        Some e \<Rightarrow> ret (Inl (''validate OpenBrain session: '' @ error_text e))
      | None \<Rightarrow> do {
          r \<leftarrow> do_read h (auth_file base);
          ret (case r of
                 Inl e \<Rightarrow> Inl (''read OpenBrain session: '' @ error_text e)
               | Inr raw \<Rightarrow> session_from raw)
        })
   }"

text \<open>\<open>token = None\<close> is the nil function.\<close>

fun session_header_resolver ::
    "('w machine, (string, string) result) state option \<Rightarrow> (string \<times> string) list \<Rightarrow>
      ('w machine, (string, (string \<times> string) list) result) state" where
  "session_header_resolver tok [] = ret (Inr [])"
| "session_header_resolver tok ((name, value) # headers) =
    (if \<not> contains value session_placeholder then do {
       resolved \<leftarrow> session_header_resolver tok headers;
       ret (map_sum (\<lambda>e. e) (Cons (name, value)) resolved)
     }
     else
       (case tok of
          None \<Rightarrow> ret (Inl ''OpenBrain session resolver is unavailable'')
        | Some ask \<Rightarrow> do {
            answer \<leftarrow> ask;
            (case answer of
               Inl e \<Rightarrow> ret (Inl (''resolve OpenBrain session: '' @ e))
             | Inr session0 \<Rightarrow>
                 (let session = trim_space session0 in
                  if session = [] then ret (Inl ''OpenBrain session is empty'')
                  else do {
                    resolved \<leftarrow> session_header_resolver tok headers;
                    ret (map_sum (\<lambda>e. e)
                           (Cons (name, replace_all value session_placeholder session)) resolved)
                  }))
          }))"

subsection \<open>Authorizers\<close>

definition fail_closed_system_authorizer :: "'w authorizer option \<Rightarrow> 'w authorizer" where
  "fail_closed_system_authorizer authorize node =
    (case authorize of
       None \<Rightarrow> ret (Some (Failure ''OpenBrain system service is not authorized''))
     | Some f \<Rightarrow> f node)"

definition gbrain_manifest :: "string \<Rightarrow> string" where
  "gbrain_manifest base = path_join [base, ''tools'', ''gbrain-cloud'', ''TOOL.md'']"

text \<open>The checks on the node itself, before the manifest is looked at.\<close>

definition gbrain_node_error :: "sdk \<Rightarrow> string \<Rightarrow> op_node option \<Rightarrow> string option" where
  "gbrain_node_error k base n =
    (case n of
       None \<Rightarrow> Some ''remote node is not an OpenBrain-managed GBrain tool''
     | Some node \<Rightarrow>
         if trim_space (node_id node) \<noteq> gbrain_cloud_node_id
            \<or> trim_space (node_kind node) \<noteq> kind_tools k then
           Some ''remote node is not an OpenBrain-managed GBrain tool''
         else if length (run_command (node_run node)) \<noteq> 0 \<or> \<not> run_daemon (node_run node)
            \<or> trim_space (run_url (node_run node)) \<noteq> gbrain_cloud_url then
           Some ''GBrain remote endpoint does not match product policy''
         else if length (run_header (node_run node)) \<noteq> 1
            \<or> trim_space (case map_of (run_header (node_run node)) ''Authorization'' of
                              Some v \<Rightarrow> v | None \<Rightarrow> [])
              \<noteq> ''Bearer '' @ session_placeholder then
           Some ''GBrain remote endpoint headers do not match product policy''
         else if clean (uri_to_path k (trim_space (node_uri node))) \<noteq> gbrain_manifest base then
           Some ''GBrain remote endpoint is not installed at the managed product path''
         else None)"

definition gbrain_cloud_authorizer :: "sdk \<Rightarrow> 'w host \<Rightarrow> string \<Rightarrow> 'w authorizer" where
  "gbrain_cloud_authorizer k h base n =
    (case gbrain_node_error k base n of
       Some e \<Rightarrow> ret (Some (Failure e))
     | None \<Rightarrow> do {
         bad \<leftarrow> require_regular_file h (gbrain_manifest base) False;
         ret (map_option (wrap_error ''validate GBrain manifest'') bad)
       })"

definition same_system_path :: "string \<Rightarrow> string \<Rightarrow> bool" where
  "same_system_path left right \<longleftrightarrow> clean (trim_space left) = clean (trim_space right)"

text \<open>\<open>strconv.Atoi\<close> on a 64-bit machine.\<close>

definition atoi :: "string \<Rightarrow> int option" where
  "atoi s =
    (let neg = prefix ''-'' s; ds = (if neg \<or> prefix ''+'' s then tl s else s);
         v = (if neg then - int (digits_value ds) else int (digits_value ds))
     in if ds \<noteq> [] \<and> list_all digit ds \<and> - (2 ^ 63) \<le> v \<and> v < 2 ^ 63 then Some v else None)"

definition service_root :: "string \<Rightarrow> string" where
  "service_root base = path_join [base, ''agents'', ''opagent-server'']"

definition service_manifest :: "string \<Rightarrow> string" where
  "service_manifest base = path_join [service_root base, ''.agent'', ''AGENT.md'']"

definition service_executable :: "string \<Rightarrow> string" where
  "service_executable base = path_join [service_root base, ''.agent'', ''bin'', ''openbrain-server'']"

text \<open>The checks before the manifest is looked at, those between the two files, and the whole hook.\<close>

definition server_node_error :: "sdk \<Rightarrow> string \<Rightarrow> op_node option \<Rightarrow> string option" where
  "server_node_error k base n =
    (case n of
       None \<Rightarrow> Some ''OpenBrain system service requires system/started''
     | Some node \<Rightarrow>
         if system_started k \<notin> set (op_codes node) then
           Some ''OpenBrain system service requires system/started''
         else if node_id node \<noteq> managed_server_agent_id \<or> node_kind node \<noteq> kind_agent k then
           Some ''system/started is reserved for the product-managed server''
         else if \<not> same_system_path (uri_to_path k (node_uri node)) (service_manifest base)
              \<or> \<not> same_system_path (node_cwd node) (service_root base) then
           Some ''system service manifest is outside the product-managed directory''
         else None)"

definition server_command_error :: "string \<Rightarrow> run_spec \<Rightarrow> string option" where
  "server_command_error base run =
    (if \<not> run_daemon run \<or> length (run_command run) \<noteq> 5 \<or> run_command run ! 1 \<noteq> ''--host''
        \<or> run_command run ! 2 \<noteq> ''127.0.0.1'' \<or> run_command run ! 3 \<noteq> ''--port'' then
       Some ''system service command does not match the OpenBrain control-plane shape''
     else
       (case atoi (trim_space (run_command run ! 4)) of
          None \<Rightarrow> Some ''system service port is invalid''
        | Some port \<Rightarrow>
            if port < 1 \<or> port > 65535 then Some ''system service port is invalid''
            else if \<not> same_system_path (run_command run ! 0) (service_executable base) then
              Some ''system service executable is outside the product-managed directory''
            else None))"

definition managed_server_authorizer :: "sdk \<Rightarrow> 'w host \<Rightarrow> string \<Rightarrow> 'w authorizer" where
  "managed_server_authorizer k h base n =
    (case server_node_error k base n of
       Some e \<Rightarrow> ret (Some (Failure e))
     | None \<Rightarrow> do {
         bad \<leftarrow> require_regular_file h (service_manifest base) False;
         (case bad of
            Some e \<Rightarrow> ret (Some (wrap_error ''validate system service manifest'' e))
          | None \<Rightarrow>
              (case server_command_error base (node_run (the n)) of
                 Some e \<Rightarrow> ret (Some (Failure e))
               | None \<Rightarrow> do {
                   bad' \<leftarrow> require_regular_file h (service_executable base) True;
                   ret (map_option (wrap_error ''validate system service executable'') bad')
                 }))
       })"

end
