(* ===== verification/Go_Regex.thy ===== *)
theory Go_Regex
  imports Go_Json_Decode
begin

section \<open>Regular expressions\<close>

text \<open>
  As much of Go's package \<open>regexp\<close> as the program's patterns use: classes of runes with greedy
  repetition, sequences, alternatives and the ASCII word boundary. A match is searched from the
  left, and at one place the match a backtracking engine would find first is taken: \<open>spots\<close> lists
  the ends of all matches in this order. A place in the text is the byte before it and the text
  from there on; both steps and classes are by rune.
\<close>

type_synonym spot = "char option \<times> string"

datatype regex =
    Boundary
  | Repeat "nat \<Rightarrow> bool" nat "nat option"
  | Seq regex regex
  | Alt regex regex

definition word_char :: "char \<Rightarrow> bool" where
  "word_char c \<longleftrightarrow> (let x = byte_of c in
     48 \<le> x \<and> x \<le> 57 \<or> 65 \<le> x \<and> x \<le> 90 \<or> 97 \<le> x \<and> x \<le> 122 \<or> x = 95)"

definition at_boundary :: "spot \<Rightarrow> bool" where
  "at_boundary sp \<longleftrightarrow>
    (case fst sp of None \<Rightarrow> False | Some c \<Rightarrow> word_char c)
      \<noteq> (case snd sp of [] \<Rightarrow> False | c # _ \<Rightarrow> word_char c)"

definition step_rune :: "spot \<Rightarrow> spot" where
  "step_rune sp =
    (let w = snd (decode_rune (snd sp)) in (Some (last (take w (snd sp))), drop w (snd sp)))"

definition step_class :: "(nat \<Rightarrow> bool) \<Rightarrow> spot \<Rightarrow> spot option" where
  "step_class P sp =
    (if snd sp \<noteq> [] \<and> P (fst (decode_rune (snd sp))) then Some (step_rune sp) else None)"

text \<open>Greedy: the longest repetition comes first.\<close>

fun repeat_spots :: "(nat \<Rightarrow> bool) \<Rightarrow> nat \<Rightarrow> nat \<Rightarrow> spot \<Rightarrow> spot list" where
  "repeat_spots P lo 0 sp = (if lo = 0 then [sp] else [])"
| "repeat_spots P lo (Suc hi) sp =
    (case step_class P sp of None \<Rightarrow> [] | Some sp' \<Rightarrow> repeat_spots P (lo - 1) hi sp')
      @ (if lo = 0 then [sp] else [])"

fun spots :: "regex \<Rightarrow> spot \<Rightarrow> spot list" where
  "spots Boundary sp = (if at_boundary sp then [sp] else [])"
| "spots (Repeat P lo hi) sp =
    repeat_spots P lo (case hi of Some n \<Rightarrow> n | None \<Rightarrow> length (snd sp)) sp"
| "spots (Seq a b) sp = concat (map (spots b) (spots a sp))"
| "spots (Alt a b) sp = spots a sp @ spots b sp"

definition one :: "(nat \<Rightarrow> bool) \<Rightarrow> regex" where
  "one P = Repeat P 1 (Some 1)"

text \<open>A literal under \<open>(?i)\<close>; \<open>fold_rune\<close> is the simple folding of the letters.\<close>

definition fold_equal :: "char \<Rightarrow> nat \<Rightarrow> bool" where
  "fold_equal c r \<longleftrightarrow> fold_rune r = fold_rune (byte_of c)"

definition any_rune :: "nat \<Rightarrow> bool" where
  "any_rune r = True"

fun literal_ci :: "string \<Rightarrow> regex" where
  "literal_ci [] = Repeat any_rune 0 (Some 0)"
| "literal_ci (c # cs) = Seq (one (fold_equal c)) (literal_ci cs)"

definition space_rune :: "nat \<Rightarrow> bool" where
  "space_rune r \<longleftrightarrow> r \<in> {9, 10, 12, 13, 32}"

definition rune_in :: "string \<Rightarrow> nat \<Rightarrow> bool" where
  "rune_in s r \<longleftrightarrow> r \<in> byte_of ` set s"

definition alnum_rune :: "nat \<Rightarrow> bool" where
  "alnum_rune r \<longleftrightarrow> 48 \<le> r \<and> r \<le> 57 \<or> 65 \<le> r \<and> r \<le> 90 \<or> 97 \<le> r \<and> r \<le> 122"

definition first_end :: "regex \<Rightarrow> spot \<Rightarrow> spot option" where
  "first_end r sp = (case spots r sp of [] \<Rightarrow> None | e # _ \<Rightarrow> Some e)"

text \<open>A pattern in two parts, the first a group: where the group ends and where the match ends.\<close>

definition first_group :: "regex \<Rightarrow> regex \<Rightarrow> spot \<Rightarrow> (spot \<times> spot) option" where
  "first_group a b sp =
    (case concat (map (\<lambda>g. map (Pair g) (spots b g)) (spots a sp)) of [] \<Rightarrow> None | x # _ \<Rightarrow> Some x)"

text \<open>
  \<open>ReplaceAllString\<close>: \<open>Whole r new\<close> puts \<open>new\<close> in the place of a match, \<open>Grouped a b new\<close> the group \<open>a\<close>
  and \<open>new\<close> after it. \<open>apply_rule\<close> gives the replacement for a match at a place and where the match
  ends. No pattern of the program matches the empty text.
\<close>

datatype replacement = Whole regex string | Grouped regex regex string

fun apply_rule :: "replacement \<Rightarrow> spot \<Rightarrow> (string \<times> spot) option" where
  "apply_rule (Whole r new) sp = map_option (Pair new) (first_end r sp)"
| "apply_rule (Grouped a b new) sp =
    (case first_group a b sp of
       None \<Rightarrow> None
     | Some (g, e) \<Rightarrow> Some (take (length (snd sp) - length (snd g)) (snd sp) @ new, e))"

lemma length_step_rune: "s \<noteq> [] \<Longrightarrow> length (snd (step_rune (p, s))) < length s"
  using decode_rune_width_pos [of s] by (simp add: step_rune_def Let_def)

function substitute :: "replacement \<Rightarrow> spot \<Rightarrow> string" where
  "substitute f sp =
    (if snd sp = [] then []
     else
       (case apply_rule f sp of
          Some (new, sp') \<Rightarrow>
            if length (snd sp') < length (snd sp) then new @ substitute f sp' else []
        | None \<Rightarrow> take (snd (decode_rune (snd sp))) (snd sp) @ substitute f (step_rune sp)))"
  by pat_completeness auto
termination
  by (relation "measure (\<lambda>(f, sp). length (snd sp))") (auto simp: length_step_rune)

declare substitute.simps [simp del]

definition replace_regex :: "regex \<Rightarrow> string \<Rightarrow> string \<Rightarrow> string" where
  "replace_regex r new s = substitute (Whole r new) (None, s)"

definition replace_group :: "regex \<Rightarrow> regex \<Rightarrow> string \<Rightarrow> string \<Rightarrow> string" where
  "replace_group a b new s = substitute (Grouped a b new) (None, s)"

end
