(* ===== verification/Guardian.thy ===== *)
theory Guardian
  imports Host Go_Json_Encode Go_Regex "HOL-Library.List_Lexorder" "HOL-Library.Char_ord"
begin

section \<open>The Guardian client\<close>

text \<open>
  \<open>integrations/opagent/guardian/client.go\<close>: an approval request of the Runtime is reduced to
  metadata, sent to the gateway of the signed-in user, and the answer is checked. The request type
  \<open>ApprovalRequest\<close> and the words of the decisions and risks belong to the OpAgent SDK: the record
  \<open>approval_request\<close> has the fields the client reads, \<open>guardian_words\<close> the constants. The build is
  the Unix one. The HTTP client follows no redirects, so one request is one interaction.
\<close>

definition maximum_request_bytes :: nat where "maximum_request_bytes = 32 * 1024"
definition maximum_response_bytes :: nat where "maximum_response_bytes = 16 * 1024"

subsection \<open>Data\<close>

record approval_request =
  request_id0 :: string
  tool_name0 :: string
  command_summary0 :: string
  reason0 :: string
  profile_id0 :: string
  policy_version0 :: int
  policy_digest0 :: string
  risk_tags0 :: "string list"
  read_paths :: "string list"
  write_paths :: "string list"
  network_domains :: "string list"
  sensitive_rights :: "string list"
  thread_grants0 :: int
  agent_id0 :: string
  parent_agent_id0 :: string
  request_cwd :: string

datatype review_resource = Resource (resource_kind: string) (resource_value: string)

text \<open>The order \<open>sort.Slice\<close> is given: by kind, and by value among equal kinds.\<close>

definition resource_less :: "review_resource \<Rightarrow> review_resource \<Rightarrow> bool" where
  "resource_less a b = (if resource_kind a \<noteq> resource_kind b then resource_kind a < resource_kind b
     else resource_value a < resource_value b)"

instantiation review_resource :: linorder
begin

definition less_eq_review_resource :: "review_resource \<Rightarrow> review_resource \<Rightarrow> bool" where
  "a \<le> b \<longleftrightarrow> resource_kind a < resource_kind b
     \<or> (resource_kind a = resource_kind b \<and> resource_value a \<le> resource_value b)"

definition less_review_resource :: "review_resource \<Rightarrow> review_resource \<Rightarrow> bool" where
  "a < b \<longleftrightarrow> resource_less a b"

instance
  by standard
    (auto simp: less_eq_review_resource_def less_review_resource_def resource_less_def review_resource.expand)

end

record review_request =
  review_request_id :: string
  tool_name :: string
  command_summary :: string
  intent_summary :: string
  profile_id :: string
  policy_version :: int
  policy_digest :: string
  risk_tags :: "string list"
  resources :: "review_resource list"
  thread_grants :: int
  agent_id :: string
  parent_agent_id :: string

record guardian_words =
  approve_once :: string
  require_user :: string
  deny :: string
  risk_low :: string
  risk_medium :: string
  risk_high :: string
  risk_critical :: string

record review_result =
  result_request_id :: string
  result_decision :: string
  result_risk :: string
  result_reason :: string
  result_review_id :: string
  result_policy_version :: string

record guardian_auth =
  guardian_gateway :: string
  guardian_token :: string

subsection \<open>Cutting and redacting text\<close>

text \<open>The loop that drops bytes until the text is valid UTF-8 again.\<close>

function drop_partial :: "string \<Rightarrow> string" where
  "drop_partial s = (if \<not> valid_utf8 s \<and> s \<noteq> [] then drop_partial (butlast s) else s)"
  by pat_completeness auto
termination
  by (relation "measure length") auto

declare drop_partial.simps [simp del]

definition truncate_text :: "string \<Rightarrow> int \<Rightarrow> string" where
  "truncate_text value0 maximum =
    (let value = trim_space value0 in
     if maximum \<le> 0 \<or> int (length value) \<le> maximum then value
     else trim_space (drop_partial (take (nat maximum) value)))"

definition bearer_rune :: "nat \<Rightarrow> bool" where
  "bearer_rune r \<longleftrightarrow> alnum_rune (fold_rune r) \<or> rune_in ''._~+/-'' r"

definition secret_rune :: "nat \<Rightarrow> bool" where
  "secret_rune r \<longleftrightarrow> \<not> space_rune r \<and> \<not> rune_in '',;'' r"

definition key_rune :: "nat \<Rightarrow> bool" where
  "key_rune r \<longleftrightarrow> alnum_rune r \<or> rune_in ''_-'' r"

definition bearer_pattern :: regex where
  "bearer_pattern =
    Seq Boundary (Seq (literal_ci ''bearer'') (Seq (Repeat space_rune 1 None)
      (Seq (Repeat bearer_rune 1 None)
        (Repeat (rune_in ''='') 0 None))))"

definition dash_opt :: regex where
  "dash_opt = Repeat (rune_in ''_-'') 0 (Some 1)"

definition secret_key :: regex where
  "secret_key =
    Seq (literal_ci ''api'') (Seq dash_opt (literal_ci ''key''))"

definition secret_names :: regex where
  "secret_names =
    Alt secret_key
      (Alt (Seq (literal_ci ''access'') (Seq dash_opt (literal_ci ''token'')))
        (Alt (Seq (literal_ci ''auth'') (Seq dash_opt (literal_ci ''token'')))
          (Alt (literal_ci ''password'') (literal_ci ''secret''))))"

definition secret_value :: regex where
  "secret_value =
    Seq (Repeat space_rune 0 None) (Seq (one (rune_in '':='')) (Seq (Repeat space_rune 0 None)
      (Repeat secret_rune 1 None)))"

definition key_pattern :: regex where
  "key_pattern =
    Seq Boundary
      (Seq (Alt (Seq (one (rune_in ''s'')) (one (rune_in ''k'')))
             (Alt (Seq (one (rune_in ''r'')) (one (rune_in ''k'')))
               (Seq (one (rune_in ''p'')) (one (rune_in ''k'')))))
        (Seq (one (rune_in ''-''))
          (Seq (Repeat key_rune 12 None) Boundary)))"

definition redact :: "string \<Rightarrow> int \<Rightarrow> string" where
  "redact raw maximum =
    (let v1 = replace_regex bearer_pattern ''Bearer [REDACTED]'' raw;
         v2 = replace_group (Seq Boundary secret_names) secret_value ''=[REDACTED]'' v1;
         v3 = replace_regex key_pattern ''[REDACTED_KEY]'' v2
     in truncate_text (trim_space v3) maximum)"

subsection \<open>Names and domains\<close>

definition safe_name :: "string \<Rightarrow> bool" where
  "safe_name s \<longleftrightarrow> s \<noteq> [] \<and> length s \<le> 192 \<and> alphanum (hd s) \<and>
     list_all (\<lambda>c. alphanum c \<or> c \<in> set ''._:/-'') (tl s)"

definition sanitize_name :: "string \<Rightarrow> string" where
  "sanitize_name raw = (let value = trim_space raw in if safe_name value then value else [])"

text \<open>\<open>seen\<close> are the names already taken, \<open>acc\<close> the result, the last one first.\<close>

fun collect_names :: "nat \<Rightarrow> string list \<Rightarrow> string list \<Rightarrow> string list \<Rightarrow> string list" where
  "collect_names maximum seen acc [] = rev acc"
| "collect_names maximum seen acc (raw # values) =
    (let value = sanitize_name raw in
     if value = [] \<or> value \<in> set seen then collect_names maximum seen acc values
     else
       (let acc' = truncate_text value 192 # acc in
        if length acc' = maximum then rev acc'
        else collect_names maximum (value # seen) acc' values))"

definition sanitize_names :: "string list \<Rightarrow> nat \<Rightarrow> string list" where
  "sanitize_names values maximum = sort (collect_names maximum [] [] values)"

definition sanitize_domain :: "string \<Rightarrow> string" where
  "sanitize_domain raw =
    (let value = to_lower (trim_space raw);
         host = (if contains value ''://'' then map_option hostname (url_parse value)
                 else
                   (case cut_byte (CHR '':'') value of
                      (front, rest, found) \<Rightarrow>
                        Some (if found \<and> front \<noteq> [] then front else value)))
     in case host of
          None \<Rightarrow> []
        | Some v \<Rightarrow>
            (let trimmed = trim_byte (CHR ''.'') v in
             if trimmed = [] \<or> contains_any trimmed (CHR '' '' # slash # backslash # ''@'') then []
             else truncate_text trimmed 253))"

subsection \<open>Paths\<close>

text \<open>\<open>Rel\<close> without an error and not leaving its base.\<close>

definition rel_inside :: "string \<Rightarrow> string \<Rightarrow> string option" where
  "rel_inside base path =
    (case path_rel base path of
       None \<Rightarrow> None
     | Some rel \<Rightarrow> if rel \<noteq> dotdot \<and> \<not> has_prefix rel (dotdot @ [slash]) then Some rel else None)"

definition classify_home :: "string \<Rightarrow> string" where
  "classify_home relative =
    (let first = to_lower (hd (split_byte slash relative)) in
     if first = ''.ssh'' then ''sensitive:ssh''
     else if first \<in> {''.aws'', ''.azure'', ''.config'', ''.gnupg'', ''library''} then
       ''sensitive:user_credentials_or_config''
     else ''outside_workspace:user_home'')"

definition classify_path :: "string \<Rightarrow> string \<Rightarrow> string \<Rightarrow> string" where
  "classify_path home workspace raw =
    (let path = clean (trim_space raw); root = clean (trim_space workspace) in
     if path = dot \<or> path = [] then ''path:unknown''
     else
       (case (if root \<noteq> dot \<and> root \<noteq> [] then rel_inside root path else None) of
          Some relative \<Rightarrow> ''workspace:'' @ relative
        | None \<Rightarrow>
            (case (if home \<noteq> [] then rel_inside home path else None) of
               Some relative \<Rightarrow> classify_home relative
             | None \<Rightarrow>
                 if is_abs path then ''outside_workspace:host_absolute''
                 else ''outside_workspace:relative'')))"

subsection \<open>The request\<close>

definition clamp_grants :: "int \<Rightarrow> int" where
  "clamp_grants n = (let n' = (if n < 0 then 0 else n) in if n' > 1024 then 1024 else n')"

definition request_resources :: "string \<Rightarrow> approval_request \<Rightarrow> review_resource list" where
  "request_resources home r =
    map (\<lambda>p. Resource ''read_path'' (classify_path home (request_cwd r) p)) (read_paths r) @
    map (\<lambda>p. Resource ''write_path'' (classify_path home (request_cwd r) p)) (write_paths r) @
    map (Resource ''network_domain'') (filter (\<lambda>v. v \<noteq> []) (map sanitize_domain (network_domains r))) @
    map (Resource ''sensitive_right'') (filter (\<lambda>v. v \<noteq> []) (map sanitize_name (sensitive_rights r)))"

definition sanitize_request :: "string \<Rightarrow> approval_request \<Rightarrow> review_request" where
  "sanitize_request home r =
    \<lparr>review_request_id = truncate_text (sanitize_name (request_id0 r)) 192,
     tool_name = truncate_text (sanitize_name (tool_name0 r)) 192,
     command_summary = redact (command_summary0 r) 1024,
     intent_summary = redact (reason0 r) 512,
     profile_id = truncate_text (sanitize_name (profile_id0 r)) 192,
     policy_version = policy_version0 r,
     policy_digest = truncate_text (sanitize_name (policy_digest0 r)) 192,
     risk_tags = sanitize_names (risk_tags0 r) 32,
     resources = sort (request_resources home r),
     thread_grants = clamp_grants (thread_grants0 r),
     agent_id = truncate_text (sanitize_name (agent_id0 r)) 192,
     parent_agent_id = truncate_text (sanitize_name (parent_agent_id0 r)) 192\<rparr>"

text \<open>\<open>json.Marshal\<close> of the two structs, by their tags.\<close>

definition resource_json :: "review_resource \<Rightarrow> string" where
  "resource_json r = json_object
    [(''kind'', json_string (resource_kind r)), (''value'', json_string (resource_value r))]"

definition review_json :: "review_request \<Rightarrow> string" where
  "review_json r = json_object
    (field ''requestID'' (json_string (review_request_id r)) @
     field ''toolName'' (json_string (tool_name r)) @
     string_field ''commandSummary'' (command_summary r) @
     string_field ''intentSummary'' (intent_summary r) @
     field ''profileID'' (json_string (profile_id r)) @
     field ''policyVersion'' (show_int (policy_version r)) @
     field ''policyDigest'' (json_string (policy_digest r)) @
     omit_empty (risk_tags r = []) ''riskTags'' (json_array (map json_string (risk_tags r))) @
     omit_empty (resources r = []) ''resources'' (json_array (map resource_json (resources r))) @
     omit_empty (thread_grants r = 0) ''existingThreadGrantCount'' (show_int (thread_grants r)) @
     string_field ''agentID'' (agent_id r) @
     string_field ''parentAgentID'' (parent_agent_id r))"

subsection \<open>The login\<close>

definition guardian_auth_type :: gty where
  "guardian_auth_type = TStruct [(''version'', TInt), (''aiGateway'', TString), (''token'', TString)]"

text \<open>A gateway must be an HTTPS URL without user, query and fragment, or plain HTTP to this host.\<close>

definition gateway_error :: "string \<Rightarrow> string option" where
  "gateway_error gateway =
    (case url_parse (trim_space gateway) of
       None \<Rightarrow> Some ''OpenBrain AI Gateway URL is invalid''
     | Some u \<Rightarrow>
         if (scheme u \<noteq> ''https'' \<and> scheme u \<noteq> ''http'') \<or> host u = [] \<or> user u \<noteq> None
            \<or> raw_query u \<noteq> [] \<or> fragment u \<noteq> [] then
           Some ''OpenBrain AI Gateway URL is invalid''
         else if scheme u = ''http'' \<and> hostname u \<noteq> ''localhost''
            \<and> (case parse_ip (hostname u) of None \<Rightarrow> True | Some ip \<Rightarrow> \<not> is_loopback ip) then
           Some ''OpenBrain AI Gateway URL must use HTTPS''
         else None)"

definition guardian_auth_from :: "string \<Rightarrow> (string, guardian_auth) result" where
  "guardian_auth_from raw =
    (case decoder_decode False guardian_auth_type raw of
       None \<Rightarrow> Inl ''OpenBrain auth config is invalid''
     | Some (v, rest) \<Rightarrow>
         (let gw = as_string (get_field v ''aiGateway''); tok = as_string (get_field v ''token'') in
          if as_int (get_field v ''version'') \<noteq> 2 \<or> trim_space gw = [] \<or> trim_space tok = [] then
            Inl ''OpenBrain login with an AI Gateway is required for Guardian''
          else
            (case gateway_error gw of
               Some e \<Rightarrow> Inl e
             | None \<Rightarrow>
                 Inr \<lparr>guardian_gateway = trim_right_byte slash (trim_space gw),
                      guardian_token = trim_space tok\<rparr>)))"

definition login_error :: "host_error \<Rightarrow> string" where
  "login_error e =
    (if is_not_exist e then ''OpenBrain login is required for Guardian'' else error_text e)"

definition load_guardian_auth ::
    "'w host \<Rightarrow> string \<Rightarrow> ('w machine, (string, guardian_auth) result) state" where
  "load_guardian_auth h path = do {
     info \<leftarrow> do_lstat h path;
     (case info of
        Inl e \<Rightarrow> ret (Inl (login_error e))
      | Inr i \<Rightarrow>
          if \<not> is_regular i then ret (Inl ''OpenBrain auth config must be a regular file'')
          else do {
            r \<leftarrow> do_read h path;
            ret (case r of Inl e \<Rightarrow> Inl (login_error e) | Inr raw \<Rightarrow> guardian_auth_from raw)
          })
   }"

definition guardian_endpoint :: "string \<Rightarrow> string" where
  "guardian_endpoint gw =
    (let base = trim_right_byte slash (trim_space gw) in
     if has_suffix base ''/v1'' then base @ ''/security-reviews'' else base @ ''/v1/security-reviews'')"

subsection \<open>The review\<close>

definition review_response_type :: gty where
  "review_response_type = TStruct
    [(''requestID'', TString), (''decision'', TString), (''risk'', TString), (''reason'', TString),
     (''reviewID'', TString), (''policyVersion'', TString)]"

definition valid_decision :: "guardian_words \<Rightarrow> string \<Rightarrow> bool" where
  "valid_decision g d \<longleftrightarrow> d = approve_once g \<or> d = require_user g \<or> d = deny g"

definition valid_risk :: "guardian_words \<Rightarrow> string \<Rightarrow> bool" where
  "valid_risk g r \<longleftrightarrow> r = risk_low g \<or> r = risk_medium g \<or> r = risk_high g \<or> r = risk_critical g"

text \<open>What is made of the body of a 2xx answer, cut by the limit reader.\<close>

definition review_answer ::
    "guardian_words \<Rightarrow> string \<Rightarrow> string \<Rightarrow> (string, review_result) result" where
  "review_answer g rid body =
    (case decoder_decode True review_response_type (take (Suc maximum_response_bytes) body) of
       None \<Rightarrow> Inl ''Guardian response is invalid''
     | Some (v, rest) \<Rightarrow>
         (let s = (\<lambda>n. as_string (get_field v n)) in
          if \<not> decoder_at_eof rest then Inl ''Guardian response contains trailing data''
          else if trim_space (s ''requestID'') \<noteq> rid then Inl ''Guardian response requestID mismatch''
          else if \<not> valid_decision g (s ''decision'') \<or> \<not> valid_risk g (s ''risk'')
               \<or> trim_space (s ''reason'') = [] then
            Inl ''Guardian response contract is invalid''
          else
            Inr \<lparr>result_request_id = rid, result_decision = s ''decision'', result_risk = s ''risk'',
                 result_reason = truncate_text (s ''reason'') 512,
                 result_review_id = truncate_text (s ''reviewID'') 192,
                 result_policy_version = truncate_text (s ''policyVersion'') 192\<rparr>))"

definition review_headers :: "string \<Rightarrow> string \<Rightarrow> (string \<times> string) list" where
  "review_headers tok rid =
    [(''Authorization'', ''Bearer '' @ tok), (''Content-Type'', ''application/json''), (''X-Request-ID'', rid)]"

definition send_review ::
    "'w host \<Rightarrow> guardian_words \<Rightarrow> guardian_auth \<Rightarrow> review_request \<Rightarrow>
      ('w machine, (string, review_result) result) state" where
  "send_review h g auth payload =
    (let raw = review_json payload; endpoint = guardian_endpoint (guardian_gateway auth) in
     if length raw > maximum_request_bytes then
       ret (Inl ''Guardian review metadata exceeds the size limit'')
     else if url_parse endpoint = None then ret (Inl (url_fault h endpoint))
     else do {
       answer \<leftarrow> do_send h endpoint (review_headers (guardian_token auth) (review_request_id payload)) raw;
       ret (case answer of
              Inl e \<Rightarrow> Inl e
            | Inr response \<Rightarrow>
                if status_code response < 200 \<or> status_code response \<ge> 300 then
                  Inl (''Guardian service responded '' @ show_int (status_code response))
                else review_answer g (review_request_id payload) (response_body response))
     })"

definition home_or_empty :: "'w host \<Rightarrow> string" where
  "home_or_empty h = (case home_dir h of Some home \<Rightarrow> home | None \<Rightarrow> [])"

text \<open>A client is the base directory it was made with; a nil client is \<open>None\<close>.\<close>

definition new_client :: "string \<Rightarrow> string" where
  "new_client base = trim_space base"

definition review ::
    "'w host \<Rightarrow> guardian_words \<Rightarrow> string option \<Rightarrow> approval_request \<Rightarrow>
      ('w machine, (string, review_result) result) state" where
  "review h g client request =
    (case client of
       None \<Rightarrow> ret (Inl ''Guardian client is not configured'')
     | Some base \<Rightarrow>
         if trim_space base = [] then ret (Inl ''Guardian client is not configured'')
         else do {
           auth \<leftarrow> load_guardian_auth h (path_join [base, ''configs'', ''user'', ''auth.json'']);
           (case auth of
              Inl e \<Rightarrow> ret (Inl e)
            | Inr a \<Rightarrow> send_review h g a (sanitize_request (home_or_empty h) request))
         })"

end
