(* ===== verification/Heartbeat.thy ===== *)
theory Heartbeat
  imports Host Go_Json_Encode
begin

section \<open>The heartbeat service\<close>

text \<open>
  \<open>integrations/opagent/heartbeat.go\<close>: one report, and the loop of \<open>Run\<close> that sends one at once and
  one at every tick until its context is done. The loop is an inductive step relation: the runtime
  picks any ready case of the \<open>select\<close>, and while the loop waits the rest of the world goes on.
  \<open>drive\<close> is the same loop as a function of the list of the cases picked. What \<open>slog.Warn\<close> is given
  is the list of warnings.
\<close>

subsection \<open>The login\<close>

definition heartbeat_auth_type :: gty where
  "heartbeat_auth_type = TStruct [(''version'', TInt), (''gateway'', TString), (''token'', TString)]"

record heartbeat_auth =
  heartbeat_gateway :: string
  heartbeat_token :: string

definition heartbeat_auth_from :: "'w host \<Rightarrow> string \<Rightarrow> (host_error, heartbeat_auth) result" where
  "heartbeat_auth_from h raw =
    (case unmarshal heartbeat_auth_type raw of
       None \<Rightarrow> Inl (wrap_error ''decode OpenBrain heartbeat auth'' (Failure (json_fault h raw)))
     | Some v \<Rightarrow>
         (let gw = trim_right_byte slash (trim_space (as_string (get_field v ''gateway'')));
              tok = trim_space (as_string (get_field v ''token''))
          in case url_parse gw of
               None \<Rightarrow> Inl (Failure ''OpenBrain heartbeat auth is invalid'')
             | Some u \<Rightarrow>
                 if as_int (get_field v ''version'') \<noteq> 2 \<or> tok = [] \<or> host u = [] \<or> user u \<noteq> None
                    \<or> raw_query u \<noteq> [] \<or> fragment u \<noteq> [] then
                   Inl (Failure ''OpenBrain heartbeat auth is invalid'')
                 else if scheme u \<noteq> ''https'' \<and>
                    (scheme u \<noteq> ''http'' \<or> (hostname u \<noteq> ''localhost'' \<and>
                      (case parse_ip (hostname u) of None \<Rightarrow> True | Some ip \<Rightarrow> \<not> is_loopback ip))) then
                   Inl (Failure ''OpenBrain heartbeat gateway must use HTTPS'')
                 else Inr \<lparr>heartbeat_gateway = gw, heartbeat_token = tok\<rparr>))"

definition read_heartbeat_auth ::
    "'w host \<Rightarrow> string \<Rightarrow> ('w machine, (host_error, heartbeat_auth) result) state" where
  "read_heartbeat_auth h path = do {
     bad \<leftarrow> require_regular_file h path False;
     (case bad of
        Some e \<Rightarrow> ret (Inl e)
      | None \<Rightarrow> do {
          r \<leftarrow> do_read h path;
          ret (case r of Inl e \<Rightarrow> Inl e | Inr raw \<Rightarrow> heartbeat_auth_from h raw)
        })
   }"

subsection \<open>One report\<close>

definition heartbeat_auth_path :: "string \<Rightarrow> string" where
  "heartbeat_auth_path base = path_join [base, ''configs'', ''user'', ''auth.json'']"

definition host_id_path :: "string \<Rightarrow> string" where
  "host_id_path base = path_join [base, ''configs'', ''system'', ''host_id'']"

text \<open>\<open>json.Marshal\<close> of the envelope, by the tags of its two structs.\<close>

definition heartbeat_json :: "'w host \<Rightarrow> string \<Rightarrow> string \<Rightarrow> string \<Rightarrow> string" where
  "heartbeat_json h base sent_at host_id =
    (let hname = trim_space (host_name h) in
     json_object
      (field ''schemaVersion'' (json_string ''v1'') @
       field ''sentAt'' sent_at @
       field ''instance'' (json_object
        (field ''id'' (json_string (trim_space host_id)) @
         string_field ''hostname'' hname @
         string_field ''env'' ''local'' @
         field ''baseDir'' (json_string base) @
         omit_empty (process_id h = 0) ''pid'' (show_int (process_id h))))))"

definition heartbeat_headers :: "string \<Rightarrow> (string \<times> string) list" where
  "heartbeat_headers tok = [(''Authorization'', ''Bearer '' @ tok), (''Content-Type'', ''application/json'')]"

definition heartbeat_answer :: "(string, http_response) result \<Rightarrow> host_error option" where
  "heartbeat_answer answer =
    (case answer of
       Inl e \<Rightarrow> Some (Failure e)
     | Inr response \<Rightarrow>
         if status_code response div 100 \<noteq> 2 then
           Some (Failure (''heartbeat response '' @ status_line response @ '': ''
             @ trim_space (take 4096 (response_body response))))
         else None)"

definition send_heartbeat ::
    "'w host \<Rightarrow> string \<Rightarrow> heartbeat_auth \<Rightarrow> string \<Rightarrow> ('w machine, host_error option) state" where
  "send_heartbeat h base auth host_id = do {
     sent_at \<leftarrow> do_now h;
     let url = heartbeat_gateway auth @ ''/api/v1/heartbeat/heartbeats'';
     (if url_parse url = None then ret (Some (Failure (url_fault h url)))
      else do {
        answer \<leftarrow> do_send h url (heartbeat_headers (heartbeat_token auth))
                    (heartbeat_json h base sent_at host_id);
        ret (heartbeat_answer answer)
      })
   }"

definition report_once :: "'w host \<Rightarrow> string \<Rightarrow> ('w machine, host_error option) state" where
  "report_once h base = do {
     auth \<leftarrow> read_heartbeat_auth h (heartbeat_auth_path base);
     (case auth of
        Inl e \<Rightarrow> ret (if is_not_exist e then None else Some e)
      | Inr a \<Rightarrow> do {
          bad \<leftarrow> require_regular_file h (host_id_path base) False;
          (case bad of
             Some e \<Rightarrow> ret (Some (wrap_error ''validate Runtime host ID'' e))
           | None \<Rightarrow> do {
               r \<leftarrow> do_read h (host_id_path base);
               (case r of
                  Inl e \<Rightarrow> ret (Some (wrap_error ''read Runtime host ID'' e))
                | Inr host_id \<Rightarrow> send_heartbeat h base a host_id)
             })
        })
   }"

subsection \<open>The loop\<close>

text \<open>A service is its base directory; a nil service is \<open>None\<close>.\<close>

definition new_heartbeat_service :: "string \<Rightarrow> string" where
  "new_heartbeat_service base = clean (trim_space base)"

datatype phase = Starting | Waiting | Returned "host_error option"

datatype signal = Tick | Done

record 'w run =
  run_phase :: phase
  run_machine :: "'w machine"
  warnings :: "host_error list"

definition report :: "'w host \<Rightarrow> string \<Rightarrow> 'w run \<Rightarrow> 'w run" where
  "report h base s =
    (case run_state (report_once h base) (run_machine s) of
       (err, m) \<Rightarrow>
         s\<lparr>run_phase := Waiting, run_machine := m,
           warnings := warnings s @ (case err of Some e \<Rightarrow> [e] | None \<Rightarrow> [])\<rparr>)"

definition unusable_base :: "string option \<Rightarrow> bool" where
  "unusable_base service = (case service of None \<Rightarrow> True | Some base \<Rightarrow> base = [] \<or> base = dot)"

definition base_required :: host_error where
  "base_required = Failure ''OpenBrain heartbeat base directory is required''"

inductive run_step :: "'w host \<Rightarrow> string option \<Rightarrow> 'w run \<Rightarrow> 'w run \<Rightarrow> bool"
  for h service where
  refuse: "unusable_base service \<Longrightarrow> run_phase s = Starting \<Longrightarrow>
    run_step h service s (s\<lparr>run_phase := Returned (Some base_required)\<rparr>)"
| start: "\<not> unusable_base service \<Longrightarrow> run_phase s = Starting \<Longrightarrow>
    run_step h service s (report h (the service) s)"
| tick: "run_phase s = Waiting \<Longrightarrow> run_step h service s (report h (the service) s)"
| finished: "run_phase s = Waiting \<Longrightarrow> run_step h service s (s\<lparr>run_phase := Returned None\<rparr>)"
| elsewhere: "run_phase s = Waiting \<Longrightarrow> run_step h service s (s\<lparr>run_machine := (run_machine s)\<lparr>world := w\<rparr>\<rparr>)"

definition initial_run :: "'w \<Rightarrow> 'w run" where
  "initial_run w = \<lparr>run_phase = Starting, run_machine = \<lparr>world = w, events = []\<rparr>, warnings = []\<rparr>"

inductive reachable :: "'w host \<Rightarrow> string option \<Rightarrow> 'w run \<Rightarrow> bool"
  for h service where
  initially: "reachable h service (initial_run w)"
| stepwise: "reachable h service s \<Longrightarrow> run_step h service s s' \<Longrightarrow> reachable h service s'"

inductive_cases run_stepE: "run_step h service s s'"

text \<open>The loop on the list of the cases the \<open>select\<close> picks; it stops at the first \<open>Done\<close>.\<close>

fun wait_loop :: "'w host \<Rightarrow> string \<Rightarrow> signal list \<Rightarrow> 'w run \<Rightarrow> 'w run" where
  "wait_loop h base [] s = s"
| "wait_loop h base (Tick # sigs) s = wait_loop h base sigs (report h base s)"
| "wait_loop h base (Done # sigs) s = s\<lparr>run_phase := Returned None\<rparr>"

definition drive :: "'w host \<Rightarrow> string option \<Rightarrow> signal list \<Rightarrow> 'w run \<Rightarrow> 'w run" where
  "drive h service sigs s =
    (if unusable_base service then s\<lparr>run_phase := Returned (Some base_required)\<rparr>
     else wait_loop h (the service) sigs (report h (the service) s))"

end
