(* ===== verification/ProductRuntime.thy ===== *)
theory ProductRuntime
  imports ProductPolicy OpAgent Guardian Heartbeat
begin

section \<open>Assembling the product Runtime\<close>

text \<open>
  \<open>RuntimeOptions\<close> of \<open>integration.go\<close>, \<open>ProductRuntimeOptions\<close> of \<open>defaults.go\<close> and \<open>run\<close> of
  \<open>cmd/openbrain-runtime/main.go\<close>: which hooks the Runtime is given and from which directory. A nil
  function or interface is \<open>None\<close>. The loader of configurations (\<open>'c\<close>), the Runtime itself and the
  parsing of the flags are the SDK's and the \<open>flag\<close> package's, and arguments here.
\<close>

record ('w, 'c) dependencies =
  dep_base_dir :: string
  dep_config_loader :: "'c option"
  dep_approval_reviewer :: "(approval_request \<Rightarrow> ('w machine, (string, review_result) result) state) option"
  dep_session_token :: "('w machine, (string, string) result) state option"
  dep_system_authorizer :: "'w authorizer option"
  dep_prompt_augmenter :: "(string \<Rightarrow> string \<Rightarrow> meta \<Rightarrow> string) option"
  dep_tool_scope :: "(meta \<Rightarrow> string \<Rightarrow> string \<Rightarrow> any \<Rightarrow> any \<Rightarrow> any \<times> string option) option"
  dep_cron_policy :: "(string \<Rightarrow> content \<Rightarrow> string option) option"
  dep_services :: "string list"

record ('w, 'c) runtime_options =
  opt_base_dir :: string
  opt_config_loader :: "'c option"
  opt_approval_reviewer :: "(approval_request \<Rightarrow> ('w machine, (string, review_result) result) state) option"
  opt_header_resolver :: "(string \<times> string) list \<Rightarrow> ('w machine, (string, (string \<times> string) list) result) state"
  opt_system_authorizer :: "'w authorizer"
  opt_remote_authorizer :: "'w authorizer"
  opt_prompt_augmenter :: "(string \<Rightarrow> string \<Rightarrow> meta \<Rightarrow> string) option"
  opt_tool_scope :: "(meta \<Rightarrow> string \<Rightarrow> string \<Rightarrow> any \<Rightarrow> any \<Rightarrow> any \<times> string option) option"
  opt_cron_policy :: "(string \<Rightarrow> content \<Rightarrow> string option) option"
  opt_services :: "string list"
  opt_env :: string
  opt_debug :: bool

definition runtime_options ::
    "sdk \<Rightarrow> 'w host \<Rightarrow> ('w, 'c) dependencies \<Rightarrow> (string, ('w, 'c) runtime_options) result" where
  "runtime_options k h d =
    and_then (resolve_base_dir h (dep_base_dir d))
      (\<lambda>base. Inr
        \<lparr>opt_base_dir = base,
         opt_config_loader = dep_config_loader d,
         opt_approval_reviewer = dep_approval_reviewer d,
         opt_header_resolver = session_header_resolver (dep_session_token d),
         opt_system_authorizer = fail_closed_system_authorizer (dep_system_authorizer d),
         opt_remote_authorizer = gbrain_cloud_authorizer k h base,
         opt_prompt_augmenter = dep_prompt_augmenter d,
         opt_tool_scope = dep_tool_scope d,
         opt_cron_policy = dep_cron_policy d,
         opt_services = dep_services d,
         opt_env = [], opt_debug = False\<rparr>)"

definition product_dependencies ::
    "sdk \<Rightarrow> 'w host \<Rightarrow> guardian_words \<Rightarrow> (nat \<Rightarrow> bool) \<Rightarrow> string \<Rightarrow> ('w, 'c) dependencies" where
  "product_dependencies k h g printable base =
    \<lparr>dep_base_dir = base, dep_config_loader = None,
     dep_approval_reviewer = Some (review h g (Some (new_client base))),
     dep_session_token = Some (disk_session_token h base),
     dep_system_authorizer = Some (managed_server_authorizer k h base),
     dep_prompt_augmenter = Some (gbrain_prompt_augmenter printable),
     dep_tool_scope = Some (gbrain_tool_scope printable),
     dep_cron_policy = Some open_brain_cron_policy,
     dep_services = [new_heartbeat_service base]\<rparr>"

definition product_runtime_options ::
    "sdk \<Rightarrow> 'w host \<Rightarrow> guardian_words \<Rightarrow> (nat \<Rightarrow> bool) \<Rightarrow> string \<Rightarrow>
      (string, ('w, 'c) runtime_options) result" where
  "product_runtime_options k h g printable base_dir =
    and_then (resolve_base_dir h base_dir)
      (\<lambda>base. runtime_options k h (product_dependencies k h g printable base))"

text \<open>The command: the flags as parsed, then the options, the Runtime made of them, and its run.\<close>

record run_flags =
  flag_base_dir :: string
  flag_env :: string
  flag_debug :: bool

definition runtime_command ::
    "sdk \<Rightarrow> 'w host \<Rightarrow> guardian_words \<Rightarrow> (nat \<Rightarrow> bool) \<Rightarrow> (('w, 'c) runtime_options \<Rightarrow> (string, 'r) result) \<Rightarrow>
      ('r \<Rightarrow> string option) \<Rightarrow> (string, run_flags) result \<Rightarrow> string option" where
  "runtime_command k h g printable new_runtime run_runtime flags =
    (case and_then flags (\<lambda>f.
            and_then (product_runtime_options k h g printable (flag_base_dir f)) (\<lambda>options.
              new_runtime (options\<lparr>opt_env := flag_env f, opt_debug := flag_debug f\<rparr>))) of
       Inl e \<Rightarrow> Some e
     | Inr r \<Rightarrow> run_runtime r)"

text \<open>What \<open>main\<close> writes on standard error and the code it exits with.\<close>

definition runtime_main :: "string option \<Rightarrow> string \<times> int" where
  "runtime_main err =
    (case err of
       None \<Rightarrow> ([], 0)
     | Some e \<Rightarrow> (''openbrain runtime: '' @ e @ [CHR 0x0A], 1))"

end
