(* ===== verification/OpAgent_Props.thy ===== *)
theory OpAgent_Props
  imports OpAgent
begin

section \<open>What the authorizers and the session resolver promise\<close>

text \<open>
  Two interfaces. \<open>node_policy\<close> is what the Runtime may rely on when a hook lets a node pass: the node
  has the shape the policy names, and every file the policy names has been looked at; a hook only
  looks. \<open>session_source\<close> is what the header resolver relies on. Both are interpreted on the hooks of
  the code; the properties rest on these interpretations.
\<close>

lemma map_sum_eq_Inr [simp]: "map_sum f g x = Inr y \<longleftrightarrow> (\<exists>z. x = Inr z \<and> y = g z)"
  by (cases x) auto

subsection \<open>Interfaces\<close>

locale node_policy =
  fixes authorize :: "op_node option \<Rightarrow> ('w machine, host_error option) state"
    and trusted :: "op_node option \<Rightarrow> bool"
    and files :: "string list"
  assumes policy: "always (authorize n)
    (\<lambda>r es. prefix es (map Lstat files) \<and> (r = None \<longrightarrow> trusted n \<and> es = map Lstat files))"
begin

lemma only_looks: "emits (\<lambda>e. \<exists>p \<in> set files. e = Lstat p) (authorize n)"
  using policy by (rule always_mono) (force simp: list_all_iff dest!: set_mono_prefix)

lemma behind_wrapper:
  "always (fail_closed_system_authorizer (if given then Some authorize else None) n)
    (\<lambda>r es. r = None \<longrightarrow> given \<and> trusted n \<and> es = map Lstat files)"
proof (cases given)
  case True
  with policy [of n] show ?thesis
    by (auto simp: fail_closed_system_authorizer_def elim: always_mono)
next
  case False
  then show ?thesis by (simp add: fail_closed_system_authorizer_def always_return)
qed

end

locale session_source =
  fixes ask :: "('w machine, (string, string) result) state"
    and footprint :: "event \<Rightarrow> bool"
  assumes source: "always ask
    (\<lambda>r es. list_all footprint es \<and> (\<forall>t. r = Inr t \<longrightarrow> t \<noteq> [] \<and> trim_space t = t))"
begin

definition resolved :: "string \<times> string \<Rightarrow> string \<times> string \<Rightarrow> bool" where
  "resolved h h' \<longleftrightarrow> fst h' = fst h \<and>
    (if contains (snd h) session_placeholder
     then \<exists>t. t \<noteq> [] \<and> trim_space t = t \<and> snd h' = replace_all (snd h) session_placeholder t
     else snd h' = snd h)"

lemma resolved_plain: "\<not> contains v session_placeholder \<Longrightarrow> resolved (n, v) (n, v)"
  by (simp add: resolved_def)

lemma resolved_session:
  "contains v session_placeholder \<Longrightarrow> t \<noteq> [] \<Longrightarrow> trim_space t = t \<Longrightarrow>
    resolved (n, v) (n, replace_all v session_placeholder t)"
  by (auto simp: resolved_def)

lemma resolver_outcome:
  "always (session_header_resolver (Some ask) headers)
    (\<lambda>r es. list_all footprint es \<and> (\<forall>hs. r = Inr hs \<longrightarrow> list_all2 resolved headers hs) \<and>
      (list_all (\<lambda>h. \<not> contains (snd h) session_placeholder) headers \<longrightarrow> es = [] \<and> r = Inr headers))"
proof (induction headers)
  case Nil
  then show ?case by (simp add: always_return)
next
  case (Cons h headers)
  obtain name v where h: "h = (name, v)" by fastforce
  show ?case
  proof (cases "contains v session_placeholder")
    case False
    then show ?thesis
      by (simp add: h, intro always_bind [OF Cons.IH] always_return)
        (auto simp: resolved_plain)
  next
    case True
    show ?thesis
      unfolding h session_header_resolver.simps
    proof (simp only: True if_False not_True_eq_False option.case, rule always_bind [OF source], goal_cases)
      case (1 a es)
      with True show ?case
        by (intro always_sum always_Let always_if always_return always_bind [OF Cons.IH])
          (auto simp: resolved_session)
    qed
  qed
qed

end

subsection \<open>The hooks are providers\<close>

definition gbrain_tool :: "sdk \<Rightarrow> string \<Rightarrow> op_node option \<Rightarrow> bool" where
  "gbrain_tool k base n \<longleftrightarrow>
    (\<exists>node v. n = Some node \<and> trim_space (node_id node) = ''tools-gbrain-cloud'' \<and>
       trim_space (node_kind node) = kind_tools k \<and>
       run_command (node_run node) = [] \<and> run_daemon (node_run node) \<and>
       trim_space (run_url (node_run node)) = ''https://api.op-agent.com/brain/mcp'' \<and>
       run_header (node_run node) = [(''Authorization'', v)] \<and>
       trim_space v = ''Bearer {openbrain_session}'' \<and>
       clean (uri_to_path k (trim_space (node_uri node))) = gbrain_manifest base)"

lemma single_header:
  "length hs = 1 \<and> trim_space (case map_of hs n of Some v \<Rightarrow> v | None \<Rightarrow> []) = w \<and> w \<noteq> [] \<longleftrightarrow>
    (\<exists>v. hs = [(n, v)] \<and> trim_space v = w \<and> w \<noteq> [])"
  by (cases hs) (auto split: if_splits)

lemma gbrain_node_error_None: "gbrain_node_error k base n = None \<longleftrightarrow> gbrain_tool k base n"
  using single_header [of "run_header (node_run (the n))" "''Authorization''" "''Bearer '' @ session_placeholder"]
  by (auto simp: gbrain_node_error_def gbrain_tool_def gbrain_cloud_node_id_def gbrain_cloud_url_def
      session_placeholder_def split: option.splits)

definition managed_server :: "sdk \<Rightarrow> string \<Rightarrow> op_node option \<Rightarrow> bool" where
  "managed_server k base n \<longleftrightarrow>
    (\<exists>node exe p port. n = Some node \<and> system_started k \<in> set (op_codes node) \<and>
       node_id node = ''agent-openbrain-server'' \<and> node_kind node = kind_agent k \<and>
       same_system_path (uri_to_path k (node_uri node)) (service_manifest base) \<and>
       same_system_path (node_cwd node) (service_root base) \<and> run_daemon (node_run node) \<and>
       run_command (node_run node) = [exe, ''--host'', ''127.0.0.1'', ''--port'', p] \<and>
       atoi (trim_space p) = Some port \<and> 1 \<le> port \<and> port \<le> 65535 \<and>
       same_system_path exe (service_executable base))"

lemma clean_managed_paths [simp]:
  "clean (gbrain_manifest base) = gbrain_manifest base"
  "clean (service_root base) = service_root base"
  "clean (service_manifest base) = service_manifest base"
  "clean (service_executable base) = service_executable base"
  by (simp_all add: gbrain_manifest_def service_root_def service_manifest_def service_executable_def
      path_join_def split: list.split)

lemma command_shape:
  "length c = 5 \<and> c ! 1 = x \<and> c ! 2 = y \<and> c ! 3 = z \<longleftrightarrow> (\<exists>a b. c = [a, x, y, z, b])"
  by (auto simp: numeral_eq_Suc length_Suc_conv)

lemma server_command_error_None:
  "server_command_error base run = None \<longleftrightarrow>
    run_daemon run \<and> (\<exists>exe p port. run_command run = [exe, ''--host'', ''127.0.0.1'', ''--port'', p] \<and>
      atoi (trim_space p) = Some port \<and> 1 \<le> port \<and> port \<le> 65535 \<and>
      same_system_path exe (service_executable base))"
  (is "?l = ?r")
proof -
  have "?l \<longleftrightarrow> run_daemon run \<and> (length (run_command run) = 5 \<and> run_command run ! 1 = ''--host'' \<and>
        run_command run ! 2 = ''127.0.0.1'' \<and> run_command run ! 3 = ''--port'') \<and>
      (\<exists>port. atoi (trim_space (run_command run ! 4)) = Some port \<and> 1 \<le> port \<and> port \<le> 65535 \<and>
        same_system_path (run_command run ! 0) (service_executable base))"
    by (auto simp: server_command_error_def split: option.splits)
  then show ?thesis unfolding command_shape by auto
qed

lemma managed_server_checks:
  "server_node_error k base n = None \<and> server_command_error base (node_run (the n)) = None \<longleftrightarrow>
    managed_server k base n"
  unfolding server_command_error_None
  by (cases n) (auto simp: server_node_error_def managed_server_def managed_server_agent_id_def)

lemma gbrain_policy:
  "always (gbrain_cloud_authorizer k h base n)
    (\<lambda>r es. prefix es (map Lstat [gbrain_manifest base]) \<and>
      (r = None \<longrightarrow> gbrain_tool k base n \<and> es = map Lstat [gbrain_manifest base]))"
  unfolding gbrain_cloud_authorizer_def
  by (intro always_option always_return always_map always_require_regular)
    (simp_all add: gbrain_node_error_None)

lemma server_policy:
  "always (managed_server_authorizer k h base n)
    (\<lambda>r es. prefix es (map Lstat [service_manifest base, service_executable base]) \<and>
      (r = None \<longrightarrow> managed_server k base n \<and>
        es = map Lstat [service_manifest base, service_executable base]))"
  unfolding managed_server_authorizer_def
  by (intro always_option always_return always_seq [OF always_require_regular] always_map
      always_require_regular)
    (auto simp: managed_server_checks [symmetric])

interpretation gbrain: node_policy "gbrain_cloud_authorizer k h base" "gbrain_tool k base"
    "[gbrain_manifest base]" for k :: sdk and h :: "'w host" and base
  by unfold_locales (rule gbrain_policy)

interpretation server: node_policy "managed_server_authorizer k h base" "managed_server k base"
    "[service_manifest base, service_executable base]" for k :: sdk and h :: "'w host" and base
  by unfold_locales (rule server_policy)

lemma session_from_Inr:
  "session_from raw = Inr t \<Longrightarrow> t \<noteq> [] \<and> trim_space t = t \<and>
    (\<exists>v rest. decoder_decode False session_auth_type raw = Some (v, rest) \<and>
      as_int (get_field v ''version'') = 2 \<and> t = trim_space (as_string (get_field v ''token'')))"
  by (auto simp: session_from_def Let_def split: option.splits if_splits)

lemma disk_session_outcome:
  "always (disk_session_token h base)
    (\<lambda>r es. prefix es [Lstat (auth_file base), ReadFile (auth_file base)] \<and>
      (\<forall>t. r = Inr t \<longrightarrow> es = [Lstat (auth_file base), ReadFile (auth_file base)] \<and>
        t \<noteq> [] \<and> trim_space t = t))"
  unfolding disk_session_token_def
  by (intro always_seq [OF always_require_regular] always_option always_return always_map always_host_do)
    (auto split: sum.splits dest: session_from_Inr)

interpretation disk: session_source "disk_session_token h base"
    "\<lambda>e. e \<in> {Lstat (auth_file base), ReadFile (auth_file base)}" for h :: "'w host" and base
  by unfold_locales
    (rule always_mono [OF disk_session_outcome], auto simp: list_all_iff dest!: set_mono_prefix)

subsection \<open>Exactly what is let through\<close>

lemma regular_file_error_None:
  "regular_file_error x r = None \<longleftrightarrow>
    (\<exists>info. r = Inr info \<and> is_regular info \<and> (x \<longrightarrow> and (mode_bits info) 0x49 \<noteq> 0))"
proof -
  have "and (and w 0x1FF) 0x49 = and w (0x49 :: 32 word)" for w
    by (simp add: and.assoc)
  then show ?thesis by (auto simp: regular_file_error_def split: sum.splits)
qed

lemma run_simps:
  "run_state (ret a) m = (a, m)"
  "run_state (State_Monad.bind p f) m = (case run_state p m of (a, m') \<Rightarrow> run_state (f a) m')"
  "run_state (interact g log) m =
    (case g (world m) of (a, w) \<Rightarrow> (a, \<lparr>world = w, events = events m @ log a\<rparr>))"
  by (simp_all add: State_Monad.return_def State_Monad.bind_def interact_def)

lemma run_require_regular:
  "run_state (require_regular_file h p x) m =
    (case host_lstat h p (world m) of (r, w) \<Rightarrow>
       (regular_file_error x r, \<lparr>world = w, events = events m @ [Lstat p]\<rparr>))"
  by (simp add: require_regular_file_def do_lstat_def run_simps split: prod.split)

text \<open>C29: The remote-node hook lets exactly one node through: the managed GBrain tool, with the one endpoint,
  a single authorization header that is the session placeholder and the manifest of the product
  directory, and only when that manifest is a regular file.\<close>

theorem gbrain_authorized_iff:
  "fst (run_state (gbrain_cloud_authorizer k h base n) m) = None \<longleftrightarrow>
    gbrain_tool k base n \<and>
    (\<exists>info. fst (host_lstat h (gbrain_manifest base) (world m)) = Inr info \<and> is_regular info)"
proof (cases "gbrain_node_error k base n")
  case None
  moreover from None have "gbrain_tool k base n" by (simp add: gbrain_node_error_None)
  ultimately show ?thesis
    by (auto simp: gbrain_cloud_authorizer_def run_require_regular run_simps regular_file_error_None
        split: prod.split)
qed (auto simp: gbrain_cloud_authorizer_def run_simps gbrain_node_error_None [symmetric])

text \<open>C27: The system-service hook lets exactly the managed server through: started by the reserved agent from
  the product directory, listening on the loopback address at a port from 1 to 65535, and only when
  its manifest is a regular file and after that its executable is one with an execute bit.\<close>

theorem managed_server_authorized_iff:
  "fst (run_state (managed_server_authorizer k h base n) m) = None \<longleftrightarrow>
    managed_server k base n \<and>
    (\<exists>info w info'. host_lstat h (service_manifest base) (world m) = (Inr info, w) \<and> is_regular info \<and>
       fst (host_lstat h (service_executable base) w) = Inr info' \<and> is_regular info' \<and>
       and (mode_bits info') 0x49 \<noteq> 0)"
proof (cases "server_node_error k base n")
  case None
  note node = this
  obtain r w where r: "host_lstat h (service_manifest base) (world m) = (r, w)" by fastforce
  show ?thesis
  proof (cases "regular_file_error False r")
    case None
    then have "\<exists>info. r = Inr info \<and> is_regular info" by (simp add: regular_file_error_None)
    with None node r show ?thesis
      by (cases "server_command_error base (node_run (the n))")
        (auto simp: managed_server_checks [symmetric] managed_server_authorizer_def run_require_regular
          run_simps regular_file_error_None [of True] split: prod.split)
  next
    case (Some e)
    with regular_file_error_None [of False r] have "\<not> (\<exists>info. r = Inr info \<and> is_regular info)" by simp
    with Some node r show ?thesis
      by (auto simp: managed_server_authorizer_def run_require_regular run_simps)
  qed
qed (auto simp: managed_server_authorizer_def run_simps managed_server_checks [symmetric])

subsection \<open>The base directory and what lies below it\<close>

lemma resolve_base_dir_Inr:
  assumes "resolve_base_dir h v = Inr base"
  shows "\<exists>x. is_abs x \<and> base = clean x \<and> is_abs base \<and> clean base = base \<and>
    (if trim_space v \<noteq> [] then x = trim_space v
     else if trim_space (env_base_dir h) \<noteq> [] then x = trim_space (env_base_dir h)
     else \<exists>home. home_dir h = Some home \<and> trim_space home \<noteq> [] \<and>
       x = path_join [home, ''.opagent'', ''openbrain''])"
  using assms
  by (auto simp: resolve_base_dir_def Let_def split: if_splits option.splits dest!: and_then_InrD)

lemma is_abs_nonempty: "is_abs s \<Longrightarrow> s \<noteq> []"
  by (auto simp: is_abs_def has_prefix_def)

lemma proper_names [simp]:
  "proper ''agents''" "proper ''opagent-server''" "proper ''.agent''" "proper ''bin''"
  "proper ''openbrain-server''" "proper ''AGENT.md''" "proper ''.opagent''" "proper ''openbrain''"
  by (simp_all add: proper_def)

lemma service_root_parts:
  "is_abs base \<Longrightarrow> components (service_root base) = components base @ [''agents'', ''opagent-server''] \<and>
    is_abs (service_root base)"
  by (simp add: service_root_def is_abs_nonempty components_path_join is_abs_path_join)

lemma service_executable_parts:
  assumes "is_abs base"
  shows "components (service_executable base) =
      components base @ [''agents'', ''opagent-server'', ''.agent'', ''bin'', ''openbrain-server'']"
    and "is_abs (service_executable base)"
    and "trim_space (service_executable base) = service_executable base"
proof -
  let ?cs = "components base @ [''agents'', ''opagent-server'', ''.agent'', ''bin'']"
  have e: "service_executable base = render True (?cs @ [''openbrain-server''])"
    using assms service_root_parts [OF assms]
    by (simp add: service_executable_def is_abs_nonempty path_join_proper)
  have f: "clean_form True (?cs @ [''openbrain-server''])"
    using assms clean_form_components [of base] by (simp add: clean_form_below)
  show "components (service_executable base) =
      components base @ [''agents'', ''opagent-server'', ''.agent'', ''bin'', ''openbrain-server'']"
    using components_render [OF f] by (simp add: e)
  show "is_abs (service_executable base)" using is_abs_render [OF f] by (simp add: e)
  have "plain_ends (slash # join [slash] ?cs @ slash # ''openbrain-server'')"
    by (simp add: plain_ends_def space_seqs_def)
  moreover have "render True (?cs @ [''openbrain-server'']) =
      slash # join [slash] ?cs @ slash # ''openbrain-server''"
    unfolding render_def by (subst join_snoc) simp_all
  ultimately show "trim_space (service_executable base) = service_executable base"
    using e trim_space_plain by metis
qed

text \<open>C31: The product directory is absolute and clean whatever it comes from: the argument, else the
  environment, else the home directory, in this order and each only when the ones before are blank.\<close>

theorem resolve_base_dir_outcome:
  assumes "resolve_base_dir h v = Inr base"
  shows "is_abs base \<and> clean base = base \<and>
    (if trim_space v \<noteq> [] then base = clean (trim_space v)
     else if trim_space (env_base_dir h) \<noteq> [] then base = clean (trim_space (env_base_dir h))
     else \<exists>home. home_dir h = Some home \<and> is_abs home \<and>
       components base = components home @ [''.opagent'', ''openbrain''])"
proof -
  from resolve_base_dir_Inr [OF assms] obtain x where x: "is_abs x" "base = clean x"
    and abs: "is_abs base" "clean base = base"
    and src: "if trim_space v \<noteq> [] then x = trim_space v
      else if trim_space (env_base_dir h) \<noteq> [] then x = trim_space (env_base_dir h)
      else \<exists>home. home_dir h = Some home \<and> trim_space home \<noteq> [] \<and>
        x = path_join [home, ''.opagent'', ''openbrain'']" by blast
  have "\<exists>home. home_dir h = Some home \<and> is_abs home \<and>
      components base = components home @ [''.opagent'', ''openbrain'']"
    if "trim_space v = []" "trim_space (env_base_dir h) = []"
  proof -
    from src that obtain home where home: "home_dir h = Some home" "trim_space home \<noteq> []"
      and xh: "x = path_join [home, ''.opagent'', ''openbrain'']" by auto
    from home have n: "home \<noteq> []" by auto
    have "is_abs x = is_abs home" unfolding xh using n by (intro is_abs_path_join) simp_all
    moreover have "components x = components home @ [''.opagent'', ''openbrain'']"
      unfolding xh using n by (intro components_path_join) simp_all
    ultimately show ?thesis using home x by simp
  qed
  with x(2) abs src show ?thesis by (simp split: if_splits)
qed


subsection \<open>Sessions\<close>

lemma no_session_no_secret:
  "always (session_header_resolver None headers)
    (\<lambda>r es. es = [] \<and> (\<forall>hs. r = Inr hs \<longrightarrow>
      hs = headers \<and> list_all (\<lambda>h. \<not> contains (snd h) session_placeholder) headers))"
proof (induction headers)
  case Nil
  then show ?case by (simp add: always_return)
next
  case (Cons h headers)
  obtain name v where h: "h = (name, v)" by fastforce
  show ?case
    unfolding h session_header_resolver.simps option.case
    by (intro always_if always_return always_bind [OF Cons.IH]) auto
qed


subsection \<open>Witnesses\<close>

text \<open>A host without a world of its own: an \<open>auth.json\<close> and regular executable files everywhere.\<close>

definition example_host :: "unit host" where
  "example_host =
    \<lparr>host_lstat = (\<lambda>p w. (Inr \<lparr>is_regular = True, mode_bits = 0x1ED\<rparr>, w)),
     host_read = (\<lambda>p w. (Inr [], w)), host_send = (\<lambda>u hs b w. (Inl ''offline'', w)),
     host_now = (\<lambda>w. (''now'', w)), host_name = ''h'', process_id = 7, env_base_dir = [],
     home_dir = Some ''/home/u'', json_fault = (\<lambda>s. []), url_fault = (\<lambda>s. [])\<rparr>"

definition example_sdk :: sdk where
  "example_sdk = \<lparr>uri_to_path = drop 7, kind_tools = ''tools'', kind_agent = ''agent'',
     system_started = ''system/started''\<rparr>"

definition example_server :: op_node where
  "example_server =
    \<lparr>node_id = ''agent-openbrain-server'', node_kind = ''agent'', op_codes = [''system/started''],
     node_uri = ''file:///b/agents/opagent-server/.agent/AGENT.md'',
     node_cwd = ''/b/agents/opagent-server'',
     node_run = \<lparr>run_command = [''/b/agents/opagent-server/.agent/bin/openbrain-server'', ''--host'',
         ''127.0.0.1'', ''--port'', ''80''], run_daemon = True, run_url = [], run_header = []\<rparr>\<rparr>"

lemma example_server_managed: "managed_server example_sdk ''/b'' (Some example_server)"
proof -
  have "atoi (trim_space ''80'') = Some 80" by code_simp
  moreover have "same_system_path ''/b/agents/opagent-server/.agent/bin/openbrain-server'' (service_executable ''/b'')"
    by code_simp
  moreover have "same_system_path (drop 7 ''file:///b/agents/opagent-server/.agent/AGENT.md'') (service_manifest ''/b'')"
    by code_simp
  moreover have "same_system_path ''/b/agents/opagent-server'' (service_root ''/b'')" by code_simp
  ultimately show ?thesis
    by (simp add: managed_server_def example_server_def example_sdk_def del: drop_Suc_Cons)
qed

lemma resolve_example: "resolve_base_dir example_host ''/b/'' = Inr ''/b''"
  by code_simp

lemma resolve_base_dir_outcome_witness: "is_abs ''/b'' \<and> clean (trim_space ''/b/'') = ''/b''"
proof -
  have n: "trim_space ''/b/'' \<noteq> []" by code_simp
  note w = resolve_base_dir_outcome [OF resolve_example, unfolded if_P [OF n]]
  then have "''/b'' = clean (trim_space ''/b/'')" by blast
  with conjunct1 [OF w] show ?thesis by (rule conjI [OF _ sym])
qed



end
