(* ===== verification/Guardian_Props.thy ===== *)
theory Guardian_Props
  imports Guardian OpAgent_Props "HOL-Library.While_Combinator"
begin

section \<open>What leaves the machine for a Guardian review, and what is believed of the answer\<close>

text \<open>
  The cut of a text keeps it valid UTF-8 and within its limit; the request is made of safe names,
  clean domains and path labels; the review talks to one gateway, over HTTPS or to this host; and an
  answer is passed on only when it meets the contract.
\<close>

subsection \<open>White space and UTF-8\<close>

lemma strip_front_keeps:
  assumes "P s" and "\<And>w t. w \<in> set ws \<Longrightarrow> P (w @ t) \<Longrightarrow> P t"
  shows "P (strip_front ws s)"
  using assms
proof (induction ws s rule: strip_front.induct)
  case (1 ws s)
  show ?case
  proof (cases "List.find (\<lambda>w. w \<noteq> [] \<and> prefix w s) ws")
    case None
    with "1.prems"(1) show ?thesis by (simp add: strip_front.simps [of ws s])
  next
    case (Some w)
    then have "w \<in> set ws" and w: "s = w @ drop (length w) s"
      by (auto dest: find_Some_mem simp: prefix_iff_drop)
    with "1.prems" have "P (drop (length w) s)" by metis
    with "1.IH" Some "1.prems"(2) show ?thesis by (simp add: strip_front.simps [of ws s])
  qed
qed

lemma valid_utf8_append:
  "rune_boundary u \<Longrightarrow> valid_utf8 (s @ u) \<longleftrightarrow> valid_utf8 s \<and> valid_utf8 u"
proof (induction s rule: valid_utf8.induct)
  case (2 c cs)
  have d: "rune_at (c # cs @ u) = rune_at (c # cs)"
    using rune_at_append [OF "2.prems", of "c # cs"] by simp
  show ?case
  proof (cases "rune_at (c # cs)")
    case None
    then show ?thesis using d by simp
  next
    case (Some rw)
    obtain r w where rw: "rw = (r, w)" by fastforce
    have "drop w (c # cs @ u) = drop w (c # cs) @ u"
      using rune_at_width [of "c # cs" r w] Some rw drop_append [of w "c # cs" u] by simp
    with 2 Some rw d show ?thesis by simp
  qed
qed simp

lemma space_seq_rune:
  "w \<in> set space_seqs \<Longrightarrow> rune_boundary w \<and> rune_boundary (w @ t) \<and> (\<exists>r. rune_at (w @ t) = Some (r, length w))"
  by (auto simp: space_seqs_def rune_boundary_def cont_byte_def rune_at.simps)

lemma valid_utf8_after_space: "w \<in> set space_seqs \<Longrightarrow> valid_utf8 (w @ t) \<Longrightarrow> valid_utf8 t"
  using space_seq_rune [of w t] by (cases w) (auto simp: space_seqs_def)

lemma valid_utf8_trim_space:
  assumes "valid_utf8 s" shows "valid_utf8 (trim_space s)"
proof -
  have "valid_utf8 (strip_front space_seqs s)"
    using assms valid_utf8_after_space by (rule strip_front_keeps [where P = valid_utf8])
  then have "valid_utf8 (rev (strip_front (map rev space_seqs) (rev (strip_front space_seqs s))))"
    using space_seq_rune valid_utf8_append
    by (intro strip_front_keeps [where P = "\<lambda>s. valid_utf8 (rev s)"]) auto
  then show ?thesis by (simp add: trim_space_def strip_back_def)
qed

subsection \<open>Truncation\<close>

lemma drop_partial_prefix: "prefix (drop_partial s) s"
proof (induction s rule: drop_partial.induct)
  case (1 s)
  show ?case
  proof (cases "\<not> valid_utf8 s \<and> s \<noteq> []")
    case True
    with 1 have "prefix (drop_partial (butlast s)) s"
      using prefixeq_butlast prefix_order.trans by blast
    with True show ?thesis by (simp add: drop_partial.simps [of s])
  next
    case False
    then show ?thesis by (subst drop_partial.simps) auto
  qed
qed

lemma drop_partial_valid: "valid_utf8 (drop_partial s)"
proof (induction s rule: drop_partial.induct)
  case (1 s)
  then show ?case by (cases "\<not> valid_utf8 s \<and> s \<noteq> []") (auto simp: drop_partial.simps [of s])
qed

lemma sublist_prefix_trans: "prefix a b \<Longrightarrow> sublist b c \<Longrightarrow> sublist a c"
  using prefix_imp_sublist sublist_order.order.trans by blast

lemma truncate_sublist: "sublist (truncate_text v n) v"
proof -
  let ?t = "trim_space v"
  have "prefix (drop_partial (take (nat n) ?t)) ?t"
    using drop_partial_prefix take_is_prefix prefix_order.trans by blast
  then have "sublist (trim_space (drop_partial (take (nat n) ?t))) v"
    using trim_space_sublist sublist_prefix_trans sublist_order.order.trans by blast
  then show ?thesis by (simp add: truncate_text_def Let_def trim_space_sublist)
qed

lemma length_truncate: "0 < n \<Longrightarrow> int (length (truncate_text v n)) \<le> n"
proof -
  assume n: "0 < n"
  let ?p = "drop_partial (take (nat n) (trim_space v))"
  have "length (trim_space ?p) \<le> length ?p" by (rule length_trim_space_le)
  also have "\<dots> \<le> length (take (nat n) (trim_space v))"
    using drop_partial_prefix by (rule prefix_length_le)
  finally show ?thesis using n by (auto simp: truncate_text_def Let_def)
qed

lemma truncate_valid: "valid_utf8 v \<Longrightarrow> valid_utf8 (truncate_text v n)"
  by (simp add: truncate_text_def Let_def valid_utf8_trim_space drop_partial_valid)

lemma truncate_short: "int (length (trim_space v)) \<le> n \<Longrightarrow> truncate_text v n = trim_space v"
  by (simp add: truncate_text_def)

lemma trim_space_truncate [simp]: "trim_space (truncate_text v n) = truncate_text v n"
  by (simp add: truncate_text_def Let_def)

lemma truncate_cut_valid: "0 < n \<Longrightarrow> n < int (length (trim_space v)) \<Longrightarrow> valid_utf8 (truncate_text v n)"
  by (simp add: truncate_text_def valid_utf8_trim_space drop_partial_valid)


subsection \<open>Names\<close>

definition safe_or_empty :: "string \<Rightarrow> bool" where
  "safe_or_empty s \<longleftrightarrow> s = [] \<or> safe_name s"

lemma safe_sanitize_name [simp]: "safe_or_empty (sanitize_name s)"
  by (simp add: sanitize_name_def safe_or_empty_def Let_def)

lemma sanitize_name_trimmed: "trim_space (sanitize_name s) = sanitize_name s"
  by (simp add: sanitize_name_def Let_def)

lemma truncate_sanitize_name [simp]: "truncate_text (sanitize_name s) 192 = sanitize_name s"
proof -
  have "length (sanitize_name s) \<le> 192" by (simp add: sanitize_name_def safe_name_def Let_def)
  then have "int (length (trim_space (sanitize_name s))) \<le> 192" by (simp add: sanitize_name_trimmed)
  from truncate_short [OF this] show ?thesis by (simp add: sanitize_name_trimmed)
qed

lemma collect_names_safe:
  assumes "length acc < maximum" and "distinct acc" and "set acc = set seen" and "list_all safe_name acc"
  shows "distinct (collect_names maximum seen acc vs) \<and> list_all safe_name (collect_names maximum seen acc vs) \<and>
    length (collect_names maximum seen acc vs) \<le> maximum"
  using assms
proof (induction maximum seen acc vs rule: collect_names.induct)
  case (2 maximum seen acc raw vs)
  let ?v = "sanitize_name raw"
  show ?case
  proof (cases "?v = [] \<or> ?v \<in> set seen")
    case True
    with 2 show ?thesis by (auto simp: Let_def)
  next
    case False
    moreover from False have "safe_name ?v" using safe_sanitize_name [of raw] by (simp add: safe_or_empty_def)
    ultimately show ?thesis using 2(2) [OF refl False refl] 2(3-) by (auto simp: Let_def list_all_iff)
  qed
qed (auto simp: list_all_iff)

lemma sanitize_names_safe:
  assumes "0 < n"
  shows "sorted (sanitize_names vs n) \<and> distinct (sanitize_names vs n) \<and> length (sanitize_names vs n) \<le> n \<and>
    list_all safe_name (sanitize_names vs n)"
  using collect_names_safe [of "[]" n "[]" vs] assms by (simp add: sanitize_names_def list_all_iff)

subsection \<open>Domains and paths\<close>

lemma sanitize_domain_clean:
  "length (sanitize_domain s) \<le> 253 \<and> \<not> contains_any (sanitize_domain s) (CHR '' '' # slash # backslash # ''@'')"
proof -
  have "length (truncate_text v 253) \<le> 253 \<and> \<not> contains_any (truncate_text v 253) bad"
    if "\<not> contains_any v bad" for v bad
    using length_truncate [of 253 v] set_mono_sublist [OF truncate_sublist [of v 253]] that
    by (auto simp: contains_any_def list_ex_iff)
  note cut = this
  obtain h where "sanitize_domain s =
      (case h of None \<Rightarrow> [] | Some v \<Rightarrow>
         if trim_byte (CHR ''.'') v = [] \<or> contains_any (trim_byte (CHR ''.'') v) (CHR '' '' # slash # backslash # ''@'')
         then [] else truncate_text (trim_byte (CHR ''.'') v) 253)"
    unfolding sanitize_domain_def Let_def by blast
  then consider "sanitize_domain s = []"
    | v where "sanitize_domain s = truncate_text v 253" "\<not> contains_any v (CHR '' '' # slash # backslash # ''@'')"
    by (cases h) (auto split: if_splits)
  then show ?thesis
  proof cases
    case 2
    then show ?thesis using cut [OF 2(2)] by simp
  qed (simp add: contains_any_def)
qed

definition path_labels :: "string set" where
  "path_labels = {''path:unknown'', ''sensitive:ssh'', ''sensitive:user_credentials_or_config'',
    ''outside_workspace:user_home'', ''outside_workspace:host_absolute'', ''outside_workspace:relative''}"

lemma rel_inside_Some: "rel_inside base p = Some rel \<longleftrightarrow>
    path_rel base p = Some rel \<and> rel \<noteq> dotdot \<and> \<not> has_prefix rel (dotdot @ [slash])"
  by (auto simp: rel_inside_def split: option.splits)

lemma classify_path_label:
  "classify_path home ws p \<in> path_labels \<or>
    (\<exists>rel. classify_path home ws p = ''workspace:'' @ rel \<and>
      rel_inside (clean (trim_space ws)) (clean (trim_space p)) = Some rel)"
  by (auto simp: classify_path_def classify_home_def path_labels_def Let_def split: option.splits if_splits)

definition private_resource :: "review_resource \<Rightarrow> bool" where
  "private_resource x \<longleftrightarrow>
    (resource_kind x \<in> {''read_path'', ''write_path''} \<and>
       (resource_value x \<in> path_labels \<or>
        (\<exists>rel. resource_value x = ''workspace:'' @ rel \<and> rel \<noteq> dotdot \<and>
           \<not> has_prefix rel (dotdot @ [slash])))) \<or>
    (resource_kind x = ''network_domain'' \<and> resource_value x \<noteq> [] \<and> length (resource_value x) \<le> 253 \<and>
       \<not> contains_any (resource_value x) (CHR '' '' # slash # backslash # ''@'')) \<or>
    (resource_kind x = ''sensitive_right'' \<and> safe_name (resource_value x))"

lemma private_request_resources: "list_all private_resource (request_resources home r)"
proof -
  have "private_resource (Resource k (classify_path home ws p))" if "k \<in> {''read_path'', ''write_path''}" for k ws p
    using classify_path_label [of home ws p] that
    unfolding private_resource_def rel_inside_Some review_resource.sel by blast
  moreover have "private_resource (Resource ''network_domain'' (sanitize_domain d))" if "sanitize_domain d \<noteq> []" for d
    using sanitize_domain_clean [of d] that by (simp add: private_resource_def)
  moreover have "private_resource (Resource ''sensitive_right'' (sanitize_name d))" if "sanitize_name d \<noteq> []" for d
    using safe_sanitize_name [of d] that by (simp add: private_resource_def safe_or_empty_def)
  ultimately show ?thesis by (auto simp: request_resources_def list_all_iff)
qed

lemma length_redact: "0 < n \<Longrightarrow> int (length (redact s n)) \<le> n"
  by (simp add: redact_def Let_def length_truncate)

subsection \<open>Properties\<close>

text \<open>C35: A cut text is a part of the text, trimmed, no longer than the limit when there is one, and valid UTF-8
  whenever the text was or something was cut off: no half of a character is left at its end.\<close>

theorem truncate_bounds:
  "sublist (truncate_text v n) v \<and> trim_space (truncate_text v n) = truncate_text v n \<and>
   (0 < n \<longrightarrow> int (length (truncate_text v n)) \<le> n) \<and>
   (valid_utf8 v \<or> 0 < n \<and> n < int (length (trim_space v)) \<longrightarrow> valid_utf8 (truncate_text v n)) \<and>
   (int (length (trim_space v)) \<le> n \<longrightarrow> truncate_text v n = trim_space v)"
  using truncate_sublist length_truncate truncate_valid truncate_cut_valid truncate_short by auto

lemma truncate_bounds_witness:
  "int (length (truncate_text ''abcdef'' 4)) \<le> 4 \<and> valid_utf8 (truncate_text ''abcdef'' 4)"
proof -
  have "valid_utf8 ''abcdef''" by code_simp
  with truncate_bounds [of "''abcdef''" 4] show ?thesis by simp
qed

text \<open>The loop of \<open>truncate\<close> as it is written, and what it leaves: the longest prefix that is UTF-8.\<close>

lemma truncate_loop: "while_option (\<lambda>v. \<not> valid_utf8 v \<and> v \<noteq> []) butlast s = Some (drop_partial s)"
proof (induction s rule: drop_partial.induct)
  case (1 s)
  then show ?case
    by (cases "\<not> valid_utf8 s \<and> s \<noteq> []") (auto simp: while_option_unfold [of _ _ s] drop_partial.simps [of s])
qed

lemma drop_partial_longest:
  "prefix p s \<Longrightarrow> valid_utf8 p \<Longrightarrow> prefix p (drop_partial s)"
proof (induction s rule: drop_partial.induct)
  case (1 s)
  show ?case
  proof (cases "\<not> valid_utf8 s \<and> s \<noteq> []")
    case True
    with "1.prems" have "p \<noteq> s" by auto
    with "1.prems"(1) True have "prefix p (butlast s)"
      by (cases s rule: rev_cases) (auto simp: prefix_snoc)
    with 1 True show ?thesis by (simp add: drop_partial.simps [of s])
  next
    case False
    with "1.prems" show ?thesis by (subst drop_partial.simps) auto
  qed
qed

text \<open>A cut through a valid text leaves at most three bytes of an unfinished character.\<close>

lemma valid_cut:
  "valid_utf8 v \<Longrightarrow> \<exists>p. prefix p (take n v) \<and> valid_utf8 p \<and> length (take n v) \<le> length p + 3"
proof (induction v arbitrary: n rule: valid_utf8.induct)
  case (2 c cs)
  then obtain r w where rw: "rune_at (c # cs) = Some (r, w)" and v: "valid_utf8 (drop w (c # cs))"
    by (auto split: option.splits)
  have w: "1 \<le> w" "w \<le> 4" "w \<le> length (c # cs)" using rune_at_width [OF rw] by auto
  show ?case
  proof (cases "w \<le> n")
    case True
    from "2.IH" [OF rw refl v, of "n - w"] obtain p where p: "prefix p (take (n - w) (drop w (c # cs)))" "valid_utf8 p"
      "length (take (n - w) (drop w (c # cs))) \<le> length p + 3" by blast
    let ?h = "take w (c # cs)"
    have split: "take n (c # cs) = ?h @ take (n - w) (drop w (c # cs))"
      using True take_add [of w "n - w" "c # cs"] by simp
    obtain h where h: "?h = c # h" using w(1) by (cases w) auto
    have l: "length ?h = w" using w by simp
    have "rune_at (?h @ p) = Some (r, w)" by (rule rune_at_take [OF rw])
    moreover have "drop w (?h @ p) = p" using l by simp
    ultimately have "valid_utf8 (?h @ p)" using p(2) unfolding h by simp
    with p split l show ?thesis by (intro exI [of _ "?h @ p"]) simp
  next
    case False
    with w show ?thesis by (intro exI [of _ "[]"]) simp
  qed
qed simp

lemma drop_partial_cut: "valid_utf8 v \<Longrightarrow> length (take n v) \<le> length (drop_partial (take n v)) + 3"
  using valid_cut [of v n] drop_partial_longest prefix_length_le
  by (meson add_le_mono1 le_trans)

lemma drop_partial_malformed:
  assumes "rune_at s = None"
  shows "drop_partial s = []"
proof (rule ccontr)
  assume n: "drop_partial s \<noteq> []"
  obtain t where t: "s = drop_partial s @ t" using drop_partial_prefix by (rule prefixE)
  obtain r w where "rune_at (drop_partial s) = Some (r, w)"
    using drop_partial_valid [of s] n by (cases "drop_partial s") (auto split: option.splits)
  from rune_at_take [OF this, of "drop w (drop_partial s) @ t"]
  have "rune_at (drop_partial s @ t) = Some (r, w)" by (simp flip: append_assoc)
  with t assms show False by simp
qed

text \<open>C36: The loop of \<open>truncate\<close> that drops bytes until the rest is UTF-8 ends, on every input, with the
  longest prefix that is UTF-8. On a text that was UTF-8 before it was cut it ends after at most three
  rounds; on any other it goes back to the first malformed byte, so a text that begins with one is lost.\<close>

theorem truncate_loop_ends:
  "while_option (\<lambda>v. \<not> valid_utf8 v \<and> v \<noteq> []) butlast s = Some (drop_partial s) \<and>
   prefix (drop_partial s) s \<and> valid_utf8 (drop_partial s) \<and>
   (\<forall>p. prefix p s \<and> valid_utf8 p \<longrightarrow> prefix p (drop_partial s)) \<and>
   (\<forall>v n. valid_utf8 v \<and> s = take n v \<longrightarrow> length s \<le> length (drop_partial s) + 3) \<and>
   (rune_at s = None \<longrightarrow> drop_partial s = [])"
  using truncate_loop drop_partial_prefix drop_partial_valid drop_partial_longest drop_partial_cut
    drop_partial_malformed by blast

lemma truncate_loop_ends_witness:
  "drop_partial (CHR 0xFF # ''rm'') = [] \<and>
   length (take 3 ''abcd'') \<le> length (drop_partial (take 3 ''abcd'')) + 3"
proof -
  have "rune_at (CHR 0xFF # ''rm'') = None" "valid_utf8 ''abcd''" by code_simp+
  then show ?thesis
    using truncate_loop_ends [of "CHR 0xFF # ''rm''"] truncate_loop_ends [of "take 3 ''abcd''"] by blast
qed


subsection \<open>The gateway and the traffic\<close>

text \<open>An HTTPS URL, or a plain HTTP URL of this host, with a host and nothing but a path after it.\<close>

definition safe_gateway :: "string \<Rightarrow> bool" where
  "safe_gateway s \<longleftrightarrow>
    (\<exists>u. url_parse s = Some u \<and> host u \<noteq> [] \<and> user u = None \<and> raw_query u = [] \<and> fragment u = [] \<and>
       (scheme u = ''https'' \<or>
        scheme u = ''http'' \<and> (hostname u = ''localhost'' \<or>
          (\<exists>ip. parse_ip (hostname u) = Some ip \<and> is_loopback ip))))"

interpretation gateway_check: checked "gateway_error" "\<lambda>gw. safe_gateway (trim_space gw)"
    "\<lambda>e. e \<in> {''OpenBrain AI Gateway URL is invalid'', ''OpenBrain AI Gateway URL must use HTTPS''}"
proof
  fix gw
  show "gateway_error gw = None \<longleftrightarrow> safe_gateway (trim_space gw)"
  proof (cases "url_parse (trim_space gw)")
    case (Some u)
    then show ?thesis
      by (cases "user u"; cases "parse_ip (hostname u)") (auto simp: gateway_error_def safe_gateway_def)
  qed (simp add: gateway_error_def safe_gateway_def)
qed (auto simp: gateway_error_def split: option.splits if_splits)

lemma guardian_auth_from_Inr:
  "guardian_auth_from raw = Inr a \<Longrightarrow>
    \<exists>gw. safe_gateway (trim_space gw) \<and> guardian_gateway a = trim_right_byte slash (trim_space gw) \<and>
      guardian_token a \<noteq> []"
  by (auto simp: guardian_auth_from_def Let_def split: option.splits if_splits
      simp flip: gateway_check.check_None_iff) blast

lemma always_load_guardian_auth:
  "always (load_guardian_auth h p)
    (\<lambda>r es. (es = [Lstat p] \<or> es = [Lstat p, ReadFile p]) \<and>
      (\<forall>a. r = Inr a \<longrightarrow> es = [Lstat p, ReadFile p] \<and> guardian_token a \<noteq> [] \<and>
        (\<exists>gw. safe_gateway (trim_space gw) \<and> guardian_gateway a = trim_right_byte slash (trim_space gw))))"
  unfolding load_guardian_auth_def
  by (intro always_seq [OF always_host_do(1)] always_sum always_return always_if always_map always_host_do)
    (auto split: sum.splits dest: guardian_auth_from_Inr)

text \<open>The body is one JSON object, names the request, and holds the decision and the risk of the result.\<close>

definition answered :: "string \<Rightarrow> review_result \<Rightarrow> string \<Rightarrow> bool" where
  "answered rid x body =
    (case decoder_decode True review_response_type (take (Suc maximum_response_bytes) body) of
       None \<Rightarrow> False
     | Some (v, rest) \<Rightarrow> decoder_at_eof rest \<and> trim_space (as_string (get_field v ''requestID'')) = rid \<and>
         as_string (get_field v ''decision'') = result_decision x \<and>
         as_string (get_field v ''risk'') = result_risk x \<and> trim_space (as_string (get_field v ''reason'')) \<noteq> [])"

definition review_contract :: "guardian_words \<Rightarrow> string \<Rightarrow> review_result \<Rightarrow> bool" where
  "review_contract g rid x \<longleftrightarrow> result_request_id x = rid \<and>
    result_decision x \<in> {approve_once g, require_user g, deny g} \<and>
    result_risk x \<in> {risk_low g, risk_medium g, risk_high g, risk_critical g} \<and>
    length (result_reason x) \<le> 512 \<and> length (result_review_id x) \<le> 192 \<and>
    length (result_policy_version x) \<le> 192 \<and> (\<exists>body. answered rid x body)"

lemma review_answer_contract: "review_answer g rid body = Inr x \<Longrightarrow> review_contract g rid x"
proof -
  assume a: "review_answer g rid body = Inr x"
  have cut: "length (truncate_text s 512) \<le> 512" "length (truncate_text s 192) \<le> 192" for s
    using length_truncate [of 512 s] length_truncate [of 192 s] by linarith+
  from a have "answered rid x body"
    by (auto simp: review_answer_def answered_def Let_def split: option.splits if_splits)
  with a show ?thesis
    by (auto simp: review_answer_def review_contract_def valid_decision_def valid_risk_def Let_def cut
        split: option.splits if_splits)
qed

lemma always_send_review:
  "always (send_review h g a q)
    (\<lambda>r es. (es = [] \<or> length (review_json q) \<le> maximum_request_bytes \<and>
        es = [HttpSend (guardian_endpoint (guardian_gateway a))
          (review_headers (guardian_token a) (review_request_id q)) (review_json q)]) \<and>
      (\<forall>x. r = Inr x \<longrightarrow> es \<noteq> [] \<and> review_contract g (review_request_id q) x))"
  unfolding send_review_def
  by (intro always_Let always_if always_return always_map always_host_do)
    (auto split: sum.splits if_splits dest: review_answer_contract)

definition review_auth_file :: "string \<Rightarrow> string" where
  "review_auth_file base = path_join [base, ''configs'', ''user'', ''auth.json'']"

lemma always_review:
  "always (review h g client request)
    (\<lambda>r es. (es = [] \<or>
        (\<exists>base. client = Some base \<and> trim_space base \<noteq> [] \<and>
          (es \<in> {[Lstat (review_auth_file base)], [Lstat (review_auth_file base), ReadFile (review_auth_file base)]} \<or>
           (\<exists>gw tok. safe_gateway (trim_space gw) \<and> tok \<noteq> [] \<and>
              length (review_json (sanitize_request (home_or_empty h) request)) \<le> maximum_request_bytes \<and>
              es = [Lstat (review_auth_file base), ReadFile (review_auth_file base),
                HttpSend (guardian_endpoint (trim_right_byte slash (trim_space gw)))
                  (review_headers tok (review_request_id (sanitize_request (home_or_empty h) request)))
                  (review_json (sanitize_request (home_or_empty h) request))])))) \<and>
      (\<forall>x. r = Inr x \<longrightarrow> length es = 3 \<and>
        review_contract g (review_request_id (sanitize_request (home_or_empty h) request)) x))"
  unfolding review_def review_auth_file_def
proof (intro always_option always_if always_return, goal_cases)
  case (3 base)
  show ?case
  proof (rule always_bind [OF always_load_guardian_auth], rule always_sum, goal_cases)
    case (1 a es e)
    with 3 show ?case by (intro always_return) auto
  next
    case (2 a es auth)
    then obtain gw where gw: "safe_gateway (trim_space gw)" "guardian_gateway auth = trim_right_byte slash (trim_space gw)"
      and tok: "guardian_token auth \<noteq> []" and es: "es = [Lstat (path_join [base, ''configs'', ''user'', ''auth.json'']),
        ReadFile (path_join [base, ''configs'', ''user'', ''auth.json''])]" by auto
    show ?case
      by (rule always_mono [OF always_send_review]) (use 3 gw tok es in fastforce)
  qed
qed auto



subsection \<open>A review from end to end\<close>

lemma case_some_pair:
  "(case x of None \<Rightarrow> False | Some (v, r) \<Rightarrow> P v r) \<longleftrightarrow> (\<exists>v r. x = Some (v, r) \<and> P v r)"
  by (auto split: option.splits)

definition example_words :: guardian_words where
  "example_words = \<lparr>approve_once = ''approve_once'', require_user = ''require_user'', deny = ''deny'',
     risk_low = ''low'', risk_medium = ''medium'', risk_high = ''high'', risk_critical = ''critical''\<rparr>"

definition example_request :: approval_request where
  "example_request =
    \<lparr>request_id0 = ''r1'', tool_name0 = ''sh'', command_summary0 = [], reason0 = [], profile_id0 = ''p'',
     policy_version0 = 1, policy_digest0 = ''d'', risk_tags0 = [], read_paths = [], write_paths = [],
     network_domains = [], sensitive_rights = [], thread_grants0 = -1, agent_id0 = [],
     parent_agent_id0 = [], request_cwd = ''/w''\<rparr>"

definition example_login :: string where
  "example_login = json_object [(''version'', ''2''), (''aiGateway'', json_string ''https://h''),
     (''token'', json_string ''t'')]"

definition example_answer :: string where
  "example_answer = json_object (map (\<lambda>(n, v). (n, json_string v))
     [(''requestID'', ''r1''), (''decision'', ''deny''), (''risk'', ''low''), (''reason'', ''no'')])"

definition guardian_host :: "unit host" where
  "guardian_host = example_host\<lparr>host_read := \<lambda>p w. (Inr example_login, w),
     host_send := \<lambda>u hs b w. (Inr \<lparr>status_code = 200, status_line = [], response_body = example_answer\<rparr>, w)\<rparr>"

lemma example_login_read:
  "guardian_auth_from example_login = Inr \<lparr>guardian_gateway = ''https://h'', guardian_token = ''t''\<rparr>"
proof -
  have d: "case decoder_decode False guardian_auth_type example_login of
      None \<Rightarrow> False
    | Some (v, rest) \<Rightarrow> as_int (get_field v ''version'') = 2 \<and>
        as_string (get_field v ''aiGateway'') = ''https://h'' \<and> as_string (get_field v ''token'') = ''t''"
    by code_simp
  have u: "url_parse ''https://h'' = Some (empty_url\<lparr>scheme := ''https'', user := None, host := ''h'', url_path := []\<rparr>)"
    by (rule url_parse_https [where authority = "''h''"]) code_simp+
  have t: "trim_space ''https://h'' = ''https://h''" "trim_space ''t'' = ''t''"
    "trim_right_byte slash ''https://h'' = ''https://h''" by code_simp+
  have "gateway_error ''https://h'' = None" by (simp add: gateway_error_def t u empty_url_def)
  with d t show ?thesis by (auto simp: guardian_auth_from_def Let_def split: option.splits)
qed

lemma example_answer_read:
  "review_answer example_words ''r1'' example_answer =
    Inr \<lparr>result_request_id = ''r1'', result_decision = ''deny'', result_risk = ''low'', result_reason = ''no'',
      result_review_id = [], result_policy_version = []\<rparr>"
proof -
  have "length example_answer \<le> 100" by code_simp
  then have cut: "take (Suc maximum_response_bytes) example_answer = example_answer"
    by (simp add: maximum_response_bytes_def)
  have d: "case decoder_decode True review_response_type example_answer of
      None \<Rightarrow> False
    | Some (v, rest) \<Rightarrow> decoder_at_eof rest \<and> as_string (get_field v ''requestID'') = ''r1'' \<and>
        as_string (get_field v ''decision'') = ''deny'' \<and> as_string (get_field v ''risk'') = ''low'' \<and>
        as_string (get_field v ''reason'') = ''no'' \<and> as_string (get_field v ''reviewID'') = [] \<and>
        as_string (get_field v ''policyVersion'') = []"
    by code_simp
  have t: "trim_space ''r1'' = ''r1''" "trim_space ''no'' = ''no''" by code_simp+
  from d [unfolded case_some_pair] obtain v rest where "decoder_decode True review_response_type example_answer = Some (v, rest)"
    "decoder_at_eof rest" "as_string (get_field v ''requestID'') = ''r1''"
    "as_string (get_field v ''decision'') = ''deny''" "as_string (get_field v ''risk'') = ''low''"
    "as_string (get_field v ''reason'') = ''no''" "as_string (get_field v ''reviewID'') = []"
    "as_string (get_field v ''policyVersion'') = []"
    by blast
  then show ?thesis
    by (simp add: review_answer_def cut t valid_decision_def valid_risk_def example_words_def truncate_text_def)
qed

lemma example_review:
  "fst (run_state (review guardian_host example_words (Some ''/b'') example_request)
      \<lparr>world = (), events = []\<rparr>) =
    Inr \<lparr>result_request_id = ''r1'', result_decision = ''deny'', result_risk = ''low'', result_reason = ''no'',
      result_review_id = [], result_policy_version = []\<rparr>"
proof -
  let ?q = "sanitize_request ''/home/u'' example_request"
  have "length (review_json ?q) \<le> 200 \<and> review_request_id ?q = ''r1''" by code_simp
  then have q: "\<not> maximum_request_bytes < length (review_json ?q)" "review_request_id ?q = ''r1''"
    by (simp_all add: maximum_request_bytes_def)
  have e: "guardian_endpoint ''https://h'' = ''https://h/v1/security-reviews''" by code_simp
  have u: "url_parse ''https://h/v1/security-reviews'' = Some (empty_url\<lparr>scheme := ''https'', user := None,
      host := ''h'', url_path := ''/v1/security-reviews''\<rparr>)"
    by (rule url_parse_https [where authority = "''h''"]) code_simp+
  have h: "home_or_empty guardian_host = ''/home/u''" "trim_space ''/b'' \<noteq> []" by code_simp+
  have "run_state (do_lstat guardian_host p) m =
      (Inr \<lparr>is_regular = True, mode_bits = 0x1ED\<rparr>, \<lparr>world = world m, events = events m @ [Lstat p]\<rparr>)"
    "run_state (do_read guardian_host p) m =
      (Inr example_login, \<lparr>world = world m, events = events m @ [ReadFile p]\<rparr>)"
    "run_state (do_send guardian_host v hs b) m =
      (Inr \<lparr>status_code = 200, status_line = [], response_body = example_answer\<rparr>,
       \<lparr>world = world m, events = events m @ [HttpSend v hs b]\<rparr>)" for p v hs b and m :: "unit machine"
    by (simp_all add: host_do_defs run_simps guardian_host_def example_host_def)
  then show ?thesis
    by (simp add: review_def h load_guardian_auth_def send_review_def run_simps example_login_read q e u
        example_answer_read)
qed


subsection \<open>Two gaps\<close>

lemmas regex_eval = replace_regex_def replace_group_def substitute.simps step_rune_def step_class_def
  at_boundary_def first_end_def first_group_def word_char_def fold_equal_def fold_rune_def decode_rune_def
  one_def rune_in_def space_rune_def alnum_rune_def bearer_rune_def secret_rune_def key_rune_def
  bearer_pattern_def key_pattern_def secret_names_def secret_key_def secret_value_def dash_opt_def

text \<open>The keywords of the redaction are looked for at a word boundary, and an underscore is a word
  character: a password assigned to a variable with a prefix in its name is sent as it is.\<close>

theorem redact_misses_prefixed_names:
  "redact ''password=x1'' 1024 = ''password=[REDACTED]'' \<and>
   redact ''DB_PASSWORD=x1'' 1024 = ''DB_PASSWORD=x1'' \<and>
   redact ''Bearer Bearer ab'' 1024 = ''Bearer [REDACTED] ab''"
proof -
  have "replace_regex bearer_pattern b ''password=x1'' = ''password=x1''"
    "replace_regex bearer_pattern b ''DB_PASSWORD=x1'' = ''DB_PASSWORD=x1''"
    "replace_regex bearer_pattern b ''Bearer Bearer ab'' = b @ '' ab''" for b
    by (simp_all add: regex_eval)
  moreover have "replace_group (Seq Boundary secret_names) secret_value v ''password=x1'' = ''password'' @ v"
    "replace_group (Seq Boundary secret_names) secret_value v ''DB_PASSWORD=x1'' = ''DB_PASSWORD=x1''"
    "replace_group (Seq Boundary secret_names) secret_value v ''Bearer [REDACTED] ab'' = ''Bearer [REDACTED] ab''" for v
    by (simp_all add: regex_eval)
  moreover have "replace_regex key_pattern k ''password=[REDACTED]'' = ''password=[REDACTED]''"
    "replace_regex key_pattern k ''DB_PASSWORD=x1'' = ''DB_PASSWORD=x1''"
    "replace_regex key_pattern k ''Bearer [REDACTED] ab'' = ''Bearer [REDACTED] ab''" for k
    by (simp_all add: regex_eval)
  moreover have "truncate_text (trim_space s) 1024 = s" if "plain_ends s" "length s \<le> 1024" for s
    using that by (simp add: truncate_text_def trim_space_plain)
  ultimately show ?thesis
    by (simp add: redact_def plain_ends_def space_seqs_def)
qed

definition anonymous_answer :: string where
  "anonymous_answer = json_object (map (\<lambda>(n, v). (n, json_string v))
     [(''decision'', ''deny''), (''risk'', ''low''), (''reason'', ''no'')])"

lemma anonymous_answer_read:
  "\<exists>x. review_answer example_words [] anonymous_answer = Inr x \<and> result_decision x = ''deny''"
proof -
  have "length anonymous_answer \<le> 100" by code_simp
  then have cut: "take (Suc maximum_response_bytes) anonymous_answer = anonymous_answer"
    by (simp add: maximum_response_bytes_def)
  have d: "case decoder_decode True review_response_type anonymous_answer of
      None \<Rightarrow> False
    | Some (v, rest) \<Rightarrow> decoder_at_eof rest \<and> as_string (get_field v ''requestID'') = [] \<and>
        as_string (get_field v ''decision'') = ''deny'' \<and> as_string (get_field v ''risk'') = ''low'' \<and>
        as_string (get_field v ''reason'') = ''no''"
    by code_simp
  have t: "trim_space ''no'' = ''no''" by code_simp
  from d [unfolded case_some_pair] obtain v rest where
    "decoder_decode True review_response_type anonymous_answer = Some (v, rest)" "decoder_at_eof rest"
    "as_string (get_field v ''requestID'') = []" "as_string (get_field v ''decision'') = ''deny''"
    "as_string (get_field v ''risk'') = ''low''" "as_string (get_field v ''reason'') = ''no''" by blast
  then show ?thesis
    by (simp add: review_answer_def cut t valid_decision_def valid_risk_def example_words_def)
qed

text \<open>C37: A request whose id is not a safe name is sent without an id, and then an answer that names no request
  is taken for its answer.\<close>

theorem unsafe_request_id_unchecked:
  assumes "\<not> safe_name (trim_space (request_id0 r))"
  shows "review_request_id (sanitize_request home r) = [] \<and>
    (\<exists>x. review_answer example_words (review_request_id (sanitize_request home r)) anonymous_answer = Inr x)"
proof -
  have "review_request_id (sanitize_request home r) = []"
    using assms by (simp add: sanitize_request_def sanitize_name_def truncate_text_def)
  then show ?thesis using anonymous_answer_read by auto
qed

lemma unsafe_request_id_unchecked_witness:
  "\<exists>x. review_answer example_words
      (review_request_id (sanitize_request [] (example_request\<lparr>request_id0 := ''r 1''\<rparr>))) anonymous_answer = Inr x"
proof -
  have "\<not> safe_name (trim_space (request_id0 (example_request\<lparr>request_id0 := ''r 1''\<rparr>)))" by code_simp
  from unsafe_request_id_unchecked [OF this] show ?thesis by blast
qed

end
