(* ===== verification/Heartbeat_Props.thy ===== *)
theory Heartbeat_Props
  imports Heartbeat Guardian_Props
begin

section \<open>What the heartbeat sends, and how often\<close>

text \<open>
  Every run is a sequence of reports, and every report a prefix of one sequence of interactions: the
  login, the host id, one request. The loop is refined by a counter, and it returns once its context
  is done.
\<close>

subsection \<open>One report\<close>

lemma heartbeat_auth_from_Inr:
  "heartbeat_auth_from h raw = Inr a \<Longrightarrow> safe_gateway (heartbeat_gateway a) \<and> heartbeat_token a \<noteq> []"
  by (auto simp: heartbeat_auth_from_def safe_gateway_def Let_def simp del: not_None_eq
      split: option.splits if_splits)

lemma heartbeat_auth_from_Inl: "heartbeat_auth_from h raw = Inl e \<Longrightarrow> \<not> is_not_exist e"
  by (auto simp: heartbeat_auth_from_def wrap_error_def Let_def split: option.splits if_splits)

definition report_events ::
    "'w host \<Rightarrow> string \<Rightarrow> string \<Rightarrow> string \<Rightarrow> string \<Rightarrow> string \<Rightarrow> event list" where
  "report_events h base gw tok sent_at host_id =
    [Lstat (heartbeat_auth_path base), ReadFile (heartbeat_auth_path base), Lstat (host_id_path base),
     ReadFile (host_id_path base),
     HttpSend (gw @ ''/api/v1/heartbeat/heartbeats'') (heartbeat_headers tok)
       (heartbeat_json h base sent_at host_id)]"

text \<open>A report that was cut short is a prefix; one that was sent went to a safe gateway.\<close>

definition report_trace :: "'w host \<Rightarrow> string \<Rightarrow> event list \<Rightarrow> bool" where
  "report_trace h base es \<longleftrightarrow> es \<noteq> [] \<and>
    (\<exists>gw tok sent_at host_id. prefix es (report_events h base gw tok sent_at host_id) \<and>
       (length es = 5 \<longrightarrow> safe_gateway gw \<and> tok \<noteq> []))"

lemma report_trace_prefixes:
  "report_trace h base [Lstat (heartbeat_auth_path base)]"
  "report_trace h base [Lstat (heartbeat_auth_path base), ReadFile (heartbeat_auth_path base)]"
  "report_trace h base [Lstat (heartbeat_auth_path base), ReadFile (heartbeat_auth_path base), Lstat (host_id_path base)]"
  "report_trace h base [Lstat (heartbeat_auth_path base), ReadFile (heartbeat_auth_path base), Lstat (host_id_path base),
     ReadFile (host_id_path base)]"
  "safe_gateway gw \<Longrightarrow> tok \<noteq> [] \<Longrightarrow> report_trace h base (report_events h base gw tok sent_at host_id)"
  by (auto simp: report_trace_def report_events_def)

lemma always_read_heartbeat_auth:
  "always (read_heartbeat_auth h p)
    (\<lambda>r es. (es = [Lstat p] \<or> es = [Lstat p, ReadFile p]) \<and>
      (\<forall>a. r = Inr a \<longrightarrow> es = [Lstat p, ReadFile p] \<and> safe_gateway (heartbeat_gateway a) \<and> heartbeat_token a \<noteq> []))"
  unfolding read_heartbeat_auth_def
  by (intro always_seq [OF always_require_regular] always_option always_return always_map always_host_do)
    (auto split: sum.splits dest: heartbeat_auth_from_Inr)

lemma always_send_heartbeat:
  "always (send_heartbeat h base a host_id)
    (\<lambda>r es. (es = [] \<and> r \<noteq> None) \<or>
      (\<exists>sent_at. es = [HttpSend (heartbeat_gateway a @ ''/api/v1/heartbeat/heartbeats'')
        (heartbeat_headers (heartbeat_token a)) (heartbeat_json h base sent_at host_id)]))"
  unfolding send_heartbeat_def
  by (intro always_seq [OF always_host_do(4)] always_Let always_if always_return always_map always_host_do(3))
    auto

lemma always_report_once:
  "always (report_once h base)
    (\<lambda>r es. report_trace h base es \<and> (r = None \<longrightarrow> length es \<in> {1, 2, 5}))"
  unfolding report_once_def
proof (rule always_bind [OF always_read_heartbeat_auth], rule always_sum, goal_cases)
  case (1 a es e)
  then show ?case by (intro always_return) (auto simp: report_trace_prefixes)
next
  case (2 a es auth)
  then have es: "es = [Lstat (heartbeat_auth_path base), ReadFile (heartbeat_auth_path base)]"
    and auth: "safe_gateway (heartbeat_gateway auth)" "heartbeat_token auth \<noteq> []" by auto
  show ?case
  proof (intro always_seq [OF always_require_regular] always_option always_return
      always_seq [OF always_host_do(2)] always_sum, goal_cases)
    case (2 r ra host_id)
    show ?case
      by (rule always_mono [OF always_send_heartbeat])
        (use auth in \<open>auto simp: es report_trace_prefixes report_trace_prefixes(5) [unfolded report_events_def]\<close>)
  qed (simp_all add: es report_trace_prefixes)
qed

subsection \<open>The run\<close>

lemma report_appends:
  "\<exists>es. events (run_machine (report h base s)) = events (run_machine s) @ es \<and> report_trace h base es"
proof -
  obtain es where "events (snd (run_state (report_once h base) (run_machine s))) = events (run_machine s) @ es"
    "report_trace h base es"
    using always_report_once [of h base] unfolding always_def ends_def by blast
  then show ?thesis by (auto simp: report_def split: prod.split)
qed

lemma report_phase [simp]: "run_phase (report h base s) = Waiting"
  by (simp add: report_def split: prod.split)

lemma report_warnings: "length (warnings (report h base s)) \<le> Suc (length (warnings s))"
  by (simp add: report_def split: prod.split option.split)

text \<open>What holds of every reachable run, with the reports it has made.\<close>

definition run_invariant :: "'w host \<Rightarrow> string option \<Rightarrow> 'w run \<Rightarrow> event list list \<Rightarrow> bool" where
  "run_invariant h service s reports \<longleftrightarrow>
    events (run_machine s) = concat reports \<and> list_all (report_trace h (the service)) reports \<and>
    length (warnings s) \<le> length reports \<and>
    (case run_phase s of
       Starting \<Rightarrow> reports = []
     | Waiting \<Rightarrow> reports \<noteq> [] \<and> \<not> unusable_base service
     | Returned None \<Rightarrow> reports \<noteq> [] \<and> \<not> unusable_base service
     | Returned (Some e) \<Rightarrow> reports = [] \<and> unusable_base service)"

lemma report_keeps_invariant:
  assumes "run_invariant h service s reports" and "\<not> unusable_base service"
  shows "\<exists>es. run_invariant h service (report h (the service) s) (reports @ [es])"
proof -
  obtain es where "events (run_machine (report h (the service) s)) = events (run_machine s) @ es"
    "report_trace h (the service) es"
    using report_appends by blast
  with assms report_warnings [of h "the service" s] show ?thesis
    by (intro exI [of _ es]) (simp add: run_invariant_def)
qed

lemma run_step_invariant:
  assumes "run_invariant h service s reports" and "run_step h service s s'"
  shows "run_invariant h service s' reports \<and> run_phase s = Waiting \<and> run_phase s' \<in> {Waiting, Returned None} \<or>
    run_invariant h service s' reports \<and> run_phase s = Starting \<and> (\<exists>e. run_phase s' = Returned (Some e)) \<or>
    (\<exists>es. run_invariant h service s' (reports @ [es])) \<and> run_phase s \<in> {Starting, Waiting} \<and> run_phase s' = Waiting"
  using assms(2)
proof (cases rule: run_step.cases)
  case refuse
  with assms(1) show ?thesis by (auto simp: run_invariant_def)
next
  case start
  with report_keeps_invariant [OF assms(1)] show ?thesis by simp
next
  case tick
  with assms(1) have "\<not> unusable_base service" by (simp add: run_invariant_def)
  from report_keeps_invariant [OF assms(1) this] tick show ?thesis by simp
next
  case finished
  with assms(1) show ?thesis by (simp add: run_invariant_def)
next
  case (elsewhere w)
  with assms(1) show ?thesis by (simp add: run_invariant_def)
qed

lemma reachable_invariant: "reachable h service s \<Longrightarrow> \<exists>reports. run_invariant h service s reports"
proof (induction rule: reachable.induct)
  case (initially w)
  show ?case by (intro exI [of _ "[]"]) (simp add: run_invariant_def initial_run_def)
next
  case (stepwise s s')
  then show ?case using run_step_invariant by blast
qed

subsection \<open>A counter refined by the loop\<close>

text \<open>The abstract service: not started, beating with the number of beats so far, ended, or refused.\<close>

datatype beat = Before | Beating nat | Ended nat | Refused

inductive beat_step :: "beat \<Rightarrow> beat \<Rightarrow> bool" where
  first: "beat_step Before (Beating 1)"
| reject: "beat_step Before Refused"
| again: "beat_step (Beating n) (Beating (Suc n))"
| stop: "beat_step (Beating n) (Ended n)"

inductive_simps beat_step_simps [simp]:
  "beat_step Before b" "beat_step (Beating n) b" "beat_step (Ended n) b" "beat_step Refused b"

definition beat_count :: "string \<Rightarrow> event list \<Rightarrow> nat" where
  "beat_count base es = length (filter (\<lambda>e. e = Lstat (heartbeat_auth_path base)) es)"

definition beat_of :: "string \<Rightarrow> 'w run \<Rightarrow> beat" where
  "beat_of base s =
    (let n = beat_count base (events (run_machine s)) in
     case run_phase s of
       Starting \<Rightarrow> Before
     | Waiting \<Rightarrow> Beating n
     | Returned None \<Rightarrow> Ended n
     | Returned (Some e) \<Rightarrow> Refused)"

lemma proper_config_names [simp]:
  "proper ''configs''" "proper ''user''" "proper ''auth.json''" "proper ''system''" "proper ''host_id''"
  by (simp_all add: proper_def)

lemma host_id_not_auth: "base \<noteq> [] \<Longrightarrow> host_id_path base \<noteq> heartbeat_auth_path base"
proof
  assume "base \<noteq> []" and "host_id_path base = heartbeat_auth_path base"
  then have "components base @ [''configs'', ''system'', ''host_id''] = components base @ [''configs'', ''user'', ''auth.json'']"
    using components_path_join [of base "[''configs'', ''system'', ''host_id'']"]
      components_path_join [of base "[''configs'', ''user'', ''auth.json'']"]
    by (simp add: heartbeat_auth_path_def host_id_path_def)
  then show False by simp
qed

lemma beat_count_report:
  assumes "report_trace h base es" and "base \<noteq> []"
  shows "beat_count base es = Suc 0"
proof -
  from assms(1) obtain gw tok sent_at host_id where "es \<noteq> []"
    "prefix es (report_events h base gw tok sent_at host_id)" by (auto simp: report_trace_def)
  with host_id_not_auth [OF assms(2)] show ?thesis
    by (auto simp: report_events_def beat_count_def prefix_Cons)
qed

lemma beat_count_append [simp]: "beat_count base (es @ es') = beat_count base es + beat_count base es'"
  by (simp add: beat_count_def)

lemma beat_count_reports:
  "list_all (report_trace h base) reports \<Longrightarrow> base \<noteq> [] \<Longrightarrow> beat_count base (concat reports) = length reports"
proof (induction reports)
  case Nil
  then show ?case by (simp add: beat_count_def)
next
  case (Cons es reports)
  then show ?case using beat_count_report [of h base es] by simp
qed

lemma beat_of_invariant:
  assumes "run_invariant h service s reports"
  shows "beat_of (the service) s =
    (case run_phase s of Starting \<Rightarrow> Before | Waiting \<Rightarrow> Beating (length reports)
     | Returned None \<Rightarrow> Ended (length reports) | Returned (Some e) \<Rightarrow> Refused)"
proof (cases "unusable_base service")
  case True
  with assms show ?thesis
    by (auto simp: run_invariant_def beat_of_def split: phase.splits option.splits)
next
  case False
  then have "the service \<noteq> []" by (auto simp: unusable_base_def split: option.splits)
  with assms have "beat_count (the service) (events (run_machine s)) = length reports"
    by (auto simp: run_invariant_def beat_count_reports)
  then show ?thesis by (simp add: beat_of_def Let_def)
qed

subsection \<open>Properties\<close>


text \<open>C39: The loop refines a counter of beats: every step of a run either leaves the count and the phase as
  they are, or is the first beat, one more beat, the end, or the refusal to start.\<close>

theorem run_refines_counter:
  assumes "reachable h service s" and "run_step h service s s'"
  shows "beat_of (the service) s' = beat_of (the service) s \<or>
    beat_step (beat_of (the service) s) (beat_of (the service) s')"
proof -
  from reachable_invariant [OF assms(1)] obtain reports where inv: "run_invariant h service s reports" ..
  from run_step_invariant [OF inv assms(2)] show ?thesis
  proof (elim disjE conjE exE insertE)
    fix es assume *: "run_invariant h service s' (reports @ [es])" "run_phase s = Starting" "run_phase s' = Waiting"
    with inv have "reports = []" by (simp add: run_invariant_def)
    with * show ?thesis by (simp add: beat_of_invariant [OF inv] beat_of_invariant [OF *(1)])
  next
    fix es assume *: "run_invariant h service s' (reports @ [es])" "run_phase s = Waiting" "run_phase s' = Waiting"
    then show ?thesis by (simp add: beat_of_invariant [OF inv] beat_of_invariant [OF *(1)])
  qed (simp_all add: beat_of_invariant [OF inv] beat_of_invariant)
qed

lemma wait_loop_steps:
  assumes "run_phase s = Waiting" and "Done \<in> set sigs" and "the service = base"
  shows "(run_step h service)\<^sup>*\<^sup>* s (wait_loop h base sigs s) \<and> run_phase (wait_loop h base sigs s) = Returned None"
  using assms
proof (induction h base sigs s rule: wait_loop.induct)
  case (2 h base sigs s)
  then have "run_step h service s (report h base s)" using tick [of s h service] by simp
  moreover from 2 have "(run_step h service)\<^sup>*\<^sup>* (report h base s) (wait_loop h base sigs (report h base s)) \<and>
      run_phase (wait_loop h base sigs (report h base s)) = Returned None" by simp
  ultimately show ?case using converse_rtranclp_into_rtranclp [of "run_step h service"] by simp
next
  case (3 h base sigs s)
  then show ?case using finished [of s h service] by simp
qed simp

lemma wait_loop_count:
  assumes "base \<noteq> []"
  shows "beat_count base (events (run_machine (wait_loop h base sigs s))) =
    beat_count base (events (run_machine s)) + length (takeWhile (\<lambda>g. g = Tick) sigs)"
  using assms
proof (induction h base sigs s rule: wait_loop.induct)
  case (2 h base sigs s)
  obtain es where "events (run_machine (report h base s)) = events (run_machine s) @ es" "report_trace h base es"
    using report_appends by blast
  with 2 show ?case using beat_count_report [of h base es] by simp
qed simp_all

text \<open>C40: Once its context is done the service returns, without an error, whatever went wrong on the way; it has
  then reported once at the start and once for every tick before.\<close>

theorem run_returns:
  assumes "\<not> unusable_base service" and "Done \<in> set sigs"
  shows "(run_step h service)\<^sup>*\<^sup>* (initial_run w) (drive h service sigs (initial_run w)) \<and>
    beat_of (the service) (drive h service sigs (initial_run w)) =
      Ended (Suc (length (takeWhile (\<lambda>g. g = Tick) sigs)))"
proof -
  let ?base = "the service" and ?s = "report h (the service) (initial_run w)"
  have base: "?base \<noteq> []" using assms(1) by (auto simp: unusable_base_def split: option.splits)
  have d: "drive h service sigs (initial_run w) = wait_loop h ?base sigs ?s"
    using assms(1) by (simp add: drive_def)
  have first: "run_step h service (initial_run w) ?s"
    using assms(1) by (intro start) (simp_all add: initial_run_def)
  have w: "(run_step h service)\<^sup>*\<^sup>* ?s (wait_loop h ?base sigs ?s)"
      "run_phase (wait_loop h ?base sigs ?s) = Returned None"
    using wait_loop_steps [OF _ assms(2), of ?s service ?base h] by simp_all
  with first have "(run_step h service)\<^sup>*\<^sup>* (initial_run w) (wait_loop h ?base sigs ?s)"
    by (meson converse_rtranclp_into_rtranclp)
  moreover obtain es where "events (run_machine ?s) = es" "report_trace h ?base es"
    using report_appends [of h ?base "initial_run w"] by (auto simp: initial_run_def)
  then have "beat_count ?base (events (run_machine ?s)) = 1" using beat_count_report [OF _ base] by simp
  ultimately show ?thesis
    using w(2) wait_loop_count [OF base, of h sigs ?s] by (simp add: d beat_of_def)
qed

lemma example_base: "\<not> unusable_base (Some ''/b'')"
  by (simp add: unusable_base_def)

lemma example_first_step:
  "run_step example_host (Some ''/b'') (initial_run ()) (report example_host ''/b'' (initial_run ()))"
  using start [OF example_base, of "initial_run ()" example_host] by (simp add: initial_run_def)

lemma example_reached: "reachable example_host (Some ''/b'') (report example_host ''/b'' (initial_run ()))"
  using reachable.stepwise [OF reachable.initially example_first_step] .


lemma run_refines_counter_witness:
  "beat_of ''/b'' (report example_host ''/b'' (initial_run ())) = beat_of ''/b'' (initial_run ()) \<or>
   beat_step (beat_of ''/b'' (initial_run ())) (beat_of ''/b'' (report example_host ''/b'' (initial_run ())))"
  using run_refines_counter [OF reachable.initially example_first_step] by simp

lemma run_returns_witness:
  "beat_of ''/b'' (drive example_host (Some ''/b'') [Tick, Done, Tick] (initial_run ())) = Ended 2"
  using run_returns [OF example_base, of "[Tick, Done, Tick]" example_host "()"] by simp

end
