(* ===== verification/ProductRuntime_Props.thy ===== *)
theory ProductRuntime_Props
  imports ProductRuntime ProductPolicy_Props Heartbeat_Props
begin

section \<open>The hooks the product Runtime runs with\<close>

text \<open>
  The properties of the hooks, put together for the options the product binary hands to the Runtime,
  and the one directory they do not always share.
\<close>

lemma product_runtime_options_Inr:
  assumes "product_runtime_options k h g printable v = Inr opts"
  shows "\<exists>base base'. resolve_base_dir h v = Inr base \<and> resolve_base_dir h base = Inr base' \<and>
    opt_base_dir opts = base' \<and>
    opt_header_resolver opts = session_header_resolver (Some (disk_session_token h base)) \<and>
    opt_system_authorizer opts = fail_closed_system_authorizer (Some (managed_server_authorizer k h base)) \<and>
    opt_remote_authorizer opts = gbrain_cloud_authorizer k h base' \<and>
    opt_approval_reviewer opts = Some (review h g (Some (trim_space base))) \<and>
    opt_services opts = [clean (trim_space base)]"
  using assms
  by (auto simp: product_runtime_options_def runtime_options_def product_dependencies_def new_client_def
      new_heartbeat_service_def dest!: and_then_InrD)

text \<open>A directory that is resolved twice stays the same when white space does not border it.\<close>

lemma resolve_base_dir_again:
  assumes "resolve_base_dir h v = Inr base" and "trim_space base = base"
  shows "resolve_base_dir h base = Inr base"
proof -
  from resolve_base_dir_outcome [OF assms(1)] have "is_abs base" "clean base = base" by auto
  moreover from this have "base \<noteq> []" by (simp add: is_abs_nonempty)
  ultimately show ?thesis by (simp add: resolve_base_dir_def assms(2) Let_def)
qed


lemma resolve_plain_example: "resolve_base_dir example_host ''/b'' = Inr ''/b''"
  by code_simp


text \<open>The directory is resolved twice, and trimmed before it is cleaned: one whose last element before a
  \<open>..\<close> ends in a space gives the hooks two different directories, the sessions and the managed server
  in one and the remote node in the other.\<close>

theorem base_directory_drifts:
  "resolve_base_dir example_host ''/a /x/..'' = Inr ''/a '' \<and>
   resolve_base_dir example_host ''/a '' = Inr ''/a'' \<and>
   (\<exists>opts :: (unit, unit) runtime_options.
      product_runtime_options example_sdk example_host example_words (\<lambda>r. True) ''/a /x/..'' = Inr opts \<and>
      opt_base_dir opts = ''/a'' \<and>
      opt_header_resolver opts = session_header_resolver (Some (disk_session_token example_host ''/a '')))"
proof -
  have r: "resolve_base_dir example_host ''/a /x/..'' = Inr ''/a ''" "resolve_base_dir example_host ''/a '' = Inr ''/a''"
    by code_simp+
  then show ?thesis
    by (simp add: product_runtime_options_def runtime_options_def product_dependencies_def)
qed

end
