(* ===== verification/Spec2Isabelle.thy ===== *)
theory Spec2Isabelle
  imports RemoteControl_Wire ProductPolicy_Props SyncGit_Props SyncMain ProductRuntime_Props
begin

section \<open>OpenBrain: the verification library\<close>

text \<open>
  The repository holds the Go code of OpenBrain, three Go modules that share no code: the wire contract
  of remote control (\<open>protocol/remotecontrol\<close>), the hooks OpenBrain gives to the OpAgent Runtime
  (\<open>integrations/opagent\<close>), and the command-line helper of its Cloud Sync skill
  (\<open>skills/openbrain-cloud-sync\<close>). Everything else is documentation, skills written in Markdown, and
  scripts. This library models the Go code and proves what it promises.

  \<^bold>\<open>The parts of the program and how they meet.\<close> A client and a host exchange envelopes as JSON frames;
  both call \<open>DecodeEnvelope\<close> and \<open>EncodeEnvelope\<close>, and nothing but a valid envelope passes either. The
  Runtime, when it starts (\<open>cmd/openbrain-runtime\<close>), is assembled from the product's options: a heartbeat
  service, session tokens for MCP headers, two authorizers for remote tools and managed services, the
  Guardian reviewer for risky actions, and the policy hooks for prompts, tool arguments and scheduled
  tasks. All of them read the login file \<open>auth.json\<close> below one product base directory. The scheduled task
  that the policy guards runs the sync helper, which reads the same login, picks the workspaces of the
  active account from \<open>workspaces.json\<close>, drives git with a short-lived token from the gateway, and prints
  one JSON result.

  \<^bold>\<open>Outside code.\<close> The file system, git, HTTP, the OpAgent SDK and Runtime and the flag package's output
  are not in the repository. They are arguments of the definitions that use them: the record \<open>outside\<close>
  (theory Machine, for the helper) and the record \<open>host\<close> (theory Host, for the Runtime hooks), functions on a
  world of any type, with a list of the interactions so far; the constants and functions of the SDK are
  the records \<open>sdk\<close> and \<open>guardian_words\<close>. No law is assumed of any of them, so the properties hold whatever
  files, git and servers answer. Go's standard library is modelled: see the table.

  \<^bold>\<open>Theories and code.\<close>
  \<^item> Prelude: results, the first error of a list, decimal text; the locales \<open>codec\<close> (an encoder and the
    decoder that undoes it) and \<open>checked\<close> (a check and the contract it decides).
  \<^item> Go_Strings, Go_Utf8, Go_Base64, Go_Quote, Go_Ip, Go_Url, Go_Path, Go_Regex: the functions of
    \<open>strings\<close>, \<open>unicode/utf8\<close>, \<open>encoding/base64\<close>, \<open>strconv\<close>, \<open>net\<close>, \<open>net/url\<close>, \<open>path/filepath\<close> and \<open>regexp\<close>
    that the program calls, on strings as bytes.
  \<^item> Go_Json, Go_Json_Decode, Go_Json_Encode, Go_Json_Roundtrip, Go_Json_Types: \<open>encoding/json\<close>; the
    scanner's grammar, the decoder driven by a description of the Go type, the encoder, and the proofs that
    what is written is read and that what is decoded has the type.
  \<^item> RemoteControl, RemoteControl_Props, RemoteControl_Roundtrip: \<open>protocol/remotecontrol/protocol.go\<close>;
    RemoteControl_Wire: its validation, chunks, encoding and decoding together.
  \<^item> ProductPolicy, ProductPolicy_Props: \<open>integrations/opagent/product_policy.go\<close>.
  \<^item> OpAgent, OpAgent_Props: the base directory, the sessions and the authorizers of \<open>integration.go\<close> and
    \<open>defaults.go\<close>. ProductRuntime, ProductRuntime_Props: the options and \<open>cmd/openbrain-runtime/main.go\<close>.
  \<^item> Guardian, Guardian_Props: \<open>guardian/client.go\<close>. Heartbeat, Heartbeat_Props: \<open>heartbeat.go\<close>.
  \<^item> SyncErrors, SyncIndex, SyncGit, SyncRun, SyncOutput: the helper's \<open>main.go\<close>, in the order error texts,
    login and workspace index, git and gateway, commands, printed result. SyncSteps holds what each step
    adds to the list of interactions, the theories ending in Props the properties, and SyncMain a whole run.

  A Go struct is a record with the fields of the struct, a Go error a sum or an option, \<open>uint32\<close> and
  \<open>uint64\<close> are words of that width, and other integers are \<open>int\<close>, none of which is computed with beyond
  comparisons and clamping. A function with effects is a state transformer (\<open>State_Monad\<close>) on the machine, a
  deferred cleanup the last step of the function that defers it, and the heartbeat's loop a step relation.

  \<^bold>\<open>What the groups of lemmas show.\<close>
  \<^item> Remote control: validation decides a contract written as a table, with the code of every rejection;
    decoding lets nothing else through; what is encoded is decoded to the same envelope, given UTF-8 strings and
    compact raw messages, and may be refused without; the fields of a decoded frame are exact, and every
    message up to the limit crosses the wire in chunk frames.
  \<^item> Policy hooks: a scoped GBrain call reaches no other source, a scope cannot add a line to the prompt, and
    the Cloud Sync identity is accepted only as the managed task with its exact shape.
  \<^item> Runtime hooks: each authorizer accepts exactly the nodes of a declarative contract; session tokens only
    replace the placeholder and come from a regular file; the base directory is absolute and clean.
  \<^item> Guardian: an invariant of the reduced request (bounded, sorted, without paths, queries or unsafe names),
    that only this request leaves the machine and only over HTTPS or to loopback, and that a result
    answers it; the loop that cuts a text ends, with the longest valid prefix. Heartbeat: an invariant of all
    reachable states, the simulation of an abstract counter of reports, and that a run returns once it is
    told to.
  \<^item> Helper: a workspace found belongs to the active account and is eligible; the search for nested
    repositories equals a declarative specification on trees; every run's interactions are of the listed
    forms, in order, and leave no credential file; the printed result can be read back; and a whole run of
    \<open>main\<close> puts these together.

  \<^bold>\<open>Interfaces.\<close> \<open>codec\<close> is interpreted by base64, path escaping, JSON strings and the printed result; \<open>checked\<close>
  by chunks, envelopes, Cloud Sync payloads and tasks, and gateways; \<open>node_policy\<close> by the two authorizers;
  \<open>session_source\<close> by the session on disk.

  \<^bold>\<open>Fuel and bounds.\<close> Only the JSON reader runs on fuel; \<open>parse_value_fuel\<close> shows that one more than twice the
  length of the text gives the same answer as any larger amount. Its nesting limit of 10000 is Go's. All
  other recursion is structural or has a measure.

  \<^bold>\<open>Not modelled.\<close> The OpAgent SDK and Runtime (outside the repository, parameters here); the configuration
  of HTTP clients, time limits and contexts, which show up as errors of the calls they bound; the
  usage text the flag package prints; the Windows branches (askpass script, path comparison); the texts that
  \<open>encoding/json\<close> and the operating system add to an error, which are parameters; the exact moment of
  a tick; tests, scripts, Markdown skills and documentation.
\<close>

end
